(* ===== verification/Prelude.thy ===== *)
theory Prelude
  imports Complex_Main "HOL-Library.Word" "HOL-Library.Sublist"
begin

text \<open>
  Shared vocabulary of the development.

  \<^item> Go values: a Go \<^verbatim>\<open>string\<close> or \<^verbatim>\<open>[]byte\<close> is a \<^typ>\<open>string\<close> (a \<^typ>\<open>char\<close> is one byte), an
    \<^verbatim>\<open>int32\<close> a 32-bit word read with \<open>sint\<close>, a nilable pointer or map an \<open>option\<close>.
  \<^item> Failures: a run-time panic is a \<open>panic\<close>, an \<^verbatim>\<open>error\<close> value a \<open>goerror\<close>. A Go function
    that returns \<^verbatim>\<open>(T, error)\<close> has the result type \<open>goerror + 'T\<close>; one that can also
    panic is wrapped once more as \<open>panic + _\<close>.
  \<^item> Effects: a Go function that talks to the cluster is a \<open>('s, 'a) go\<close>, a state
    transformer whose result is a panic or a value; \<open>andThen\<close> is sequencing, with the
    panic skipping the rest. \<open>wp\<close> is its weakest precondition, with one equation per
    construct in the collection \<open>wp\<close>.
  \<^item> The pieces of the Go library the operator uses on plain values (\<^verbatim>\<open>strconv\<close>,
    \<^verbatim>\<open>strings.Contains\<close>), and generic lemmas on lists and maps.
\<close>

section \<open>Collections\<close>

named_theorems wp "equations that push a weakest precondition through a program"
named_theorems build_defs "definitions of the resource builders"

section \<open>Values, errors and panics\<close>

type_synonym int32 = "32 word"
type_synonym labels = "string \<rightharpoonup> string"

text \<open>What makes a goroutine panic in this program.\<close>

datatype panic = NilDereference | IndexOutOfRange

text \<open>
  An error value. The errors the API machinery returns are opaque: all the program looks
  at is whether \<^verbatim>\<open>errors.IsNotFound\<close> holds of one and what its \<^verbatim>\<open>Error()\<close> text is.
\<close>

datatype goerror =
    StatusError bool string
  | TemplateError string
  | WrappedError string goerror

primrec ErrorText :: "goerror \<Rightarrow> string" where
  "ErrorText (StatusError nf msg) = msg"
| "ErrorText (TemplateError msg) = msg"
| "ErrorText (WrappedError msg e) = msg @ '': '' @ ErrorText e"

primrec IsNotFound :: "goerror \<Rightarrow> bool" where
  "IsNotFound (StatusError nf msg) = nf"
| "IsNotFound (TemplateError msg) = False"
| "IsNotFound (WrappedError msg e) = IsNotFound e"

section \<open>Programs with effects\<close>

type_synonym ('s, 'a) go = "'s \<Rightarrow> (panic + 'a) \<times> 's"

definition ret :: "'a \<Rightarrow> ('s, 'a) go" where
  "ret x = (\<lambda>s. (Inr x, s))"

definition lift_panic :: "panic + 'a \<Rightarrow> ('s, 'a) go" where
  "lift_panic r = (\<lambda>s. (r, s))"

definition andThen :: "('s, 'a) go \<Rightarrow> ('a \<Rightarrow> ('s, 'b) go) \<Rightarrow> ('s, 'b) go" where
  "andThen m f = (\<lambda>s. case m s of (Inl p, s') \<Rightarrow> (Inl p, s') | (Inr x, s') \<Rightarrow> f x s')"

text \<open>
  \<open>wp m Q E s\<close>: running \<open>m\<close> from \<open>s\<close> returns a value in a state that satisfy \<open>Q\<close>, or
  panics in a state that satisfies \<open>E\<close>.
\<close>

definition wp :: "('s, 'a) go \<Rightarrow> ('a \<Rightarrow> 's \<Rightarrow> bool) \<Rightarrow> (panic \<Rightarrow> 's \<Rightarrow> bool) \<Rightarrow> 's \<Rightarrow> bool" where
  "wp m Q E s = (case m s of (Inl p, s') \<Rightarrow> E p s' | (Inr x, s') \<Rightarrow> Q x s')"

section \<open>The standard library on plain values\<close>

text \<open>\<^verbatim>\<open>strconv.FormatBool\<close>, \<^verbatim>\<open>strconv.Itoa\<close> and \<^verbatim>\<open>strings.Contains\<close>.\<close>

definition FormatBool :: "bool \<Rightarrow> string" where
  "FormatBool b = (if b then ''true'' else ''false'')"

definition digit_char :: "nat \<Rightarrow> char" where
  "digit_char n = char_of (48 + n)"

fun Itoa :: "nat \<Rightarrow> string" where
  "Itoa n = (if n < 10 then [digit_char n] else Itoa (n div 10) @ [digit_char (n mod 10)])"

definition Contains :: "string \<Rightarrow> string \<Rightarrow> bool" where
  "Contains s sub = sublist sub s"

text \<open>Reading a Go map, nil included: a missing key reads as the zero value.\<close>

definition goLookup :: "labels option \<Rightarrow> string \<Rightarrow> string option" where
  "goLookup m k = (case m of None \<Rightarrow> None | Some f \<Rightarrow> f k)"

definition goIndex :: "labels option \<Rightarrow> string \<Rightarrow> string" where
  "goIndex m k = (case goLookup m k of None \<Rightarrow> '''' | Some v \<Rightarrow> v)"

definition goSet :: "labels option \<Rightarrow> labels" where
  "goSet m = (case m of None \<Rightarrow> Map.empty | Some f \<Rightarrow> f)"

section \<open>Laws of programs and their weakest preconditions\<close>

declare Itoa.simps [simp del]

lemma wp_ret [wp]: "wp (ret x) Q E s = Q x s"
  by (simp add: wp_def ret_def)

lemma wp_lift_panic [wp]:
  "wp (lift_panic r) Q E s = (case r of Inl p \<Rightarrow> E p s | Inr x \<Rightarrow> Q x s)"
  by (simp add: wp_def lift_panic_def)

lemma wp_andThen [wp]: "wp (andThen m f) Q E s = wp m (\<lambda>x. wp (f x) Q E) E s"
  by (simp add: wp_def andThen_def split: prod.splits sum.splits)

lemma wp_if [wp]: "wp (if b then m else n) Q E s = (if b then wp m Q E s else wp n Q E s)"
  by simp

lemma wp_case_sum [wp]:
  "wp (case r of Inl e \<Rightarrow> f e | Inr x \<Rightarrow> g x) Q E s
     = (case r of Inl e \<Rightarrow> wp (f e) Q E s | Inr x \<Rightarrow> wp (g x) Q E s)"
  by (simp split: sum.split)

lemma wp_case_option [wp]:
  "wp (case r of None \<Rightarrow> f | Some x \<Rightarrow> g x) Q E s
     = (case r of None \<Rightarrow> wp f Q E s | Some x \<Rightarrow> wp (g x) Q E s)"
  by (simp split: option.split)

lemma wp_case_prod [wp]: "wp (case r of (x, y) \<Rightarrow> f x y) Q E s = (case r of (x, y) \<Rightarrow> wp (f x y) Q E s)"
  by (simp split: prod.split)

lemma wp_mono:
  assumes "wp m Q E s"
    and "\<And>x s'. Q x s' \<Longrightarrow> Q' x s'" and "\<And>p s'. E p s' \<Longrightarrow> E' p s'"
  shows "wp m Q' E' s"
  using assms by (simp add: wp_def split: prod.splits sum.splits)

lemma wp_conj:
  "wp m Q E s \<Longrightarrow> wp m Q' E' s \<Longrightarrow> wp m (\<lambda>x s'. Q x s' \<and> Q' x s') (\<lambda>p s'. E p s' \<and> E' p s') s"
  by (simp add: wp_def split: prod.splits sum.splits)

text \<open>From a weakest precondition to the run it is about, for values and for panics.\<close>

lemma wp_runD: "wp m Q E s \<Longrightarrow> m s = (Inr x, s') \<Longrightarrow> Q x s'"
  by (simp add: wp_def)

lemma wp_panicD: "wp m Q E s \<Longrightarrow> m s = (Inl p, s') \<Longrightarrow> E p s'"
  by (simp add: wp_def)

lemma andThen_assoc: "andThen (andThen m f) g = andThen m (\<lambda>x. andThen (f x) g)"
  by (rule ext) (simp add: andThen_def split: prod.split sum.split)

lemma andThen_ret [simp]: "andThen (ret x) f = f x" "andThen m ret = m"
  by (auto simp: andThen_def ret_def fun_eq_iff split: prod.split sum.split)

section \<open>Lemmas on maps and lists\<close>

lemma goLookup_simps [simp]: "goLookup None k = None" "goLookup (Some f) k = f k"
  by (simp_all add: goLookup_def)

lemma goIndex_SomeI: "goLookup m k = Some v \<Longrightarrow> goIndex m k = v"
  by (simp add: goIndex_def)

lemma goSet_simps [simp]: "goSet None = Map.empty" "goSet (Some f) = f"
  by (simp_all add: goSet_def)

lemma find_append: "find P (xs @ ys) = (case find P xs of None \<Rightarrow> find P ys | Some x \<Rightarrow> Some x)"
  by (induction xs) auto

lemma find_SomeD: "find P xs = Some x \<Longrightarrow> x \<in> set xs \<and> P x"
  by (induction xs) (auto split: if_splits)

end
