(* ===== verification/KubeTypes.thy ===== *)
theory KubeTypes
  imports Prelude
begin

text \<open>
  The Kubernetes, OpenShift and Prometheus API types the operator builds and reads, as
  records with the fields the source mentions. The packages that declare them are not part
  of the repository: a struct is just its fields, an enumeration the constants the source
  names. A field that no source line mentions is left out; in a composite literal of the
  source such a field is the zero value.

  What third-party \<^emph>\<open>code\<close> the operator calls on plain values is the record \<open>deps\<close>, an
  argument of every definition that uses it. Nothing is assumed of it here: the laws that
  some properties need are the locale assumptions of the theories that use them.
\<close>

section \<open>Metadata\<close>

type_synonym Time = nat

record OwnerReference =
  refName :: string
  refController :: bool

record ObjectMeta =
  metaName :: string
  metaNamespace :: string
  metaLabels :: "labels option"
  metaAnnotations :: "labels option"
  metaResourceVersion :: string
  metaDeletionTimestamp :: "Time option"
  metaFinalizers :: "string list"
  metaOwnerReferences :: "OwnerReference list"

definition zeroMeta :: ObjectMeta where
  "zeroMeta = \<lparr>metaName = '''', metaNamespace = '''', metaLabels = None, metaAnnotations = None,
     metaResourceVersion = '''', metaDeletionTimestamp = None, metaFinalizers = [],
     metaOwnerReferences = []\<rparr>"

text \<open>A literal \<^verbatim>\<open>metav1.ObjectMeta{Name: n, Namespace: ns}\<close>.\<close>

definition namedMeta :: "string \<Rightarrow> string \<Rightarrow> ObjectMeta" where
  "namedMeta n ns = zeroMeta\<lparr>metaName := n, metaNamespace := ns\<rparr>"

record ObjectKey =
  keyNamespace :: string
  keyName :: string

datatype ConditionStatus = ConditionTrue | ConditionFalse | ConditionUnknown

record Condition =
  condType :: string
  condStatus :: ConditionStatus
  condLastTransitionTime :: Time
  condReason :: string
  condMessage :: string

section \<open>Pods\<close>

record SecretKeySelector =
  selName :: string
  selKey :: string
  selOptional :: "bool option"

record EnvVarSource =
  SecretKeyRef :: "SecretKeySelector option"

record EnvVar =
  envName :: string
  envValue :: string
  envValueFrom :: "EnvVarSource option"

text \<open>A literal \<^verbatim>\<open>EnvVar{Name: n, Value: v}\<close>.\<close>

definition plainEnv :: "string \<Rightarrow> string \<Rightarrow> EnvVar" where
  "plainEnv n v = \<lparr>envName = n, envValue = v, envValueFrom = None\<rparr>"

record SecretVolumeSource =
  svsSecretName :: string
  svsDefaultMode :: "int32 option"
  svsOptional :: "bool option"

record ConfigMapVolumeSource =
  cmsName :: string
  cmsOptional :: "bool option"
  cmsDefaultMode :: "int32 option"

record VolumeSource =
  vsSecret :: "SecretVolumeSource option"
  vsConfigMap :: "ConfigMapVolumeSource option"
  vsEmptyDir :: "unit option"

record Volume =
  volName :: string
  volSource :: VolumeSource

record VolumeMount =
  mountName :: string
  mountPath :: string
  mountReadOnly :: bool

datatype IntOrString = IntVal int32 | StrVal string
datatype Protocol = ProtocolTCP | ProtocolUDP
datatype URIScheme = URISchemeHTTP | URISchemeHTTPS
datatype PullPolicy = PullDefault | PullAlways
datatype RestartPolicy = RestartDefault | RestartPolicyNever

record ContainerPort =
  cpName :: string
  cpContainerPort :: int32
  cpProtocol :: Protocol

record HTTPGetAction =
  httpPath :: string
  httpPort :: IntOrString
  httpScheme :: URIScheme

record Probe =
  probeHTTPGet :: HTTPGetAction
  probePeriodSeconds :: int32
  probeFailureThreshold :: int32

text \<open>
  A \<^verbatim>\<open>resource.Quantity\<close> is kept as the constructor call that makes it: the package's
  arithmetic and printing are not used by the operator.
\<close>

datatype QuantityFormat = DecimalSI | BinarySI
datatype Quantity =
    NewMilliQuantity int QuantityFormat
  | NewQuantity int QuantityFormat
  | MustParse string

datatype ResourceName = ResourceCPU | ResourceMemory

record ResourceRequirements =
  rrRequests :: "ResourceName \<rightharpoonup> Quantity"
  rrLimits :: "ResourceName \<rightharpoonup> Quantity"

record Container =
  cName :: string
  cImage :: string
  cImagePullPolicy :: PullPolicy
  cCommand :: "string list"
  cArgs :: "string list"
  cPorts :: "ContainerPort list"
  cEnv :: "EnvVar list"
  cResources :: ResourceRequirements
  cLivenessProbe :: "Probe option"
  cReadinessProbe :: "Probe option"
  cStartupProbe :: "Probe option"
  cVolumeMounts :: "VolumeMount list"

definition zeroResources :: ResourceRequirements where
  "zeroResources = \<lparr>rrRequests = Map.empty, rrLimits = Map.empty\<rparr>"

record PodSpec =
  podInitContainers :: "Container list"
  podContainers :: "Container list"
  podVolumes :: "Volume list"
  podRestartPolicy :: RestartPolicy

record PodTemplateSpec =
  tplMeta :: ObjectMeta
  tplSpec :: PodSpec

section \<open>Workloads\<close>

datatype StatefulSetUpdateStrategyType = DefaultUpdateStrategy | RollingUpdateStatefulSetStrategyType
datatype PVCRetentionPolicyType =
  RetainPersistentVolumeClaimRetentionPolicyType | DeletePersistentVolumeClaimRetentionPolicyType

record StatefulSetSpec =
  stsReplicas :: "int32 option"
  stsSelector :: "labels option"
  stsUpdateStrategyType :: StatefulSetUpdateStrategyType
  stsRollingUpdatePartition :: "int32 option"
  stsRevisionHistoryLimit :: "int32 option"
  stsMinReadySeconds :: int32
  stsRetentionWhenDeleted :: "PVCRetentionPolicyType option"
  stsRetentionWhenScaled :: "PVCRetentionPolicyType option"
  stsTemplate :: PodTemplateSpec

record StatefulSet =
  stsMeta :: ObjectMeta
  stsSpec :: StatefulSetSpec
  stsStatusReplicas :: int32
  stsStatusReadyReplicas :: int32

datatype JobConditionType = JobComplete | JobFailed | JobConditionOther string

record JobCondition =
  jcType :: JobConditionType
  jcStatus :: ConditionStatus

record Job =
  jobMeta :: ObjectMeta
  jobTemplate :: PodTemplateSpec
  jobBackoffLimit :: "int32 option"
  jobConditions :: "JobCondition list"

record Secret =
  secMeta :: ObjectMeta
  secData :: "labels option"

section \<open>Networking and monitoring\<close>

record ServicePort =
  spName :: string
  spProtocol :: Protocol
  spPort :: int32
  spTargetPort :: IntOrString

record ServiceSpec =
  svcClusterIP :: string
  svcPublishNotReadyAddresses :: bool
  svcPorts :: "ServicePort list"
  svcSelector :: labels

record Service =
  svcMeta :: ObjectMeta
  svcSpec :: ServiceSpec

datatype TLSTermination = TLSTerminationEdge | TLSTerminationReencrypt
datatype InsecureEdgePolicy = InsecureEdgeTerminationPolicyNone | InsecureEdgeTerminationPolicyRedirect

record RouteSpec =
  rtHost :: string
  rtToKind :: string
  rtToName :: string
  rtTargetPort :: IntOrString
  rtTermination :: TLSTermination
  rtInsecurePolicy :: InsecureEdgePolicy

record Route =
  rtMeta :: ObjectMeta
  rtSpec :: RouteSpec

record Endpoint =
  epPort :: string
  epPath :: string
  epScheme :: string
  epInterval :: string
  epCASecret :: SecretKeySelector
  epServerName :: string

record ServiceMonitor =
  smMeta :: ObjectMeta
  smSelector :: labels
  smEndpoints :: "Endpoint list"

section \<open>Third-party functions on plain values\<close>

text \<open>
  \<^item> \<open>SetControllerReference owner m\<close>: \<^verbatim>\<open>controllerutil.SetControllerReference\<close>, which reaches
    the controlled object through its metadata accessors only;
  \<^item> \<open>ContainsFinalizer\<close>, \<open>AddFinalizer\<close>, \<open>RemoveFinalizer\<close>: of \<^verbatim>\<open>controllerutil\<close>;
  \<^item> \<open>TimeIsZero\<close>: \<^verbatim>\<open>(*metav1.Time).IsZero\<close>;
  \<^item> \<open>SelectorMatches sel set\<close>: \<^verbatim>\<open>labels.SelectorFromSet(sel).Matches(labels.Set(set))\<close>;
  \<^item> \<open>AddOrReplaceCondition\<close>, \<open>GetCondition\<close> and the two constants: of
    \<^verbatim>\<open>operator-utils/pkg/util/apis\<close>.
\<close>

record deps =
  SetControllerReference :: "ObjectMeta \<Rightarrow> ObjectMeta \<Rightarrow> goerror + ObjectMeta"
  ContainsFinalizer :: "ObjectMeta \<Rightarrow> string \<Rightarrow> bool"
  AddFinalizer :: "ObjectMeta \<Rightarrow> string \<Rightarrow> ObjectMeta"
  RemoveFinalizer :: "ObjectMeta \<Rightarrow> string \<Rightarrow> ObjectMeta"
  TimeIsZero :: "Time option \<Rightarrow> bool"
  SelectorMatches :: "labels \<Rightarrow> labels \<Rightarrow> bool"
  AddOrReplaceCondition :: "Condition \<Rightarrow> Condition list \<Rightarrow> Condition list"
  GetCondition :: "string \<Rightarrow> Condition list \<Rightarrow> Condition option"
  ReconcileSuccess :: string
  ReconcileSuccessReason :: string

end
