(* ===== verification/ApiTypes.thy ===== *)
theory ApiTypes
  imports KubeTypes
begin

text \<open>
  The custom resources of \<^verbatim>\<open>api/v1alpha1\<close> (\<^verbatim>\<open>keycloak_types.go\<close>, \<^verbatim>\<open>keycloakimport_types.go\<close>,
  the structs of \<^verbatim>\<open>sizing.go\<close>, \<^verbatim>\<open>condition.go\<close> and \<^verbatim>\<open>versioned_status.go\<close>), the constants of
  \<^verbatim>\<open>internal/constants\<close> and the method \<^verbatim>\<open>HasSecretReference\<close>, which dereferences the optional
  secret of every substitution it looks at.
\<close>

section \<open>Keycloak\<close>

record SecretOption =
  soValue :: string
  soSecret :: "SecretKeySelector option"

record SecretOptionVar =
  sovName :: string
  sovValue :: string
  sovSecret :: "SecretKeySelector option"

record PostgresDatabase =
  dbHost :: SecretOption
  dbPort :: SecretOption
  dbUser :: SecretOption
  dbPassword :: SecretOption

record AdminUser =
  adminUsername :: SecretOption
  adminPassword :: SecretOption

record Provider =
  provName :: string
  provURL :: SecretOption

record NetworkConfig =
  netProxy :: bool
  netHostname :: string

record RealmSizing =
  LoginsPerSecond :: int32
  ClientCredentialsGrantsPerSecond :: int32
  RefreshTokenGrantsPerSecond :: int32
  CachedSessions :: int32
  DisableCPULimits :: bool

record KeycloakSpec =
  kcDatabase :: "PostgresDatabase option"
  kcAdditionalOptions :: "SecretOptionVar list"
  kcInstances :: "int32 option"
  kcTrustedCABundles :: "string option"
  kcAdmin :: AdminUser
  kcProviders :: "Provider list"
  kcNetworkConfig :: "NetworkConfig option"
  kcSizing :: "RealmSizing option"

record Keycloak =
  kcMeta :: ObjectMeta
  kcSpec :: KeycloakSpec
  kcConditions :: "Condition list"

section \<open>KeycloakImport\<close>

record KeycloakInstance =
  instNamespace :: string
  instName :: string

record KeycloakImportSpec =
  kiKeycloakInstance :: KeycloakInstance
  kiJSON :: string
  kiSubstitutions :: "SecretOptionVar list"
  kiOverrideIfExists :: bool

record VersionedStatus =
  vsResourceVersions :: "labels option"

record KeycloakImport =
  kiMeta :: ObjectMeta
  kiSpec :: KeycloakImportSpec
  kiVersion :: VersionedStatus
  kiConditions :: "Condition list"

text \<open>
  \<^verbatim>\<open>HasSecretReference\<close>: the loop reads \<^verbatim>\<open>substitution.Secret.Name\<close>, which panics on a
  substitution without a secret that comes before the first match.
\<close>

fun HasSecretReference_loop :: "SecretOptionVar list \<Rightarrow> string \<Rightarrow> panic + bool" where
  "HasSecretReference_loop [] secretName = Inr False"
| "HasSecretReference_loop (substitution # rest) secretName =
     (case sovSecret substitution of
        None \<Rightarrow> Inl NilDereference
      | Some secret \<Rightarrow>
          if selName secret = secretName then Inr True
          else HasSecretReference_loop rest secretName)"

definition HasSecretReference :: "KeycloakImportSpec \<Rightarrow> string \<Rightarrow> panic + bool" where
  "HasSecretReference ki secretName = HasSecretReference_loop (kiSubstitutions ki) secretName"

section \<open>Constants\<close>

definition RHBKContainerName :: string where "RHBKContainerName = ''rhbk''"
definition TrustedCaVolume :: string where "TrustedCaVolume = ''trusted-ca''"
definition TrustedCaVolumeMountPath :: string where "TrustedCaVolumeMountPath = ''conf/truststores''"
definition RHBKWatchedResourceLabel :: string where
  "RHBKWatchedResourceLabel = ''sso.stakater.com/watched''"
definition RHBKImportOwnerLabel :: string where
  "RHBKImportOwnerLabel = ''realm.stakater.com/owner''"
definition RHBKImportNamespaceLabel :: string where
  "RHBKImportNamespaceLabel = ''realm.stakater.com/namepsace''"

lemmas constant_defs =
  RHBKContainerName_def TrustedCaVolume_def TrustedCaVolumeMountPath_def
  RHBKWatchedResourceLabel_def RHBKImportOwnerLabel_def RHBKImportNamespaceLabel_def

lemma label_keys_distinct [simp]:
  "RHBKImportOwnerLabel \<noteq> RHBKImportNamespaceLabel" "RHBKImportNamespaceLabel \<noteq> RHBKImportOwnerLabel"
  "RHBKWatchedResourceLabel \<noteq> RHBKImportOwnerLabel" "RHBKImportOwnerLabel \<noteq> RHBKWatchedResourceLabel"
  "RHBKWatchedResourceLabel \<noteq> RHBKImportNamespaceLabel" "RHBKImportNamespaceLabel \<noteq> RHBKWatchedResourceLabel"
  "RHBKImportOwnerLabel \<noteq> ''app''" "RHBKImportNamespaceLabel \<noteq> ''app''"
  "''app'' \<noteq> RHBKImportOwnerLabel" "''app'' \<noteq> RHBKImportNamespaceLabel"
  by (simp_all add: constant_defs)

section \<open>Behaviour of HasSecretReference\<close>

lemma HasSecretReference_loop_found:
  assumes "list_all (\<lambda>v. sovSecret v \<noteq> None) xs"
  shows "HasSecretReference_loop xs n = Inr (\<exists>v \<in> set xs. map_option selName (sovSecret v) = Some n)"
  using assms by (induction xs) auto

text \<open>The loop stops at the first substitution that has no secret or names the wanted one.\<close>

lemma HasSecretReference_loop_find:
  "HasSecretReference_loop xs n =
     (case find (\<lambda>v. sovSecret v = None \<or> map_option selName (sovSecret v) = Some n) xs of
        None \<Rightarrow> Inr False
      | Some v \<Rightarrow> if sovSecret v = None then Inl NilDereference else Inr True)"
  by (induction xs) (auto split: option.splits)

end
