(* ===== verification/Client.thy ===== *)
theory Client
  imports ApiTypes
begin

text \<open>
  The operator's side of the Kubernetes client. The client library and the API server behind
  it are not part of the repository: the record \<open>client\<close> has one function per call the
  program makes, over an abstract cluster state \<open>'w\<close>, and is an argument of everything that
  uses it. A call may fail, may answer from a stale cache, and other writers may act between
  two calls: all of that is in the choice of the function.

  \<open>sys\<close> pairs the cluster with the trace of the calls made so far, each with its answer. The
  trace is what the properties of the controllers speak about: a theorem about it for every
  \<open>client\<close> holds whatever the API server does. \<open>call\<close> makes one call and records it.

  \<^verbatim>\<open>controllerutil.CreateOrUpdate(obj, f)\<close> is a call too: it is given the object to look up and
  the mutate function, and returns the object as it is afterwards in the operator's memory.
\<close>

section \<open>Calls and their answers\<close>

record Result =
  Requeue :: bool

type_synonym 'o mutateFn = "'o \<Rightarrow> panic + (goerror + 'o)"

record 'w client =
  GetKeycloak :: "ObjectKey \<Rightarrow> 'w \<Rightarrow> (goerror + Keycloak) \<times> 'w"
  GetKeycloakImport :: "ObjectKey \<Rightarrow> 'w \<Rightarrow> (goerror + KeycloakImport) \<times> 'w"
  GetStatefulSet :: "ObjectKey \<Rightarrow> 'w \<Rightarrow> (goerror + StatefulSet) \<times> 'w"
  GetSecret :: "ObjectKey \<Rightarrow> 'w \<Rightarrow> (goerror + Secret) \<times> 'w"
  ListJobs :: "string \<Rightarrow> labels \<Rightarrow> 'w \<Rightarrow> (goerror + Job list) \<times> 'w"
  ListSecrets :: "string \<Rightarrow> labels \<Rightarrow> 'w \<Rightarrow> (goerror + Secret list) \<times> 'w"
  ListKeycloakImports :: "'w \<Rightarrow> (goerror + KeycloakImport list) \<times> 'w"
  CreateJob :: "Job \<Rightarrow> 'w \<Rightarrow> goerror option \<times> 'w"
  DeleteJob :: "Job \<Rightarrow> 'w \<Rightarrow> goerror option \<times> 'w"
  DeleteSecret :: "Secret \<Rightarrow> 'w \<Rightarrow> goerror option \<times> 'w"
  UpdateKeycloakImport :: "KeycloakImport \<Rightarrow> 'w \<Rightarrow> (goerror + KeycloakImport) \<times> 'w"
  UpdateStatefulSet :: "StatefulSet \<Rightarrow> 'w \<Rightarrow> goerror option \<times> 'w"
  UpdateKeycloakStatus :: "Keycloak \<Rightarrow> 'w \<Rightarrow> goerror option \<times> 'w"
  UpdateKeycloakImportStatus :: "KeycloakImport \<Rightarrow> 'w \<Rightarrow> goerror option \<times> 'w"
  ApplyService :: "Service \<Rightarrow> Service mutateFn \<Rightarrow> 'w \<Rightarrow> (panic + (goerror + Service)) \<times> 'w"
  ApplyRoute :: "Route \<Rightarrow> Route mutateFn \<Rightarrow> 'w \<Rightarrow> (panic + (goerror + Route)) \<times> 'w"
  ApplyStatefulSet :: "StatefulSet \<Rightarrow> StatefulSet mutateFn \<Rightarrow> 'w \<Rightarrow> (panic + (goerror + StatefulSet)) \<times> 'w"
  ApplyServiceMonitor :: "ServiceMonitor \<Rightarrow> ServiceMonitor mutateFn \<Rightarrow> 'w \<Rightarrow> (panic + (goerror + ServiceMonitor)) \<times> 'w"
  ApplySecret :: "Secret \<Rightarrow> Secret mutateFn \<Rightarrow> 'w \<Rightarrow> (panic + (goerror + Secret)) \<times> 'w"
  Now :: "'w \<Rightarrow> Time \<times> 'w"

datatype event =
    EvGetKeycloak ObjectKey "goerror + Keycloak"
  | EvGetKeycloakImport ObjectKey "goerror + KeycloakImport"
  | EvGetStatefulSet ObjectKey "goerror + StatefulSet"
  | EvGetSecret ObjectKey "goerror + Secret"
  | EvListJobs string labels "goerror + Job list"
  | EvListSecrets string labels "goerror + Secret list"
  | EvListKeycloakImports "goerror + KeycloakImport list"
  | EvCreateJob Job "goerror option"
  | EvDeleteJob Job "goerror option"
  | EvDeleteSecret Secret "goerror option"
  | EvUpdateKeycloakImport KeycloakImport "goerror + KeycloakImport"
  | EvUpdateStatefulSet StatefulSet "goerror option"
  | EvKeycloakStatus Keycloak "goerror option"
  | EvKeycloakImportStatus KeycloakImport "goerror option"
  | EvApplyService Service "Service mutateFn" "panic + (goerror + Service)"
  | EvApplyRoute Route "Route mutateFn" "panic + (goerror + Route)"
  | EvApplyStatefulSet StatefulSet "StatefulSet mutateFn" "panic + (goerror + StatefulSet)"
  | EvApplyServiceMonitor ServiceMonitor "ServiceMonitor mutateFn" "panic + (goerror + ServiceMonitor)"
  | EvApplySecret Secret "Secret mutateFn" "panic + (goerror + Secret)"

record 'w sys =
  world :: 'w
  trace :: "event list"

text \<open>The calls that only read.\<close>

fun isRead :: "event \<Rightarrow> bool" where
  "isRead (EvGetKeycloak _ _) = True"
| "isRead (EvGetKeycloakImport _ _) = True"
| "isRead (EvGetStatefulSet _ _) = True"
| "isRead (EvGetSecret _ _) = True"
| "isRead (EvListJobs _ _ _) = True"
| "isRead (EvListSecrets _ _ _) = True"
| "isRead (EvListKeycloakImports _) = True"
| "isRead _ = False"

fun isKeycloakStatus :: "event \<Rightarrow> bool" where
  "isKeycloakStatus (EvKeycloakStatus _ _) = True"
| "isKeycloakStatus _ = False"

fun isImportStatus :: "event \<Rightarrow> bool" where
  "isImportStatus (EvKeycloakImportStatus _ _) = True"
| "isImportStatus _ = False"

section \<open>Making a call\<close>

definition call :: "('w \<Rightarrow> 'r \<times> 'w) \<Rightarrow> ('r \<Rightarrow> event) \<Rightarrow> ('w sys, 'r) go" where
  "call f ev = (\<lambda>s. case f (world s) of
     (r, w) \<Rightarrow> (Inr r, s\<lparr>world := w, trace := trace s @ [ev r]\<rparr>))"

text \<open>A call that runs a callback of the operator, whose panic unwinds through it.\<close>

definition callBack :: "('w \<Rightarrow> (panic + 'r) \<times> 'w) \<Rightarrow> (panic + 'r \<Rightarrow> event) \<Rightarrow> ('w sys, 'r) go" where
  "callBack f ev = andThen (call f ev) lift_panic"

text \<open>Reading the clock is not a call to the cluster.\<close>

definition readClock :: "'w client \<Rightarrow> ('w sys, Time) go" where
  "readClock c = (\<lambda>s. case Now c (world s) of (t, w) \<Rightarrow> (Inr t, s\<lparr>world := w\<rparr>))"

definition objectKey :: "string \<Rightarrow> string \<Rightarrow> ObjectKey" where
  "objectKey ns n = \<lparr>keyNamespace = ns, keyName = n\<rparr>"

definition result :: "goerror option \<Rightarrow> Result \<times> goerror option" where
  "result err = (\<lparr>Requeue = False\<rparr>, err)"

definition requeue :: "goerror option \<Rightarrow> Result \<times> goerror option" where
  "requeue err = (\<lparr>Requeue = True\<rparr>, err)"

section \<open>Weakest preconditions of calls\<close>

lemma wp_call [wp]:
  "wp (call f ev) Q E s =
     (case f (world s) of (r, w) \<Rightarrow> Q r (s\<lparr>world := w, trace := trace s @ [ev r]\<rparr>))"
  by (simp add: wp_def call_def split: prod.split)

lemma wp_callBack [wp]:
  "wp (callBack f ev) Q E s =
     (case f (world s) of (r, w) \<Rightarrow>
        (case r of
           Inl p \<Rightarrow> E p (s\<lparr>world := w, trace := trace s @ [ev r]\<rparr>)
         | Inr x \<Rightarrow> Q x (s\<lparr>world := w, trace := trace s @ [ev r]\<rparr>)))"
  by (simp add: callBack_def wp_andThen wp_call wp_lift_panic split: prod.split)

lemma wp_readClock [wp]:
  "wp (readClock c) Q E s = (case Now c (world s) of (t, w) \<Rightarrow> Q t (s\<lparr>world := w\<rparr>))"
  by (simp add: wp_def readClock_def split: prod.split)

text \<open>
  The events a program adds: \<open>emits m P\<close> says that, whatever the client answers, every run of
  \<open>m\<close> extends the trace by events \<open>es\<close> with \<open>P r es\<close> for its result \<open>r\<close> (a panic or a value).
\<close>

definition emits :: "('w sys, 'a) go \<Rightarrow> (panic + 'a \<Rightarrow> event list \<Rightarrow> bool) \<Rightarrow> bool" where
  "emits m P \<longleftrightarrow> (\<forall>s r s'. m s = (r, s') \<longrightarrow> (\<exists>es. trace s' = trace s @ es \<and> P r es))"

lemma emitsD: "emits m P \<Longrightarrow> m s = (r, s') \<Longrightarrow> \<exists>es. trace s' = trace s @ es \<and> P r es"
  by (auto simp: emits_def)

lemma emits_mono: "emits m P \<Longrightarrow> (\<And>r es. P r es \<Longrightarrow> Q r es) \<Longrightarrow> emits m Q"
  unfolding emits_def by blast

lemma emits_ret: "emits (ret x) (\<lambda>r es. r = Inr x \<and> es = [])"
  by (simp add: emits_def ret_def)

lemma emits_lift_panic: "emits (lift_panic x) (\<lambda>r es. r = x \<and> es = [])"
  by (simp add: emits_def lift_panic_def)

lemma emits_call: "emits (call f ev) (\<lambda>r es. \<exists>x. r = Inr x \<and> es = [ev x])"
  by (auto simp: emits_def call_def split: prod.splits)

lemma emits_callBack: "emits (callBack f ev) (\<lambda>r es. es = [ev r])"
  by (auto simp: emits_def callBack_def andThen_def call_def lift_panic_def split: prod.splits sum.splits)

lemma emits_readClock: "emits (readClock c) (\<lambda>r es. (\<exists>t. r = Inr t) \<and> es = [])"
  by (auto simp: emits_def readClock_def split: prod.splits)

text \<open>Backward rules: what is left to show of the rest of the program after one step.\<close>

lemma emits_andThenI:
  assumes "emits m P"
    and "\<And>x es1. P (Inr x) es1 \<Longrightarrow> emits (f x) (\<lambda>r es2. Q r (es1 @ es2))"
    and "\<And>p es1. P (Inl p) es1 \<Longrightarrow> Q (Inl p) es1"
  shows "emits (andThen m f) Q"
  unfolding emits_def
proof (intro allI impI)
  fix s r s' assume run: "andThen m f s = (r, s')"
  obtain r1 s1 where m: "m s = (r1, s1)" by fastforce
  from emitsD [OF assms(1) m] obtain es1 where t1: "trace s1 = trace s @ es1" and P: "P r1 es1" by blast
  show "\<exists>es. trace s' = trace s @ es \<and> Q r es"
  proof (cases r1)
    case (Inl p)
    with run m t1 P assms(3) show ?thesis by (auto simp: andThen_def)
  next
    case (Inr x)
    with run m have "f x s1 = (r, s')" by (simp add: andThen_def)
    from emitsD [OF assms(2) this] Inr P obtain es2 where "trace s' = trace s1 @ es2" "Q r (es1 @ es2)" by blast
    with t1 show ?thesis by auto
  qed
qed

lemma emits_retI: "Q (Inr x) [] \<Longrightarrow> emits (ret x) Q"
  by (rule emits_mono [OF emits_ret]) simp

lemma emits_lift_panicI: "Q x [] \<Longrightarrow> emits (lift_panic x) Q"
  by (rule emits_mono [OF emits_lift_panic]) simp

lemma emits_callI: "(\<And>x. Q (Inr x) [ev x]) \<Longrightarrow> emits (call f ev) Q"
  by (rule emits_mono [OF emits_call]) auto

lemma emits_callBackI: "(\<And>r. Q r [ev r]) \<Longrightarrow> emits (callBack f ev) Q"
  by (rule emits_mono [OF emits_callBack]) auto

lemma emits_call_thenI:
  "(\<And>x. emits (f x) (\<lambda>r es. Q r (ev x # es))) \<Longrightarrow> emits (andThen (call g ev) f) Q"
  by (rule emits_andThenI [OF emits_call]) auto

lemma emits_callBack_thenI:
  "(\<And>x. emits (f x) (\<lambda>r es. Q r (ev (Inr x) # es))) \<Longrightarrow> (\<And>p. Q (Inl p) [ev (Inl p)]) \<Longrightarrow>
   emits (andThen (callBack g ev) f) Q"
  by (rule emits_andThenI [OF emits_callBack]) auto

lemma emits_readClock_thenI:
  "(\<And>t. emits (f t) Q) \<Longrightarrow> emits (andThen (readClock c) f) Q"
  by (rule emits_andThenI [OF emits_readClock]) auto

lemma emits_lift_panic_thenI:
  "(\<And>y. x = Inr y \<Longrightarrow> emits (f y) Q) \<Longrightarrow> (\<And>p. x = Inl p \<Longrightarrow> Q (Inl p) []) \<Longrightarrow>
   emits (andThen (lift_panic x) f) Q"
  by (rule emits_andThenI [OF emits_lift_panic]) auto

lemma emits_ifI: "(b \<Longrightarrow> emits m Q) \<Longrightarrow> (\<not> b \<Longrightarrow> emits n Q) \<Longrightarrow> emits (if b then m else n) Q"
  by simp

lemma emits_case_sumI:
  "(\<And>e. x = Inl e \<Longrightarrow> emits (f e) Q) \<Longrightarrow> (\<And>y. x = Inr y \<Longrightarrow> emits (g y) Q) \<Longrightarrow>
   emits (case x of Inl e \<Rightarrow> f e | Inr y \<Rightarrow> g y) Q"
  by (cases x) simp_all

lemma emits_case_optionI:
  "(x = None \<Longrightarrow> emits f Q) \<Longrightarrow> (\<And>y. x = Some y \<Longrightarrow> emits (g y) Q) \<Longrightarrow>
   emits (case x of None \<Rightarrow> f | Some y \<Rightarrow> g y) Q"
  by (cases x) simp_all

lemmas emits_intros =
  emits_retI emits_lift_panicI emits_call_thenI emits_callBack_thenI emits_readClock_thenI
  emits_lift_panic_thenI emits_ifI emits_case_sumI emits_case_optionI emits_callI emits_callBackI

end
