(* ===== verification/Conditions.thy ===== *)
theory Conditions
  imports ApiTypes
begin

text \<open>
  \<^verbatim>\<open>api/v1alpha1/condition.go\<close>: the status conditions of both custom resources. The list
  operations come from a third-party package and are fields of \<open>deps\<close>; \<open>now\<close> is what
  \<^verbatim>\<open>metav1.Now()\<close> returns.

  The interface \<open>condition_store\<close> states what the operator relies on: a condition list
  behaves like a map from condition types to conditions.
\<close>

section \<open>The code\<close>

definition getOpt :: "nat \<Rightarrow> string list \<Rightarrow> string" where
  "getOpt idx opts = (if length opts < idx + 1 then '''' else opts ! idx)"

definition UpdateCondition ::
  "deps \<Rightarrow> Time \<Rightarrow> Condition list \<Rightarrow> string \<Rightarrow> ConditionStatus \<Rightarrow> string list \<Rightarrow> Condition list" where
  "UpdateCondition d now s conditionType conditionStatus opts =
     AddOrReplaceCondition d
       \<lparr>condType = conditionType, condStatus = conditionStatus, condLastTransitionTime = now,
        condReason = getOpt 0 opts, condMessage = getOpt 1 opts\<rparr> s"

definition SetReady ::
  "deps \<Rightarrow> Time \<Rightarrow> Condition list \<Rightarrow> ConditionStatus \<Rightarrow> string list \<Rightarrow> Condition list" where
  "SetReady d now s conditionStatus msg =
     UpdateCondition d now s (ReconcileSuccess d) conditionStatus
       [ReconcileSuccessReason d, getOpt 0 msg]"

definition IsReady :: "deps \<Rightarrow> Condition list \<Rightarrow> bool" where
  "IsReady d s =
     (case GetCondition d (ReconcileSuccess d) s of
        None \<Rightarrow> False
      | Some c \<Rightarrow> condStatus c = ConditionTrue)"

definition ConditionMsg :: "deps \<Rightarrow> Condition list \<Rightarrow> string \<Rightarrow> string" where
  "ConditionMsg d s ct =
     (case GetCondition d ct s of
        None \<Rightarrow> ''''
      | Some c \<Rightarrow> condMessage c)"

section \<open>The contract of the condition list\<close>

locale condition_store =
  fixes d :: deps
  assumes get_added: "GetCondition d (condType c) (AddOrReplaceCondition d c cs) = Some c"
    and get_other: "t \<noteq> condType c \<Longrightarrow>
      GetCondition d t (AddOrReplaceCondition d c cs) = GetCondition d t cs"
begin

lemma IsReady_SetReady: "IsReady d (SetReady d now cs st msg) \<longleftrightarrow> st = ConditionTrue"
  using get_added [of "\<lparr>condType = ReconcileSuccess d, condStatus = st, condLastTransitionTime = now,
      condReason = ReconcileSuccessReason d, condMessage = getOpt 0 msg\<rparr>" cs]
  by (simp add: IsReady_def SetReady_def UpdateCondition_def getOpt_def)

lemma ConditionMsg_SetReady:
  "ConditionMsg d (SetReady d now cs st msg) (ReconcileSuccess d) = getOpt 0 msg"
  using get_added [of "\<lparr>condType = ReconcileSuccess d, condStatus = st, condLastTransitionTime = now,
      condReason = ReconcileSuccessReason d, condMessage = getOpt 0 msg\<rparr>" cs]
  by (simp add: ConditionMsg_def SetReady_def UpdateCondition_def getOpt_def)

lemma ConditionMsg_SetReady_other:
  "ct \<noteq> ReconcileSuccess d \<Longrightarrow> ConditionMsg d (SetReady d now cs st msg) ct = ConditionMsg d cs ct"
  by (simp add: ConditionMsg_def SetReady_def UpdateCondition_def get_other)

end

end
