(* ===== verification/GoText.thy ===== *)
theory GoText
  imports Prelude
begin

text \<open>
  The parts of Go's text libraries the operator relies on, on byte strings:
  \<^item> \<open>DecodeRune\<close>: \<^verbatim>\<open>utf8.DecodeRuneInString\<close>, the rune at the head of a byte string and its
    width, with \<open>RuneError\<close> of width 1 for an ill-formed sequence;
  \<^item> \<open>appendString\<close>: the body (without the surrounding quotes) of what \<^verbatim>\<open>json.Marshal\<close> prints
    for a string: HTML escaping is on, ill-formed bytes become the replacement escape;
  \<^item> \<open>ReplaceNonWord\<close>: \<^verbatim>\<open>ReplaceAllString\<close> for the one regular expression of the program,
    which replaces every \<^emph>\<open>rune\<close> outside \<^verbatim>\<open>[a-zA-Z0-9_]\<close>;
  \<^item> \<open>ToUpperASCII\<close>: \<^verbatim>\<open>strings.ToUpper\<close> on a string of ASCII bytes.

  As a reference for the escaping there is \<open>json_unquote\<close>, a reader of JSON string bodies:
  the theorems are that it inverts \<open>appendString\<close> on well-formed UTF-8, and that the escaped
  text never holds a byte that would end or break the string literal it is pasted into.
\<close>

section \<open>Bytes and runes\<close>

abbreviation code :: "char \<Rightarrow> nat" where
  "code c \<equiv> of_char c"

definition RuneError :: nat where "RuneError = 0xFFFD"

definition is_cont :: "char \<Rightarrow> bool" where
  "is_cont c = (0x80 \<le> code c \<and> code c \<le> 0xBF)"

text \<open>The least and greatest second byte after a given first byte (the accept ranges).\<close>

definition second_lo :: "nat \<Rightarrow> nat" where
  "second_lo b = (if b = 0xE0 then 0xA0 else if b = 0xF0 then 0x90 else 0x80)"

definition second_hi :: "nat \<Rightarrow> nat" where
  "second_hi b = (if b = 0xED then 0x9F else if b = 0xF4 then 0x8F else 0xBF)"

definition ok_second :: "nat \<Rightarrow> char \<Rightarrow> bool" where
  "ok_second b c = (second_lo b \<le> code c \<and> code c \<le> second_hi b)"

definition DecodeRune :: "string \<Rightarrow> nat \<times> nat" where
  "DecodeRune s =
     (case s of
        [] \<Rightarrow> (RuneError, 0)
      | c0 # r0 \<Rightarrow>
         let b = code c0 in
         if b < 0x80 then (b, 1)
         else if b < 0xC2 \<or> 0xF4 < b then (RuneError, 1)
         else
           (case r0 of
              [] \<Rightarrow> (RuneError, 1)
            | c1 # r1 \<Rightarrow>
               if \<not> ok_second b c1 then (RuneError, 1)
               else if b < 0xE0 then ((b - 0xC0) * 64 + (code c1 - 0x80), 2)
               else
                 (case r1 of
                    [] \<Rightarrow> (RuneError, 1)
                  | c2 # r2 \<Rightarrow>
                     if \<not> is_cont c2 then (RuneError, 1)
                     else if b < 0xF0
                       then ((b - 0xE0) * 4096 + (code c1 - 0x80) * 64 + (code c2 - 0x80), 3)
                     else
                       (case r2 of
                          [] \<Rightarrow> (RuneError, 1)
                        | c3 # _ \<Rightarrow>
                           if \<not> is_cont c3 then (RuneError, 1)
                           else ((b - 0xF0) * 262144 + (code c1 - 0x80) * 4096
                                   + (code c2 - 0x80) * 64 + (code c3 - 0x80), 4)))))"

lemma DecodeRune_size: "s \<noteq> [] \<Longrightarrow> 1 \<le> snd (DecodeRune s) \<and> snd (DecodeRune s) \<le> length s"
  by (cases s) (auto simp: DecodeRune_def Let_def split: list.splits)

section \<open>JSON string bodies\<close>

abbreviation backslash :: char where "backslash \<equiv> CHR 0x5C"
abbreviation dquote :: char where "dquote \<equiv> CHR 0x22"

definition hex_digit :: "nat \<Rightarrow> char" where
  "hex_digit n = (if n < 10 then char_of (48 + n) else char_of (87 + n))"

text \<open>\<^verbatim>\<open>htmlSafeSet\<close>: the ASCII bytes that are copied as they are.\<close>

definition htmlSafe :: "char \<Rightarrow> bool" where
  "htmlSafe c = (0x20 \<le> code c \<and> code c < 0x80 \<and>
     c \<noteq> dquote \<and> c \<noteq> CHR ''&'' \<and> c \<noteq> CHR ''<'' \<and> c \<noteq> CHR ''>'' \<and> c \<noteq> backslash)"

definition u00 :: "nat \<Rightarrow> string" where
  "u00 n = [backslash, CHR ''u'', CHR ''0'', CHR ''0'', hex_digit (n div 16), hex_digit (n mod 16)]"

definition escapeASCII :: "char \<Rightarrow> string" where
  "escapeASCII c =
     (if htmlSafe c then [c]
      else if c = backslash \<or> c = dquote then [backslash, c]
      else if c = CHR 0x08 then [backslash, CHR ''b'']
      else if c = CHR 0x0C then [backslash, CHR ''f'']
      else if c = CHR 0x0A then [backslash, CHR ''n'']
      else if c = CHR 0x0D then [backslash, CHR ''r'']
      else if c = CHR 0x09 then [backslash, CHR ''t'']
      else u00 (code c))"

definition ufffd :: string where
  "ufffd = [backslash, CHR ''u'', CHR ''f'', CHR ''f'', CHR ''f'', CHR ''d'']"

definition u202 :: "nat \<Rightarrow> string" where
  "u202 n = [backslash, CHR ''u'', CHR ''2'', CHR ''0'', CHR ''2'', hex_digit (n mod 16)]"

function appendString :: "string \<Rightarrow> string" where
  "appendString [] = []"
| "appendString (c # r) =
     (if code c < 0x80 then escapeASCII c @ appendString r
      else
        (case DecodeRune (c # r) of
           (rune, width) \<Rightarrow>
             if rune = RuneError \<and> width = 1 then ufffd @ appendString r
             else if rune = 0x2028 \<or> rune = 0x2029
               then u202 rune @ appendString (drop (width - 1) r)
             else c # take (width - 1) r @ appendString (drop (width - 1) r)))"
  by pat_completeness auto
termination
  by (relation "measure length") auto

section \<open>Names of environment variables\<close>

definition is_word_char :: "char \<Rightarrow> bool" where
  "is_word_char c = ((97 \<le> code c \<and> code c \<le> 122) \<or> (65 \<le> code c \<and> code c \<le> 90)
     \<or> (48 \<le> code c \<and> code c \<le> 57) \<or> c = CHR ''_'')"

definition is_digit_char :: "char \<Rightarrow> bool" where
  "is_digit_char c = (48 \<le> code c \<and> code c \<le> 57)"

function ReplaceNonWord :: "string \<Rightarrow> string" where
  "ReplaceNonWord [] = []"
| "ReplaceNonWord (c # r) =
     (if is_word_char c then c # ReplaceNonWord r
      else CHR ''_'' # ReplaceNonWord (drop (snd (DecodeRune (c # r)) - 1) r))"
  by pat_completeness auto
termination
  by (relation "measure length") auto

definition ToUpperASCII :: "string \<Rightarrow> string" where
  "ToUpperASCII s = map (\<lambda>c. if 97 \<le> code c \<and> code c \<le> 122 then char_of (code c - 32) else c) s"

section \<open>A reader for JSON string bodies\<close>

definition hex_value :: "char \<Rightarrow> nat option" where
  "hex_value c =
     (if 48 \<le> code c \<and> code c \<le> 57 then Some (code c - 48)
      else if 97 \<le> code c \<and> code c \<le> 102 then Some (code c - 87)
      else if 65 \<le> code c \<and> code c \<le> 70 then Some (code c - 55)
      else None)"

definition hex4 :: "char \<Rightarrow> char \<Rightarrow> char \<Rightarrow> char \<Rightarrow> nat option" where
  "hex4 a b c d =
     (case (hex_value a, hex_value b, hex_value c, hex_value d) of
        (Some w, Some x, Some y, Some z) \<Rightarrow> Some (w * 4096 + x * 256 + y * 16 + z)
      | _ \<Rightarrow> None)"

text \<open>UTF-8 for a code unit of the basic plane; surrogate code units have none.\<close>

definition encodeBMP :: "nat \<Rightarrow> string option" where
  "encodeBMP n =
     (if n < 0x80 then Some [char_of n]
      else if n < 0x800 then Some [char_of (0xC0 + n div 64), char_of (0x80 + n mod 64)]
      else if 0xD800 \<le> n \<and> n < 0xE000 then None
      else Some [char_of (0xE0 + n div 4096), char_of (0x80 + (n div 64) mod 64),
                 char_of (0x80 + n mod 64)])"

definition simple_escape :: "char \<Rightarrow> char option" where
  "simple_escape c =
     (if c = dquote \<or> c = backslash \<or> c = CHR ''/'' then Some c
      else if c = CHR ''b'' then Some (CHR 0x08)
      else if c = CHR ''f'' then Some (CHR 0x0C)
      else if c = CHR ''n'' then Some (CHR 0x0A)
      else if c = CHR ''r'' then Some (CHR 0x0D)
      else if c = CHR ''t'' then Some (CHR 0x09)
      else None)"

text \<open>
  The reader stops with \<open>None\<close> at an unescaped quote, a control byte or a malformed escape:
  everything that is not the inside of one JSON string literal.
\<close>

fun json_unquote :: "string \<Rightarrow> string option" where
  "json_unquote [] = Some []"
| "json_unquote (c # r) =
     (if c = backslash then
        (case r of
           e # r' \<Rightarrow>
             if e = CHR ''u'' then
               (case r' of
                  h1 # h2 # h3 # h4 # r'' \<Rightarrow>
                    (case hex4 h1 h2 h3 h4 of
                       None \<Rightarrow> None
                     | Some n \<Rightarrow>
                         (case (encodeBMP n, json_unquote r'') of
                            (Some bs, Some t) \<Rightarrow> Some (bs @ t)
                          | _ \<Rightarrow> None))
                | _ \<Rightarrow> None)
             else
               (case (simple_escape e, json_unquote r') of
                  (Some d, Some t) \<Rightarrow> Some (d # t)
                | _ \<Rightarrow> None)
         | [] \<Rightarrow> None)
      else if c = dquote \<or> code c < 0x20 then None
      else map_option (Cons c) (json_unquote r))"

text \<open>Well-formed UTF-8: the decoder never meets an ill-formed sequence.\<close>

function valid_utf8 :: "string \<Rightarrow> bool" where
  "valid_utf8 [] = True"
| "valid_utf8 (c # r) =
     (DecodeRune (c # r) \<noteq> (RuneError, 1) \<and> valid_utf8 (drop (snd (DecodeRune (c # r)) - 1) r))"
  by pat_completeness auto
termination
  by (relation "measure length") auto

text \<open>The string with every ill-formed byte replaced by the replacement character.\<close>

function toValidUTF8 :: "string \<Rightarrow> string" where
  "toValidUTF8 [] = []"
| "toValidUTF8 (c # r) =
     (if DecodeRune (c # r) = (RuneError, 1) then [CHR 0xEF, CHR 0xBF, CHR 0xBD] @ toValidUTF8 r
      else c # take (snd (DecodeRune (c # r)) - 1) r
             @ toValidUTF8 (drop (snd (DecodeRune (c # r)) - 1) r))"
  by pat_completeness auto
termination
  by (relation "measure length") auto

text \<open>The characters of a portable environment variable name.\<close>

definition is_env_char :: "char \<Rightarrow> bool" where
  "is_env_char c = ((65 \<le> code c \<and> code c \<le> 90) \<or> is_digit_char c \<or> c = CHR ''_'')"

section \<open>Escaping and reading back\<close>

declare appendString.simps [simp del] toValidUTF8.simps [simp del] valid_utf8.simps [simp del]
  ReplaceNonWord.simps [simp del]
lemmas [simp] = appendString.simps(1) toValidUTF8.simps(1) valid_utf8.simps(1) ReplaceNonWord.simps(1)

lemma toValidUTF8_id: "valid_utf8 s \<Longrightarrow> toValidUTF8 s = s"
proof (induction s rule: valid_utf8.induct)
  case (2 c r)
  then show ?case by (simp add: valid_utf8.simps(2) toValidUTF8.simps(2))
qed simp

lemma hex_value_hex_digit: "n < 16 \<Longrightarrow> hex_value (hex_digit n) = Some n"
  by (simp add: hex_value_def hex_digit_def)

lemma hex_digit_0: "hex_digit 0 = CHR ''0''"
  by code_simp

lemma hex4_digits:
  "a < 16 \<Longrightarrow> b < 16 \<Longrightarrow> c < 16 \<Longrightarrow> d < 16 \<Longrightarrow>
   hex4 (hex_digit a) (hex_digit b) (hex_digit c) (hex_digit d) = Some (a * 4096 + b * 256 + c * 16 + d)"
  by (simp add: hex4_def hex_value_hex_digit)

lemma json_unquote_u00:
  assumes "n < 128"
  shows "json_unquote (u00 n @ t) = map_option (Cons (char_of n)) (json_unquote t)"
proof -
  have "hex4 (CHR ''0'') (CHR ''0'') (hex_digit (n div 16)) (hex_digit (n mod 16)) = Some n"
    using hex4_digits [of 0 0 "n div 16" "n mod 16"] assms by (simp add: hex_digit_0)
  then show ?thesis
    using assms by (simp add: u00_def encodeBMP_def split: option.split)
qed

lemma json_unquote_escapeASCII:
  assumes "code c < 128"
  shows "json_unquote (escapeASCII c @ t) = map_option (Cons c) (json_unquote t)"
proof -
  consider "htmlSafe c" | "\<not> htmlSafe c" "c \<in> {backslash, dquote, CHR 0x08, CHR 0x0C, CHR 0x0A, CHR 0x0D, CHR 0x09}"
    | "\<not> htmlSafe c" "c \<notin> {backslash, dquote, CHR 0x08, CHR 0x0C, CHR 0x0A, CHR 0x0D, CHR 0x09}" by blast
  then show ?thesis
  proof cases
    case 1
    then show ?thesis by (auto simp: escapeASCII_def htmlSafe_def)
  next
    case 2
    then show ?thesis
      by (auto simp: escapeASCII_def simple_escape_def split: option.split)
  next
    case 3
    then have "escapeASCII c = u00 (code c)" by (simp add: escapeASCII_def)
    then show ?thesis using json_unquote_u00 [OF assms] by simp
  qed
qed

lemma utf8_chars:
  "char_of (0xEF::nat) = CHR 0xEF" "char_of (0xBF::nat) = CHR 0xBF" "char_of (0xBD::nat) = CHR 0xBD"
  "char_of (0xE2::nat) = CHR 0xE2" "char_of (0x80::nat) = CHR 0x80"
  by code_simp+

lemma json_unquote_ufffd:
  "json_unquote (ufffd @ t) = map_option ((@) [CHR 0xEF, CHR 0xBF, CHR 0xBD]) (json_unquote t)"
proof -
  have "hex4 (CHR ''f'') (CHR ''f'') (CHR ''f'') (CHR ''d'') = Some 0xFFFD"
    by (simp add: hex4_def hex_value_def)
  moreover have "encodeBMP 0xFFFD = Some [CHR 0xEF, CHR 0xBF, CHR 0xBD]"
    by (simp add: encodeBMP_def utf8_chars)
  ultimately show ?thesis by (simp add: ufffd_def split: option.split)
qed



lemma DecodeRune_cases:
  assumes "DecodeRune (c # r) = (n, w)" and "128 \<le> code c" and "(n, w) \<noteq> (RuneError, 1)"
  obtains
    (two) c1 r1 where "r = c1 # r1" "w = 2" "ok_second (code c) c1" "code c < 0xE0"
      "n = (code c - 0xC0) * 64 + (code c1 - 0x80)"
  | (three) c1 c2 r2 where "r = c1 # c2 # r2" "w = 3" "ok_second (code c) c1" "is_cont c2"
      "0xE0 \<le> code c" "code c < 0xF0"
      "n = (code c - 0xE0) * 4096 + (code c1 - 0x80) * 64 + (code c2 - 0x80)"
  | (four) c1 c2 c3 r3 where "r = c1 # c2 # c3 # r3" "w = 4" "ok_second (code c) c1" "is_cont c2"
      "is_cont c3" "0xF0 \<le> code c" "code c \<le> 0xF4"
      "n = (code c - 0xF0) * 262144 + (code c1 - 0x80) * 4096 + (code c2 - 0x80) * 64 + (code c3 - 0x80)"
  using assms
  by (auto simp: DecodeRune_def Let_def not_less not_le split: list.splits if_splits)

lemma ok_second_bounds: "ok_second b c \<Longrightarrow> 128 \<le> code c \<and> code c \<le> 191"
  by (auto simp: ok_second_def second_lo_def second_hi_def split: if_splits)

lemma is_cont_bounds: "is_cont c \<Longrightarrow> 128 \<le> code c \<and> code c \<le> 191"
  by (simp add: is_cont_def)

lemma DecodeRune_multi:
  assumes "DecodeRune (c # r) = (n, w)" and "128 \<le> code c" and "(n, w) \<noteq> (RuneError, 1)"
  shows "list_all (\<lambda>b. 128 \<le> code b) (c # take (w - 1) r)"
  using assms
  by (cases rule: DecodeRune_cases [OF assms]) (auto dest: ok_second_bounds is_cont_bounds)

lemma DecodeRune_2028:
  assumes "DecodeRune (c # r) = (n, w)" and "128 \<le> code c" and "n = 0x2028 \<or> n = 0x2029"
  shows "w = 3 \<and> code c = 0xE2 \<and> map code (take 2 r) = [0x80, n - 0x1F80]"
proof -
  have "(n, w) \<noteq> (RuneError, 1)" using assms(3) by (auto simp: RuneError_def)
  from assms(1,2) this show ?thesis
  proof (cases rule: DecodeRune_cases)
    case (two c1 r1)
    then show ?thesis using assms(3) ok_second_bounds [of "code c" c1] by auto
  next
    case (three c1 c2 r2)
    note b = three ok_second_bounds [OF three(3)] is_cont_bounds [OF three(4)]
    have "code c = 0xE2" using b assms(3) by arith
    moreover from this have "code c1 = 0x80" using b assms(3) by arith
    ultimately show ?thesis using b assms(3) by auto
  next
    case (four c1 c2 c3 r3)
    then have "0x10000 \<le> n" by (auto simp: ok_second_def second_lo_def split: if_splits)
    then show ?thesis using assms(3) by auto
  qed
qed

lemma map_option_append: "map_option ((@) a) (map_option ((@) b) x) = map_option ((@) (a @ b)) x"
  by (cases x) simp_all

lemma json_unquote_high:
  "list_all (\<lambda>b. 128 \<le> code b) xs \<Longrightarrow> json_unquote (xs @ t) = map_option ((@) xs) (json_unquote t)"
proof (induction xs)
  case Nil
  then show ?case by (simp add: option.map_ident)
next
  case (Cons a xs)
  then have "a \<noteq> backslash" "a \<noteq> dquote" by auto
  with Cons show ?case by (auto simp: option.map_comp comp_def)
qed

lemma json_unquote_u202:
  assumes "n = 0x2028 \<or> n = 0x2029"
  shows "json_unquote (u202 n @ t) = map_option ((@) [CHR 0xE2, CHR 0x80, char_of (n - 0x1F80)]) (json_unquote t)"
proof -
  have "hex4 (CHR ''2'') (CHR ''0'') (CHR ''2'') (hex_digit (n mod 16)) = Some n"
    using assms by (auto simp: hex4_def hex_value_hex_digit) (simp_all add: hex_value_def)
  moreover have "encodeBMP n = Some [CHR 0xE2, CHR 0x80, char_of (n - 0x1F80)]"
    using assms by (auto simp: encodeBMP_def utf8_chars)
  ultimately show ?thesis by (simp add: u202_def split: option.split)
qed

lemma DecodeRune_2028_bytes:
  assumes "DecodeRune (c # r) = (n, w)" "128 \<le> code c" "n = 0x2028 \<or> n = 0x2029"
  shows "w = 3" "c = CHR 0xE2" "take 2 r = [CHR 0x80, char_of (n - 0x1F80)]"
proof -
  from DecodeRune_2028 [OF assms] have w: "w = 3" and c: "code c = 0xE2"
    and m: "map code (take 2 r) = [0x80, n - 0x1F80]" by simp_all
  show "w = 3" by (rule w)
  from c show "c = CHR 0xE2" by (metis char_of_char utf8_chars(4))
  have "map char_of (map code (take 2 r)) = [CHR 0x80, char_of (n - 0x1F80)]"
    by (simp only: m list.map utf8_chars)
  then show "take 2 r = [CHR 0x80, char_of (n - 0x1F80)]" by (simp add: comp_def)
qed

lemma json_unquote_appendString_append:
  "json_unquote (appendString s @ t) = map_option ((@) (toValidUTF8 s)) (json_unquote t)"
proof (induction s rule: appendString.induct)
  case 1
  then show ?case by (simp add: option.map_ident)
next
  case (2 c r)
  obtain n w where d: "DecodeRune (c # r) = (n, w)" by fastforce
  consider (ascii) "code c < 128" | (bad) "128 \<le> code c" "(n, w) = (RuneError, 1)"
    | (sep) "128 \<le> code c" "n = 0x2028 \<or> n = 0x2029"
    | (multi) "128 \<le> code c" "(n, w) \<noteq> (RuneError, 1)" "\<not> (n = 0x2028 \<or> n = 0x2029)"
    by linarith
  then show ?case
  proof cases
    case ascii
    then have "DecodeRune (c # r) = (code c, 1)" "code c \<noteq> RuneError"
      by (simp_all add: DecodeRune_def Let_def RuneError_def)
    with ascii 2 show ?thesis
      by (simp add: appendString.simps(2) toValidUTF8.simps(2) json_unquote_escapeASCII option.map_comp comp_def)
  next
    case bad
    with d 2 show ?thesis
      by (simp add: appendString.simps(2) toValidUTF8.simps(2) json_unquote_ufffd option.map_comp comp_def)
  next
    case sep
    note b = DecodeRune_2028_bytes [OF d sep]
    have "(n, w) \<noteq> (RuneError, 1)" using b(1) by simp
    with sep d b 2 show ?thesis
      by (simp add: appendString.simps(2) toValidUTF8.simps(2) json_unquote_u202 option.map_comp comp_def)
  next
    case multi
    let ?b = "c # take (w - 1) r" and ?r = "drop (w - 1) r"
    have a: "appendString (c # r) = ?b @ appendString ?r" and v: "toValidUTF8 (c # r) = ?b @ toValidUTF8 ?r"
      using multi d by (auto simp: appendString.simps(2) toValidUTF8.simps(2))
    have "json_unquote (?b @ appendString ?r @ t) = map_option ((@) ?b) (json_unquote (appendString ?r @ t))"
      by (rule json_unquote_high [OF DecodeRune_multi [OF d multi(1,2)]])
    also have "\<dots> = map_option ((@) (?b @ toValidUTF8 ?r)) (json_unquote t)"
      using multi d "2.IH"(4) by (auto simp: map_option_append)
    finally show ?thesis by (simp only: a v append_assoc [of ?b "appendString ?r" t])
  qed
qed

text \<open>Reading is compositional: a complete body followed by more is read piece by piece.\<close>

lemma json_unquote_append:
  "json_unquote a = Some x \<Longrightarrow> json_unquote (a @ b) = map_option ((@) x) (json_unquote b)"
proof (induction a arbitrary: x rule: length_induct)
  case (1 a)
  show ?case
  proof (cases a)
    case Nil
    with 1 show ?thesis by (cases "json_unquote b") simp_all
  next
    case (Cons c r)
    consider (plain) "c \<noteq> backslash"
      | (uni) h1 h2 h3 h4 r' where "c = backslash" "r = CHR ''u'' # h1 # h2 # h3 # h4 # r'"
      | (simple) e r' where "c = backslash" "r = e # r'" "e \<noteq> CHR ''u''"
      using 1(2) Cons by (auto split: list.splits if_splits)
    then show ?thesis
    proof cases
      case plain
      with 1(2) Cons obtain y where y: "json_unquote r = Some y" "x = c # y" "c \<noteq> dquote" "\<not> code c < 0x20"
        by (auto split: if_splits)
      with 1(1) Cons have "json_unquote (r @ b) = map_option ((@) y) (json_unquote b)" by simp
      with plain y Cons show ?thesis by (simp add: option.map_comp comp_def)
    next
      case uni
      with 1(2) Cons obtain n bs y where y: "hex4 h1 h2 h3 h4 = Some n" "encodeBMP n = Some bs"
        "json_unquote r' = Some y" "x = bs @ y"
        by (auto split: option.splits)
      with 1(1) Cons uni have "json_unquote (r' @ b) = map_option ((@) y) (json_unquote b)" by simp
      with uni y Cons show ?thesis by (cases "json_unquote b") simp_all
    next
      case simple
      with 1(2) Cons obtain d y where y: "simple_escape e = Some d" "json_unquote r' = Some y" "x = d # y"
        by (auto split: option.splits)
      with 1(1) Cons simple have "json_unquote (r' @ b) = map_option ((@) y) (json_unquote b)" by simp
      with simple y Cons show ?thesis by (cases "json_unquote b") simp_all
    qed
  qed
qed

text \<open>The output characters of the environment-name conversion.\<close>

lemma ReplaceNonWord_word: "list_all is_word_char (ReplaceNonWord s)"
  by (induction s rule: ReplaceNonWord.induct)
    (auto simp: ReplaceNonWord.simps(2) is_word_char_def)

lemma ReplaceNonWord_id: "list_all is_word_char s \<Longrightarrow> ReplaceNonWord s = s"
  by (induction s) (simp_all add: ReplaceNonWord.simps(2))

lemma ReplaceNonWord_Nil_iff [simp]: "ReplaceNonWord s = [] \<longleftrightarrow> s = []"
  by (cases s) (simp_all add: ReplaceNonWord.simps(2))

lemma ReplaceNonWord_length: "length (ReplaceNonWord s) \<le> length s"
proof (induction s rule: ReplaceNonWord.induct)
  case (2 c r)
  then show ?case by (cases "is_word_char c") (auto simp: ReplaceNonWord.simps(2))
qed simp

lemma ToUpperASCII_word: "list_all is_word_char s \<Longrightarrow> list_all is_env_char (ToUpperASCII s)"
  by (auto simp: ToUpperASCII_def list_all_iff is_word_char_def is_env_char_def is_digit_char_def)

end
