(* ===== verification/ResourceUtils.thy ===== *)
theory ResourceUtils
  imports ApiTypes GoText
begin

text \<open>
  \<^verbatim>\<open>internal/resources/utils.go\<close>: label maps, readiness tests, the FNV-1a hash, adding or
  replacing an environment variable and escaping a secret value for a JSON template.
  (\<^verbatim>\<open>FormatResource\<close>, a debugging printer over an arbitrary value, is in \<open>VersionedStatus\<close>.)

  The interface \<open>add_or_replace\<close> is the contract of a list kept as a map by a key: replace the
  first element with the key, or append. Its consequences (the keys stay distinct, the
  latest addition wins) are proved once and used through the interpretation on
  \<open>AddOrReplaceEnv\<close>.
\<close>

unbundle bit_operations_syntax

section \<open>Label maps\<close>

text \<open>
  \<^verbatim>\<open>DecorateDefaultLabels(existing)\<close>: the caller's map after the call. A nil map is replaced
  by a fresh one in the callee only, so the caller's stays nil.
\<close>

definition DecorateDefaultLabels :: "labels option \<Rightarrow> labels option" where
  "DecorateDefaultLabels existing =
     (case existing of
        None \<Rightarrow> None
      | Some m \<Rightarrow> Some (m(''app'' \<mapsto> ''rhbk'')))"

definition MatchSet :: "deps \<Rightarrow> labels option \<Rightarrow> labels option \<Rightarrow> bool" where
  "MatchSet d set1 set2 = SelectorMatches d (goSet set2) (goSet set1)"

definition GetOwnerLabels :: "string \<Rightarrow> string \<Rightarrow> labels" where
  "GetOwnerLabels ownerName ownerNamespace =
     [RHBKImportOwnerLabel \<mapsto> ownerName, RHBKImportNamespaceLabel \<mapsto> ownerNamespace]"

section \<open>Readiness\<close>

fun IsJobCompleted_loop :: "JobCondition list \<Rightarrow> bool" where
  "IsJobCompleted_loop [] = False"
| "IsJobCompleted_loop (condition # rest) =
     (if jcType condition = JobComplete then jcStatus condition = ConditionTrue
      else IsJobCompleted_loop rest)"

definition IsJobCompleted :: "Job \<Rightarrow> bool" where
  "IsJobCompleted job = IsJobCompleted_loop (jobConditions job)"

definition IsStatefulSetReady :: "StatefulSet option \<Rightarrow> bool" where
  "IsStatefulSetReady sts =
     (case sts of
        None \<Rightarrow> False
      | Some s \<Rightarrow> stsStatusReadyReplicas s = stsStatusReplicas s)"

section \<open>FNV-1a\<close>

definition fnv_prime :: "32 word" where "fnv_prime = 16777619"
definition fnv_offset :: "32 word" where "fnv_offset = 2166136261"

definition fnv_step :: "char \<Rightarrow> 32 word \<Rightarrow> 32 word" where
  "fnv_step c h = (h XOR of_char c) * fnv_prime"

text \<open>\<^verbatim>\<open>hasher.Write\<close> of \<^verbatim>\<open>hash/fnv\<close> never returns an error.\<close>

definition GetHash :: "string \<Rightarrow> goerror + 32 word" where
  "GetHash s = Inr (fold fnv_step s fnv_offset)"

section \<open>Environment variables\<close>

fun AddOrReplaceEnv_loop :: "EnvVar \<Rightarrow> EnvVar list \<Rightarrow> EnvVar list \<times> bool" where
  "AddOrReplaceEnv_loop env [] = ([], False)"
| "AddOrReplaceEnv_loop env (envVar # rest) =
     (if envName envVar = envName env then (env # rest, True)
      else (case AddOrReplaceEnv_loop env rest of (vars, found) \<Rightarrow> (envVar # vars, found)))"

definition AddOrReplaceEnv :: "EnvVar \<Rightarrow> EnvVar list \<Rightarrow> EnvVar list" where
  "AddOrReplaceEnv env vars =
     (case AddOrReplaceEnv_loop env vars of
        (vars', found) \<Rightarrow> if \<not> found then vars' @ [env] else vars')"

section \<open>Escaping\<close>

text \<open>\<^verbatim>\<open>json.Marshal\<close> of a string: a quoted literal, and no error.\<close>

definition MarshalString :: "string \<Rightarrow> goerror + string" where
  "MarshalString s = Inr (dquote # appendString s @ [dquote])"

definition EscapeString :: "string \<Rightarrow> goerror + string" where
  "EscapeString v =
     (if Contains v ''-----BEGIN'' \<or> Contains v ''-----END'' then Inr v
      else
        (case MarshalString v of
           Inl err \<Rightarrow> Inl (WrappedError ''failed to escape value'' err)
         | Inr b \<Rightarrow> Inr (butlast (tl b))))"

section \<open>The contract of a keyed list\<close>

locale add_or_replace =
  fixes key :: "'a \<Rightarrow> 'k"
    and add :: "'a \<Rightarrow> 'a list \<Rightarrow> 'a list"
  assumes add_new: "key x \<notin> key ` set xs \<Longrightarrow> add x xs = xs @ [x]"
    and add_present: "key y = key x \<Longrightarrow> key x \<notin> key ` set ys \<Longrightarrow> add x (ys @ y # zs) = ys @ x # zs"
begin

lemma add_cases:
  obtains (fresh) "key x \<notin> key ` set xs" "add x xs = xs @ [x]"
  | (present) ys y zs where "xs = ys @ y # zs" "key y = key x" "key x \<notin> key ` set ys" "add x xs = ys @ x # zs"
proof (cases "key x \<in> key ` set xs")
  case True
  then obtain ys y zs where *: "xs = ys @ y # zs" "key y = key x" "\<forall>z \<in> set ys. key z \<noteq> key x"
    using split_list_first_prop [of xs "\<lambda>z. key z = key x"] by (metis image_iff)
  then have "key x \<notin> key ` set ys" by force
  with * show thesis using add_present [of y x ys zs] by (intro present [of ys y zs]) simp_all
next
  case False
  then show thesis using fresh add_new by blast
qed

lemma keys_add: "map key (add x xs) = (if key x \<in> key ` set xs then map key xs else map key xs @ [key x])"
  by (cases rule: add_cases [of x xs]) auto

lemma distinct_add: "distinct (map key xs) \<Longrightarrow> distinct (map key (add x xs))"
  by (auto simp: keys_add)

lemma set_keys_add: "key ` set (add x xs) = insert (key x) (key ` set xs)"
proof -
  have "set (map key (add x xs)) = insert (key x) (set (map key xs))"
    by (auto simp only: keys_add set_map set_append list.set split: if_splits)
  then show ?thesis by simp
qed

lemma find_add: "find (\<lambda>y. key y = k) (add x xs) = (if k = key x then Some x else find (\<lambda>y. key y = k) xs)"
proof (cases rule: add_cases [of x xs])
  case fresh
  then have "k = key x \<Longrightarrow> find (\<lambda>y. key y = k) xs = None"
    unfolding find_None_iff by (metis image_eqI)
  with fresh show ?thesis by (auto simp: find_append split: option.split)
next
  case (present ys y zs)
  then have "find (\<lambda>y. key y = key x) ys = None"
    unfolding find_None_iff by (metis image_eqI)
  with present show ?thesis by (auto simp: find_append split: option.split)
qed

lemma find_add_all:
  "find (\<lambda>y. key y = k) (fold add new xs) =
     (case find (\<lambda>y. key y = k) (rev new) of None \<Rightarrow> find (\<lambda>y. key y = k) xs | Some y \<Rightarrow> Some y)"
  by (induction new arbitrary: xs) (auto simp: find_append find_add split: option.splits)

lemma distinct_add_all: "distinct (map key xs) \<Longrightarrow> distinct (map key (fold add new xs))"
  by (induction new arbitrary: xs) (simp_all add: distinct_add)

lemma set_keys_add_all: "key ` set (fold add new xs) = key ` set new \<union> key ` set xs"
  by (induction new arbitrary: xs) (auto simp: set_keys_add)

lemma add_unchanged_prefix: "\<exists>ys. map key (add x xs) = map key xs @ ys"
  by (simp add: keys_add)

end

section \<open>Lemmas\<close>

lemma AddOrReplaceEnv_loop_fresh:
  "envName env \<notin> envName ` set vars \<Longrightarrow> AddOrReplaceEnv_loop env vars = (vars, False)"
  by (induction vars) auto

lemma AddOrReplaceEnv_loop_present:
  "envName v = envName env \<Longrightarrow> envName env \<notin> envName ` set ys \<Longrightarrow>
   AddOrReplaceEnv_loop env (ys @ v # zs) = (ys @ env # zs, True)"
  by (induction ys) auto

interpretation env: add_or_replace envName AddOrReplaceEnv
  by unfold_locales
    (simp_all add: AddOrReplaceEnv_def AddOrReplaceEnv_loop_fresh AddOrReplaceEnv_loop_present)

lemma IsJobCompleted_find:
  "IsJobCompleted job \<longleftrightarrow>
     (\<exists>jc. find (\<lambda>jc. jcType jc = JobComplete) (jobConditions job) = Some jc \<and> jcStatus jc = ConditionTrue)"
proof -
  have "IsJobCompleted_loop cs \<longleftrightarrow>
     (\<exists>jc. find (\<lambda>jc. jcType jc = JobComplete) cs = Some jc \<and> jcStatus jc = ConditionTrue)" for cs
    by (induction cs) auto
  then show ?thesis by (simp add: IsJobCompleted_def)
qed

lemma EscapeString_plain:
  "\<not> Contains v ''-----BEGIN'' \<Longrightarrow> \<not> Contains v ''-----END'' \<Longrightarrow> EscapeString v = Inr (appendString v)"
  by (simp add: EscapeString_def MarshalString_def butlast_append)

lemma EscapeString_total: "\<exists>e. EscapeString v = Inr e"
  by (simp add: EscapeString_def MarshalString_def)

lemma fnv_step_inj: "fnv_step c h = fnv_step c' h' \<longleftrightarrow> h XOR of_char c = h' XOR of_char c'"
proof
  assume "fnv_step c h = fnv_step c' h'"
  then have "(h XOR of_char c) * fnv_prime * 899433627 = (h' XOR of_char c') * fnv_prime * 899433627"
    by (simp add: fnv_step_def)
  moreover have "fnv_prime * 899433627 = 1" by (simp add: fnv_prime_def)
  ultimately show "h XOR of_char c = h' XOR of_char c'" by (simp add: mult.assoc)
next
  assume "h XOR of_char c = h' XOR of_char c'"
  then show "fnv_step c h = fnv_step c' h'" by (simp add: fnv_step_def)
qed


lemma of_char_word: "(of_char c :: 32 word) = of_nat (of_char c)"
  by (cases c) (simp add: of_char_def of_nat_add)

lemma of_char_inj: "(of_char c :: 32 word) = of_char c' \<longleftrightarrow> c = c'"
proof
  assume "(of_char c :: 32 word) = of_char c'"
  then have "take_bit 32 (of_char c :: nat) = take_bit 32 (of_char c')"
    by (simp add: of_char_word word_of_nat_eq_iff)
  moreover have "take_bit 32 (of_char x :: nat) = of_char x" for x :: char
    by (rule take_bit_nat_eq_self) (rule less_trans [OF nat_of_char_less_256], simp)
  ultimately show "c = c'" by simp
qed simp

lemma fnv_fold_inj: "fold fnv_step s h = fold fnv_step s h' \<longleftrightarrow> h = h'"
proof (induction s arbitrary: h h')
  case (Cons c s)
  have "h XOR of_char c = h' XOR of_char c \<longleftrightarrow> h = h'"
    by (metis bit.xor_cancel_left bit.xor_left_self xor.commute)
  with Cons show ?case by (simp add: fnv_step_inj)
qed simp

section \<open>Properties\<close>

text \<open>
  hashing never fails, and a change of a single byte is always detected: two inputs that
  differ in exactly one byte have different 32-bit hashes, wherever the byte is and whatever
  surrounds it.
\<close>

theorem GetHash_detects_byte_change:
  "(\<exists>h. GetHash s = Inr h) \<and> (GetHash (xs @ a # ys) = GetHash (xs @ b # ys) \<longleftrightarrow> a = b)"
proof -
  have x: "fold fnv_step xs fnv_offset XOR of_char a = fold fnv_step xs fnv_offset XOR of_char b
      \<longleftrightarrow> (of_char a :: 32 word) = of_char b" by (metis bit.xor_left_self)
  show ?thesis by (simp add: GetHash_def fnv_fold_inj fnv_step_inj x of_char_inj)
qed

text \<open>
  adding or replacing an environment variable treats the list as a map by name: a lookup
  finds the new variable under its name and the old one under every other, the order of the
  names is kept, a new name is appended, and names stay distinct.
\<close>

theorem AddOrReplaceEnv_map:
  "find (\<lambda>e. envName e = n) (AddOrReplaceEnv v vars) =
     (if n = envName v then Some v else find (\<lambda>e. envName e = n) vars) \<and>
   map envName (AddOrReplaceEnv v vars) =
     (if envName v \<in> envName ` set vars then map envName vars else map envName vars @ [envName v]) \<and>
   distinct (map envName (AddOrReplaceEnv v vars)) = distinct (map envName vars)"
  by (simp add: env.find_add env.keys_add)

text \<open>
  C31: escaping a secret value never fails. A value that holds a PEM marker is returned as it is. Every
  other value is escaped, and the result, read back as the inside of a JSON string literal, alone or
  in front of any other text \<open>t\<close>, is the value itself when it is well-formed UTF-8, and otherwise the
  value with its ill-formed bytes replaced by the replacement character: those bytes are lost.
\<close>

theorem EscapeString_roundtrip:
  "\<exists>e. EscapeString v = Inr e \<and>
     (if Contains v ''-----BEGIN'' \<or> Contains v ''-----END'' then e = v
      else json_unquote (e @ t) = map_option ((@) (toValidUTF8 v)) (json_unquote t) \<and>
           json_unquote e = Some (if valid_utf8 v then v else toValidUTF8 v))"
proof (cases "Contains v ''-----BEGIN'' \<or> Contains v ''-----END''")
  case True
  then show ?thesis by (simp add: EscapeString_def)
next
  case False
  then have "EscapeString v = Inr (appendString v)" by (simp add: EscapeString_plain)
  moreover have "json_unquote (appendString v) = Some (toValidUTF8 v)"
    using json_unquote_appendString_append [of v "[]"] by simp
  ultimately show ?thesis
    using False by (simp add: json_unquote_appendString_append toValidUTF8_id)
qed

text \<open>
  a value with a PEM marker anywhere in it is not escaped at all, so a quote in such a
  value ends the JSON string it is substituted into: there is a value that the escaping
  returns unchanged and that is not the inside of any JSON string.
\<close>

theorem EscapeString_pem_unsafe:
  "\<exists>v. EscapeString v = Inr v \<and> json_unquote v = None"
proof
  have "Contains (''-----BEGIN'' @ [dquote]) ''-----BEGIN''" by (simp add: Contains_def)
  then show "EscapeString (''-----BEGIN'' @ [dquote]) = Inr (''-----BEGIN'' @ [dquote]) \<and>
      json_unquote (''-----BEGIN'' @ [dquote]) = None"
    by (simp add: EscapeString_def)
qed

end
