(* ===== verification/Reference.thy ===== *)
theory Reference
  imports Conditions ResourceUtils
begin

text \<open>
  The contracts of the third-party functions in \<open>deps\<close>, as interfaces, and one concrete
  record that satisfies them all. The interfaces state documented behaviour only:
  \<^item> \<open>label_selector\<close>: a selector made from a set matches the label sets that contain it;
  \<^item> \<open>finalizer_ops\<close>: finalizers are a list of strings in the metadata, and the functions look at nothing else
    of it and change nothing else;
  \<^item> \<open>owner_refs\<close>: setting a controller reference changes the owner references only, setting it
    again changes nothing; of the object it looks at the namespace and the references only, and of
    the owner not at its version;
  \<^item> \<open>condition_store\<close> of \<open>Conditions\<close>.
  \<open>third_party\<close> is all of them. \<open>refDeps\<close> keeps conditions with the same add-or-replace
  algorithm that \<open>AddOrReplaceEnv\<close> uses; it serves the witnesses, nothing else depends on it.
\<close>

section \<open>A concrete record\<close>

fun refAddCondition :: "Condition \<Rightarrow> Condition list \<Rightarrow> Condition list" where
  "refAddCondition c [] = [c]"
| "refAddCondition c (x # xs) = (if condType x = condType c then c # xs else x # refAddCondition c xs)"

definition refSetController :: "ObjectMeta \<Rightarrow> ObjectMeta \<Rightarrow> goerror + ObjectMeta" where
  "refSetController owner m =
     (if list_ex (\<lambda>r. refController r \<and> refName r \<noteq> metaName owner) (metaOwnerReferences m)
      then Inl (StatusError False ''already owned'')
      else Inr (m\<lparr>metaOwnerReferences :=
             (if list_ex refController (metaOwnerReferences m) then metaOwnerReferences m
              else metaOwnerReferences m @ [\<lparr>refName = metaName owner, refController = True\<rparr>])\<rparr>))"

definition refMatches :: "labels \<Rightarrow> labels \<Rightarrow> bool" where
  "refMatches sel ls \<longleftrightarrow> (\<forall>k v. sel k = Some v \<longrightarrow> ls k = Some v)"

definition refDeps :: deps where
  "refDeps = \<lparr>
     SetControllerReference = refSetController,
     ContainsFinalizer = (\<lambda>m f. f \<in> set (metaFinalizers m)),
     AddFinalizer = (\<lambda>m f. if f \<in> set (metaFinalizers m) then m
                          else m\<lparr>metaFinalizers := metaFinalizers m @ [f]\<rparr>),
     RemoveFinalizer = (\<lambda>m f. m\<lparr>metaFinalizers := removeAll f (metaFinalizers m)\<rparr>),
     TimeIsZero = (\<lambda>t. t = None \<or> t = Some 0),
     SelectorMatches = refMatches,
     AddOrReplaceCondition = refAddCondition,
     GetCondition = (\<lambda>t cs. find (\<lambda>c. condType c = t) cs),
     ReconcileSuccess = ''ReconcileSuccess'',
     ReconcileSuccessReason = ''LastReconcileCycleSucceded''\<rparr>"

text \<open>A custom resource with a database, a network configuration, a provider and an override.\<close>

definition exampleKeycloak :: Keycloak where
  "exampleKeycloak = \<lparr>
     kcMeta = namedMeta ''sso'' ''identity'',
     kcSpec = \<lparr>
       kcDatabase = Some \<lparr>
         dbHost = \<lparr>soValue = ''db'', soSecret = None\<rparr>, dbPort = \<lparr>soValue = ''5432'', soSecret = None\<rparr>,
         dbUser = \<lparr>soValue = '''', soSecret = Some \<lparr>selName = ''db-secret'', selKey = ''user'', selOptional = None\<rparr>\<rparr>,
         dbPassword = \<lparr>soValue = '''', soSecret = Some \<lparr>selName = ''db-secret'', selKey = ''pass'', selOptional = None\<rparr>\<rparr>\<rparr>,
       kcAdditionalOptions = [\<lparr>sovName = ''KC_HTTPS_PORT'', sovValue = ''8444'', sovSecret = None\<rparr>],
       kcInstances = Some 2, kcTrustedCABundles = None,
       kcAdmin = \<lparr>adminUsername = \<lparr>soValue = ''admin'', soSecret = None\<rparr>,
                  adminPassword = \<lparr>soValue = ''admin'', soSecret = None\<rparr>\<rparr>,
       kcProviders = [\<lparr>provName = ''metrics.jar'', provURL = \<lparr>soValue = ''https://host/m.jar'', soSecret = None\<rparr>\<rparr>],
       kcNetworkConfig = Some \<lparr>netProxy = True, netHostname = ''sso.example.com''\<rparr>,
       kcSizing = None\<rparr>,
     kcConditions = []\<rparr>"

section \<open>The contracts\<close>

locale label_selector =
  fixes d :: deps
  assumes selector_iff: "SelectorMatches d sel ls \<longleftrightarrow> (\<forall>k v. sel k = Some v \<longrightarrow> ls k = Some v)"
begin

lemma MatchSet_iff: "MatchSet d s1 s2 \<longleftrightarrow> (\<forall>k v. goLookup s2 k = Some v \<longrightarrow> goLookup s1 k = Some v)"
  by (simp add: MatchSet_def selector_iff goSet_def split: option.split)

lemma MatchSet_single: "MatchSet d s (Some [k \<mapsto> v]) \<longleftrightarrow> goLookup s k = Some v"
  by (auto simp: MatchSet_iff)

lemma MatchSet_owner:
  "MatchSet d s (Some (GetOwnerLabels n ns)) \<longleftrightarrow>
     goLookup s RHBKImportOwnerLabel = Some n \<and> goLookup s RHBKImportNamespaceLabel = Some ns"
proof
  assume "MatchSet d s (Some (GetOwnerLabels n ns))"
  then have m: "goLookup (Some (GetOwnerLabels n ns)) k = Some v \<Longrightarrow> goLookup s k = Some v" for k v
    by (simp only: MatchSet_iff)
  from m [of RHBKImportOwnerLabel n] m [of RHBKImportNamespaceLabel ns]
  show "goLookup s RHBKImportOwnerLabel = Some n \<and> goLookup s RHBKImportNamespaceLabel = Some ns"
    by (simp add: GetOwnerLabels_def)
qed (simp add: MatchSet_iff GetOwnerLabels_def)

end

locale finalizer_ops =
  fixes d :: deps
  assumes contains_added: "ContainsFinalizer d (AddFinalizer d m f) f"
    and not_contains_removed: "\<not> ContainsFinalizer d (RemoveFinalizer d m f) f"
    and contains_local: "metaFinalizers m = metaFinalizers n \<Longrightarrow> ContainsFinalizer d m f = ContainsFinalizer d n f"
    and add_frame: "\<exists>fs. AddFinalizer d m f = m\<lparr>metaFinalizers := fs\<rparr>"
    and remove_frame: "\<exists>fs. RemoveFinalizer d m f = m\<lparr>metaFinalizers := fs\<rparr>"

text \<open>The same metadata, under another resource version.\<close>

definition sameMeta :: "ObjectMeta \<Rightarrow> ObjectMeta \<Rightarrow> bool" where
  "sameMeta m n \<longleftrightarrow> n = m\<lparr>metaResourceVersion := metaResourceVersion n\<rparr>"

lemma sameMeta_unversioned:
  assumes "sameMeta m n"
  shows "n\<lparr>metaResourceVersion := v\<rparr> = m\<lparr>metaResourceVersion := v\<rparr>"
proof -
  from assms obtain u where "n = m\<lparr>metaResourceVersion := u\<rparr>" unfolding sameMeta_def by blast
  then show ?thesis by simp
qed

lemma sameMetaE:
  assumes "sameMeta m n"
  obtains v where "n = m\<lparr>metaResourceVersion := v\<rparr>"
  using assms unfolding sameMeta_def by blast

lemma sameMeta_refl [simp]: "sameMeta m m" "sameMeta m (m\<lparr>metaResourceVersion := v\<rparr>)"
  by (simp_all add: sameMeta_def)

locale owner_refs =
  fixes d :: deps
  assumes controller_idem: "SetControllerReference d owner m = Inr m' \<Longrightarrow>
      SetControllerReference d owner m' = Inr m'"
    and controller_frame: "SetControllerReference d owner m = Inr m' \<Longrightarrow>
      \<exists>refs. m' = m\<lparr>metaOwnerReferences := refs\<rparr>"
    and controller_local: "SetControllerReference d owner m = Inr m' \<Longrightarrow>
      metaNamespace n = metaNamespace m \<Longrightarrow> metaOwnerReferences n = metaOwnerReferences m \<Longrightarrow>
      SetControllerReference d owner n = Inr (n\<lparr>metaOwnerReferences := metaOwnerReferences m'\<rparr>)"
    and controller_owner: "sameMeta owner owner' \<Longrightarrow> SetControllerReference d owner' m = SetControllerReference d owner m"

locale third_party = condition_store d + label_selector d + finalizer_ops d + owner_refs d
  for d :: deps

section \<open>The concrete record satisfies the contracts\<close>

interpretation refcond: add_or_replace condType refAddCondition
proof
  fix x :: Condition and xs
  show "condType x \<notin> condType ` set xs \<Longrightarrow> refAddCondition x xs = xs @ [x]"
    by (induction xs) auto
next
  fix x y :: Condition and ys zs
  show "condType y = condType x \<Longrightarrow> condType x \<notin> condType ` set ys \<Longrightarrow>
    refAddCondition x (ys @ y # zs) = ys @ x # zs"
    by (induction ys) auto
qed

interpretation ref: third_party refDeps
proof unfold_locales
  fix owner m m'
  assume "SetControllerReference refDeps owner m = Inr m'"
  then have m': "m' = m\<lparr>metaOwnerReferences :=
       (if list_ex refController (metaOwnerReferences m) then metaOwnerReferences m
        else metaOwnerReferences m @ [\<lparr>refName = metaName owner, refController = True\<rparr>])\<rparr>"
    and ok: "\<not> list_ex (\<lambda>r. refController r \<and> refName r \<noteq> metaName owner) (metaOwnerReferences m)"
    by (auto simp: refDeps_def refSetController_def split: if_splits)
  from m' ok show "SetControllerReference refDeps owner m' = Inr m'"
    by (auto simp: refDeps_def refSetController_def)
  from m' show "\<exists>refs. m' = m\<lparr>metaOwnerReferences := refs\<rparr>" by blast
  fix n :: ObjectMeta
  assume "metaNamespace n = metaNamespace m" "metaOwnerReferences n = metaOwnerReferences m"
  with m' ok show "SetControllerReference refDeps owner n = Inr (n\<lparr>metaOwnerReferences := metaOwnerReferences m'\<rparr>)"
    by (auto simp: refDeps_def refSetController_def)
next
  fix m :: ObjectMeta and f
  show "\<exists>fs. AddFinalizer refDeps m f = m\<lparr>metaFinalizers := fs\<rparr>"
    by (rule exI [of _ "if f \<in> set (metaFinalizers m) then metaFinalizers m else metaFinalizers m @ [f]"])
      (simp add: refDeps_def)
qed (auto simp: refDeps_def refcond.find_add refMatches_def refSetController_def elim!: sameMetaE)

lemma third_party_refDeps: "third_party refDeps" ..

lemma owner_refs_refDeps: "owner_refs refDeps" ..


section \<open>Properties\<close>

text \<open>
  a status condition reads back as it was set, for every condition library that keeps one
  condition per type: after \<open>SetReady\<close> the resource is ready exactly when the status is true, the
  message is the given one (empty when none is given), and the message of every other condition
  type is unchanged.
\<close>

theorem SetReady_reads_back:
  assumes "condition_store d"
  shows "(IsReady d (SetReady d now cs st msg) \<longleftrightarrow> st = ConditionTrue) \<and>
    ConditionMsg d (SetReady d now cs st msg) ct =
      (if ct = ReconcileSuccess d then (if msg = [] then '''' else hd msg) else ConditionMsg d cs ct)"
  using condition_store.IsReady_SetReady [OF assms] condition_store.ConditionMsg_SetReady [OF assms]
    condition_store.ConditionMsg_SetReady_other [OF assms]
  by (cases msg) (auto simp: getOpt_def)

theorem SetReady_reads_back_witness:
  "IsReady refDeps (SetReady refDeps 3 [] ConditionTrue []) \<and>
   \<not> IsReady refDeps (SetReady refDeps 3 (SetReady refDeps 2 [] ConditionTrue []) ConditionFalse [''down'']) \<and>
   ConditionMsg refDeps (SetReady refDeps 3 [] ConditionFalse [''down'']) (ReconcileSuccess refDeps) = ''down''"
proof -
  have "condition_store refDeps" ..
  then show ?thesis by (simp add: SetReady_reads_back)
qed

end
