(* ===== verification/Services.thy ===== *)
theory Services
  imports Client Reference
begin

text \<open>
  The network and monitoring resources: \<^verbatim>\<open>internal/resources/rhbk/service.go\<close>, \<^verbatim>\<open>route.go\<close>,
  \<^verbatim>\<open>discovery_service.go\<close> and \<^verbatim>\<open>internal/resources/monitoring/service_monitor.go\<close>. Each file has a
  mutate function (\<^verbatim>\<open>Build\<close>, \<^verbatim>\<open>mutateFn\<close>), which overwrites the fields the operator owns and
  sets the controller reference, and a \<^verbatim>\<open>CreateOrUpdate\<close>, which names the object and hands the
  mutate function to the client library.

  The interface \<open>resource_builder\<close> is the contract between a mutate function and
  \<^verbatim>\<open>CreateOrUpdate\<close>: it keeps the identity of the object and is idempotent, so a second
  reconcile has nothing to write. It is interpreted on every builder of the operator, under
  the laws of \<open>owner_refs\<close>.
\<close>

section \<open>Names and ports\<close>

definition ManagementServicePortName :: string where "ManagementServicePortName = ''management''"
definition ApplicationServicePortName :: string where "ApplicationServicePortName = ''https''"
definition ManagementPort :: nat where "ManagementPort = 9000"
definition HttpsPort :: nat where "HttpsPort = 8443"
definition DiscoveryPort :: nat where "DiscoveryPort = 7800"

definition GetTLSSecretName :: "Keycloak \<Rightarrow> string" where
  "GetTLSSecretName cr = metaName (kcMeta cr) @ ''-tls''"

definition GetSvcName :: "Keycloak \<Rightarrow> string" where
  "GetSvcName cr = metaName (kcMeta cr) @ ''-svc''"

definition GetDiscoverySvcName :: "Keycloak \<Rightarrow> string" where
  "GetDiscoverySvcName cr = metaName (kcMeta cr) @ ''-discovery''"

definition defaultLabels :: "labels option" where
  "defaultLabels = DecorateDefaultLabels (Some Map.empty)"

section \<open>Mutate functions\<close>

definition RHBKService_Build :: "deps \<Rightarrow> Keycloak \<Rightarrow> Service \<Rightarrow> goerror + Service" where
  "RHBKService_Build d kc s =
     (let s1 = s\<lparr>
        svcMeta := (svcMeta s)\<lparr>
          metaLabels := defaultLabels,
          metaAnnotations := Some [''service.beta.openshift.io/serving-cert-secret-name''
                                     \<mapsto> GetTLSSecretName kc]\<rparr>,
        svcSpec := \<lparr>
          svcClusterIP = '''', svcPublishNotReadyAddresses = False,
          svcPorts =
            [\<lparr>spName = ManagementServicePortName, spProtocol = ProtocolTCP,
              spPort = of_nat ManagementPort, spTargetPort = IntVal (of_nat ManagementPort)\<rparr>,
             \<lparr>spName = ApplicationServicePortName, spProtocol = ProtocolTCP,
              spPort = of_nat HttpsPort, spTargetPort = IntVal (of_nat HttpsPort)\<rparr>],
          svcSelector = [''app'' \<mapsto> ''rhbk'']\<rparr>\<rparr>
      in case SetControllerReference d (kcMeta kc) (svcMeta s1) of
           Inl err \<Rightarrow> Inl err
         | Inr m \<Rightarrow> Inr (s1\<lparr>svcMeta := m\<rparr>))"

definition RHBKDiscoveryService_Build :: "deps \<Rightarrow> Keycloak \<Rightarrow> Service \<Rightarrow> goerror + Service" where
  "RHBKDiscoveryService_Build d kc s =
     (let s1 = s\<lparr>
        svcMeta := (svcMeta s)\<lparr>metaLabels := defaultLabels\<rparr>,
        svcSpec := \<lparr>
          svcClusterIP = ''None'', svcPublishNotReadyAddresses = True,
          svcPorts =
            [\<lparr>spName = ''tcp'', spProtocol = ProtocolTCP,
              spPort = of_nat DiscoveryPort, spTargetPort = IntVal (of_nat DiscoveryPort)\<rparr>],
          svcSelector = [''app'' \<mapsto> ''rhbk'']\<rparr>\<rparr>
      in case SetControllerReference d (kcMeta kc) (svcMeta s1) of
           Inl err \<Rightarrow> Inl err
         | Inr m \<Rightarrow> Inr (s1\<lparr>svcMeta := m\<rparr>))"

definition RHBKRoute_Build :: "deps \<Rightarrow> Keycloak \<Rightarrow> Route \<Rightarrow> goerror + Route" where
  "RHBKRoute_Build d kc s =
     (let hostname = (case kcNetworkConfig (kcSpec kc) of None \<Rightarrow> '''' | Some n \<Rightarrow> netHostname n);
          s1 = s\<lparr>
            rtMeta := (rtMeta s)\<lparr>metaLabels := defaultLabels\<rparr>,
            rtSpec := \<lparr>
              rtHost = hostname, rtToKind = ''Service'', rtToName = GetSvcName kc,
              rtTargetPort = StrVal ''https'', rtTermination = TLSTerminationReencrypt,
              rtInsecurePolicy = InsecureEdgeTerminationPolicyRedirect\<rparr>\<rparr>
      in case SetControllerReference d (kcMeta kc) (rtMeta s1) of
           Inl err \<Rightarrow> Inl err
         | Inr m \<Rightarrow> Inr (s1\<lparr>rtMeta := m\<rparr>))"

definition ServiceMonitor_mutateFn :: "deps \<Rightarrow> Keycloak \<Rightarrow> ServiceMonitor \<Rightarrow> goerror + ServiceMonitor" where
  "ServiceMonitor_mutateFn d kc s =
     (let s1 = s\<lparr>
        smMeta := (smMeta s)\<lparr>metaLabels := defaultLabels\<rparr>,
        smSelector := goSet defaultLabels,
        smEndpoints :=
          [\<lparr>epPort = ManagementServicePortName, epPath = ''/metrics'', epScheme = ''https'',
            epInterval = ''30s'',
            epCASecret = \<lparr>selName = GetTLSSecretName kc, selKey = ''tls.crt'', selOptional = None\<rparr>,
            epServerName = GetSvcName kc @ ''.'' @ metaNamespace (kcMeta kc) @ ''.svc''\<rparr>]\<rparr>
      in case SetControllerReference d (kcMeta kc) (smMeta s1) of
           Inl err \<Rightarrow> Inl err
         | Inr m \<Rightarrow> Inr (s1\<lparr>smMeta := m\<rparr>))"

section \<open>Creating or updating\<close>

definition zeroServiceSpec :: ServiceSpec where
  "zeroServiceSpec = \<lparr>svcClusterIP = '''', svcPublishNotReadyAddresses = False, svcPorts = [],
     svcSelector = Map.empty\<rparr>"

definition zeroRouteSpec :: RouteSpec where
  "zeroRouteSpec = \<lparr>rtHost = '''', rtToKind = '''', rtToName = '''', rtTargetPort = IntVal 0,
     rtTermination = TLSTerminationEdge, rtInsecurePolicy = InsecureEdgeTerminationPolicyNone\<rparr>"

definition RHBKService_init :: "Keycloak \<Rightarrow> Service" where
  "RHBKService_init kc =
     \<lparr>svcMeta = namedMeta (GetSvcName kc) (metaNamespace (kcMeta kc)), svcSpec = zeroServiceSpec\<rparr>"

definition RHBKService_CreateOrUpdate ::
  "deps \<Rightarrow> 'w client \<Rightarrow> Keycloak \<Rightarrow> ('w sys, goerror + Service) go" where
  "RHBKService_CreateOrUpdate d c kc =
     (let f = Inr \<circ> RHBKService_Build d kc in
      callBack (ApplyService c (RHBKService_init kc) f) (EvApplyService (RHBKService_init kc) f))"

definition RHBKDiscoveryService_init :: "Keycloak \<Rightarrow> Service" where
  "RHBKDiscoveryService_init kc =
     \<lparr>svcMeta = namedMeta (GetDiscoverySvcName kc) (metaNamespace (kcMeta kc)),
      svcSpec = zeroServiceSpec\<rparr>"

definition RHBKDiscoveryService_CreateOrUpdate ::
  "deps \<Rightarrow> 'w client \<Rightarrow> Keycloak \<Rightarrow> ('w sys, goerror + Service) go" where
  "RHBKDiscoveryService_CreateOrUpdate d c kc =
     (let f = Inr \<circ> RHBKDiscoveryService_Build d kc in
      callBack (ApplyService c (RHBKDiscoveryService_init kc) f)
        (EvApplyService (RHBKDiscoveryService_init kc) f))"

definition RHBKRoute_init :: "Keycloak \<Rightarrow> Route" where
  "RHBKRoute_init kc =
     \<lparr>rtMeta = namedMeta (metaName (kcMeta kc)) (metaNamespace (kcMeta kc)), rtSpec = zeroRouteSpec\<rparr>"

definition RHBKRoute_CreateOrUpdate ::
  "deps \<Rightarrow> 'w client \<Rightarrow> Keycloak \<Rightarrow> ('w sys, goerror + Route) go" where
  "RHBKRoute_CreateOrUpdate d c kc =
     (let f = Inr \<circ> RHBKRoute_Build d kc in
      callBack (ApplyRoute c (RHBKRoute_init kc) f) (EvApplyRoute (RHBKRoute_init kc) f))"

definition ServiceMonitor_init :: "Keycloak \<Rightarrow> ServiceMonitor" where
  "ServiceMonitor_init kc =
     \<lparr>smMeta = namedMeta (metaName (kcMeta kc) @ ''-servicemonitor'') (metaNamespace (kcMeta kc)),
      smSelector = Map.empty, smEndpoints = []\<rparr>"

definition ServiceMonitor_CreateOrUpdate ::
  "deps \<Rightarrow> 'w client \<Rightarrow> Keycloak \<Rightarrow> ('w sys, goerror + ServiceMonitor) go" where
  "ServiceMonitor_CreateOrUpdate d c kc =
     (let f = Inr \<circ> ServiceMonitor_mutateFn d kc in
      callBack (ApplyServiceMonitor c (ServiceMonitor_init kc) f)
        (EvApplyServiceMonitor (ServiceMonitor_init kc) f))"

section \<open>The contract of a mutate function\<close>

locale resource_builder =
  fixes meta :: "'o \<Rightarrow> ObjectMeta"
    and build :: "'o mutateFn"
  assumes build_identity: "build x = Inr (Inr y) \<Longrightarrow>
      metaName (meta y) = metaName (meta x) \<and> metaNamespace (meta y) = metaNamespace (meta x) \<and>
      metaResourceVersion (meta y) = metaResourceVersion (meta x)"
    and build_idem: "build x = Inr (Inr y) \<Longrightarrow> build y = Inr (Inr y)"
begin

text \<open>
  Applying the mutate function to what it produced is a fixed point reached in one step: any
  number of further reconciles, with nobody else writing, leaves the object as it is.
\<close>

lemma build_stable:
  assumes "build x = Inr (Inr y)"
  shows "((\<lambda>r. case r of Inr (Inr z) \<Rightarrow> build z | _ \<Rightarrow> r) ^^ n) (build x) = Inr (Inr y)"
  using assms by (induction n) (simp_all add: build_idem)

end

text \<open>
  The server does not store an object as it was sent: it gives it a version, fills in defaults
  and allocates values (the address of a service, the host of a route), and keeps the status
  itself. \<open>keeps z y\<close> says that \<open>y\<close> still has what the mutate function reads from an object, \<open>desired\<close>
  drops the version and the status. The interface says that what was stored, whatever the
  server filled in, is overwritten with the same desired state by the next mutation.
\<close>

locale settling_builder = resource_builder meta build
  for meta :: "'o \<Rightarrow> ObjectMeta" and build :: "'o mutateFn" +
  fixes desired :: "'o \<Rightarrow> 'o"
    and keeps :: "'o \<Rightarrow> 'o \<Rightarrow> bool"
  assumes build_settles: "build x = Inr (Inr z) \<Longrightarrow> keeps z y \<Longrightarrow>
      \<exists>z'. build y = Inr (Inr z') \<and> desired z' = desired z"

definition desiredService :: "Service \<Rightarrow> Service" where
  "desiredService s = s\<lparr>svcMeta := (svcMeta s)\<lparr>metaResourceVersion := ''''\<rparr>\<rparr>"

definition desiredRoute :: "Route \<Rightarrow> Route" where
  "desiredRoute s = s\<lparr>rtMeta := (rtMeta s)\<lparr>metaResourceVersion := ''''\<rparr>\<rparr>"

definition desiredServiceMonitor :: "ServiceMonitor \<Rightarrow> ServiceMonitor" where
  "desiredServiceMonitor s = s\<lparr>smMeta := (smMeta s)\<lparr>metaResourceVersion := ''''\<rparr>\<rparr>"

section \<open>Lemmas\<close>

lemma defaultLabels_eq: "defaultLabels = Some [''app'' \<mapsto> ''rhbk'']"
  by (simp add: defaultLabels_def DecorateDefaultLabels_def)

lemmas service_defs [build_defs] =
  RHBKService_Build_def RHBKDiscoveryService_Build_def RHBKRoute_Build_def ServiceMonitor_mutateFn_def

context owner_refs
begin

text \<open>The shared step of all idempotence proofs: setting the reference again is the identity.\<close>

lemma controller_again:
  assumes "SetControllerReference d owner m = Inr m'"
  shows "SetControllerReference d owner (m'\<lparr>metaLabels := metaLabels m\<rparr>) = Inr m'"
    and "SetControllerReference d owner (m'\<lparr>metaLabels := metaLabels m, metaAnnotations := metaAnnotations m\<rparr>) = Inr m'"
    and "metaName m' = metaName m" "metaNamespace m' = metaNamespace m"
    and "metaResourceVersion m' = metaResourceVersion m" "metaLabels m' = metaLabels m"
    and "metaAnnotations m' = metaAnnotations m"
proof -
  from controller_frame [OF assms] obtain refs where m': "m' = m\<lparr>metaOwnerReferences := refs\<rparr>" by blast
  have "m'\<lparr>metaLabels := metaLabels m\<rparr> = m'"
    "m'\<lparr>metaLabels := metaLabels m, metaAnnotations := metaAnnotations m\<rparr> = m'" by (simp_all add: m')
  with controller_idem [OF assms]
  show "SetControllerReference d owner (m'\<lparr>metaLabels := metaLabels m\<rparr>) = Inr m'"
    "SetControllerReference d owner (m'\<lparr>metaLabels := metaLabels m, metaAnnotations := metaAnnotations m\<rparr>) = Inr m'"
    by simp_all
qed (use controller_frame [OF assms] in auto)

text \<open>
  The same for the metadata as the server stored it, under another version.
\<close>

lemma controller_stored:
  assumes "SetControllerReference d owner m = Inr m'" "sameMeta m' n"
  shows "SetControllerReference d owner (n\<lparr>metaLabels := metaLabels m\<rparr>) = Inr n"
    and "SetControllerReference d owner (n\<lparr>metaLabels := metaLabels m, metaAnnotations := metaAnnotations m\<rparr>) = Inr n"
proof -
  from assms(2) obtain v where n: "n = m'\<lparr>metaResourceVersion := v\<rparr>" unfolding sameMeta_def by blast
  with controller_again [OF assms(1)]
  have "n\<lparr>metaLabels := metaLabels m\<rparr> = n"
    "n\<lparr>metaLabels := metaLabels m, metaAnnotations := metaAnnotations m\<rparr> = n"
    by (cases m'; simp)+
  with n controller_local [OF controller_idem [OF assms(1)], of n]
  show "SetControllerReference d owner (n\<lparr>metaLabels := metaLabels m\<rparr>) = Inr n"
    "SetControllerReference d owner (n\<lparr>metaLabels := metaLabels m, metaAnnotations := metaAnnotations m\<rparr>) = Inr n"
    by simp_all
qed

end

lemmas settle_simps = desiredService_def desiredRoute_def desiredServiceMonitor_def sameMeta_unversioned

sublocale owner_refs \<subseteq> svc: settling_builder svcMeta "Inr \<circ> RHBKService_Build d kc" desiredService "\<lambda>z y. sameMeta (svcMeta z) (svcMeta y)" for kc
  by unfold_locales
    (auto simp: RHBKService_Build_def Let_def settle_simps split: sum.splits dest: controller_again controller_stored)

sublocale owner_refs \<subseteq> disc: settling_builder svcMeta "Inr \<circ> RHBKDiscoveryService_Build d kc" desiredService "\<lambda>z y. sameMeta (svcMeta z) (svcMeta y)" for kc
  by unfold_locales
    (auto simp: RHBKDiscoveryService_Build_def Let_def settle_simps split: sum.splits dest: controller_again controller_stored)

sublocale owner_refs \<subseteq> route: settling_builder rtMeta "Inr \<circ> RHBKRoute_Build d kc" desiredRoute "\<lambda>z y. sameMeta (rtMeta z) (rtMeta y)" for kc
  by unfold_locales
    (auto simp: RHBKRoute_Build_def Let_def settle_simps split: sum.splits dest: controller_again controller_stored)

sublocale owner_refs \<subseteq> monitor: settling_builder smMeta "Inr \<circ> ServiceMonitor_mutateFn d kc" desiredServiceMonitor "\<lambda>z y. sameMeta (smMeta z) (smMeta y)" for kc
  by unfold_locales
    (auto simp: ServiceMonitor_mutateFn_def Let_def settle_simps split: sum.splits dest: controller_again controller_stored)

context owner_refs
begin

lemma network_rebuild:
  "RHBKService_Build d kc s = Inr s' \<Longrightarrow> RHBKService_Build d kc s' = Inr s'"
  "RHBKDiscoveryService_Build d kc s = Inr s' \<Longrightarrow> RHBKDiscoveryService_Build d kc s' = Inr s'"
  "RHBKRoute_Build d kc r = Inr r' \<Longrightarrow> RHBKRoute_Build d kc r' = Inr r'"
  "ServiceMonitor_mutateFn d kc m = Inr m' \<Longrightarrow> ServiceMonitor_mutateFn d kc m' = Inr m'"
  using svc.build_idem disc.build_idem route.build_idem monitor.build_idem by (simp_all add: comp_def)

end

text \<open>The builders succeed on the example.\<close>

lemma exampleNetwork:
  obtains s t r m where
    "RHBKService_Build refDeps exampleKeycloak (RHBKService_init exampleKeycloak) = Inr s"
    "RHBKDiscoveryService_Build refDeps exampleKeycloak (RHBKDiscoveryService_init exampleKeycloak) = Inr t"
    "RHBKRoute_Build refDeps exampleKeycloak (RHBKRoute_init exampleKeycloak) = Inr r"
    "ServiceMonitor_mutateFn refDeps exampleKeycloak (ServiceMonitor_init exampleKeycloak) = Inr m"
proof -
  have meta: "metaOwnerReferences (namedMeta n ns) = []" for n ns
    by (simp add: namedMeta_def zeroMeta_def)
  show ?thesis
    by (rule that) (simp_all add: service_defs RHBKService_init_def RHBKDiscoveryService_init_def RHBKRoute_init_def
        ServiceMonitor_init_def refDeps_def refSetController_def meta)
qed

section \<open>Properties\<close>

text \<open>
  the mutate functions of the service, the discovery service, the route and the service
  monitor are idempotent: applied to an object they have already produced they change nothing,
  so a reconcile that finds its own result has nothing to update. This holds for every
  implementation of the controller references that obeys the laws of \<open>owner_refs\<close>.
\<close>

theorem network_builders_idempotent:
  assumes "owner_refs d"
    and "RHBKService_Build d kc s = Inr s'"
    and "RHBKDiscoveryService_Build d kc t = Inr t'"
    and "RHBKRoute_Build d kc r = Inr r'"
    and "ServiceMonitor_mutateFn d kc m = Inr m'"
  shows "RHBKService_Build d kc s' = Inr s' \<and> RHBKDiscoveryService_Build d kc t' = Inr t' \<and>
         RHBKRoute_Build d kc r' = Inr r' \<and> ServiceMonitor_mutateFn d kc m' = Inr m'"
  using owner_refs.network_rebuild [OF assms(1)] assms(2-5) by blast

theorem network_builders_idempotent_witness:
  "\<exists>s t r m.
     RHBKService_Build refDeps exampleKeycloak (RHBKService_init exampleKeycloak) = Inr s \<and>
     RHBKDiscoveryService_Build refDeps exampleKeycloak (RHBKDiscoveryService_init exampleKeycloak) = Inr t \<and>
     RHBKRoute_Build refDeps exampleKeycloak (RHBKRoute_init exampleKeycloak) = Inr r \<and>
     ServiceMonitor_mutateFn refDeps exampleKeycloak (ServiceMonitor_init exampleKeycloak) = Inr m \<and>
     RHBKService_Build refDeps exampleKeycloak s = Inr s \<and>
     RHBKDiscoveryService_Build refDeps exampleKeycloak t = Inr t \<and>
     RHBKRoute_Build refDeps exampleKeycloak r = Inr r \<and>
     ServiceMonitor_mutateFn refDeps exampleKeycloak m = Inr m"
proof -
  obtain s t r m where b:
    "RHBKService_Build refDeps exampleKeycloak (RHBKService_init exampleKeycloak) = Inr s"
    "RHBKDiscoveryService_Build refDeps exampleKeycloak (RHBKDiscoveryService_init exampleKeycloak) = Inr t"
    "RHBKRoute_Build refDeps exampleKeycloak (RHBKRoute_init exampleKeycloak) = Inr r"
    "ServiceMonitor_mutateFn refDeps exampleKeycloak (ServiceMonitor_init exampleKeycloak) = Inr m"
    by (rule exampleNetwork)
  with network_builders_idempotent [OF owner_refs_refDeps b] show ?thesis by blast
qed

end
