(* ===== verification/Float64.thy ===== *)
theory Float64
  imports Prelude "HOL-Library.Log_Nat"
begin

text \<open>
  Go's \<^verbatim>\<open>float64\<close> arithmetic as far as \<^verbatim>\<open>sizing.go\<close> needs it. A finite double is the rational
  number it stands for; \<open>fl\<close> rounds an exact rational to the nearest number with a 53-bit
  significand, ties to even, and every operation is the exact operation followed by \<open>fl\<close>
  (IEEE 754 round-to-nearest, which the Go specification prescribes; the program has no
  product feeding a sum, so there is nothing to fuse). The exponent is unbounded: the
  intermediate results of the program lie between \<open>2 ^ -40\<close> and \<open>2 ^ 40\<close> or are 0, far from
  the overflow and subnormal ranges.

  The lemmas are the standard model of floating-point error: rounding moves a number by at
  most \<open>2 ^ -53\<close> of its size, is monotone, and leaves small integers alone.
\<close>

section \<open>Rounding\<close>

text \<open>The exponent of the last place: \<open>2 ^ 52 \<le> x / 2 powi (lsb_exp x) < 2 ^ 53\<close> for \<open>x > 0\<close>.\<close>

definition lsb_exp :: "rat \<Rightarrow> int" where
  "lsb_exp x =
     (case quotient_of x of
        (p, q) \<Rightarrow>
          let d = bitlen p - bitlen q in
          if x < 2 powi d then d - 53 else d - 52)"

definition round_even :: "rat \<Rightarrow> int" where
  "round_even y =
     (let f = \<lfloor>y\<rfloor>; r = y - of_int f in
      if r < 1 / 2 then f else if r > 1 / 2 then f + 1 else if even f then f else f + 1)"

definition fl_pos :: "rat \<Rightarrow> rat" where
  "fl_pos x = (let u = 2 powi (lsb_exp x) in of_int (round_even (x / u)) * u)"

definition fl :: "rat \<Rightarrow> rat" where
  "fl x = (if x = 0 then 0 else if 0 < x then fl_pos x else - fl_pos (- x))"

section \<open>Operations\<close>

definition fadd :: "rat \<Rightarrow> rat \<Rightarrow> rat" where "fadd x y = fl (x + y)"
definition fmul :: "rat \<Rightarrow> rat \<Rightarrow> rat" where "fmul x y = fl (x * y)"
definition fdiv :: "rat \<Rightarrow> rat \<Rightarrow> rat" where "fdiv x y = fl (x / y)"

text \<open>Conversions: \<^verbatim>\<open>float64(n)\<close> of an \<^verbatim>\<open>int32\<close> or a small \<^verbatim>\<open>int64\<close>, \<^verbatim>\<open>int64(x)\<close>, \<^verbatim>\<open>math.Ceil\<close>.\<close>

definition float_of_int :: "int \<Rightarrow> rat" where "float_of_int n = fl (of_int n)"

definition int_of_float :: "rat \<Rightarrow> int" where
  "int_of_float x = (if 0 \<le> x then \<lfloor>x\<rfloor> else - \<lfloor>- x\<rfloor>)"

definition Ceil :: "rat \<Rightarrow> rat" where "Ceil x = fl (of_int \<lceil>x\<rceil>)"

section \<open>The rounding error\<close>

lemma bitlen_bounds_rat:
  assumes "0 < p"
  shows "2 powi (bitlen p - 1) \<le> (of_int p :: rat)" and "(of_int p :: rat) < 2 powi bitlen p"
proof -
  from bitlen_bounds [OF assms] have b: "2 ^ nat (bitlen p - 1) \<le> p" "p < 2 ^ nat (bitlen p)" by auto
  have "1 \<le> bitlen p" using assms by (metis bitlen_eq_zero_iff bitlen_nonneg linorder_not_le zero_less_one_class.zero_less_one order_less_le int_one_le_iff_zero_less)
  then have e: "(2::rat) powi (bitlen p - 1) = of_int (2 ^ nat (bitlen p - 1))"
    "(2::rat) powi bitlen p = of_int (2 ^ nat (bitlen p))"
    by (simp_all add: power_int_def)
  show "2 powi (bitlen p - 1) \<le> (of_int p :: rat)" "(of_int p :: rat) < 2 powi bitlen p"
    unfolding e using b by (simp_all only: of_int_le_iff of_int_less_iff)
qed

lemma two_power_powi: "(2::rat) ^ n * 2 powi k = 2 powi (int n + k)"
  by (simp add: power_int_add)

lemma lsb_exp_bounds:
  assumes "0 < x"
  shows "2 ^ 52 * 2 powi lsb_exp x \<le> x" and "x < 2 ^ 53 * 2 powi lsb_exp x"
proof -
  obtain p q where pq: "quotient_of x = (p, q)" by fastforce
  then have x: "x = of_int p / of_int q" and q: "0 < q"
    by (simp_all add: quotient_of_div quotient_of_denom_pos)
  with assms have p: "0 < p" by (simp add: zero_less_divide_iff)
  define d where "d = bitlen p - bitlen q"
  note P = bitlen_bounds_rat [OF p] and Q = bitlen_bounds_rat [OF q]
  have q0: "0 < (of_int q :: rat)" using q by simp
  have "2 powi (d - 1) * of_int q \<le> 2 powi (d - 1) * (2 powi bitlen q :: rat)"
    using Q(2) by (intro mult_left_mono) auto
  also have "\<dots> = 2 powi (bitlen p - 1)" by (simp add: d_def power_int_add [symmetric])
  finally have lo: "2 powi (d - 1) \<le> x" using P(1) q0 by (simp add: x pos_le_divide_eq)
  have "of_int p < (2 powi (d + 1) :: rat) * 2 powi (bitlen q - 1)"
    using P(2) by (simp add: d_def power_int_add [symmetric])
  also have "\<dots> \<le> 2 powi (d + 1) * of_int q" using Q(1) by (intro mult_left_mono) auto
  finally have hi: "x < 2 powi (d + 1)" using q0 by (simp add: x pos_divide_less_eq)
  have e: "lsb_exp x = (if x < 2 powi d then d - 53 else d - 52)"
    by (simp add: lsb_exp_def pq d_def)
  show "2 ^ 52 * 2 powi lsb_exp x \<le> x" "x < 2 ^ 53 * 2 powi lsb_exp x"
    using lo hi by (auto simp only: e two_power_powi not_less add.commute split: if_split) simp_all
qed

lemma round_even_error: "\<bar>of_int (round_even y) - y\<bar> \<le> 1 / 2"
proof -
  define r where "r = y - of_int \<lfloor>y\<rfloor>"
  have "0 \<le> r" "r < 1" unfolding r_def by linarith+
  moreover have "of_int \<lfloor>y\<rfloor> - y = - r" "of_int (\<lfloor>y\<rfloor> + 1) - y = 1 - r" by (simp_all add: r_def)
  ultimately show ?thesis
    unfolding round_even_def Let_def r_def [symmetric] by (auto simp: abs_if not_less)
qed

lemma round_even_of_int [simp]: "round_even (of_int n) = n"
  by (simp add: round_even_def)

lemma round_even_mono: "x \<le> y \<Longrightarrow> round_even x \<le> round_even y"
proof -
  assume "x \<le> y"
  then have f: "\<lfloor>x\<rfloor> \<le> \<lfloor>y\<rfloor>" by (rule floor_mono)
  show ?thesis
  proof (cases "\<lfloor>x\<rfloor> = \<lfloor>y\<rfloor>")
    case True
    with \<open>x \<le> y\<close> show ?thesis by (simp add: round_even_def Let_def)
  next
    case False
    with f show ?thesis by (auto simp: round_even_def Let_def)
  qed
qed

lemma fl_0 [simp]: "fl 0 = 0"
  by (simp add: fl_def)

lemma fl_minus: "fl (- x) = - fl x"
  by (simp add: fl_def)

lemma fl_error_pos:
  assumes "0 < x"
  shows "\<bar>fl x - x\<bar> \<le> x / 2 ^ 53"
proof -
  let ?u = "2 powi lsb_exp x :: rat"
  have u: "0 < ?u" by simp
  have "fl x - x = (of_int (round_even (x / ?u)) - x / ?u) * ?u"
    using assms u by (simp add: fl_def fl_pos_def Let_def algebra_simps)
  then have "\<bar>fl x - x\<bar> = \<bar>of_int (round_even (x / ?u)) - x / ?u\<bar> * ?u"
    using u by (simp add: abs_mult)
  also have "\<dots> \<le> 1 / 2 * ?u" using u by (intro mult_right_mono round_even_error) simp
  also have "\<dots> \<le> x / 2 ^ 53" using lsb_exp_bounds(1) [OF assms] by simp
  finally show ?thesis .
qed

lemma fl_error: "\<bar>fl x - x\<bar> \<le> \<bar>x\<bar> / 2 ^ 53"
proof -
  consider "x = 0" | "0 < x" | "0 < - x" by linarith
  then show ?thesis
  proof cases
    case 3
    with fl_error_pos [OF 3] show ?thesis by (simp add: fl_minus abs_minus_commute)
  qed (use fl_error_pos in auto)
qed


section \<open>Monotonicity and exactness\<close>

lemma lsb_exp_mono:
  assumes "0 < x" and "x \<le> y"
  shows "lsb_exp x \<le> lsb_exp y"
proof (rule ccontr)
  assume "\<not> lsb_exp x \<le> lsb_exp y"
  then have "53 + lsb_exp y \<le> 52 + lsb_exp x" by simp
  then have "(2::rat) powi (53 + lsb_exp y) \<le> 2 powi (52 + lsb_exp x)"
    by (intro power_int_increasing) auto
  with lsb_exp_bounds(1) [of x] lsb_exp_bounds(2) [of y] assms show False
    by (simp add: two_power_powi [of 52, simplified] two_power_powi [of 53, simplified])
qed

lemma fl_pos_bounds:
  assumes "0 < x"
  shows "2 powi (52 + lsb_exp x) \<le> fl_pos x" and "fl_pos x \<le> 2 powi (53 + lsb_exp x)"
proof -
  let ?u = "2 powi lsb_exp x :: rat"
  have u: "0 < ?u" by simp
  have "of_int (2 ^ 52) \<le> x / ?u" "x / ?u \<le> of_int (2 ^ 53)"
    using lsb_exp_bounds [OF assms] u by (simp_all add: field_simps)
  then have "2 ^ 52 \<le> round_even (x / ?u)" "round_even (x / ?u) \<le> 2 ^ 53"
    using round_even_mono round_even_of_int by metis+
  then have "(2 ^ 52 :: rat) \<le> of_int (round_even (x / ?u))" "of_int (round_even (x / ?u)) \<le> (2 ^ 53 :: rat)"
    by (metis of_int_le_iff of_int_numeral of_int_power)+
  then have "2 ^ 52 * ?u \<le> fl_pos x" "fl_pos x \<le> 2 ^ 53 * ?u"
    unfolding fl_pos_def Let_def using u by (simp_all only: mult_right_mono less_imp_le)
  then show "2 powi (52 + lsb_exp x) \<le> fl_pos x" "fl_pos x \<le> 2 powi (53 + lsb_exp x)"
    using two_power_powi [of 52 "lsb_exp x"] two_power_powi [of 53 "lsb_exp x"] by simp_all
qed

lemma fl_pos_pos: "0 < x \<Longrightarrow> 0 < fl_pos x"
  using fl_pos_bounds(1) [of x] zero_less_power_int [of "2::rat" "52 + lsb_exp x"] by linarith

lemma fl_pos_mono:
  assumes "0 < x" and "x \<le> y"
  shows "fl_pos x \<le> fl_pos y"
proof (cases "lsb_exp x = lsb_exp y")
  case True
  have "round_even (x / 2 powi lsb_exp y) \<le> round_even (y / 2 powi lsb_exp y)"
    using assms by (intro round_even_mono divide_right_mono) auto
  then show ?thesis using True by (simp add: fl_pos_def Let_def mult_right_mono)
next
  case False
  with lsb_exp_mono [OF assms] have "(2::rat) powi (53 + lsb_exp x) \<le> 2 powi (52 + lsb_exp y)"
    by (intro power_int_increasing) auto
  with fl_pos_bounds(2) [OF assms(1)] fl_pos_bounds(1) [of y] assms show ?thesis by linarith
qed

lemma fl_mono: "x \<le> y \<Longrightarrow> fl x \<le> fl y"
  using fl_pos_mono [of x y] fl_pos_mono [of "- y" "- x"] fl_pos_pos [of y] fl_pos_pos [of "- x"]
  by (auto simp: fl_def not_less)

lemma fl_nonneg: "0 \<le> x \<Longrightarrow> 0 \<le> fl x"
  using fl_mono [of 0 x] by simp

text \<open>Integers of at most 53 bits are doubles.\<close>

lemma fl_of_nat:
  assumes "n < 2 ^ 53"
  shows "fl (of_nat n) = of_nat n"
proof (cases "n = 0")
  case False
  let ?x = "of_nat n :: rat" and ?e = "lsb_exp (of_nat n)"
  have x: "0 < ?x" using False by simp
  have "?x < of_nat (2 ^ 53)" using assms by (simp only: of_nat_less_iff)
  then have "2 powi (52 + ?e) < (2::rat) powi 53"
    using lsb_exp_bounds(1) [OF x] two_power_powi [of 52 ?e] by simp
  then have "52 + ?e < 53" using power_int_increasing [of 53 "52 + ?e" "2::rat"] by fastforce
  then have "?x / 2 powi ?e = of_int (int n * 2 ^ nat (- ?e))"
    by (simp add: power_int_def field_simps)
  then show ?thesis
    using x by (simp only: fl_def fl_pos_def Let_def round_even_of_int) (simp add: field_simps power_int_def)
qed simp

lemma fl_of_int:
  assumes "\<bar>n\<bar> < 2 ^ 53"
  shows "fl (of_int n) = of_int n"
proof (cases "0 \<le> n")
  case True
  with assms fl_of_nat [of "nat n"] show ?thesis by (simp add: nat_less_iff)
next
  case False
  with assms fl_of_nat [of "nat (- n)"] have "fl (of_int (- n)) = of_int (- n)"
    by (simp add: nat_less_iff)
  then show ?thesis by (simp add: fl_minus)
qed

text \<open>Scaling by a power of two commutes with rounding, so rounding is idempotent.\<close>

lemma lsb_exp_unique:
  assumes "2 ^ 52 * 2 powi k \<le> x" and "x < 2 ^ 53 * 2 powi k"
  shows "lsb_exp x = k"
proof -
  have "0 < (2::rat) ^ 52 * 2 powi k" by simp
  then have x: "0 < x" using assms(1) by (rule order_less_le_trans)
  have "(2::rat) powi (52 + k) < 2 powi (53 + lsb_exp x)" "(2::rat) powi (52 + lsb_exp x) < 2 powi (53 + k)"
    using assms lsb_exp_bounds [OF x] two_power_powi [of 52] two_power_powi [of 53] by simp_all
  then have "52 + k < 53 + lsb_exp x" "52 + lsb_exp x < 53 + k"
    by (auto dest: leD simp: not_le [symmetric] intro: power_int_increasing)
  then show ?thesis by simp
qed

lemma lsb_exp_scale:
  assumes "0 < x"
  shows "lsb_exp (x * 2 powi k) = lsb_exp x + k"
proof (rule lsb_exp_unique)
  have u: "0 < (2 powi k :: rat)" by simp
  show "2 ^ 52 * 2 powi (lsb_exp x + k) \<le> x * 2 powi k" "x * 2 powi k < 2 ^ 53 * 2 powi (lsb_exp x + k)"
    using lsb_exp_bounds [OF assms] u by (simp_all add: power_int_add)
qed

lemma fl_scale: "fl (x * 2 powi k) = fl x * 2 powi k"
proof -
  have pos: "fl_pos (y * 2 powi k) = fl_pos y * 2 powi k" if "0 < y" for y :: rat
    using that by (simp add: fl_pos_def Let_def lsb_exp_scale power_int_add)
  consider "x = 0" | "0 < x" | "0 < - x" by linarith
  then show ?thesis
  proof cases
    case 3
    then have "fl (- x * 2 powi k) = fl (- x) * 2 powi k"
      using pos [OF 3] by (simp add: fl_def mult_less_0_iff zero_less_mult_iff)
    then show ?thesis by (simp add: fl_minus)
  qed (simp_all add: fl_def pos)
qed

lemma fl_of_int_le:
  assumes "\<bar>n\<bar> \<le> 2 ^ 53"
  shows "fl (of_int n) = of_int n"
proof (cases "\<bar>n\<bar> = 2 ^ 53")
  case True
  have "fl (1 * 2 powi 53) = 1 * 2 powi 53" using fl_of_int [of 1] by (simp only: fl_scale) simp
  then have p: "fl (9007199254740992) = 9007199254740992" by simp
  from True consider "n = 9007199254740992" | "n = - 9007199254740992" by (auto simp: abs_if split: if_splits)
  then show ?thesis using p fl_minus [of 9007199254740992] by cases simp_all
qed (use assms fl_of_int in simp)

lemma fl_idem [simp]: "fl (fl x) = fl x"
proof -
  have pos: "fl (fl_pos y) = fl_pos y" if "0 < y" for y
  proof -
    let ?m = "round_even (y / 2 powi lsb_exp y)"
    have "of_int ?m * 2 powi lsb_exp y \<le> (2::rat) ^ 53 * 2 powi lsb_exp y"
      "0 \<le> of_int ?m * (2::rat) powi lsb_exp y"
      using fl_pos_bounds(2) [OF that] fl_pos_pos [OF that] two_power_powi [of 53 "lsb_exp y"]
      by (simp_all add: fl_pos_def Let_def)
    then have "of_int ?m \<le> (2::rat) ^ 53" "0 \<le> (of_int ?m :: rat)"
      using zero_less_power_int [of "2::rat" "lsb_exp y"]
      by (auto simp: mult_le_cancel_right zero_le_mult_iff)
    then have "\<bar>?m\<bar> \<le> 2 ^ 53"
      using of_int_le_iff [of ?m "2 ^ 53", where ?'a = rat] by simp
    then show ?thesis using fl_of_int_le [of ?m] by (simp add: fl_pos_def Let_def fl_scale)
  qed
  consider "x = 0" | "0 < x" | "0 < - x" by linarith
  then show ?thesis
  proof cases
    case 3
    then have "fl (- fl (- x)) = - fl (- x)" using pos [OF 3] fl_minus [of "fl_pos (- x)"] by (simp add: fl_def [of "- x"])
    then show ?thesis by (simp add: fl_minus)
  qed (use pos in \<open>simp_all add: fl_def [of x]\<close>)
qed

section \<open>Relative error of a computation\<close>

text \<open>\<open>near k x v\<close>: the computed \<open>x\<close> is within \<open>k\<close> half-units of the exact \<open>v \<ge> 0\<close>.\<close>

definition near :: "nat \<Rightarrow> rat \<Rightarrow> rat \<Rightarrow> bool" where
  "near k x v \<longleftrightarrow> 0 \<le> v \<and> \<bar>x - v\<bar> \<le> of_nat k * v / 2 ^ 53"

lemma near_refl [intro]: "0 \<le> v \<Longrightarrow> near 0 v v"
  by (simp add: near_def)

lemma near_weaken: "near j x v \<Longrightarrow> j \<le> k \<Longrightarrow> near k x v"
proof -
  assume n: "near j x v" and "j \<le> k"
  then have "of_nat j * v / 2 ^ 53 \<le> of_nat k * v / 2 ^ 53"
    by (intro divide_right_mono mult_right_mono) (auto simp: near_def)
  with n show ?thesis unfolding near_def by linarith
qed

lemma near_add:
  assumes "near k x v" and "near k y w"
  shows "near k (x + y) (v + w)"
proof -
  have "\<bar>(x + y) - (v + w)\<bar> \<le> \<bar>x - v\<bar> + \<bar>y - w\<bar>" by linarith
  with assms show ?thesis unfolding near_def by (simp add: algebra_simps add_divide_distrib)
qed

lemma near_scale:
  assumes "near k x v" and "0 \<le> c"
  shows "near k (x * c) (v * c)"
proof -
  have "\<bar>x * c - v * c\<bar> = \<bar>x - v\<bar> * c" using assms(2) by (simp add: left_diff_distrib [symmetric] abs_mult)
  also have "\<dots> \<le> of_nat k * v / 2 ^ 53 * c" using assms by (intro mult_right_mono) (auto simp: near_def)
  finally show ?thesis using assms by (simp add: near_def mult.assoc)
qed

lemma near_fl:
  assumes "near k x v" and "k \<le> 1000"
  shows "near (k + 2) (fl x) v"
proof -
  have v: "0 \<le> v" and e: "\<bar>x - v\<bar> \<le> of_nat k * v / 2 ^ 53" using assms(1) by (simp_all add: near_def)
  have "of_nat k * v \<le> 1000 * v" using assms(2) v by (intro mult_right_mono) auto
  then have "of_nat k * v / 2 ^ 53 \<le> v" using v by simp
  then have "\<bar>x\<bar> \<le> 2 * v" using e by linarith
  then have "\<bar>fl x - x\<bar> \<le> 2 * v / 2 ^ 53"
    using fl_error [of x] by (meson divide_right_mono order_trans zero_le_numeral zero_le_power)
  then have "\<bar>fl x - v\<bar> \<le> 2 * v / 2 ^ 53 + of_nat k * v / 2 ^ 53" using e by linarith
  then show ?thesis using v by (simp add: near_def algebra_simps add_divide_distrib)
qed

end
