(* ===== verification/Sizing.thy ===== *)
theory Sizing
  imports ApiTypes Float64
begin

text \<open>
  \<^verbatim>\<open>api/v1alpha1/sizing.go\<close>: the container resources computed from the expected load of a
  realm, and the sum of several loads. Loads and instance counts are \<^verbatim>\<open>int32\<close>, the core count
  is computed in \<^verbatim>\<open>float64\<close> (\<open>fadd\<close>, \<open>fmul\<close>, \<open>fdiv\<close> of \<open>Float64\<close>) and truncated to whole
  millicores; the sums wrap around at 32 bits.

  The reference is exact rational arithmetic: \<open>exact_cores\<close> is the load divided as the
  sizing guide says. The properties bound the distance between the two, show the cases in
  which there is none, and relate the CPU limit to the request.
\<close>

section \<open>The code\<close>

definition effectiveInstances :: "int32 option \<Rightarrow> int32" where
  "effectiveInstances instances =
     (case instances of
        None \<Rightarrow> 1
      | Some n \<Rightarrow> if 0 < sint n then n else 1)"

text \<open>One guarded \<^verbatim>\<open>cpuCores += float64(load) / (perCore * float64(inst))\<close>.\<close>

definition addLoad :: "int32 \<Rightarrow> rat \<Rightarrow> int32 \<Rightarrow> rat \<Rightarrow> rat" where
  "addLoad load perCore inst cpuCores =
     (if 0 < sint load
      then fadd cpuCores (fdiv (float_of_int (sint load)) (fmul perCore (float_of_int (sint inst))))
      else cpuCores)"

definition cpuCoresOf :: "RealmSizing \<Rightarrow> int32 \<Rightarrow> rat" where
  "cpuCoresOf r inst =
     (let c0 = 0;
          c1 = addLoad (LoginsPerSecond r) 15 inst c0;
          c2 = addLoad (ClientCredentialsGrantsPerSecond r) 120 inst c1;
          c3 = addLoad (RefreshTokenGrantsPerSecond r) 120 inst c2
      in c3)"

definition memoryLimitMB :: int where
  "memoryLimitMB =
     (let baseMemory = 1250; nonHeapMemory = 300;
          memoryLimitFloat = fdiv (float_of_int (baseMemory - nonHeapMemory)) (fl (7 / 10))
      in int_of_float (fmul (Ceil (fdiv memoryLimitFloat 10)) 10))"

definition CalculateResourceLimits :: "RealmSizing \<Rightarrow> int32 option \<Rightarrow> ResourceRequirements" where
  "CalculateResourceLimits r instances =
     (let inst = effectiveInstances instances;
          baseMemory = 1250;
          cpuCores = cpuCoresOf r inst;
          cpuRequest = int_of_float (fmul cpuCores 1000);
          cpuLimit = int_of_float (fmul (fmul cpuCores (5 / 2)) 1000);
          requests = [ResourceCPU \<mapsto> NewMilliQuantity cpuRequest DecimalSI,
                      ResourceMemory \<mapsto> NewQuantity (baseMemory * 1024 * 1024) BinarySI];
          limits = [ResourceMemory \<mapsto> NewQuantity (memoryLimitMB * 1024 * 1024) BinarySI]
      in \<lparr>rrRequests = requests,
          rrLimits = (if \<not> DisableCPULimits r
                      then limits(ResourceCPU \<mapsto> NewMilliQuantity cpuLimit DecimalSI)
                      else limits)\<rparr>)"

definition zeroSizing :: RealmSizing where
  "zeroSizing = \<lparr>LoginsPerSecond = 0, ClientCredentialsGrantsPerSecond = 0,
     RefreshTokenGrantsPerSecond = 0, CachedSessions = 0, DisableCPULimits = False\<rparr>"

definition addSizing :: "RealmSizing \<Rightarrow> RealmSizing \<Rightarrow> RealmSizing" where
  "addSizing acc s = acc
     \<lparr>LoginsPerSecond := LoginsPerSecond acc + LoginsPerSecond s,
      ClientCredentialsGrantsPerSecond :=
        ClientCredentialsGrantsPerSecond acc + ClientCredentialsGrantsPerSecond s,
      RefreshTokenGrantsPerSecond := RefreshTokenGrantsPerSecond acc + RefreshTokenGrantsPerSecond s,
      CachedSessions := CachedSessions acc + CachedSessions s\<rparr>"

fun SumSizing_loop :: "RealmSizing option list \<Rightarrow> RealmSizing option \<Rightarrow> RealmSizing \<Rightarrow> RealmSizing" where
  "SumSizing_loop [] defaultSizing acc = acc"
| "SumSizing_loop (s # rest) defaultSizing acc =
     SumSizing_loop rest defaultSizing
       (case s of
          None \<Rightarrow> (case defaultSizing of None \<Rightarrow> acc | Some dflt \<Rightarrow> addSizing acc dflt)
        | Some s' \<Rightarrow> addSizing acc s')"

definition SumSizing :: "RealmSizing option list \<Rightarrow> RealmSizing option \<Rightarrow> RealmSizing" where
  "SumSizing sizings defaultSizing = SumSizing_loop sizings defaultSizing zeroSizing"

section \<open>The exact reference\<close>

definition exact_load :: "int32 \<Rightarrow> rat" where
  "exact_load w = of_int (max 0 (sint w))"

definition exact_cores :: "RealmSizing \<Rightarrow> int32 \<Rightarrow> rat" where
  "exact_cores r inst =
     (exact_load (LoginsPerSecond r) / 15
      + exact_load (ClientCredentialsGrantsPerSecond r) / 120
      + exact_load (RefreshTokenGrantsPerSecond r) / 120) / of_int (sint inst)"

text \<open>The sizings that count: a missing one stands for the default, if there is one.\<close>

definition effectiveSizings :: "RealmSizing option list \<Rightarrow> RealmSizing option \<Rightarrow> RealmSizing list" where
  "effectiveSizings sizings dflt =
     List.map_filter (\<lambda>s. case s of None \<Rightarrow> dflt | Some s' \<Rightarrow> Some s') sizings"

section \<open>Lemmas\<close>

declare of_int_sint [simp del]

lemma sint_int32_bounds: "- (2 ^ 31) \<le> sint (w :: int32)" "sint (w :: int32) < 2 ^ 31"
  using sint_ge [of w] sint_lt [of w] by simp_all

lemma float_of_int32: "float_of_int (sint (w :: int32)) = of_int (sint w)"
  unfolding float_of_int_def by (rule fl_of_int) (use sint_int32_bounds [of w] in \<open>simp add: abs_if\<close>)

lemma effectiveInstances_pos: "0 < sint (effectiveInstances i)"
  by (simp add: effectiveInstances_def split: option.split)

text \<open>The product in the denominator is exact: 120 times an \<^verbatim>\<open>int32\<close> fits in 53 bits.\<close>

lemma denominator_exact:
  assumes "0 \<le> p" "p \<le> 120" and "0 < sint (inst :: int32)"
  shows "fmul (of_int p) (float_of_int (sint inst)) = of_int (p * sint inst)"
proof -
  have "p * sint inst \<le> 120 * 2 ^ 31"
    using assms sint_int32_bounds [of inst] by (intro mult_mono) auto
  moreover have "0 \<le> p * sint inst" using assms by simp
  ultimately have "\<bar>p * sint inst\<bar> < 2 ^ 53" by simp
  then show ?thesis using fl_of_int [of "p * sint inst"] by (simp add: fmul_def float_of_int32)
qed

lemma addLoad_exact:
  assumes "0 < p" "p \<le> 120" and "0 < sint inst"
  shows "addLoad load (of_int p) inst c =
    (if 0 < sint load then fl (c + fl (of_int (sint load) / of_int (p * sint inst))) else c)"
  using denominator_exact [of p inst] assms
  by (simp add: addLoad_def fadd_def fdiv_def float_of_int32)

lemma near_addLoad:
  assumes "0 < p" "p \<le> 120" and "0 < sint inst" and "near k c v" and "2 \<le> k" "k \<le> 100"
  shows "near (k + 2) (addLoad load (of_int p) inst c) (v + exact_load load / of_int (p * sint inst))"
proof (cases "0 < sint load")
  case True
  let ?q = "of_int (sint load) / of_int (p * sint inst) :: rat"
  have "0 \<le> ?q" using True assms by simp
  from near_fl [OF near_refl [OF this]] have "near 2 (fl ?q) ?q" by (simp add: numeral_2_eq_2)
  then have "near k (fl ?q) ?q" using assms(5) by (rule near_weaken)
  with assms True show ?thesis
    using near_fl [OF near_add [OF assms(4)], of "fl ?q" ?q]
    by (simp add: addLoad_exact exact_load_def)
next
  case False
  with assms show ?thesis
    using near_weaken [OF assms(4), of "k + 2"] by (simp add: addLoad_exact exact_load_def)
qed

lemma cpuCoresOf_near:
  assumes "0 < sint inst"
  shows "near 8 (cpuCoresOf r inst) (exact_cores r inst)"
proof -
  have n0: "near 2 0 0" by (simp add: near_def)
  have "near 4 (addLoad (LoginsPerSecond r) 15 inst 0) (0 + exact_load (LoginsPerSecond r) / of_int (15 * sint inst))"
    using near_addLoad [of 15 inst 2 0 0] n0 assms by simp
  from near_addLoad [of 120, OF _ _ assms this]
  have "near 6 (addLoad (ClientCredentialsGrantsPerSecond r) 120 inst (addLoad (LoginsPerSecond r) 15 inst 0))
     (0 + exact_load (LoginsPerSecond r) / of_int (15 * sint inst)
        + exact_load (ClientCredentialsGrantsPerSecond r) / of_int (120 * sint inst))" by simp
  from near_addLoad [of 120, OF _ _ assms this, of "RefreshTokenGrantsPerSecond r"]
  show ?thesis by (simp add: cpuCoresOf_def exact_cores_def Let_def add_divide_distrib)
qed

lemma exact_cores_bounds:
  assumes "0 < sint inst"
  shows "0 \<le> exact_cores r inst" and "12 * exact_cores r inst \<le> 2 ^ 31"
proof -
  have l: "0 \<le> exact_load w" "exact_load w \<le> 2 ^ 31" for w
  proof -
    have "of_int (max 0 (sint w)) \<le> (of_int (2 ^ 31) :: rat)"
      using sint_int32_bounds(2) [of w] by (simp only: of_int_le_iff) simp
    then show "0 \<le> exact_load w" "exact_load w \<le> 2 ^ 31" by (simp_all add: exact_load_def)
  qed
  have i: "1 \<le> (of_int (sint inst) :: rat)" using assms by (simp only: of_int_1_le_iff)
  let ?s = "exact_load (LoginsPerSecond r) / 15 + exact_load (ClientCredentialsGrantsPerSecond r) / 120
      + exact_load (RefreshTokenGrantsPerSecond r) / 120"
  have s: "0 \<le> ?s" "12 * ?s \<le> 2 ^ 31"
    using l [of "LoginsPerSecond r"] l [of "ClientCredentialsGrantsPerSecond r"]
      l [of "RefreshTokenGrantsPerSecond r"] by (auto simp: field_simps)
  have e: "exact_cores r inst = ?s / of_int (sint inst)" by (simp add: exact_cores_def)
  have "?s / of_int (sint inst) \<le> ?s / 1" using s(1) i by (intro divide_left_mono) auto
  then have "exact_cores r inst \<le> ?s" by (simp only: e div_by_1)
  then have "12 * exact_cores r inst \<le> 12 * ?s" by (rule mult_left_mono) simp
  then show "12 * exact_cores r inst \<le> 2 ^ 31" using s(2) by (rule order_trans)
  show "0 \<le> exact_cores r inst" using s(1) assms by (simp add: exact_cores_def)
qed

text \<open>Truncation of a computed value that is close to an exact one.\<close>

lemma near_truncate:
  assumes "near k x v" and "of_nat k * v / 2 ^ 53 \<le> 1 / 1000"
  shows "\<bar>of_int (int_of_float x) - v\<bar> < 1 + 1 / 1000"
proof -
  have e: "\<bar>x - v\<bar> \<le> 1 / 1000" and v: "0 \<le> v" using assms unfolding near_def by linarith+
  have "\<bar>of_int (int_of_float x) - x\<bar> < 1"
    unfolding int_of_float_def by (auto simp: abs_if) linarith+
  then show ?thesis using e by linarith
qed

text \<open>
  The exact number of millicores is a fraction with the denominator three times the number of instances.
  A computed value that is closer to a fraction than one part of its denominator is truncated to the
  whole number below the fraction; it can be one less only if the fraction is itself whole.
\<close>

lemma quotient_truncate:
  assumes "0 < d" and "0 \<le> n" and "\<bar>y - of_int n / of_int d\<bar> < 1 / (of_int d :: rat)"
  shows "of_int (int_of_float y) \<le> (of_int n / of_int d :: rat)" "(of_int n / of_int d :: rat) \<le> of_int (int_of_float y) + 1"
proof -
  have d: "0 < (of_int d :: rat)" using assms(1) by simp
  let ?k = "int_of_float y"
  have b: "y * of_int d < of_int n + 1" "of_int n - 1 < y * of_int d"
    using assms(3) d by (simp_all add: abs_less_iff field_simps)
  have "of_int ?k * of_int d < (of_int n + 1 :: rat) \<and> of_int n - 1 < (of_int (?k + 1) * of_int d :: rat)"
  proof (cases "0 \<le> y")
    case True
    then have "of_int ?k \<le> y" "y \<le> of_int (?k + 1)" using floor_correct [of y] by (simp_all add: int_of_float_def)
    then have "of_int ?k * of_int d \<le> y * of_int d" "y * of_int d \<le> of_int (?k + 1) * of_int d"
      using d by (simp_all only: mult_right_mono less_imp_le)
    with b show ?thesis by linarith
  next
    case False
    have "of_int n / of_int d \<ge> (0 :: rat)" using assms(2) d by simp
    moreover have "1 / of_int d \<le> (1 :: rat)" using assms(1) by simp
    ultimately have "- 1 < y" using assms(3) by linarith
    with False have "\<lfloor>- y\<rfloor> = 0" by (intro floor_unique) simp_all
    with False have k: "?k = 0" by (simp add: int_of_float_def)
    have "y * of_int d < 0" using False d by (simp add: mult_less_0_iff)
    with b(2) have "of_int n < (1 :: rat)" by linarith
    with k d assms(2) show ?thesis by simp
  qed
  then have "of_int (?k * d) < (of_int (n + 1) :: rat)" "of_int (n - 1) < (of_int ((?k + 1) * d) :: rat)"
    by (simp_all only: of_int_add of_int_diff of_int_mult of_int_1)
  then have "int_of_float y * d \<le> n" "n \<le> (int_of_float y + 1) * d" unfolding of_int_less_iff by simp_all
  then have "of_int (int_of_float y * d) \<le> (of_int n :: rat)" "(of_int n :: rat) \<le> of_int ((int_of_float y + 1) * d)"
    by (simp_all only: of_int_le_iff)
  with d show "of_int (int_of_float y) \<le> (of_int n / of_int d :: rat)" "(of_int n / of_int d :: rat) \<le> of_int (int_of_float y) + 1"
    by (simp_all add: field_simps)
qed

lemma exact_millicores:
  assumes "0 < sint inst"
  obtains m where "1000 * exact_cores r inst = of_int m / of_int (3 * sint inst)" "0 \<le> m" "m \<le> 2 ^ 40"
proof -
  let ?l = "\<lambda>w :: int32. max 0 (sint w)"
  let ?m = "200 * ?l (LoginsPerSecond r) + 25 * (?l (ClientCredentialsGrantsPerSecond r) + ?l (RefreshTokenGrantsPerSecond r))"
  have "0 \<le> ?m" by simp
  moreover have "?l w \<le> 2 ^ 31" for w using sint_int32_bounds [of w] by simp
  then have "?m \<le> 200 * 2 ^ 31 + 25 * (2 ^ 31 + 2 ^ 31)" by (intro add_mono mult_left_mono) auto
  then have "?m \<le> 2 ^ 40" by simp
  moreover have "1000 * exact_cores r inst = of_int ?m / of_int (3 * sint inst)"
    using assms by (simp add: exact_cores_def exact_load_def field_simps)
  ultimately show ?thesis using that by blast
qed

lemma memoryLimitMB_value: "memoryLimitMB = 1360"
proof -
  let ?d = "fl (7 / 10)"
  have "\<bar>?d - 7 / 10\<bar> \<le> 1 / 10000" using fl_error [of "7 / 10"] by simp
  then have d: "6999 / 10000 \<le> ?d" "?d \<le> 7001 / 10000" by linarith+
  have m: "13569 / 10 \<le> 950 / ?d" "950 / ?d \<le> 13574 / 10"
    using d by (auto simp: field_simps)
  have f: "\<bar>fl x - x\<bar> \<le> 1 / 100" if "0 \<le> x" "x \<le> 2000" for x
  proof -
    have "\<bar>x\<bar> / 2 ^ 53 \<le> 1 / 100" using that by simp
    with fl_error [of x] show ?thesis by linarith
  qed
  let ?m = "fl (950 / ?d)"
  have "135 < ?m / 10" "?m / 10 \<le> 1358 / 10" using f [of "950 / ?d"] m by linarith+
  then have "135 < fl (?m / 10)" "fl (?m / 10) \<le> 136"
    using f [of "?m / 10"] m f [of "950 / ?d"] by linarith+
  then have "\<lceil>fl (?m / 10)\<rceil> = 136" by (simp add: ceiling_eq_iff)
  moreover have "fl 136 = 136" "fl 1360 = 1360" "fl 950 = 950"
    using fl_of_int [of 136] fl_of_int [of 1360] fl_of_int [of 950] by simp_all
  ultimately show ?thesis
    by (simp add: memoryLimitMB_def Let_def fdiv_def fmul_def Ceil_def float_of_int_def int_of_float_def)
qed

lemma fl_half_int:
  assumes "\<bar>n\<bar> < 2 ^ 53"
  shows "fl (of_int n / 2) = of_int n / 2"
  using fl_scale [of "of_int n" "- 1"] fl_of_int [OF assms] by (simp add: power_int_def)

lemma addLoad_mono:
  assumes "0 < p" "p \<le> 120" and "0 < sint inst" and "sint l \<le> sint l'" and "c \<le> c'" and "fl c' = c'"
  shows "addLoad l (of_int p) inst c \<le> addLoad l' (of_int p) inst c'"
proof -
  let ?q = "\<lambda>l. of_int (sint l) / of_int (p * sint inst) :: rat"
  have q: "?q l \<le> ?q l'" using assms by (intro divide_right_mono) auto
  have "fl (c + fl (?q l)) \<le> fl (c' + fl (?q l'))" 
    using add_mono [OF assms(5) fl_mono [OF q]] by (rule fl_mono)
  moreover have "c \<le> fl (c' + fl (?q l'))" if "0 < sint l'"
  proof -
    have "0 \<le> fl (?q l')" using that assms by (intro fl_nonneg) simp
    then have "fl c' \<le> fl (c' + fl (?q l'))" by (intro fl_mono) simp
    with assms(5,6) show ?thesis by simp
  qed
  ultimately show ?thesis using assms by (auto simp: addLoad_exact)
qed

lemma addLoad_double: "fl c = c \<Longrightarrow> fl (addLoad l p inst c) = addLoad l p inst c"
  by (simp add: addLoad_def fadd_def)

lemma cpuCoresOf_double: "fl (cpuCoresOf r inst) = cpuCoresOf r inst"
  by (simp add: cpuCoresOf_def Let_def addLoad_double)

lemma cpuCoresOf_nonneg:
  assumes "0 < sint inst"
  shows "0 \<le> cpuCoresOf r inst"
proof -
  note n = cpuCoresOf_near [OF assms, of r] and b = exact_cores_bounds [OF assms, of r]
  have "8 * exact_cores r inst / 2 ^ 53 \<le> exact_cores r inst" using b(1) by simp
  with n show ?thesis unfolding near_def by (simp only: of_nat_numeral) linarith
qed

lemma cpuCoresOf_mono:
  assumes "0 < sint inst"
    and "sint (LoginsPerSecond r) \<le> sint (LoginsPerSecond r')"
    and "sint (ClientCredentialsGrantsPerSecond r) \<le> sint (ClientCredentialsGrantsPerSecond r')"
    and "sint (RefreshTokenGrantsPerSecond r) \<le> sint (RefreshTokenGrantsPerSecond r')"
  shows "cpuCoresOf r inst \<le> cpuCoresOf r' inst"
  unfolding cpuCoresOf_def Let_def
  using assms addLoad_mono [of 15 inst] addLoad_mono [of 120 inst] by (simp add: addLoad_double)

lemma int_of_float_mono: "0 \<le> x \<Longrightarrow> x \<le> y \<Longrightarrow> int_of_float x \<le> int_of_float y"
  by (simp add: int_of_float_def floor_mono)

lemma sint_sum_list:
  assumes "list_all (\<lambda>w. 0 \<le> sint w) ws" and "(\<Sum>w\<leftarrow>ws. sint w) < 2 ^ 31"
  shows "sint (sum_list ws :: int32) = (\<Sum>w\<leftarrow>ws. sint w)"
  using assms
proof (induction ws)
  case (Cons a ws)
  have "0 \<le> (\<Sum>w\<leftarrow>ws. sint w)" using Cons.prems(1) by (intro sum_list_nonneg) (auto simp: list_all_iff)
  with Cons have IH: "sint (sum_list ws) = (\<Sum>w\<leftarrow>ws. sint w)" and b: "0 \<le> sint a + sint (sum_list ws)"
    "sint a + sint (sum_list ws) < 2 ^ 31" by simp_all
  have "sint (a + sum_list ws) = signed_take_bit 31 (sint a + sint (sum_list ws))"
    using sint_word_ariths(1) [of a "sum_list ws"] by simp
  with b IH show ?case by (simp add: signed_take_bit_int_eq_self)
qed simp

lemma SumSizing_loop_field:
  assumes "f \<in> {LoginsPerSecond, ClientCredentialsGrantsPerSecond, RefreshTokenGrantsPerSecond, CachedSessions}"
  shows "f (SumSizing_loop ss dflt acc) = f acc + sum_list (map f (effectiveSizings ss dflt))"
proof -
  have add: "f (addSizing a s) = f a + f s" for a s using assms by (auto simp: addSizing_def)
  show ?thesis
  proof (induction ss arbitrary: acc)
    case (Cons s ss)
    have "effectiveSizings (s # ss) dflt =
        (case (case s of None \<Rightarrow> dflt | Some s' \<Rightarrow> Some s') of
           None \<Rightarrow> effectiveSizings ss dflt | Some x \<Rightarrow> x # effectiveSizings ss dflt)"
      by (simp add: effectiveSizings_def List.map_filter_simps split: option.split)
    with Cons show ?case by (simp add: add split: option.split)
  qed (simp add: effectiveSizings_def List.map_filter_simps)
qed

lemma SumSizing_loop_DisableCPULimits:
  "DisableCPULimits (SumSizing_loop ss dflt acc) = DisableCPULimits acc"
  by (induction ss arbitrary: acc) (auto simp: addSizing_def split: option.split)

text \<open>Loads that are a whole number of cores.\<close>

lemma whole_load_bound:
  assumes "0 < (p::int)" and "sint (l :: int32) = p * n * a" and "0 < n" and "0 \<le> a"
  shows "a < 2 ^ 31"
proof -
  have "1 \<le> p * n" using assms by (metis int_one_le_iff_zero_less mult_pos_pos)
  then have "1 * a \<le> p * n * a" using assms(4) by (rule mult_right_mono)
  then show ?thesis using sint_int32_bounds(2) [of l] assms(2) by simp
qed

lemma addLoad_whole:
  assumes "0 < p" "p \<le> 120" and "0 < sint inst" and "0 \<le> d" "0 \<le> a" "d + a < 2 ^ 40"
    and "sint l = p * sint inst * a"
  shows "addLoad l (of_int p) inst (of_int d) = of_int (d + a)"
proof (cases "a = 0")
  case False
  then have "0 < sint l" using assms by simp
  moreover have "of_int (sint l) / of_int (p * sint inst) = (of_int a :: rat)"
    using assms by (simp add: field_simps)
  moreover have "fl (of_int a) = of_int a" "fl (of_int (d + a)) = of_int (d + a)"
    using assms by (intro fl_of_int; simp)+
  ultimately show ?thesis using assms by (simp add: addLoad_exact)
qed (use assms in \<open>simp add: addLoad_exact\<close>)

lemma millicores_whole:
  assumes "0 \<le> m" and "m < 2 ^ 40"
  shows "int_of_float (fmul (of_int m) 1000) = 1000 * m"
    and "int_of_float (fmul (fmul (of_int m) (5 / 2)) 1000) = 2500 * m"
proof -
  have "fmul (of_int m) 1000 = of_int (m * 1000)"
    using fl_of_int [of "m * 1000"] assms by (simp add: fmul_def)
  then show "int_of_float (fmul (of_int m) 1000) = 1000 * m"
    using assms(1) by (simp only: int_of_float_def floor_of_int of_int_0_le_iff) simp
  have "fmul (of_int m) (5 / 2) = of_int (5 * m) / 2"
    using fl_half_int [of "5 * m"] assms by (simp add: fmul_def mult.commute)
  moreover have "fmul (of_int (5 * m) / 2) 1000 = of_int (m * 2500)"
    using fl_of_int [of "m * 2500"] assms by (simp add: fmul_def mult.commute)
  ultimately have "fmul (fmul (of_int m) (5 / 2)) 1000 = of_int (m * 2500)" by (simp only:)
  then show "int_of_float (fmul (fmul (of_int m) (5 / 2)) 1000) = 2500 * m"
    using assms(1) by (simp only: int_of_float_def floor_of_int of_int_0_le_iff) simp
qed

section \<open>Properties\<close>

text \<open>
  C32: for every load and instance count, the CPU request computed in floating point is within one
  millicore of the exact one, and never above it. The exact request is 1000 times the cores of the
  sizing guide (one per 15 logins, 120 client grants or 120 refreshes a second), divided among the
  instances (an absent or non-positive count counting as 1). So the request is the exact number
  rounded down; when that is a whole number, it may be one less, but no more.
\<close>

theorem CalculateResourceLimits_cpu_request:
  "\<exists>q. rrRequests (CalculateResourceLimits r i) ResourceCPU = Some (NewMilliQuantity q DecimalSI) \<and>
       of_int q \<le> 1000 * exact_cores r (effectiveInstances i) \<and>
       1000 * exact_cores r (effectiveInstances i) \<le> of_int q + 1"
proof -
  let ?n = "effectiveInstances i"
  note p = effectiveInstances_pos [of i]
  obtain m where m: "1000 * exact_cores r ?n = of_int m / of_int (3 * sint ?n)" "0 \<le> m" "m \<le> 2 ^ 40"
    by (rule exact_millicores [OF p])
  have "near 10 (fmul (cpuCoresOf r ?n) 1000) (of_int m / of_int (3 * sint ?n))"
    using near_fl [OF near_scale [OF cpuCoresOf_near [OF p]], of 1000 r] m(1) by (simp add: fmul_def mult.commute)
  then have "\<bar>fmul (cpuCoresOf r ?n) 1000 - of_int m / of_int (3 * sint ?n)\<bar> \<le> 10 * of_int m / 2 ^ 53 / of_int (3 * sint ?n)"
    by (simp add: near_def)
  also have "10 * of_int m / 2 ^ 53 / of_int (3 * sint ?n) < 1 / (of_int (3 * sint ?n) :: rat)"
    using of_int_le_iff [of m "2 ^ 40", where ?'a = rat] m(3) p by (intro divide_strict_right_mono) simp_all
  finally have c: "\<bar>fmul (cpuCoresOf r ?n) 1000 - of_int m / of_int (3 * sint ?n)\<bar> < 1 / of_int (3 * sint ?n)" .
  have "0 < 3 * sint ?n" using p by simp
  from quotient_truncate [OF this m(2) c] m(1) show ?thesis by (simp add: CalculateResourceLimits_def Let_def)
qed

text \<open>
  the CPU limit is present exactly when CPU limits are not disabled; it is then at least
  the request, and within 1.001 millicores of 2.5 times the exact load.
\<close>

theorem CalculateResourceLimits_cpu_limit:
  "if DisableCPULimits r then rrLimits (CalculateResourceLimits r i) ResourceCPU = None
   else (\<exists>q l. rrRequests (CalculateResourceLimits r i) ResourceCPU = Some (NewMilliQuantity q DecimalSI) \<and>
           rrLimits (CalculateResourceLimits r i) ResourceCPU = Some (NewMilliQuantity l DecimalSI) \<and>
           q \<le> l \<and> \<bar>of_int l - 2500 * exact_cores r (effectiveInstances i)\<bar> < 1 + 1 / (1000 :: rat))"
proof (cases "DisableCPULimits r")
  case True
  then show ?thesis by (simp add: CalculateResourceLimits_def Let_def)
next
  case False
  let ?n = "effectiveInstances i" and ?c = "cpuCoresOf r (effectiveInstances i)"
  note p = effectiveInstances_pos [of i] and b = exact_cores_bounds [OF effectiveInstances_pos, of r i]
  have "near 10 (fmul ?c (5 / 2)) (exact_cores r ?n * (5 / 2))"
    using near_fl [OF near_scale [OF cpuCoresOf_near [OF p]], of "5 / 2"] by (simp add: fmul_def)
  from near_fl [OF near_scale [OF this, of 1000]]
  have n: "near 12 (fmul (fmul ?c (5 / 2)) 1000) (exact_cores r ?n * (5 / 2) * 1000)"
    by (simp add: fmul_def)
  have "of_nat 12 * (exact_cores r ?n * (5 / 2) * 1000) / 2 ^ 53 \<le> 1 / 1000" using b by simp
  from near_truncate [OF n this]
  have l: "\<bar>of_int (int_of_float (fmul (fmul ?c (5 / 2)) 1000)) - 2500 * exact_cores r ?n\<bar> < 1 + 1 / 1000"
    by (simp add: mult.commute)
  have c: "0 \<le> ?c" using cpuCoresOf_nonneg [OF p] .
  have "fl ?c \<le> fl (?c * (5 / 2))" using c by (intro fl_mono) simp
  then have "?c * 1000 \<le> fmul ?c (5 / 2) * 1000" by (simp add: cpuCoresOf_double fmul_def)
  then have "fmul ?c 1000 \<le> fmul (fmul ?c (5 / 2)) 1000"
    by (simp only: fmul_def [of _ 1000] fl_mono)
  then have "int_of_float (fmul ?c 1000) \<le> int_of_float (fmul (fmul ?c (5 / 2)) 1000)"
    using c by (intro int_of_float_mono) (auto simp: fmul_def intro: fl_nonneg)
  with l False show ?thesis by (simp add: CalculateResourceLimits_def Let_def)
qed

text \<open>
  C33: a load that fills whole cores on every instance is converted without any rounding: the
  request is 1000 and the limit 2500 millicores per core.
\<close>

theorem CalculateResourceLimits_exact:
  assumes "n = sint (effectiveInstances i)" and "0 \<le> a" "0 \<le> b" "0 \<le> c"
    and "sint (LoginsPerSecond r) = 15 * n * a"
    and "sint (ClientCredentialsGrantsPerSecond r) = 120 * n * b"
    and "sint (RefreshTokenGrantsPerSecond r) = 120 * n * c"
  shows "rrRequests (CalculateResourceLimits r i) ResourceCPU =
           Some (NewMilliQuantity (1000 * (a + b + c)) DecimalSI) \<and>
         rrLimits (CalculateResourceLimits r i) ResourceCPU =
           (if DisableCPULimits r then None else Some (NewMilliQuantity (2500 * (a + b + c)) DecimalSI))"
proof -
  note p = effectiveInstances_pos [of i]
  let ?n = "effectiveInstances i"
  have a: "a < 2 ^ 31" "b < 2 ^ 31" "c < 2 ^ 31"
    using whole_load_bound [of 15 "LoginsPerSecond r" n a] whole_load_bound [of 120 _ n] assms p by auto
  have cores: "cpuCoresOf r ?n = of_int (a + b + c)"
    using assms p a addLoad_whole [of 15 ?n 0 a "LoginsPerSecond r"]
      addLoad_whole [of 120 ?n a b "ClientCredentialsGrantsPerSecond r"]
      addLoad_whole [of 120 ?n "a + b" c "RefreshTokenGrantsPerSecond r"]
    by (simp add: cpuCoresOf_def Let_def)
  have "0 \<le> a + b + c" "a + b + c < 2 ^ 40" using assms a by simp_all
  from millicores_whole [OF this] show ?thesis
    by (simp add: CalculateResourceLimits_def Let_def cores del: of_int_add)
qed

text \<open>
  more load on any of the three axes never lowers the CPU request.
\<close>

theorem CalculateResourceLimits_mono:
  assumes "sint (LoginsPerSecond r) \<le> sint (LoginsPerSecond r')"
    and "sint (ClientCredentialsGrantsPerSecond r) \<le> sint (ClientCredentialsGrantsPerSecond r')"
    and "sint (RefreshTokenGrantsPerSecond r) \<le> sint (RefreshTokenGrantsPerSecond r')"
    and "rrRequests (CalculateResourceLimits r i) ResourceCPU = Some (NewMilliQuantity q DecimalSI)"
    and "rrRequests (CalculateResourceLimits r' i) ResourceCPU = Some (NewMilliQuantity q' DecimalSI)"
  shows "q \<le> q'"
proof -
  note p = effectiveInstances_pos [of i]
  have "0 \<le> cpuCoresOf r (effectiveInstances i)" using cpuCoresOf_nonneg [OF p] .
  moreover have "cpuCoresOf r (effectiveInstances i) \<le> cpuCoresOf r' (effectiveInstances i)"
    using cpuCoresOf_mono [OF p] assms(1-3) by blast
  ultimately have "int_of_float (fmul (cpuCoresOf r (effectiveInstances i)) 1000)
      \<le> int_of_float (fmul (cpuCoresOf r' (effectiveInstances i)) 1000)"
    by (intro int_of_float_mono) (auto simp: fmul_def intro: fl_nonneg fl_mono)
  with assms(4,5) show ?thesis by (simp add: CalculateResourceLimits_def Let_def)
qed

text \<open>
  memory does not depend on the sizing: 1250 MiB are requested and 1360 MiB are the limit,
  whatever the load, the cached sessions and the instance count.
\<close>

theorem CalculateResourceLimits_memory:
  "rrRequests (CalculateResourceLimits r i) ResourceMemory = Some (NewQuantity (1250 * 1024 * 1024) BinarySI) \<and>
   rrLimits (CalculateResourceLimits r i) ResourceMemory = Some (NewQuantity (1360 * 1024 * 1024) BinarySI)"
  by (simp add: CalculateResourceLimits_def Let_def memoryLimitMB_value)

text \<open>
  \<open>SumSizing\<close> adds up, field by field and modulo \<open>2 ^ 32\<close>, the given sizings with the
  default in the place of the missing ones; without overflow the signed value of a field is
  the mathematical sum. The flag that disables CPU limits is not carried over.
\<close>

theorem SumSizing_sums:
  assumes "f \<in> {LoginsPerSecond, ClientCredentialsGrantsPerSecond, RefreshTokenGrantsPerSecond, CachedSessions}"
  shows "f (SumSizing ss dflt) = sum_list (map f (effectiveSizings ss dflt)) \<and>
    (list_all (\<lambda>s. 0 \<le> sint (f s)) (effectiveSizings ss dflt) \<and>
       (\<Sum>s\<leftarrow>effectiveSizings ss dflt. sint (f s)) < 2 ^ 31
     \<longrightarrow> sint (f (SumSizing ss dflt)) = (\<Sum>s\<leftarrow>effectiveSizings ss dflt. sint (f s))) \<and>
    \<not> DisableCPULimits (SumSizing ss dflt)"
proof -
  have "f zeroSizing = 0" using assms by (auto simp: zeroSizing_def)
  then have sum: "f (SumSizing ss dflt) = sum_list (map f (effectiveSizings ss dflt))"
    using SumSizing_loop_field [OF assms] by (simp add: SumSizing_def)
  have "\<not> DisableCPULimits (SumSizing ss dflt)"
    by (simp add: SumSizing_def SumSizing_loop_DisableCPULimits zeroSizing_def)
  then show ?thesis
    using sum sint_sum_list [of "map f (effectiveSizings ss dflt)"] by (simp add: list_all_iff comp_def)
qed


section \<open>Witnesses\<close>

definition exampleSizing :: RealmSizing where
  "exampleSizing = \<lparr>LoginsPerSecond = 45, ClientCredentialsGrantsPerSecond = 360,
     RefreshTokenGrantsPerSecond = 360, CachedSessions = 0, DisableCPULimits = False\<rparr>"

text \<open>The example of the sizing guide on three instances: three cores, 7.5 at most.\<close>

lemma CalculateResourceLimits_exact_witness:
  "rrRequests (CalculateResourceLimits exampleSizing (Some 3)) ResourceCPU = Some (NewMilliQuantity 3000 DecimalSI) \<and>
   rrLimits (CalculateResourceLimits exampleSizing (Some 3)) ResourceCPU = Some (NewMilliQuantity 7500 DecimalSI)"
  using CalculateResourceLimits_exact [of 3 "Some 3" 1 1 1 exampleSizing]
  by (simp add: exampleSizing_def effectiveInstances_def)

lemma CalculateResourceLimits_mono_witness:
  "\<exists>q q'. rrRequests (CalculateResourceLimits zeroSizing None) ResourceCPU = Some (NewMilliQuantity q DecimalSI) \<and>
     rrRequests (CalculateResourceLimits exampleSizing None) ResourceCPU = Some (NewMilliQuantity q' DecimalSI) \<and> q \<le> q'"
  using CalculateResourceLimits_mono [of zeroSizing exampleSizing None]
  by (simp add: exampleSizing_def zeroSizing_def CalculateResourceLimits_def Let_def)

lemma SumSizing_sums_witness:
  "sint (LoginsPerSecond (SumSizing [None, Some exampleSizing] (Some exampleSizing))) = 90"
  using SumSizing_sums [of LoginsPerSecond "[None, Some exampleSizing]" "Some exampleSizing"]
  by (simp add: effectiveSizings_def List.map_filter_simps exampleSizing_def)

end
