(* ===== verification/Providers.thy ===== *)
theory Providers
  imports ApiTypes GoText
begin

text \<open>
  \<^verbatim>\<open>internal/resources/realm/providers_import_init_container.go\<close>: the init container that
  downloads the custom providers with one \<^verbatim>\<open>curl\<close>, and the name of the environment variable
  that holds the address of a provider.
\<close>

section \<open>The code\<close>

definition BusyboxImage :: string where
  "BusyboxImage = ''registry.access.redhat.com/ubi8/ubi:8.10-1088''"

definition ProvidersPATH :: string where "ProvidersPATH = ''/opt/keycloak/providers''"

text \<open>\<^verbatim>\<open>sanitized[0]\<close> of the empty string is out of range.\<close>

definition ConvertToEnvName :: "string \<Rightarrow> panic + string" where
  "ConvertToEnvName input =
     (let sanitized = ReplaceNonWord input in
      case sanitized of
        [] \<Rightarrow> Inl IndexOutOfRange
      | c # _ \<Rightarrow>
          Inr (ToUpperASCII (if is_digit_char c then CHR ''_'' # sanitized else sanitized)))"

definition providerEnv :: "string \<Rightarrow> Provider \<Rightarrow> EnvVar" where
  "providerEnv n p =
     (if soValue (provURL p) \<noteq> '''' then plainEnv n (soValue (provURL p))
      else \<lparr>envName = n, envValue = '''',
            envValueFrom = Some \<lparr>SecretKeyRef = soSecret (provURL p)\<rparr>\<rparr>)"

definition providerArg :: "string \<Rightarrow> Provider \<Rightarrow> string" where
  "providerArg n p = '' -o '' @ ProvidersPATH @ ''/'' @ provName p @ '' $('' @ n @ '')''"

fun providers_loop :: "Provider list \<Rightarrow> EnvVar list \<Rightarrow> string \<Rightarrow> panic + EnvVar list \<times> string" where
  "providers_loop [] env runArg = Inr (env, runArg)"
| "providers_loop (p # ps) env runArg =
     (case ConvertToEnvName (provName p) of
        Inl e \<Rightarrow> Inl e
      | Inr n \<Rightarrow> providers_loop ps (env @ [providerEnv n p]) (runArg @ providerArg n p))"

definition downloadRunArg :: string where
  "downloadRunArg = ''mkdir -p '' @ ProvidersPATH @ ''; curl -LJ --show-error --cacert ''
     @ TrustedCaVolumeMountPath @ ''/ca-bundle.crt''"

definition GetInitContainer :: "Keycloak \<Rightarrow> panic + Container list" where
  "GetInitContainer cr =
     (if kcProviders (kcSpec cr) = [] then Inr []
      else
        (case providers_loop (kcProviders (kcSpec cr)) [] downloadRunArg of
           Inl e \<Rightarrow> Inl e
         | Inr (env, runArg) \<Rightarrow>
             Inr [\<lparr>cName = ''fetch'', cImage = BusyboxImage, cImagePullPolicy = PullDefault,
                   cCommand = [''/bin/bash''], cArgs = [''-c'', runArg], cPorts = [], cEnv = env,
                   cResources = zeroResources, cLivenessProbe = None, cReadinessProbe = None,
                   cStartupProbe = None,
                   cVolumeMounts =
                     [\<lparr>mountName = ''providers'', mountPath = ProvidersPATH, mountReadOnly = False\<rparr>,
                      \<lparr>mountName = TrustedCaVolume, mountPath = TrustedCaVolumeMountPath,
                       mountReadOnly = False\<rparr>]\<rparr>]))"

section \<open>Lemmas\<close>

text \<open>The environment name of a provider with a non-empty name.\<close>

definition envNameOf :: "string \<Rightarrow> string" where
  "envNameOf s = (case ConvertToEnvName s of Inl _ \<Rightarrow> [] | Inr n \<Rightarrow> n)"

lemma ConvertToEnvName_cases:
  "ConvertToEnvName s = (if s = [] then Inl IndexOutOfRange else Inr (envNameOf s))"
proof (cases s)
  case (Cons c r)
  then obtain x xs where "ReplaceNonWord s = x # xs"
    by (metis ReplaceNonWord_Nil_iff list.distinct(1) neq_Nil_conv)
  with Cons show ?thesis by (simp add: ConvertToEnvName_def envNameOf_def Let_def)
qed (simp add: ConvertToEnvName_def)

lemma providers_loop_eq:
  "providers_loop ps env arg =
     (if list_all (\<lambda>p. provName p \<noteq> []) ps
      then Inr (env @ map (\<lambda>p. providerEnv (envNameOf (provName p)) p) ps,
                arg @ concat (map (\<lambda>p. providerArg (envNameOf (provName p)) p) ps))
      else Inl IndexOutOfRange)"
  by (induction ps arbitrary: env arg) (auto simp: ConvertToEnvName_cases)

lemma GetInitContainer_total:
  "list_all (\<lambda>p. provName p \<noteq> []) (kcProviders (kcSpec cr)) \<Longrightarrow> \<exists>cs. GetInitContainer cr = Inr cs"
  by (simp add: GetInitContainer_def providers_loop_eq)

lemma GetInitContainer_panic:
  "GetInitContainer cr = Inl p \<Longrightarrow>
   p = IndexOutOfRange \<and> list_ex (\<lambda>p. provName p = []) (kcProviders (kcSpec cr))"
  by (auto simp: GetInitContainer_def providers_loop_eq list_all_iff list_ex_iff split: if_splits)

lemma GetInitContainer_mounts:
  "GetInitContainer cr = Inr cs \<Longrightarrow> ic \<in> set cs \<Longrightarrow>
   mountName ` set (cVolumeMounts ic) = {''providers'', TrustedCaVolume}"
  by (auto simp: GetInitContainer_def split: if_splits sum.splits prod.splits)

section \<open>Properties\<close>

text \<open>
  converting a provider name never fails on a non-empty name, whatever its bytes: the
  result is a portable environment variable name (upper-case letters, digits and underscores,
  not starting with a digit). On the empty name the code panics.
\<close>

theorem ConvertToEnvName_valid:
  "case ConvertToEnvName s of
     Inl p \<Rightarrow> s = [] \<and> p = IndexOutOfRange
   | Inr n \<Rightarrow> s \<noteq> [] \<and> n \<noteq> [] \<and> list_all is_env_char n \<and> \<not> is_digit_char (hd n)"
proof (cases "ReplaceNonWord s")
  case Nil
  then have "s = []" by simp
  then show ?thesis by (simp add: ConvertToEnvName_def)
next
  case (Cons c r)
  then have s: "s \<noteq> []" by auto
  have w: "is_word_char c" "list_all is_word_char r"
    using ReplaceNonWord_word [of s] Cons by simp_all
  let ?n = "if is_digit_char c then CHR ''_'' # c # r else c # r"
  have u: "list_all is_word_char ?n" using w by (simp add: is_word_char_def)
  have "\<not> is_digit_char (hd (ToUpperASCII ?n))"
    using w(1) by (auto simp: ToUpperASCII_def is_digit_char_def)
  with ToUpperASCII_word [OF u] Cons s show ?thesis
    by (auto simp: ConvertToEnvName_def ToUpperASCII_def Let_def)
qed

text \<open>
  with providers that all have a name, there is exactly one init container; it runs one
  command that makes the target directory and downloads every provider, in order, to a file
  of its name from the address in its environment variable; the environment has exactly one
  entry per provider. Without providers there is no init container, and with a nameless
  provider the builder panics.
\<close>

theorem GetInitContainer_spec:
  "case GetInitContainer cr of
     Inl p \<Rightarrow> p = IndexOutOfRange \<and> list_ex (\<lambda>p. provName p = []) (kcProviders (kcSpec cr))
   | Inr cs \<Rightarrow>
       (if kcProviders (kcSpec cr) = [] then cs = []
        else \<exists>c. cs = [c] \<and>
          cEnv c = map (\<lambda>p. providerEnv (envNameOf (provName p)) p) (kcProviders (kcSpec cr)) \<and>
          cArgs c = [''-c'', ''mkdir -p /opt/keycloak/providers; curl -LJ --show-error --cacert conf/truststores/ca-bundle.crt''
             @ concat (map (\<lambda>p. '' -o /opt/keycloak/providers/'' @ provName p
                                 @ '' $('' @ envNameOf (provName p) @ '')'') (kcProviders (kcSpec cr)))])"
  by (auto simp: GetInitContainer_def providers_loop_eq downloadRunArg_def providerArg_def
      ProvidersPATH_def TrustedCaVolumeMountPath_def list_all_iff list_ex_iff)

text \<open>
  distinct providers can share an environment variable: the conversion maps every
  character outside the portable set to an underscore and ignores case, so it is not
  injective, and the container then has two entries of the same name.
\<close>

theorem ConvertToEnvName_collision:
  "\<exists>a b. a \<noteq> b \<and> a \<noteq> [] \<and> b \<noteq> [] \<and> ConvertToEnvName a = ConvertToEnvName b"
proof (intro exI conjI)
  show "''a-b'' \<noteq> ''a_b''" by simp
  show "ConvertToEnvName ''a-b'' = ConvertToEnvName ''a_b''" by code_simp
qed simp_all

end
