(* ===== verification/StatefulSetBuild.thy ===== *)
theory StatefulSetBuild
  imports Services Sizing Providers
begin

text \<open>
  \<^verbatim>\<open>internal/resources/rhbk/statefulset.go\<close>: the Keycloak workload. \<open>RHBKStatefulSet_Build\<close> is
  the mutate function; it rebuilds the whole spec from the custom resource except for the
  annotations of the pod template, which it carries over (the import controller keeps the
  rollout markers there).

  The environment is a list kept as a map by variable name: the base variables, the database
  and network settings, then the additional options, each replacing a variable of its name.
\<close>

section \<open>The code\<close>

definition RHBKImage :: string where
  "RHBKImage = ''registry.redhat.io/rhbk/keycloak-rhel9:26.0-6''"

definition GetStatefulSetName :: "Keycloak \<Rightarrow> string" where
  "GetStatefulSetName cr = metaName (kcMeta cr)"

definition getENV :: "string \<Rightarrow> SecretOption \<Rightarrow> EnvVar" where
  "getENV n selector =
     (if soSecret selector \<noteq> None
      then \<lparr>envName = n, envValue = '''', envValueFrom = Some \<lparr>SecretKeyRef = soSecret selector\<rparr>\<rparr>
      else plainEnv n (soValue selector))"

definition databaseEnv :: "PostgresDatabase \<Rightarrow> EnvVar list" where
  "databaseEnv db =
     [plainEnv ''KC_DB'' ''postgres'',
      getENV ''KC_DB_USERNAME'' (dbUser db),
      getENV ''KC_DB_PASSWORD'' (dbPassword db),
      getENV ''KC_DB_URL_HOST'' (dbHost db),
      getENV ''KC_DB_URL_PORT'' (dbPort db),
      plainEnv ''KC_DB_POOL_INITIAL_SIZE'' ''30'',
      plainEnv ''KC_DB_POOL_MIN_SIZE'' ''30'',
      plainEnv ''KC_DB_POOL_MAX_SIZE'' ''30'']"

definition networkEnv :: "NetworkConfig option \<Rightarrow> EnvVar list" where
  "networkEnv nc =
     (if (case nc of None \<Rightarrow> False | Some n \<Rightarrow> netProxy n)
      then [plainEnv ''KC_HOSTNAME_STRICT'' (FormatBool False),
            plainEnv ''KC_PROXY_HEADERS'' ''xforwarded'']
      else [plainEnv ''KC_HOSTNAME_STRICT'' (FormatBool True),
            plainEnv ''KC_HTTP_ENABLED'' (FormatBool False),
            plainEnv ''KC_PROXY_HEADERS'' ''xforwarded''])"

definition optionEnv :: "SecretOptionVar \<Rightarrow> EnvVar" where
  "optionEnv v =
     (if sovValue v \<noteq> '''' then plainEnv (sovName v) (sovValue v)
      else if sovSecret v \<noteq> None
        then \<lparr>envName = sovName v, envValue = '''', envValueFrom = Some \<lparr>SecretKeyRef = sovSecret v\<rparr>\<rparr>
      else plainEnv (sovName v) '''')"

fun addOptions :: "SecretOptionVar list \<Rightarrow> EnvVar list \<Rightarrow> EnvVar list" where
  "addOptions [] vars = vars"
| "addOptions (v # rest) vars = addOptions rest (AddOrReplaceEnv (optionEnv v) vars)"

definition DecorateENV :: "Keycloak \<Rightarrow> EnvVar list \<Rightarrow> EnvVar list" where
  "DecorateENV kc vars =
     (let vars = vars @ (case kcDatabase (kcSpec kc) of None \<Rightarrow> [] | Some db \<Rightarrow> databaseEnv db);
          vars = vars @ networkEnv (kcNetworkConfig (kcSpec kc))
      in addOptions (kcAdditionalOptions (kcSpec kc)) vars)"

definition emptyDirVolume :: "string \<Rightarrow> Volume" where
  "emptyDirVolume n =
     \<lparr>volName = n, volSource = \<lparr>vsSecret = None, vsConfigMap = None, vsEmptyDir = Some ()\<rparr>\<rparr>"

definition DecorateVolume :: "Keycloak \<Rightarrow> Volume list \<Rightarrow> Volume list" where
  "DecorateVolume kc vl =
     (case kcTrustedCABundles (kcSpec kc) of
        Some bundle \<Rightarrow>
          vl @ [\<lparr>volName = TrustedCaVolume,
                 volSource = \<lparr>vsSecret = None,
                   vsConfigMap = Some \<lparr>cmsName = bundle, cmsOptional = Some True, cmsDefaultMode = Some 420\<rparr>,
                   vsEmptyDir = None\<rparr>\<rparr>]
      | None \<Rightarrow> vl @ [emptyDirVolume TrustedCaVolume])"

definition DecorateVolumeMounts :: "VolumeMount list \<Rightarrow> VolumeMount list" where
  "DecorateVolumeMounts mounts = mounts"

definition decorateSizing :: "Keycloak \<Rightarrow> ResourceRequirements" where
  "decorateSizing kc =
     (case kcSizing (kcSpec kc) of
        None \<Rightarrow> \<lparr>rrRequests = [ResourceMemory \<mapsto> MustParse ''1700Mi''],
                 rrLimits = [ResourceMemory \<mapsto> MustParse ''2Gi'']\<rparr>
      | Some sizing \<Rightarrow> CalculateResourceLimits sizing (kcInstances (kcSpec kc)))"

definition baseEnv :: "Keycloak \<Rightarrow> string \<Rightarrow> EnvVar list" where
  "baseEnv kc hostName =
     [plainEnv ''KC_HOSTNAME'' hostName,
      plainEnv ''KC_HTTPS_PORT'' (Itoa HttpsPort),
      plainEnv ''KC_HTTP_MANAGEMENT_PORT'' (Itoa ManagementPort),
      plainEnv ''KC_HEALTH_ENABLED'' (FormatBool True),
      plainEnv ''KC_CACHE'' ''ispn'',
      plainEnv ''KC_CACHE_STACK'' ''kubernetes'',
      getENV ''KC_BOOTSTRAP_ADMIN_USERNAME'' (adminUsername (kcAdmin (kcSpec kc))),
      getENV ''KC_BOOTSTRAP_ADMIN_PASSWORD'' (adminPassword (kcAdmin (kcSpec kc))),
      plainEnv ''KC_TRUSTSTORE_PATHS''
        ''conf/truststores,/var/run/secrets/kubernetes.io/serviceaccount/ca.crt,/var/run/secrets/kubernetes.io/serviceaccount/service-ca.crt'',
      plainEnv ''KC_TRACING_SERVICE_NAME'' (metaName (kcMeta kc)),
      plainEnv ''KC_TRACING_RESOURCE_ATTRIBUTES'' (''k8s.namespace.name='' @ metaNamespace (kcMeta kc)),
      plainEnv ''KC_METRICS_ENABLED'' (FormatBool True),
      plainEnv ''KC_HTTPS_CERTIFICATE_FILE'' ''/mnt/certificates/tls.crt'',
      plainEnv ''KC_HTTPS_CERTIFICATE_KEY_FILE'' ''/mnt/certificates/tls.key'']"

definition healthProbe :: "string \<Rightarrow> int32 \<Rightarrow> int32 \<Rightarrow> Probe" where
  "healthProbe path period failures =
     \<lparr>probeHTTPGet = \<lparr>httpPath = path, httpPort = IntVal (of_nat ManagementPort), httpScheme = URISchemeHTTPS\<rparr>,
      probePeriodSeconds = period, probeFailureThreshold = failures\<rparr>"

definition rhbkContainer :: "Keycloak \<Rightarrow> string \<Rightarrow> Container" where
  "rhbkContainer kc hostName =
     \<lparr>cName = RHBKContainerName, cImage = RHBKImage, cImagePullPolicy = PullAlways, cCommand = [],
      cArgs = [''-Djgroups.dns.query='' @ GetDiscoverySvcName kc @ ''.'' @ metaNamespace (kcMeta kc),
               ''--verbose'', ''start''],
      cPorts = [\<lparr>cpName = ''https'', cpContainerPort = of_nat HttpsPort, cpProtocol = ProtocolTCP\<rparr>,
                \<lparr>cpName = ''http'', cpContainerPort = of_nat ManagementPort, cpProtocol = ProtocolTCP\<rparr>],
      cEnv = DecorateENV kc (baseEnv kc hostName),
      cResources = decorateSizing kc,
      cLivenessProbe = Some (healthProbe ''/health/live'' 10 3),
      cReadinessProbe = Some (healthProbe ''/health/ready'' 10 3),
      cStartupProbe = Some (healthProbe ''/health/started'' 1 600),
      cVolumeMounts = DecorateVolumeMounts
        [\<lparr>mountName = ''keycloak-tls-certificates'', mountPath = ''/mnt/certificates'', mountReadOnly = False\<rparr>,
         \<lparr>mountName = ''providers'', mountPath = ProvidersPATH, mountReadOnly = False\<rparr>,
         \<lparr>mountName = TrustedCaVolume, mountPath = TrustedCaVolumeMountPath, mountReadOnly = True\<rparr>]\<rparr>"

definition rhbkVolumes :: "Keycloak \<Rightarrow> Volume list" where
  "rhbkVolumes kc = DecorateVolume kc
     [\<lparr>volName = ''keycloak-tls-certificates'',
       volSource = \<lparr>vsSecret = Some \<lparr>svsSecretName = GetTLSSecretName kc, svsDefaultMode = Some 420,
                                     svsOptional = Some False\<rparr>,
                    vsConfigMap = None, vsEmptyDir = None\<rparr>\<rparr>,
      emptyDirVolume ''providers'']"

definition rhbkStatefulSetSpec ::
  "Keycloak \<Rightarrow> string \<Rightarrow> labels option \<Rightarrow> Container list \<Rightarrow> StatefulSetSpec" where
  "rhbkStatefulSetSpec kc hostName annotations initContainers =
     \<lparr>stsReplicas = kcInstances (kcSpec kc),
      stsSelector = defaultLabels,
      stsUpdateStrategyType = RollingUpdateStatefulSetStrategyType,
      stsRollingUpdatePartition = Some 0,
      stsRevisionHistoryLimit = Some 10,
      stsMinReadySeconds = 0,
      stsRetentionWhenDeleted = Some RetainPersistentVolumeClaimRetentionPolicyType,
      stsRetentionWhenScaled = Some RetainPersistentVolumeClaimRetentionPolicyType,
      stsTemplate =
        \<lparr>tplMeta = zeroMeta\<lparr>metaLabels := defaultLabels, metaAnnotations := annotations\<rparr>,
         tplSpec = \<lparr>podInitContainers = initContainers,
                    podContainers = [rhbkContainer kc hostName],
                    podVolumes = rhbkVolumes kc,
                    podRestartPolicy = RestartDefault\<rparr>\<rparr>\<rparr>"

definition RHBKStatefulSet_Build ::
  "deps \<Rightarrow> Keycloak \<Rightarrow> string \<Rightarrow> StatefulSet \<Rightarrow> panic + (goerror + StatefulSet)" where
  "RHBKStatefulSet_Build d kc hostName s =
     (case GetInitContainer kc of
        Inl p \<Rightarrow> Inl p
      | Inr initContainers \<Rightarrow>
          Inr (let s1 = s\<lparr>
                 stsMeta := (stsMeta s)\<lparr>metaLabels := defaultLabels\<rparr>,
                 stsSpec := rhbkStatefulSetSpec kc hostName
                   (metaAnnotations (tplMeta (stsTemplate (stsSpec s)))) initContainers\<rparr>
               in case SetControllerReference d (kcMeta kc) (stsMeta s1) of
                    Inl err \<Rightarrow> Inl err
                  | Inr m \<Rightarrow> Inr (s1\<lparr>stsMeta := m\<rparr>)))"

definition zeroStatefulSetSpec :: StatefulSetSpec where
  "zeroStatefulSetSpec =
     \<lparr>stsReplicas = None, stsSelector = None, stsUpdateStrategyType = DefaultUpdateStrategy,
      stsRollingUpdatePartition = None, stsRevisionHistoryLimit = None, stsMinReadySeconds = 0,
      stsRetentionWhenDeleted = None, stsRetentionWhenScaled = None,
      stsTemplate = \<lparr>tplMeta = zeroMeta,
        tplSpec = \<lparr>podInitContainers = [], podContainers = [], podVolumes = [], podRestartPolicy = RestartDefault\<rparr>\<rparr>\<rparr>"

definition RHBKStatefulSet_init :: "Keycloak \<Rightarrow> StatefulSet" where
  "RHBKStatefulSet_init kc =
     \<lparr>stsMeta = namedMeta (GetStatefulSetName kc) (metaNamespace (kcMeta kc)),
      stsSpec = zeroStatefulSetSpec, stsStatusReplicas = 0, stsStatusReadyReplicas = 0\<rparr>"

definition RHBKStatefulSet_CreateOrUpdate ::
  "deps \<Rightarrow> 'w client \<Rightarrow> Keycloak \<Rightarrow> string \<Rightarrow> ('w sys, goerror + StatefulSet) go" where
  "RHBKStatefulSet_CreateOrUpdate d c kc hostName =
     (let f = RHBKStatefulSet_Build d kc hostName in
      callBack (ApplyStatefulSet c (RHBKStatefulSet_init kc) f)
        (EvApplyStatefulSet (RHBKStatefulSet_init kc) f))"


section \<open>Lemmas\<close>

lemma addOptions_fold: "addOptions opts vars = fold AddOrReplaceEnv (map optionEnv opts) vars"
  by (induction opts arbitrary: vars) simp_all

lemma envName_getENV [simp]: "envName (getENV n s) = n"
  by (simp add: getENV_def plainEnv_def)

lemma envName_plainEnv [simp]: "envName (plainEnv n v) = n"
  by (simp add: plainEnv_def)

lemma envName_optionEnv [simp]: "envName (optionEnv v) = sovName v"
  by (simp add: optionEnv_def)

text \<open>The variables the operator sets by itself, before the additional options.\<close>

definition operatorEnv :: "Keycloak \<Rightarrow> string \<Rightarrow> EnvVar list" where
  "operatorEnv kc hostName =
     baseEnv kc hostName
       @ (case kcDatabase (kcSpec kc) of None \<Rightarrow> [] | Some db \<Rightarrow> databaseEnv db)
       @ networkEnv (kcNetworkConfig (kcSpec kc))"

lemma DecorateENV_fold:
  "DecorateENV kc (baseEnv kc hostName) =
     fold AddOrReplaceEnv (map optionEnv (kcAdditionalOptions (kcSpec kc))) (operatorEnv kc hostName)"
  by (simp add: DecorateENV_def operatorEnv_def addOptions_fold Let_def)

lemma operatorEnv_names:
  "map envName (operatorEnv kc hostName) =
     [''KC_HOSTNAME'', ''KC_HTTPS_PORT'', ''KC_HTTP_MANAGEMENT_PORT'', ''KC_HEALTH_ENABLED'', ''KC_CACHE'',
      ''KC_CACHE_STACK'', ''KC_BOOTSTRAP_ADMIN_USERNAME'', ''KC_BOOTSTRAP_ADMIN_PASSWORD'', ''KC_TRUSTSTORE_PATHS'',
      ''KC_TRACING_SERVICE_NAME'', ''KC_TRACING_RESOURCE_ATTRIBUTES'', ''KC_METRICS_ENABLED'',
      ''KC_HTTPS_CERTIFICATE_FILE'', ''KC_HTTPS_CERTIFICATE_KEY_FILE'']
     @ (if kcDatabase (kcSpec kc) = None then []
        else [''KC_DB'', ''KC_DB_USERNAME'', ''KC_DB_PASSWORD'', ''KC_DB_URL_HOST'', ''KC_DB_URL_PORT'',
              ''KC_DB_POOL_INITIAL_SIZE'', ''KC_DB_POOL_MIN_SIZE'', ''KC_DB_POOL_MAX_SIZE''])
     @ (if (case kcNetworkConfig (kcSpec kc) of None \<Rightarrow> False | Some n \<Rightarrow> netProxy n)
        then [''KC_HOSTNAME_STRICT'', ''KC_PROXY_HEADERS'']
        else [''KC_HOSTNAME_STRICT'', ''KC_HTTP_ENABLED'', ''KC_PROXY_HEADERS''])"
  by (simp add: operatorEnv_def baseEnv_def databaseEnv_def networkEnv_def split: option.split)

lemma operatorEnv_distinct: "distinct (map envName (operatorEnv kc hostName))"
  by (simp add: operatorEnv_names)

lemma find_rev_optionEnv:
  "find (\<lambda>e. envName e = n) (rev (map optionEnv opts)) =
     map_option optionEnv (find (\<lambda>v. sovName v = n) (rev opts))"
proof -
  have "find (\<lambda>e. envName e = n) (map optionEnv xs) = map_option optionEnv (find (\<lambda>v. sovName v = n) xs)" for xs
    by (induction xs) auto
  then show ?thesis by (simp add: rev_map)
qed

lemma rhbkVolumes_names:
  "map volName (rhbkVolumes kc) = [''keycloak-tls-certificates'', ''providers'', TrustedCaVolume]"
  by (simp add: rhbkVolumes_def DecorateVolume_def emptyDirVolume_def split: option.split)

lemma rhbkContainer_mounts:
  "map mountName (cVolumeMounts (rhbkContainer kc h)) = [''keycloak-tls-certificates'', ''providers'', TrustedCaVolume]"
  by (simp add: rhbkContainer_def DecorateVolumeMounts_def)

lemma RHBKStatefulSet_Build_cases:
  assumes "RHBKStatefulSet_Build d kc hostName s = Inr (Inr t)"
  obtains initContainers m where
    "GetInitContainer kc = Inr initContainers"
    "SetControllerReference d (kcMeta kc) ((stsMeta s)\<lparr>metaLabels := defaultLabels\<rparr>) = Inr m"
    "t = s\<lparr>stsMeta := m, stsSpec := rhbkStatefulSetSpec kc hostName
             (metaAnnotations (tplMeta (stsTemplate (stsSpec s)))) initContainers\<rparr>"
  using assms by (auto simp: RHBKStatefulSet_Build_def Let_def split: sum.splits)

lemma rhbkStatefulSetSpec_annotations [simp]:
  "metaAnnotations (tplMeta (stsTemplate (rhbkStatefulSetSpec kc h an ics))) = an"
  by (simp add: rhbkStatefulSetSpec_def)

text \<open>
  The mutate function reads one thing besides the metadata: the annotations of the pod
  template, where the rollout markers of the imports are.
\<close>

definition podAnnotations :: "StatefulSet \<Rightarrow> labels option" where
  "podAnnotations s = metaAnnotations (tplMeta (stsTemplate (stsSpec s)))"

definition keepsStatefulSet :: "StatefulSet \<Rightarrow> StatefulSet \<Rightarrow> bool" where
  "keepsStatefulSet z y \<longleftrightarrow> sameMeta (stsMeta z) (stsMeta y) \<and> podAnnotations y = podAnnotations z"

definition desiredStatefulSet :: "StatefulSet \<Rightarrow> StatefulSet" where
  "desiredStatefulSet s = s\<lparr>stsMeta := (stsMeta s)\<lparr>metaResourceVersion := ''''\<rparr>,
     stsStatusReplicas := 0, stsStatusReadyReplicas := 0\<rparr>"

sublocale owner_refs \<subseteq> sts: settling_builder stsMeta "RHBKStatefulSet_Build d kc hostName"
  desiredStatefulSet keepsStatefulSet for kc hostName
proof unfold_locales
  fix x z y assume "RHBKStatefulSet_Build d kc hostName x = Inr (Inr z)"
  then obtain ics m where ics: "GetInitContainer kc = Inr ics"
    and m: "SetControllerReference d (kcMeta kc) ((stsMeta x)\<lparr>metaLabels := defaultLabels\<rparr>) = Inr m"
    and z: "z = x\<lparr>stsMeta := m, stsSpec := rhbkStatefulSetSpec kc hostName
             (metaAnnotations (tplMeta (stsTemplate (stsSpec x)))) ics\<rparr>"
    by (rule RHBKStatefulSet_Build_cases)
  from controller_again [OF m] ics z
  show "RHBKStatefulSet_Build d kc hostName z = Inr (Inr z)"
    and "metaName (stsMeta z) = metaName (stsMeta x) \<and> metaNamespace (stsMeta z) = metaNamespace (stsMeta x) \<and>
         metaResourceVersion (stsMeta z) = metaResourceVersion (stsMeta x)"
    by (simp_all add: RHBKStatefulSet_Build_def)
  assume "keepsStatefulSet z y"
  with ics z controller_stored [OF m, of "stsMeta y"]
  show "\<exists>z'. RHBKStatefulSet_Build d kc hostName y = Inr (Inr z') \<and> desiredStatefulSet z' = desiredStatefulSet z"
    by (cases x; cases y) (simp add: RHBKStatefulSet_Build_def keepsStatefulSet_def podAnnotations_def
        desiredStatefulSet_def sameMeta_unversioned)
qed

context owner_refs
begin

lemma sts_rebuild:
  "RHBKStatefulSet_Build d kc h s = Inr (Inr t) \<Longrightarrow>
   RHBKStatefulSet_Build d kc h t = Inr (Inr t) \<and> metaName (stsMeta t) = metaName (stsMeta s) \<and>
   metaNamespace (stsMeta t) = metaNamespace (stsMeta s) \<and>
   metaResourceVersion (stsMeta t) = metaResourceVersion (stsMeta s)"
  using sts.build_idem sts.build_identity by blast

end

lemma exampleStatefulSet:
  "\<exists>t. RHBKStatefulSet_Build refDeps exampleKeycloak h (RHBKStatefulSet_init exampleKeycloak) = Inr (Inr t)"
proof -
  have "list_all (\<lambda>p. provName p \<noteq> []) (kcProviders (kcSpec exampleKeycloak))"
    by (simp add: exampleKeycloak_def)
  from GetInitContainer_total [OF this] obtain ics where "GetInitContainer exampleKeycloak = Inr ics" by blast
  then show ?thesis
    by (simp add: RHBKStatefulSet_Build_def RHBKStatefulSet_init_def refDeps_def refSetController_def
        namedMeta_def zeroMeta_def)
qed

section \<open>Properties\<close>

text \<open>
  C18: the environment of the Keycloak container is a map by variable name, for every custom
  resource: no name occurs twice, and looking a name up gives the last additional option of
  that name if there is one (so a user can override every variable the operator sets) and
  otherwise the variable the operator sets itself.
\<close>

theorem rhbkContainer_env:
  "distinct (map envName (cEnv (rhbkContainer kc hostName))) \<and>
   find (\<lambda>e. envName e = n) (cEnv (rhbkContainer kc hostName)) =
     (case find (\<lambda>v. sovName v = n) (rev (kcAdditionalOptions (kcSpec kc))) of
        Some v \<Rightarrow> Some (optionEnv v)
      | None \<Rightarrow> find (\<lambda>e. envName e = n)
          (baseEnv kc hostName
           @ (case kcDatabase (kcSpec kc) of None \<Rightarrow> [] | Some db \<Rightarrow> databaseEnv db)
           @ networkEnv (kcNetworkConfig (kcSpec kc))))"
proof
  show "distinct (map envName (cEnv (rhbkContainer kc hostName)))"
    by (simp add: rhbkContainer_def DecorateENV_fold env.distinct_add_all operatorEnv_distinct)
  have "find (\<lambda>e. envName e = n) (cEnv (rhbkContainer kc hostName)) =
     (case find (\<lambda>v. sovName v = n) (rev (kcAdditionalOptions (kcSpec kc))) of
        Some v \<Rightarrow> Some (optionEnv v)
      | None \<Rightarrow> find (\<lambda>e. envName e = n) (operatorEnv kc hostName))"
    by (simp add: rhbkContainer_def DecorateENV_fold env.find_add_all find_rev_optionEnv split: option.split)
  then show "find (\<lambda>e. envName e = n) (cEnv (rhbkContainer kc hostName)) =
     (case find (\<lambda>v. sovName v = n) (rev (kcAdditionalOptions (kcSpec kc))) of
        Some v \<Rightarrow> Some (optionEnv v)
      | None \<Rightarrow> find (\<lambda>e. envName e = n)
          (baseEnv kc hostName
           @ (case kcDatabase (kcSpec kc) of None \<Rightarrow> [] | Some db \<Rightarrow> databaseEnv db)
           @ networkEnv (kcNetworkConfig (kcSpec kc))))"
    unfolding operatorEnv_def .
qed

text \<open>
  in the pod that the stateful set describes, every volume mount of every container and
  init container names exactly one declared volume, and the volume names are distinct.
\<close>

theorem RHBKStatefulSet_Build_volumes:
  "case RHBKStatefulSet_Build d kc hostName s of
     Inr (Inr t) \<Rightarrow>
       (let pod = tplSpec (stsTemplate (stsSpec t)) in
        distinct (map volName (podVolumes pod)) \<and>
        list_all (\<lambda>c. mountName ` set (cVolumeMounts c) \<subseteq> volName ` set (podVolumes pod))
          (podInitContainers pod @ podContainers pod))
   | Inr (Inl e) \<Rightarrow> SetControllerReference d (kcMeta kc) ((stsMeta s)\<lparr>metaLabels := defaultLabels\<rparr>) = Inl e
   | Inl p \<Rightarrow> p = IndexOutOfRange \<and> list_ex (\<lambda>p. provName p = []) (kcProviders (kcSpec kc))"
proof (cases "GetInitContainer kc")
  case (Inl p)
  with GetInitContainer_panic [OF Inl] show ?thesis by (simp add: RHBKStatefulSet_Build_def)
next
  case (Inr ics)
  have v: "volName ` set (rhbkVolumes kc) = {''keycloak-tls-certificates'', ''providers'', TrustedCaVolume}"
    using arg_cong [OF rhbkVolumes_names [of kc], of set] by simp
  have "distinct (map volName (rhbkVolumes kc))" by (simp add: rhbkVolumes_names TrustedCaVolume_def)
  moreover have "list_all (\<lambda>c. mountName ` set (cVolumeMounts c) \<subseteq> volName ` set (rhbkVolumes kc)) ics"
    using GetInitContainer_mounts [OF Inr] by (simp add: list_all_iff v)
  moreover have "mountName ` set (cVolumeMounts (rhbkContainer kc hostName)) \<subseteq> volName ` set (rhbkVolumes kc)"
    using arg_cong [OF rhbkContainer_mounts [of kc hostName], of set] by (simp add: v)
  ultimately show ?thesis
    using Inr by (simp add: RHBKStatefulSet_Build_def rhbkStatefulSetSpec_def Let_def
        split: sum.split)
qed

text \<open>
  rebuilding the stateful set is idempotent and never forgets a rollout marker: once the
  mutate function has been applied, applying it again to the result changes nothing, the
  annotations of the pod template are the ones found in the cluster, and name, namespace and
  resource version are kept. This holds for every client-side implementation of the
  controller references that obeys the laws of \<open>owner_refs\<close>.
\<close>

theorem RHBKStatefulSet_Build_idempotent:
  assumes "owner_refs d"
    and "RHBKStatefulSet_Build d kc hostName s = Inr (Inr t)"
  shows "RHBKStatefulSet_Build d kc hostName t = Inr (Inr t) \<and>
         metaAnnotations (tplMeta (stsTemplate (stsSpec t))) = metaAnnotations (tplMeta (stsTemplate (stsSpec s))) \<and>
         metaName (stsMeta t) = metaName (stsMeta s) \<and> metaNamespace (stsMeta t) = metaNamespace (stsMeta s) \<and>
         metaResourceVersion (stsMeta t) = metaResourceVersion (stsMeta s)"
proof -
  from assms(2) have "metaAnnotations (tplMeta (stsTemplate (stsSpec t))) =
      metaAnnotations (tplMeta (stsTemplate (stsSpec s)))"
    by (rule RHBKStatefulSet_Build_cases) simp
  with owner_refs.sts_rebuild [OF assms] show ?thesis by simp
qed


theorem RHBKStatefulSet_Build_idempotent_witness:
  "\<exists>t. RHBKStatefulSet_Build refDeps exampleKeycloak ''sso.example.com'' (RHBKStatefulSet_init exampleKeycloak)
         = Inr (Inr t) \<and>
       RHBKStatefulSet_Build refDeps exampleKeycloak ''sso.example.com'' t = Inr (Inr t)"
proof -
  from exampleStatefulSet obtain t where "RHBKStatefulSet_Build refDeps exampleKeycloak ''sso.example.com''
      (RHBKStatefulSet_init exampleKeycloak) = Inr (Inr t)" by blast
  with RHBKStatefulSet_Build_idempotent [OF owner_refs_refDeps this] show ?thesis by blast
qed

end
