(* ===== verification/Protocol.thy ===== *)
theory Protocol
  imports Client
begin

text \<open>
  How a controller is specified: a step relation over phases, labelled with the calls the
  controller makes and the answers it gets. \<open>path\<close> is the runs of such a relation.
  \<open>conforms step ph m F\<close> says that program \<open>m\<close> refines it: whatever the client answers, the calls of
  \<open>m\<close> are a path from \<open>ph\<close>, and the phase that is reached admits the result (\<open>F\<close>). There is one
  refinement rule per construct of the programs.

  The interface \<open>protocol_invariant\<close> is the proof obligation of a safety property: a relation
  between the calls made so far and the phase, true at the start and kept by every step.
\<close>

section \<open>Paths\<close>

inductive path :: "('ph \<Rightarrow> event \<Rightarrow> 'ph \<Rightarrow> bool) \<Rightarrow> 'ph \<Rightarrow> event list \<Rightarrow> 'ph \<Rightarrow> bool"
  for step :: "'ph \<Rightarrow> event \<Rightarrow> 'ph \<Rightarrow> bool" where
  stop: "path step ph [] ph"
| go: "step ph e ph1 \<Longrightarrow> path step ph1 es ph2 \<Longrightarrow> path step ph (e # es) ph2"

inductive_cases path_NilE: "path step ph [] ph'"
inductive_cases path_ConsE: "path step ph (e # es) ph'"

lemma path_snocI: "path step ph es ph1 \<Longrightarrow> step ph1 e ph2 \<Longrightarrow> path step ph (es @ [e]) ph2"
  by (induction rule: path.induct) (auto intro: path.intros)

lemma path_append: "path step ph es ph1 \<Longrightarrow> path step ph1 es' ph2 \<Longrightarrow> path step ph (es @ es') ph2"
  by (induction rule: path.induct) (auto intro: path.intros)

lemma path_prefix: "path step ph (es @ es') ph2 \<Longrightarrow> \<exists>ph1. path step ph es ph1 \<and> path step ph1 es' ph2"
proof (induction es arbitrary: ph)
  case Nil
  then show ?case by (auto intro: path.stop)
next
  case (Cons e es)
  from Cons.prems obtain ph1 where "step ph e ph1" "path step ph1 (es @ es') ph2"
    by (auto elim: path_ConsE)
  with Cons.IH [of ph1] show ?case by (blast intro: path.go)
qed

text \<open>\<open>P\<close> holds of every call of a run and the calls before it.\<close>

definition everyCall :: "(event list \<Rightarrow> event \<Rightarrow> bool) \<Rightarrow> event list \<Rightarrow> bool" where
  "everyCall P es = list_all (\<lambda>i. P (take i es) (es ! i)) [0..<length es]"

lemma everyCall_iff: "everyCall P es \<longleftrightarrow> (\<forall>pre e post. es = pre @ e # post \<longrightarrow> P pre e)"
proof
  assume "everyCall P es"
  then have a: "i < length es \<Longrightarrow> P (take i es) (es ! i)" for i
    by (simp add: everyCall_def list_all_iff)
  show "\<forall>pre e post. es = pre @ e # post \<longrightarrow> P pre e"
  proof (intro allI impI)
    fix pre e post assume "es = pre @ e # post"
    with a [of "length pre"] show "P pre e" by simp
  qed
next
  assume a: "\<forall>pre e post. es = pre @ e # post \<longrightarrow> P pre e"
  have "P (take i es) (es ! i)" if "i < length es" for i
    using a id_take_nth_drop [OF that] by blast
  then show "everyCall P es" by (simp add: everyCall_def list_all_iff)
qed

lemma everyCall_mono: "everyCall P es \<Longrightarrow> (\<And>pre e. P pre e \<Longrightarrow> Q pre e) \<Longrightarrow> everyCall Q es"
  by (simp add: everyCall_def list_all_iff)

section \<open>Invariants of a protocol\<close>

locale protocol_invariant =
  fixes step :: "'ph \<Rightarrow> event \<Rightarrow> 'ph \<Rightarrow> bool"
    and start :: 'ph
    and I :: "event list \<Rightarrow> 'ph \<Rightarrow> bool"
    and justified :: "event list \<Rightarrow> event \<Rightarrow> bool"
  assumes start_inv: "I [] start"
    and step_inv: "I es ph \<Longrightarrow> step ph e ph' \<Longrightarrow> I (es @ [e]) ph'"
    and step_justified: "I es ph \<Longrightarrow> step ph e ph' \<Longrightarrow> justified es e"
begin

lemma path_inv_from: "path step ph es ph' \<Longrightarrow> I es0 ph \<Longrightarrow> I (es0 @ es) ph'"
proof (induction arbitrary: es0 rule: path.induct)
  case (go ph e ph1 es ph2)
  from go.IH [OF step_inv [OF go.prems go.hyps(1)]] show ?case by simp
qed simp

lemma path_inv: "path step start es ph \<Longrightarrow> I es ph"
  using path_inv_from [of start es ph "[]"] start_inv by simp

text \<open>Every call of a run is justified by the calls before it.\<close>

lemma path_justified:
  assumes "path step start (pre @ e # post) ph"
  shows "justified pre e"
proof -
  from path_prefix [OF assms] obtain ph1 where "path step start pre ph1" "path step ph1 (e # post) ph" by blast
  then show ?thesis by (auto elim: path_ConsE dest: path_inv intro: step_justified)
qed

lemma path_everyCall: "path step start es ph \<Longrightarrow> everyCall justified es"
  by (auto simp: everyCall_iff dest: path_justified)

end

section \<open>Refinement\<close>

definition conforms ::
  "('ph \<Rightarrow> event \<Rightarrow> 'ph \<Rightarrow> bool) \<Rightarrow> 'ph \<Rightarrow> ('w sys, 'a) go \<Rightarrow> (panic + 'a \<Rightarrow> 'ph \<Rightarrow> bool) \<Rightarrow> bool" where
  "conforms step ph m F \<longleftrightarrow> emits m (\<lambda>r es. \<exists>ph'. path step ph es ph' \<and> F r ph')"

lemma conformsD:
  "conforms step ph m F \<Longrightarrow> m s = (r, s') \<Longrightarrow>
   \<exists>es ph'. trace s' = trace s @ es \<and> path step ph es ph' \<and> F r ph'"
  unfolding conforms_def by (blast dest: emitsD)

lemma conforms_ret: "F (Inr x) ph \<Longrightarrow> conforms step ph (ret x) F"
  unfolding conforms_def by (rule emits_retI) (auto intro: path.stop)

lemma conforms_panic: "F (Inl p) ph \<Longrightarrow> conforms step ph (lift_panic (Inl p)) F"
  unfolding conforms_def by (rule emits_lift_panicI) (auto intro: path.stop)

lemma conforms_andThen:
  assumes "conforms step ph m G"
    and "\<And>x ph1. G (Inr x) ph1 \<Longrightarrow> conforms step ph1 (f x) F"
    and "\<And>p ph1. G (Inl p) ph1 \<Longrightarrow> F (Inl p) ph1"
  shows "conforms step ph (andThen m f) F"
  unfolding conforms_def
proof (rule emits_andThenI [OF assms(1) [unfolded conforms_def]])
  fix x es1 assume "\<exists>ph1. path step ph es1 ph1 \<and> G (Inr x) ph1"
  then obtain ph1 where 1: "path step ph es1 ph1" "G (Inr x) ph1" by blast
  from assms(2) [OF 1(2)] show "emits (f x) (\<lambda>r es2. \<exists>ph'. path step ph (es1 @ es2) ph' \<and> F r ph')"
    unfolding conforms_def by (rule emits_mono) (use 1(1) in \<open>blast intro: path_append\<close>)
qed (use assms(3) in blast)

lemma conforms_call:
  assumes "\<And>x. \<exists>ph1. step ph (ev x) ph1 \<and> F (Inr x) ph1"
  shows "conforms step ph (call g ev) F"
  unfolding conforms_def
proof (rule emits_callI)
  fix x
  from assms [of x] show "\<exists>ph'. path step ph [ev x] ph' \<and> F (Inr x) ph'" by (blast intro: path.intros)
qed

lemma conforms_call_then:
  assumes "\<And>x. \<exists>ph1. step ph (ev x) ph1 \<and> conforms step ph1 (f x) F"
  shows "conforms step ph (andThen (call g ev) f) F"
  by (rule conforms_andThen [OF conforms_call [where F = "\<lambda>r ph1. \<exists>x. r = Inr x \<and> conforms step ph1 (f x) F"]])
    (use assms in auto)

lemma conforms_callBack:
  assumes "\<And>r. \<exists>ph1. step ph (ev r) ph1 \<and> F r ph1"
  shows "conforms step ph (callBack g ev) F"
  unfolding conforms_def
proof (rule emits_callBackI)
  fix r
  from assms [of r] show "\<exists>ph'. path step ph [ev r] ph' \<and> F r ph'" by (blast intro: path.intros)
qed

lemma conforms_callBack_then:
  assumes "\<And>x. \<exists>ph1. step ph (ev (Inr x)) ph1 \<and> conforms step ph1 (f x) F"
    and "\<And>p. \<exists>ph1. step ph (ev (Inl p)) ph1 \<and> F (Inl p) ph1"
  shows "conforms step ph (andThen (callBack g ev) f) F"
proof (rule conforms_andThen)
  let ?G = "\<lambda>r ph1. case r of Inr x \<Rightarrow> conforms step ph1 (f x) F | Inl p \<Rightarrow> F (Inl p) ph1"
  show "conforms step ph (callBack g ev) ?G"
  proof (rule conforms_callBack)
    fix r show "\<exists>ph1. step ph (ev r) ph1 \<and> ?G r ph1" using assms by (cases r) simp_all
  qed
qed simp_all

lemma conforms_readClock_then:
  "(\<And>t. conforms step ph (f t) F) \<Longrightarrow> conforms step ph (andThen (readClock c) f) F"
  unfolding conforms_def by (rule emits_readClock_thenI)

lemma conforms_if:
  "(b \<Longrightarrow> conforms step ph m F) \<Longrightarrow> (\<not> b \<Longrightarrow> conforms step ph n F) \<Longrightarrow> conforms step ph (if b then m else n) F"
  by simp


text \<open>The pattern of the controllers: make a call, then branch on its error.\<close>

lemma conforms_call_case:
  assumes "\<And>err. \<exists>ph1. step ph (ev (Inl err)) ph1 \<and> conforms step ph1 (f err) F"
    and "\<And>y. \<exists>ph1. step ph (ev (Inr y)) ph1 \<and> conforms step ph1 (h y) F"
  shows "conforms step ph (andThen (call g ev) (\<lambda>r. case r of Inl err \<Rightarrow> f err | Inr y \<Rightarrow> h y)) F"
proof (rule conforms_call_then)
  fix x show "\<exists>ph1. step ph (ev x) ph1 \<and> conforms step ph1 (case x of Inl err \<Rightarrow> f err | Inr y \<Rightarrow> h y) F"
    using assms by (cases x) simp_all
qed

lemma conforms_call_error:
  assumes "\<exists>ph1. step ph (ev None) ph1 \<and> conforms step ph1 h F"
    and "\<And>err. \<exists>ph1. step ph (ev (Some err)) ph1 \<and> conforms step ph1 (f err) F"
  shows "conforms step ph (andThen (call g ev) (\<lambda>r. case r of None \<Rightarrow> h | Some err \<Rightarrow> f err)) F"
proof (rule conforms_call_then)
  fix x show "\<exists>ph1. step ph (ev x) ph1 \<and> conforms step ph1 (case x of None \<Rightarrow> h | Some err \<Rightarrow> f err) F"
    using assms by (cases x) simp_all
qed

lemma conforms_callBack_case:
  assumes "\<And>p. \<exists>ph1. step ph (ev (Inl p)) ph1 \<and> F (Inl p) ph1"
    and "\<And>err. \<exists>ph1. step ph (ev (Inr (Inl err))) ph1 \<and> conforms step ph1 (f err) F"
    and "\<And>y. \<exists>ph1. step ph (ev (Inr (Inr y))) ph1 \<and> conforms step ph1 (h y) F"
  shows "conforms step ph (andThen (callBack g ev) (\<lambda>r. case r of Inl err \<Rightarrow> f err | Inr y \<Rightarrow> h y)) F"
proof (rule conforms_callBack_then)
  fix x show "\<exists>ph1. step ph (ev (Inr x)) ph1 \<and> conforms step ph1 (case x of Inl err \<Rightarrow> f err | Inr y \<Rightarrow> h y) F"
    using assms by (cases x) simp_all
qed (rule assms(1))

text \<open>
  Choosing the next phase: composed with the rules of a step relation, this gives introduction
  rules that follow the program.
\<close>

lemma step_to: "step ph e ph1 \<Longrightarrow> P ph1 \<Longrightarrow> \<exists>ph1. step ph e ph1 \<and> P ph1"
  by blast

lemmas conforms_intros = conforms_call_case conforms_call_error conforms_callBack_case


section \<open>From a refinement to the runs of the program\<close>

lemma conforms_runs:
  assumes "conforms step ph m F"
  shows "case m s of (r, s') \<Rightarrow> \<exists>es ph'. trace s' = trace s @ es \<and> path step ph es ph' \<and> F r ph'"
  using conformsD [OF assms] by (auto split: prod.split)

context protocol_invariant
begin

lemma every_run:
  assumes "conforms step start m F" and "\<And>before e. justified before e \<Longrightarrow> P before e"
  shows "case m s of (r, s') \<Rightarrow> \<exists>es. trace s' = trace s @ es \<and> everyCall P es"
  using conforms_runs [OF assms(1), of s]
  by (auto split: prod.splits dest!: path_everyCall intro: everyCall_mono [OF _ assms(2)])

end

end
