(* ===== verification/KeycloakController.thy ===== *)
theory KeycloakController
  imports StatefulSetBuild Protocol
begin

text \<open>
  \<^verbatim>\<open>internal/controller/keycloak_controller.go\<close>: one reconcile of a \<^verbatim>\<open>Keycloak\<close> resource applies
  the service, the route, the stateful set (with the host name that the route got), the
  discovery service and the service monitor, and reports in the status. Every failure is
  reported by \<^verbatim>\<open>HandleError\<close>, which returns the error of the status update and not the failure.

  The specification of the controller is the step relation \<open>kstep\<close>; the reconcile function is
  shown to refine it, and its safety properties are proved of the relation.
\<close>

section \<open>The code\<close>

definition errorMessage :: "string \<Rightarrow> goerror option \<Rightarrow> string" where
  "errorMessage msg err = (case err of None \<Rightarrow> msg | Some e \<Rightarrow> msg @ ''. '' @ ErrorText e)"

definition withReady :: "deps \<Rightarrow> Time \<Rightarrow> Keycloak \<Rightarrow> ConditionStatus \<Rightarrow> string list \<Rightarrow> Keycloak" where
  "withReady d now cr st msg = cr\<lparr>kcConditions := SetReady d now (kcConditions cr) st msg\<rparr>"

definition Keycloak_HandleError ::
  "deps \<Rightarrow> 'w client \<Rightarrow> Keycloak \<Rightarrow> goerror option \<Rightarrow> string \<Rightarrow> ('w sys, Result \<times> goerror option) go" where
  "Keycloak_HandleError d c cr err msg =
     andThen (readClock c) (\<lambda>now.
     let cr' = withReady d now cr ConditionFalse [errorMessage msg err] in
     andThen (call (UpdateKeycloakStatus c cr') (EvKeycloakStatus cr')) (\<lambda>e. ret (result e)))"

definition Keycloak_HandleSuccess ::
  "deps \<Rightarrow> 'w client \<Rightarrow> Keycloak \<Rightarrow> ('w sys, Result \<times> goerror option) go" where
  "Keycloak_HandleSuccess d c cr =
     andThen (readClock c) (\<lambda>now.
     let cr' = withReady d now cr ConditionTrue [] in
     andThen (call (UpdateKeycloakStatus c cr') (EvKeycloakStatus cr')) (\<lambda>e. ret (result e)))"

definition Keycloak_Reconcile ::
  "deps \<Rightarrow> 'w client \<Rightarrow> ObjectKey \<Rightarrow> ('w sys, Result \<times> goerror option) go" where
  "Keycloak_Reconcile d c req =
     andThen (call (GetKeycloak c req) (EvGetKeycloak req)) (\<lambda>r.
     case r of
       Inl err \<Rightarrow> if IsNotFound err then ret (result None) else ret (result (Some err))
     | Inr cr \<Rightarrow>
     andThen (RHBKService_CreateOrUpdate d c cr) (\<lambda>r.
     case r of
       Inl err \<Rightarrow> Keycloak_HandleError d c cr (Some err) ''Service setup not ready''
     | Inr _ \<Rightarrow>
     andThen (RHBKRoute_CreateOrUpdate d c cr) (\<lambda>r.
     case r of
       Inl err \<Rightarrow> Keycloak_HandleError d c cr (Some err) ''route setup not ready''
     | Inr route \<Rightarrow>
     andThen (RHBKStatefulSet_CreateOrUpdate d c cr (rtHost (rtSpec route))) (\<lambda>r.
     case r of
       Inl err \<Rightarrow> Keycloak_HandleError d c cr (Some err) ''Deployment setup not ready''
     | Inr sts \<Rightarrow>
     andThen (RHBKDiscoveryService_CreateOrUpdate d c cr) (\<lambda>r.
     case r of
       Inl err \<Rightarrow> Keycloak_HandleError d c cr (Some err) ''Discovery service setup not ready''
     | Inr _ \<Rightarrow>
     andThen (ServiceMonitor_CreateOrUpdate d c cr) (\<lambda>r.
     case r of
       Inl err \<Rightarrow> Keycloak_HandleError d c cr (Some err) ''Service monitor setup not ready''
     | Inr _ \<Rightarrow>
         if IsStatefulSetReady (Some sts) then Keycloak_HandleSuccess d c cr
         else Keycloak_HandleError d c cr None ''Waiting for resources to be ready''))))))"

text \<open>The predicates of the watch on stateful sets.\<close>

definition StatefulSet_CreateFunc :: "StatefulSet \<Rightarrow> bool" where
  "StatefulSet_CreateFunc e = False"

definition StatefulSet_DeleteFunc :: "StatefulSet \<Rightarrow> bool" where
  "StatefulSet_DeleteFunc e = True"

definition StatefulSet_UpdateFunc :: "StatefulSet \<Rightarrow> StatefulSet \<Rightarrow> bool" where
  "StatefulSet_UpdateFunc old current =
     (\<not> IsStatefulSetReady (Some old) \<and> IsStatefulSetReady (Some current))"

section \<open>The specification\<close>

datatype kphase =
    KStart
  | KService Keycloak
  | KRoute Keycloak
  | KWorkload Keycloak string
  | KDiscovery Keycloak StatefulSet
  | KMonitor Keycloak StatefulSet
  | KReport Keycloak ConditionStatus "string list"
  | KEnd "goerror option"
  | KPanic panic

text \<open>
  A phase names what the controller does next. \<open>KReport cr st msg\<close> is the one status update
  of a reconcile; \<open>KEnd err\<close> is the end, with \<open>err\<close> the error that is returned. A panic ends the
  run at once.
\<close>

inductive kstep :: "deps \<Rightarrow> ObjectKey \<Rightarrow> kphase \<Rightarrow> event \<Rightarrow> kphase \<Rightarrow> bool" for d req where
  k_gone: "IsNotFound err \<Longrightarrow> kstep d req KStart (EvGetKeycloak req (Inl err)) (KEnd None)"
| k_unreadable: "\<not> IsNotFound err \<Longrightarrow> kstep d req KStart (EvGetKeycloak req (Inl err)) (KEnd (Some err))"
| k_get: "kstep d req KStart (EvGetKeycloak req (Inr cr)) (KService cr)"
| k_service: "kstep d req (KService cr)
    (EvApplyService (RHBKService_init cr) (Inr \<circ> RHBKService_Build d cr) (Inr (Inr svc))) (KRoute cr)"
| k_service_err: "kstep d req (KService cr)
    (EvApplyService (RHBKService_init cr) (Inr \<circ> RHBKService_Build d cr) (Inr (Inl err)))
    (KReport cr ConditionFalse [errorMessage ''Service setup not ready'' (Some err)])"
| k_service_panic: "kstep d req (KService cr)
    (EvApplyService (RHBKService_init cr) (Inr \<circ> RHBKService_Build d cr) (Inl p)) (KPanic p)"
| k_route: "kstep d req (KRoute cr)
    (EvApplyRoute (RHBKRoute_init cr) (Inr \<circ> RHBKRoute_Build d cr) (Inr (Inr route)))
    (KWorkload cr (rtHost (rtSpec route)))"
| k_route_err: "kstep d req (KRoute cr)
    (EvApplyRoute (RHBKRoute_init cr) (Inr \<circ> RHBKRoute_Build d cr) (Inr (Inl err)))
    (KReport cr ConditionFalse [errorMessage ''route setup not ready'' (Some err)])"
| k_route_panic: "kstep d req (KRoute cr)
    (EvApplyRoute (RHBKRoute_init cr) (Inr \<circ> RHBKRoute_Build d cr) (Inl p)) (KPanic p)"
| k_workload: "kstep d req (KWorkload cr host)
    (EvApplyStatefulSet (RHBKStatefulSet_init cr) (RHBKStatefulSet_Build d cr host) (Inr (Inr sts)))
    (KDiscovery cr sts)"
| k_workload_err: "kstep d req (KWorkload cr host)
    (EvApplyStatefulSet (RHBKStatefulSet_init cr) (RHBKStatefulSet_Build d cr host) (Inr (Inl err)))
    (KReport cr ConditionFalse [errorMessage ''Deployment setup not ready'' (Some err)])"
| k_workload_panic: "kstep d req (KWorkload cr host)
    (EvApplyStatefulSet (RHBKStatefulSet_init cr) (RHBKStatefulSet_Build d cr host) (Inl p)) (KPanic p)"
| k_discovery: "kstep d req (KDiscovery cr sts)
    (EvApplyService (RHBKDiscoveryService_init cr) (Inr \<circ> RHBKDiscoveryService_Build d cr) (Inr (Inr svc)))
    (KMonitor cr sts)"
| k_discovery_err: "kstep d req (KDiscovery cr sts)
    (EvApplyService (RHBKDiscoveryService_init cr) (Inr \<circ> RHBKDiscoveryService_Build d cr) (Inr (Inl err)))
    (KReport cr ConditionFalse [errorMessage ''Discovery service setup not ready'' (Some err)])"
| k_discovery_panic: "kstep d req (KDiscovery cr sts)
    (EvApplyService (RHBKDiscoveryService_init cr) (Inr \<circ> RHBKDiscoveryService_Build d cr) (Inl p)) (KPanic p)"
| k_monitor_ready: "stsStatusReadyReplicas sts = stsStatusReplicas sts \<Longrightarrow> kstep d req (KMonitor cr sts)
    (EvApplyServiceMonitor (ServiceMonitor_init cr) (Inr \<circ> ServiceMonitor_mutateFn d cr) (Inr (Inr m)))
    (KReport cr ConditionTrue [])"
| k_monitor_wait: "stsStatusReadyReplicas sts \<noteq> stsStatusReplicas sts \<Longrightarrow> kstep d req (KMonitor cr sts)
    (EvApplyServiceMonitor (ServiceMonitor_init cr) (Inr \<circ> ServiceMonitor_mutateFn d cr) (Inr (Inr m)))
    (KReport cr ConditionFalse [errorMessage ''Waiting for resources to be ready'' None])"
| k_monitor_err: "kstep d req (KMonitor cr sts)
    (EvApplyServiceMonitor (ServiceMonitor_init cr) (Inr \<circ> ServiceMonitor_mutateFn d cr) (Inr (Inl err)))
    (KReport cr ConditionFalse [errorMessage ''Service monitor setup not ready'' (Some err)])"
| k_monitor_panic: "kstep d req (KMonitor cr sts)
    (EvApplyServiceMonitor (ServiceMonitor_init cr) (Inr \<circ> ServiceMonitor_mutateFn d cr) (Inl p)) (KPanic p)"
| k_report: "kstep d req (KReport cr st msg) (EvKeycloakStatus (withReady d now cr st msg) err) (KEnd err)"

text \<open>What a finished run returns, by the phase it ends in.\<close>

fun kresult :: "panic + Result \<times> goerror option \<Rightarrow> kphase \<Rightarrow> bool" where
  "kresult r (KEnd err) = (r = Inr (result err))"
| "kresult r (KPanic p) = (r = Inl p)"
| "kresult r _ = False"

section \<open>The code refines the specification\<close>

lemma conforms_Keycloak_HandleError:
  "conforms (kstep d req) (KReport cr ConditionFalse [errorMessage msg err])
     (Keycloak_HandleError d c cr err msg) kresult"
  unfolding Keycloak_HandleError_def Let_def
  by (intro conforms_readClock_then conforms_call_then exI conjI, rule k_report) (simp add: conforms_ret)

lemma conforms_Keycloak_HandleSuccess:
  "conforms (kstep d req) (KReport cr ConditionTrue []) (Keycloak_HandleSuccess d c cr) kresult"
  unfolding Keycloak_HandleSuccess_def Let_def
  by (intro conforms_readClock_then conforms_call_then exI conjI, rule k_report) (simp add: conforms_ret)

lemmas kstep_to = kstep.intros [THEN step_to [of "kstep d req" for d req]]

lemmas conforms_report = conforms_Keycloak_HandleError conforms_Keycloak_HandleSuccess

lemma conforms_monitor:
  "conforms (kstep d req) (KMonitor cr sts)
     (andThen (ServiceMonitor_CreateOrUpdate d c cr) (\<lambda>r.
      case r of
        Inl err \<Rightarrow> Keycloak_HandleError d c cr (Some err) ''Service monitor setup not ready''
      | Inr _ \<Rightarrow>
          if IsStatefulSetReady (Some sts) then Keycloak_HandleSuccess d c cr
          else Keycloak_HandleError d c cr None ''Waiting for resources to be ready'')) kresult"
proof (cases "IsStatefulSetReady (Some sts)")
  case True
  then show ?thesis
    unfolding ServiceMonitor_CreateOrUpdate_def Let_def
    by (intro conforms_intros kstep_to) (auto simp: IsStatefulSetReady_def intro: conforms_report)
next
  case False
  then show ?thesis
    unfolding ServiceMonitor_CreateOrUpdate_def Let_def
    by (intro conforms_intros k_monitor_wait [THEN step_to [of "kstep d req" for d req]] kstep_to)
      (auto simp: IsStatefulSetReady_def intro: conforms_report)
qed

lemma Keycloak_Reconcile_conforms: "conforms (kstep d req) KStart (Keycloak_Reconcile d c req) kresult"
proof -
  have get: "\<exists>ph. kstep d req KStart (EvGetKeycloak req (Inl err)) ph \<and>
      conforms (kstep d req) ph (if IsNotFound err then ret (result None) else ret (result (Some err))) kresult" for err
    using k_gone [of err d req] k_unreadable [of err d req] by (cases "IsNotFound err") (force intro: conforms_ret)+
  show ?thesis
    unfolding Keycloak_Reconcile_def RHBKService_CreateOrUpdate_def RHBKRoute_CreateOrUpdate_def
      RHBKStatefulSet_CreateOrUpdate_def RHBKDiscoveryService_CreateOrUpdate_def Let_def
    by (intro conforms_intros get kstep_to conforms_monitor conforms_report) simp_all
qed


section \<open>Invariants of the specification\<close>

text \<open>
  What must have happened before a call: a write of the stateful set uses the host name of
  the route that was applied before; a report of success comes after all five resources were
  applied, the stateful set ready.
\<close>

definition applied_network :: "deps \<Rightarrow> Keycloak \<Rightarrow> string \<Rightarrow> event list \<Rightarrow> bool" where
  "applied_network d cr host es \<longleftrightarrow>
     (\<exists>svc. EvApplyService (RHBKService_init cr) (Inr \<circ> RHBKService_Build d cr) (Inr (Inr svc)) \<in> set es) \<and>
     (\<exists>route. EvApplyRoute (RHBKRoute_init cr) (Inr \<circ> RHBKRoute_Build d cr) (Inr (Inr route)) \<in> set es \<and>
              rtHost (rtSpec route) = host)"

definition applied_workload :: "deps \<Rightarrow> Keycloak \<Rightarrow> StatefulSet \<Rightarrow> event list \<Rightarrow> bool" where
  "applied_workload d cr sts es \<longleftrightarrow>
     (\<exists>host. applied_network d cr host es \<and>
       EvApplyStatefulSet (RHBKStatefulSet_init cr) (RHBKStatefulSet_Build d cr host) (Inr (Inr sts)) \<in> set es)"

definition applied_all :: "deps \<Rightarrow> Keycloak \<Rightarrow> StatefulSet \<Rightarrow> event list \<Rightarrow> bool" where
  "applied_all d cr sts es \<longleftrightarrow> applied_workload d cr sts es \<and>
     (\<exists>svc. EvApplyService (RHBKDiscoveryService_init cr) (Inr \<circ> RHBKDiscoveryService_Build d cr) (Inr (Inr svc)) \<in> set es) \<and>
     (\<exists>m. EvApplyServiceMonitor (ServiceMonitor_init cr) (Inr \<circ> ServiceMonitor_mutateFn d cr) (Inr (Inr m)) \<in> set es)"

fun kinv :: "deps \<Rightarrow> ObjectKey \<Rightarrow> event list \<Rightarrow> kphase \<Rightarrow> bool" where
  "kinv d req es KStart = (es = [])"
| "kinv d req es (KService cr) = (es = [EvGetKeycloak req (Inr cr)])"
| "kinv d req es (KRoute cr) = (EvGetKeycloak req (Inr cr) \<in> set es \<and>
     (\<exists>svc. EvApplyService (RHBKService_init cr) (Inr \<circ> RHBKService_Build d cr) (Inr (Inr svc)) \<in> set es))"
| "kinv d req es (KWorkload cr host) = (EvGetKeycloak req (Inr cr) \<in> set es \<and> applied_network d cr host es)"
| "kinv d req es (KDiscovery cr sts) = (EvGetKeycloak req (Inr cr) \<in> set es \<and> applied_workload d cr sts es)"
| "kinv d req es (KMonitor cr sts) = (EvGetKeycloak req (Inr cr) \<in> set es \<and> applied_workload d cr sts es \<and>
     (\<exists>svc. EvApplyService (RHBKDiscoveryService_init cr) (Inr \<circ> RHBKDiscoveryService_Build d cr) (Inr (Inr svc)) \<in> set es))"
| "kinv d req es (KReport cr st msg) = (EvGetKeycloak req (Inr cr) \<in> set es \<and>
     (st = ConditionTrue \<longrightarrow>
       (\<exists>sts. applied_all d cr sts es \<and> stsStatusReadyReplicas sts = stsStatusReplicas sts)))"
| "kinv d req es _ = True"

fun kjustified :: "deps \<Rightarrow> ObjectKey \<Rightarrow> event list \<Rightarrow> event \<Rightarrow> bool" where
  "kjustified d req es (EvApplyStatefulSet s f r) =
     (\<exists>cr host. EvGetKeycloak req (Inr cr) \<in> set es \<and> applied_network d cr host es \<and>
        s = RHBKStatefulSet_init cr \<and> f = RHBKStatefulSet_Build d cr host)"
| "kjustified d req es (EvKeycloakStatus cr' r) =
     (\<exists>cr now st msg. EvGetKeycloak req (Inr cr) \<in> set es \<and> cr' = withReady d now cr st msg \<and>
        (st = ConditionTrue \<longrightarrow>
          (\<exists>sts. applied_all d cr sts es \<and> stsStatusReadyReplicas sts = stsStatusReplicas sts)))"
| "kjustified d req es _ = True"

lemma applied_mono:
  "applied_network d cr host es \<Longrightarrow> applied_network d cr host (es @ es')"
  "applied_workload d cr sts es \<Longrightarrow> applied_workload d cr sts (es @ es')"
  by (auto simp: applied_network_def applied_workload_def)

lemma kstep_kinv: "kstep d req ph e ph' \<Longrightarrow> kinv d req es ph \<Longrightarrow> kinv d req (es @ [e]) ph'"
  by (cases rule: kstep.cases, assumption) (auto simp: applied_network_def applied_workload_def applied_all_def)

lemma kstep_kjustified: "kstep d req ph e ph' \<Longrightarrow> kinv d req es ph \<Longrightarrow> kjustified d req es e"
  by (cases rule: kstep.cases, assumption) (simp_all, blast+)

text \<open>
  Where the one report of a run is: nowhere before the reporting phase, and last when it is made.
\<close>

fun kreported :: "ObjectKey \<Rightarrow> event list \<Rightarrow> kphase \<Rightarrow> bool" where
  "kreported req es (KEnd err) =
     ((\<exists>e. es = [EvGetKeycloak req (Inl e)] \<and> err = (if IsNotFound e then None else Some e)) \<or>
      (\<exists>es' cr'. es = es' @ [EvKeycloakStatus cr' err] \<and> list_all (\<lambda>e. \<not> isKeycloakStatus e) es'))"
| "kreported req es KStart = (es = [])"
| "kreported req es _ = list_all (\<lambda>e. \<not> isKeycloakStatus e) es"

lemma kstep_kreported: "kstep d req ph e ph' \<Longrightarrow> kreported req es ph \<Longrightarrow> kreported req (es @ [e]) ph'"
  by (cases rule: kstep.cases, assumption) simp_all

interpretation keycloak: protocol_invariant "kstep d req" KStart "kinv d req" "kjustified d req" for d req
  by unfold_locales (auto intro: kstep_kinv kstep_kjustified)


interpretation keycloak_report: protocol_invariant "kstep d req" KStart "kreported req" "\<lambda>es e. True" for d req
  by unfold_locales (auto intro: kstep_kreported)

lemma Keycloak_Reconcile_run:
  assumes "Keycloak_Reconcile d c req s = (r, s')"
  obtains es ph where "trace s' = trace s @ es" "path (kstep d req) KStart es ph" "kresult r ph"
  using conformsD [OF Keycloak_Reconcile_conforms assms] by blast


section \<open>Properties\<close>

text \<open>
  C15: the reconcile function refines the specification of the controller, for every client:
  whatever the cluster answers, errors and other writers included, the calls it makes are a
  path of \<open>kstep\<close> from the start, and what it returns is what the last phase says.
\<close>

theorem Keycloak_Reconcile_refines:
  "case Keycloak_Reconcile d c req s of (r, s') \<Rightarrow>
     \<exists>es ph. trace s' = trace s @ es \<and> path (kstep d req) KStart es ph \<and> kresult r ph"
  by (rule conforms_runs [OF Keycloak_Reconcile_conforms])


text \<open>
  the stateful set is written with the host name of the route: whenever a run applies the
  stateful set, it has applied the service and the route of the same resource before, and the
  mutate function is the one for the host that the cluster gave that route.
\<close>

theorem Keycloak_Reconcile_host:
  "case Keycloak_Reconcile d c req s of (r, s') \<Rightarrow>
     \<exists>es. trace s' = trace s @ es \<and> everyCall (\<lambda>before e. case e of
       EvApplyStatefulSet sts f a \<Rightarrow>
         (\<exists>cr svc route. EvGetKeycloak req (Inr cr) \<in> set before \<and>
            EvApplyService (RHBKService_init cr) (Inr \<circ> RHBKService_Build d cr) (Inr (Inr svc)) \<in> set before \<and>
            EvApplyRoute (RHBKRoute_init cr) (Inr \<circ> RHBKRoute_Build d cr) (Inr (Inr route)) \<in> set before \<and>
            sts = RHBKStatefulSet_init cr \<and> f = RHBKStatefulSet_Build d cr (rtHost (rtSpec route)))
     | _ \<Rightarrow> True) es"
proof (rule keycloak.every_run [OF Keycloak_Reconcile_conforms], goal_cases)
  case (1 before e)
  then show ?case by (cases e) (simp_all add: applied_network_def, blast)
qed

text \<open>
  C14: success is reported only for a complete instance: when a run sets the ready condition,
  it has applied the service, the route, the stateful set, the discovery service and the
  service monitor without an error, and the stateful set came back with all its replicas ready.
\<close>

theorem Keycloak_Reconcile_ready:
  "case Keycloak_Reconcile d c req s of (r, s') \<Rightarrow>
     \<exists>es. trace s' = trace s @ es \<and> everyCall (\<lambda>before e. case e of
       EvKeycloakStatus cr' a \<Rightarrow>
         (\<exists>cr now st msg. EvGetKeycloak req (Inr cr) \<in> set before \<and>
            cr' = cr\<lparr>kcConditions := SetReady d now (kcConditions cr) st msg\<rparr> \<and>
            (if st = ConditionTrue then
               (\<exists>svc route sts disc mon.
                  EvApplyService (RHBKService_init cr) (Inr \<circ> RHBKService_Build d cr) (Inr (Inr svc)) \<in> set before \<and>
                  EvApplyRoute (RHBKRoute_init cr) (Inr \<circ> RHBKRoute_Build d cr) (Inr (Inr route)) \<in> set before \<and>
                  EvApplyStatefulSet (RHBKStatefulSet_init cr)
                    (RHBKStatefulSet_Build d cr (rtHost (rtSpec route))) (Inr (Inr sts)) \<in> set before \<and>
                  EvApplyService (RHBKDiscoveryService_init cr) (Inr \<circ> RHBKDiscoveryService_Build d cr) (Inr (Inr disc)) \<in> set before \<and>
                  EvApplyServiceMonitor (ServiceMonitor_init cr) (Inr \<circ> ServiceMonitor_mutateFn d cr) (Inr (Inr mon)) \<in> set before \<and>
                  stsStatusReadyReplicas sts = stsStatusReplicas sts)
             else True))
     | _ \<Rightarrow> True) es"
proof (rule keycloak.every_run [OF Keycloak_Reconcile_conforms], goal_cases)
  case (1 before e)
  show ?case
  proof (cases e)
    case (EvKeycloakStatus cr' a)
    with 1 obtain cr now st msg where
      *: "EvGetKeycloak req (Inr cr) \<in> set before" "cr' = withReady d now cr st msg"
         "st = ConditionTrue \<longrightarrow> (\<exists>sts. applied_all d cr sts before \<and> stsStatusReadyReplicas sts = stsStatusReplicas sts)"
      by (simp, blast)
    show ?thesis
      unfolding EvKeycloakStatus event.case
      by (intro exI [of _ cr] exI [of _ now] exI [of _ st] exI [of _ msg])
        (use * in \<open>auto simp: withReady_def applied_all_def applied_workload_def applied_network_def\<close>)
  qed simp_all
qed

end
