(* ===== verification/Cluster.thy ===== *)
theory Cluster
  imports KeycloakController
begin

text \<open>
  The Keycloak controller against a cluster that keeps objects. The theories of the controllers
  hold for every client; here the calls of the Keycloak controller are those of an API server,
  with the laws that the documentation of \<^verbatim>\<open>controllerutil.CreateOrUpdate\<close> and of the API give:
  \<^item> \<open>object_store\<close>: one kind of object. \<^verbatim>\<open>CreateOrUpdate\<close> mutates the stored object (or the one it
    is given, when none is stored) and sends the result; the server stores it with a version,
    defaults and allocated values filled in (\<open>accepts\<close>, a parameter). A failed call may or may not
    have written. Sending again the desired state that the stored object was made from changes
    nothing.
  \<^item> \<open>kube_cluster\<close>: the four kinds the controller writes, each call touching its own kind only,
    reads, status updates and the clock touching none.

  The laws exclude other writers and a stale cache during a run, not between two runs. \<open>refClient\<close> is
  an in-memory cluster that allocates service addresses and route hosts; it satisfies the laws.
\<close>

section \<open>What a cluster stores\<close>

record objects =
  objServices :: "ObjectKey \<rightharpoonup> Service"
  objRoutes :: "ObjectKey \<rightharpoonup> Route"
  objStatefulSets :: "ObjectKey \<rightharpoonup> StatefulSet"
  objServiceMonitors :: "ObjectKey \<rightharpoonup> ServiceMonitor"

text \<open>What the server may store for an object that it is sent, by kind.\<close>

record admission =
  admitsService :: "Service \<Rightarrow> Service \<Rightarrow> bool"
  admitsRoute :: "Route \<Rightarrow> Route \<Rightarrow> bool"
  admitsStatefulSet :: "StatefulSet \<Rightarrow> StatefulSet \<Rightarrow> bool"
  admitsServiceMonitor :: "ServiceMonitor \<Rightarrow> ServiceMonitor \<Rightarrow> bool"

definition keyOf :: "ObjectMeta \<Rightarrow> ObjectKey" where
  "keyOf m = objectKey (metaNamespace m) (metaName m)"

definition lookupOr :: "('o \<Rightarrow> ObjectMeta) \<Rightarrow> (ObjectKey \<rightharpoonup> 'o) \<Rightarrow> 'o \<Rightarrow> 'o" where
  "lookupOr meta m obj = (case m (keyOf (meta obj)) of None \<Rightarrow> obj | Some x \<Rightarrow> x)"

text \<open>
  \<open>x\<close> is stored, it was made from some \<open>z\<close>, and the mutate function would ask for the state of \<open>z\<close>
  again.
\<close>

definition settledAt ::
  "('o \<Rightarrow> ObjectMeta) \<Rightarrow> ('o \<Rightarrow> 'o) \<Rightarrow> ('o \<Rightarrow> 'o \<Rightarrow> bool) \<Rightarrow> (ObjectKey \<rightharpoonup> 'o) \<Rightarrow> 'o \<Rightarrow> 'o mutateFn \<Rightarrow> 'o \<Rightarrow> bool" where
  "settledAt meta desired accepts m obj f x \<longleftrightarrow>
     m (keyOf (meta obj)) = Some x \<and>
     (\<exists>z z'. accepts z x \<and> f x = Inr (Inr z') \<and> desired z' = desired z)"

section \<open>One kind of object\<close>

text \<open>
  \<open>get\<close> and \<open>upd\<close> select the kind in the state \<open>view w\<close> of a cluster \<open>w\<close>.
\<close>

locale object_store =
  fixes submit :: "'o \<Rightarrow> 'o mutateFn \<Rightarrow> 'w \<Rightarrow> (panic + (goerror + 'o)) \<times> 'w"
    and view :: "'w \<Rightarrow> 'v"
    and get :: "'v \<Rightarrow> ObjectKey \<rightharpoonup> 'o"
    and upd :: "((ObjectKey \<rightharpoonup> 'o) \<Rightarrow> (ObjectKey \<rightharpoonup> 'o)) \<Rightarrow> 'v \<Rightarrow> 'v"
    and meta :: "'o \<Rightarrow> ObjectMeta"
    and desired :: "'o \<Rightarrow> 'o"
    and keeps :: "'o \<Rightarrow> 'o \<Rightarrow> bool"
    and accepts :: "'o \<Rightarrow> 'o \<Rightarrow> bool"
  assumes upd_same: "upd (\<lambda>_. get v) v = v"
    and accepts_keeps: "accepts z y \<Longrightarrow> keeps z y"
    and accepts_refl: "accepts z z"
    and submit_frame: "submit obj f w = (r, w') \<Longrightarrow> view w' = upd (\<lambda>_. get (view w')) (view w)"
    and submit_other: "submit obj f w = (r, w') \<Longrightarrow> k \<noteq> keyOf (meta obj) \<Longrightarrow> get (view w') k = get (view w) k"
    and submit_effect: "submit obj f w = (r, w') \<Longrightarrow>
      get (view w') (keyOf (meta obj)) = get (view w) (keyOf (meta obj)) \<or>
      (\<exists>z y. f (lookupOr meta (get (view w)) obj) = Inr (Inr z) \<and> accepts z y \<and> get (view w') (keyOf (meta obj)) = Some y)"
    and submit_ok: "submit obj f w = (Inr (Inr y), w') \<Longrightarrow>
      get (view w') (keyOf (meta obj)) = Some y \<and> (\<exists>z. f (lookupOr meta (get (view w)) obj) = Inr (Inr z) \<and> accepts z y)"
    and submit_again: "settledAt meta desired accepts (get (view w)) obj f x \<Longrightarrow> submit obj f w = (r, w') \<Longrightarrow>
      get (view w') = get (view w)"
begin

text \<open>Applying a settled resource: nothing is written, and the answer is the stored object.\<close>

lemma settled_submit:
  assumes "settledAt meta desired accepts (get (view w)) obj f x" "submit obj f w = (r, w')"
  shows "view w' = view w" and "r = Inr (Inr y) \<Longrightarrow> y = x"
proof -
  show same: "view w' = view w"
    using submit_frame [OF assms(2)] submit_again [OF assms] by (simp add: upd_same)
  assume "r = Inr (Inr y)"
  with submit_ok [of obj f w y w'] assms same show "y = x" by (auto simp: settledAt_def)
qed

lemma wp_settled:
  assumes "settledAt meta desired accepts (get V) obj f x" "view (world s) = V"
  shows "wp (callBack (submit obj f) ev) (\<lambda>r s'. view (world s') = V \<and> (\<forall>y. r = Inr y \<longrightarrow> y = x))
    (\<lambda>_ s'. view (world s') = V) s"
  using settled_submit [of "world s" obj f x] assms
  by (cases "submit obj f (world s)") (auto simp: wp_callBack split: sum.split)

lemma wp_frame:
  "wp (callBack (submit obj f) ev) (\<lambda>_ s'. \<exists>m. view (world s') = upd (\<lambda>_. m) (view (world s)))
     (\<lambda>_ s'. \<exists>m. view (world s') = upd (\<lambda>_. m) (view (world s))) s"
  using submit_frame [of obj f "world s"]
  by (cases "submit obj f (world s)") (auto simp: wp_callBack split: sum.split)

end

text \<open>A store and a mutate function of the operator.\<close>

locale store_builder =
  object_store submit view get upd meta desired keeps accepts + settling_builder meta build desired keeps
  for submit view get upd meta desired keeps accepts build
begin

lemma submit_settles:
  assumes "submit obj build w = (Inr (Inr y), w')"
  shows "settledAt meta desired accepts (get (view w')) obj build y"
proof -
  from submit_ok [OF assms] obtain z where "get (view w') (keyOf (meta obj)) = Some y"
    "build (lookupOr meta (get (view w)) obj) = Inr (Inr z)" "accepts z y" by blast
  then show ?thesis
    using build_settles [of _ z y] accepts_keeps [of z y] unfolding settledAt_def by blast
qed

lemma wp_submit:
  "wp (callBack (submit obj build) ev)
     (\<lambda>r s'. trace s' = trace s @ [ev (Inr r)] \<and>
        (\<exists>m. view (world s') = upd (\<lambda>_. m) (view (world s))) \<and>
        (\<forall>y. r = Inr y \<longrightarrow> settledAt meta desired accepts (get (view (world s'))) obj build y) \<and>
        (\<forall>k. k \<noteq> keyOf (meta obj) \<longrightarrow> get (view (world s')) k = get (view (world s)) k))
     (\<lambda>p s'. trace s' = trace s @ [ev (Inl p)]) s"
  using submit_settles [of obj "world s"] submit_frame [of obj build "world s"] submit_other [of obj build "world s"]
  by (cases "submit obj build (world s)") (auto simp: wp_callBack split: sum.split)

end

section \<open>The kinds of the Keycloak controller\<close>

locale kube_cluster =
  services: object_store "ApplyService c" view objServices objServices_update svcMeta desiredService
    "\<lambda>z y. sameMeta (svcMeta z) (svcMeta y)" "admitsService a" +
  routes: object_store "ApplyRoute c" view objRoutes objRoutes_update rtMeta desiredRoute
    "\<lambda>z y. sameMeta (rtMeta z) (rtMeta y)" "admitsRoute a" +
  workloads: object_store "ApplyStatefulSet c" view objStatefulSets objStatefulSets_update stsMeta desiredStatefulSet
    keepsStatefulSet "admitsStatefulSet a" +
  monitors: object_store "ApplyServiceMonitor c" view objServiceMonitors objServiceMonitors_update smMeta
    desiredServiceMonitor "\<lambda>z y. sameMeta (smMeta z) (smMeta y)" "admitsServiceMonitor a"
  for c :: "'w client" and view :: "'w \<Rightarrow> objects" and a :: admission +
  assumes get_frame: "view (snd (GetKeycloak c k w)) = view w"
    and status_frame: "view (snd (UpdateKeycloakStatus c cr w)) = view w"
    and clock_frame: "view (snd (Now c w)) = view w"

text \<open>With the owner references that the mutate functions set.\<close>

locale operator_cluster = kube_cluster c view a + owner_refs d
  for c :: "'w client" and view and a and d

sublocale operator_cluster \<subseteq> service: store_builder "ApplyService c" view objServices objServices_update svcMeta
    desiredService "\<lambda>z y. sameMeta (svcMeta z) (svcMeta y)" "admitsService a" "Inr \<circ> RHBKService_Build d kc" for kc ..

sublocale operator_cluster \<subseteq> discovery: store_builder "ApplyService c" view objServices objServices_update svcMeta
    desiredService "\<lambda>z y. sameMeta (svcMeta z) (svcMeta y)" "admitsService a" "Inr \<circ> RHBKDiscoveryService_Build d kc" for kc ..

sublocale operator_cluster \<subseteq> route: store_builder "ApplyRoute c" view objRoutes objRoutes_update rtMeta
    desiredRoute "\<lambda>z y. sameMeta (rtMeta z) (rtMeta y)" "admitsRoute a" "Inr \<circ> RHBKRoute_Build d kc" for kc ..

sublocale operator_cluster \<subseteq> workload: store_builder "ApplyStatefulSet c" view objStatefulSets objStatefulSets_update
    stsMeta desiredStatefulSet keepsStatefulSet "admitsStatefulSet a" "RHBKStatefulSet_Build d kc h" for kc h ..

sublocale operator_cluster \<subseteq> monitor: store_builder "ApplyServiceMonitor c" view objServiceMonitors
    objServiceMonitors_update smMeta desiredServiceMonitor "\<lambda>z y. sameMeta (smMeta z) (smMeta y)"
    "admitsServiceMonitor a" "Inr \<circ> ServiceMonitor_mutateFn d kc" for kc ..

section \<open>The desired state of an instance\<close>

text \<open>
  Status updates give a resource a new version and new conditions; nothing the mutate functions
  use of it changes.
\<close>

definition sameInstance :: "Keycloak \<Rightarrow> Keycloak \<Rightarrow> bool" where
  "sameInstance cr cr' \<longleftrightarrow> kcSpec cr' = kcSpec cr \<and> sameMeta (kcMeta cr) (kcMeta cr')"

lemma sameInstance_names:
  assumes "sameInstance cr cr'"
  shows "kcSpec cr' = kcSpec cr" "metaName (kcMeta cr') = metaName (kcMeta cr)"
    "metaNamespace (kcMeta cr') = metaNamespace (kcMeta cr)"
  using assms by (auto simp: sameInstance_def elim!: sameMetaE)

lemmas init_defs = RHBKService_init_def RHBKDiscoveryService_init_def RHBKRoute_init_def
  RHBKStatefulSet_init_def ServiceMonitor_init_def

lemmas name_defs = GetSvcName_def GetTLSSecretName_def GetDiscoverySvcName_def GetStatefulSetName_def

lemma sameInstance_init:
  assumes "sameInstance cr cr'"
  shows "RHBKService_init cr' = RHBKService_init cr" "RHBKDiscoveryService_init cr' = RHBKDiscoveryService_init cr"
    "RHBKRoute_init cr' = RHBKRoute_init cr" "RHBKStatefulSet_init cr' = RHBKStatefulSet_init cr"
    "ServiceMonitor_init cr' = ServiceMonitor_init cr"
  by (simp_all add: init_defs name_defs sameInstance_names [OF assms])

lemma sameInstance_spec:
  assumes "sameInstance cr cr'"
  shows "rhbkStatefulSetSpec cr' h an ics = rhbkStatefulSetSpec cr h an ics"
    and "GetInitContainer cr' = GetInitContainer cr"
  by (simp_all add: rhbkStatefulSetSpec_def rhbkContainer_def baseEnv_def DecorateENV_def rhbkVolumes_def
      DecorateVolume_def decorateSizing_def GetInitContainer_def name_defs sameInstance_names [OF assms]
      cong: option.case_cong)

context owner_refs
begin

lemma sameInstance_build:
  assumes "sameInstance cr cr'"
  shows "RHBKService_Build d cr' = RHBKService_Build d cr"
    and "RHBKDiscoveryService_Build d cr' = RHBKDiscoveryService_Build d cr"
    and "RHBKRoute_Build d cr' = RHBKRoute_Build d cr"
    and "RHBKStatefulSet_Build d cr' = RHBKStatefulSet_Build d cr"
    and "ServiceMonitor_mutateFn d cr' = ServiceMonitor_mutateFn d cr"
proof -
  have own: "SetControllerReference d (kcMeta cr') m = SetControllerReference d (kcMeta cr) m" for m
    using assms by (simp add: sameInstance_def controller_owner)
  note same = own sameInstance_names [OF assms] sameInstance_spec [OF assms] name_defs
  show "RHBKService_Build d cr' = RHBKService_Build d cr"
    by (simp add: fun_eq_iff RHBKService_Build_def same)
  show "RHBKDiscoveryService_Build d cr' = RHBKDiscoveryService_Build d cr"
    by (simp add: fun_eq_iff RHBKDiscoveryService_Build_def same)
  show "RHBKRoute_Build d cr' = RHBKRoute_Build d cr"
    by (simp add: fun_eq_iff RHBKRoute_Build_def same)
  show "RHBKStatefulSet_Build d cr' = RHBKStatefulSet_Build d cr"
    by (simp add: fun_eq_iff RHBKStatefulSet_Build_def same cong: sum.case_cong)
  show "ServiceMonitor_mutateFn d cr' = ServiceMonitor_mutateFn d cr"
    by (simp add: fun_eq_iff ServiceMonitor_mutateFn_def same)
qed

end

text \<open>The resources of an instance that are settled, in the order of the controller.\<close>

abbreviation serviceSettled :: "admission \<Rightarrow> deps \<Rightarrow> Keycloak \<Rightarrow> objects \<Rightarrow> Service \<Rightarrow> bool" where
  "serviceSettled a d cr objs \<equiv> settledAt svcMeta desiredService (admitsService a) (objServices objs)
     (RHBKService_init cr) (Inr \<circ> RHBKService_Build d cr)"

abbreviation routeSettled :: "admission \<Rightarrow> deps \<Rightarrow> Keycloak \<Rightarrow> objects \<Rightarrow> Route \<Rightarrow> bool" where
  "routeSettled a d cr objs \<equiv> settledAt rtMeta desiredRoute (admitsRoute a) (objRoutes objs)
     (RHBKRoute_init cr) (Inr \<circ> RHBKRoute_Build d cr)"

abbreviation workloadSettled :: "admission \<Rightarrow> deps \<Rightarrow> Keycloak \<Rightarrow> Route \<Rightarrow> objects \<Rightarrow> StatefulSet \<Rightarrow> bool" where
  "workloadSettled a d cr rt objs \<equiv> settledAt stsMeta desiredStatefulSet (admitsStatefulSet a) (objStatefulSets objs)
     (RHBKStatefulSet_init cr) (RHBKStatefulSet_Build d cr (rtHost (rtSpec rt)))"

abbreviation discoverySettled :: "admission \<Rightarrow> deps \<Rightarrow> Keycloak \<Rightarrow> objects \<Rightarrow> Service \<Rightarrow> bool" where
  "discoverySettled a d cr objs \<equiv> settledAt svcMeta desiredService (admitsService a) (objServices objs)
     (RHBKDiscoveryService_init cr) (Inr \<circ> RHBKDiscoveryService_Build d cr)"

abbreviation monitorSettled :: "admission \<Rightarrow> deps \<Rightarrow> Keycloak \<Rightarrow> objects \<Rightarrow> ServiceMonitor \<Rightarrow> bool" where
  "monitorSettled a d cr objs \<equiv> settledAt smMeta desiredServiceMonitor (admitsServiceMonitor a) (objServiceMonitors objs)
     (ServiceMonitor_init cr) (Inr \<circ> ServiceMonitor_mutateFn d cr)"

text \<open>Up to the stateful set, which is settled for the host of the route; and all five.\<close>

definition networkSettled :: "admission \<Rightarrow> deps \<Rightarrow> Keycloak \<Rightarrow> Route \<Rightarrow> objects \<Rightarrow> bool" where
  "networkSettled a d cr rt objs \<longleftrightarrow> (\<exists>svc. serviceSettled a d cr objs svc) \<and> routeSettled a d cr objs rt"

definition workloadReady :: "admission \<Rightarrow> deps \<Rightarrow> Keycloak \<Rightarrow> objects \<Rightarrow> bool" where
  "workloadReady a d cr objs \<longleftrightarrow> (\<exists>rt. networkSettled a d cr rt objs \<and> (\<exists>sts. workloadSettled a d cr rt objs sts))"

definition instanceSettled :: "admission \<Rightarrow> deps \<Rightarrow> Keycloak \<Rightarrow> objects \<Rightarrow> bool" where
  "instanceSettled a d cr objs \<longleftrightarrow> workloadReady a d cr objs \<and>
     (\<exists>disc. discoverySettled a d cr objs disc) \<and> (\<exists>mon. monitorSettled a d cr objs mon)"

lemmas settled_defs = networkSettled_def workloadReady_def instanceSettled_def

lemma service_keys_differ:
  "keyOf (svcMeta (RHBKService_init cr)) \<noteq> keyOf (svcMeta (RHBKDiscoveryService_init cr))"
proof -
  have "''-svc'' \<noteq> ''-discovery''" by simp
  then show ?thesis
    by (simp add: keyOf_def objectKey_def init_defs name_defs namedMeta_def)
qed

section \<open>Runs against a cluster\<close>

lemma wp_step:
  assumes "wp m R E s" and "\<And>x s'. R x s' \<Longrightarrow> wp (f x) Q E s'"
  shows "wp (andThen m f) Q E s"
  unfolding wp_andThen using assms by (rule wp_mono)

lemma wp_case:
  assumes "wp m (\<lambda>r s'. I s' \<and> (\<forall>y. r = Inr y \<longrightarrow> P y s')) E s"
    and "\<And>err s'. I s' \<Longrightarrow> wp (h err) Q E s'" and "\<And>y s'. I s' \<Longrightarrow> P y s' \<Longrightarrow> wp (g y) Q E s'"
  shows "wp (andThen m (\<lambda>r. case r of Inl err \<Rightarrow> h err | Inr y \<Rightarrow> g y)) Q E s"
  using assms(1) by (rule wp_step) (auto split: sum.split intro: assms(2,3))

text \<open>\<open>I\<close> holds after the program, however it ends.\<close>

abbreviation ensures :: "('s, 'a) go \<Rightarrow> ('s \<Rightarrow> bool) \<Rightarrow> 's \<Rightarrow> bool" where
  "ensures m I \<equiv> wp m (\<lambda>_. I) (\<lambda>_. I)"

lemma ensures_case:
  assumes "ensures m I s"
    and "\<And>err s'. I s' \<Longrightarrow> ensures (h err) I s'" and "\<And>y s'. I s' \<Longrightarrow> ensures (g y) I s'"
  shows "ensures (andThen m (\<lambda>r. case r of Inl err \<Rightarrow> h err | Inr y \<Rightarrow> g y)) I s"
  using assms(1) by (rule wp_step) (auto split: sum.split intro: assms(2,3))

lemma ensures_if: "ensures m I s \<Longrightarrow> ensures n I s \<Longrightarrow> ensures (if b then m else n) I s"
  by simp

lemma ensures_ret: "I s \<Longrightarrow> ensures (ret x) I s"
  by (simp add: wp_ret)

lemma ensures_run: "ensures m I s \<Longrightarrow> m s = (r, s') \<Longrightarrow> I s'"
  by (cases r) (auto dest: wp_runD wp_panicD)

text \<open>The run got as far as applying the service monitor, which is the last resource.\<close>

fun appliedMonitor :: "event \<Rightarrow> bool" where
  "appliedMonitor (EvApplyServiceMonitor _ _ r) = (case r of Inr (Inr m) \<Rightarrow> True | _ \<Rightarrow> False)"
| "appliedMonitor e = False"

abbreviation monitored :: "event list \<Rightarrow> bool" where
  "monitored es \<equiv> list_ex appliedMonitor es"

context operator_cluster
begin

lemma wp_report:
  assumes "view (world s) = V"
  shows "ensures (Keycloak_HandleError d c cr err msg) (\<lambda>s'. view (world s') = V) s"
    and "ensures (Keycloak_HandleSuccess d c cr) (\<lambda>s'. view (world s') = V) s"
proof -
  have "view (snd (UpdateKeycloakStatus c cr' (snd (Now c (world s))))) = V" for cr'
    by (simp add: status_frame clock_frame assms)
  then show "ensures (Keycloak_HandleError d c cr err msg) (\<lambda>s'. view (world s') = V) s"
    "ensures (Keycloak_HandleSuccess d c cr) (\<lambda>s'. view (world s') = V) s"
    by (simp_all add: Keycloak_HandleError_def Keycloak_HandleSuccess_def Let_def wp case_prod_unfold)
qed

lemmas apply_defs = RHBKService_CreateOrUpdate_def RHBKDiscoveryService_CreateOrUpdate_def
  RHBKRoute_CreateOrUpdate_def RHBKStatefulSet_CreateOrUpdate_def ServiceMonitor_CreateOrUpdate_def Let_def

text \<open>A reconcile of a settled instance writes none of its resources, however it ends.\<close>

lemma wp_settled_instance:
  assumes "instanceSettled a d cr V" "view (world s) = V"
    and read: "\<And>cr'. fst (GetKeycloak c req (world s)) = Inr cr' \<Longrightarrow> sameInstance cr cr'"
  shows "ensures (Keycloak_Reconcile d c req) (\<lambda>s'. view (world s') = V) s"
proof -
  from assms(1) obtain svc rt sts disc mon where settled:
    "serviceSettled a d cr V svc" "routeSettled a d cr V rt" "workloadSettled a d cr rt V sts"
    "discoverySettled a d cr V disc" "monitorSettled a d cr V mon"
    unfolding settled_defs by blast
  have got: "wp (call (GetKeycloak c req) (EvGetKeycloak req))
      (\<lambda>r s'. view (world s') = V \<and> (\<forall>cr'. r = Inr cr' \<longrightarrow> sameInstance cr cr')) (\<lambda>_ s'. view (world s') = V) s"
    using get_frame [of req "world s"] read assms(2) by (auto simp: wp_call split: prod.split)
  note ends = wp_report wp_ret [THEN iffD2]
  show ?thesis
    unfolding Keycloak_Reconcile_def
  proof (rule wp_step [OF got], goal_cases)
    case (1 r s1)
    show ?case
    proof (cases r)
      case (Inr cr')
      with 1 have s1: "view (world s1) = V" and same: "sameInstance cr cr'" by auto
      note eqs = sameInstance_build [OF same] sameInstance_init [OF same]
      show ?thesis
        unfolding Inr sum.case apply_defs eqs
        apply (rule wp_case [OF services.wp_settled [OF settled(1) s1]], erule wp_report)
        apply (rule wp_case [OF routes.wp_settled [OF settled(2)]], assumption, erule wp_report)
        apply (simp only:, rule wp_case [OF workloads.wp_settled [OF settled(3)]], assumption, erule wp_report)
        apply (rule wp_case [OF services.wp_settled [OF settled(4)]], assumption, erule wp_report)
        apply (rule wp_case [OF monitors.wp_settled [OF settled(5)]], assumption, erule wp_report)
        apply (simp add: wp_report)
        done
    qed (use 1 in \<open>simp add: wp_ret\<close>)
  qed
qed

text \<open>
  A reconcile that got as far as applying the service monitor leaves a settled instance. \<open>quiet\<close> is
  before that; \<open>goal\<close> is what is to show of every state in which the run may stop.
\<close>

definition quiet :: "event list \<Rightarrow> 'w sys \<Rightarrow> bool" where
  "quiet t s \<longleftrightarrow> (\<exists>es. trace s = t @ es \<and> \<not> monitored es)"

definition goal :: "event list \<Rightarrow> Keycloak \<Rightarrow> 'w sys \<Rightarrow> bool" where
  "goal t cr s \<longleftrightarrow> (\<exists>es. trace s = t @ es \<and> (monitored es \<longrightarrow> instanceSettled a d cr (view (world s))))"

lemma goal_quiet: "quiet t s \<Longrightarrow> goal t cr s"
  unfolding goal_def quiet_def by blast

lemma wp_goal_report:
  assumes "goal t cr s"
  shows "ensures (Keycloak_HandleError d c cr e msg) (goal t cr) s"
    and "ensures (Keycloak_HandleSuccess d c cr) (goal t cr) s"
proof -
  from assms obtain es where "trace s = t @ es" "monitored es \<Longrightarrow> instanceSettled a d cr (view (world s))"
    unfolding goal_def by blast
  then show "ensures (Keycloak_HandleError d c cr e msg) (goal t cr) s"
      "ensures (Keycloak_HandleSuccess d c cr) (goal t cr) s"
    by (simp_all add: goal_def Keycloak_HandleError_def Keycloak_HandleSuccess_def Let_def wp case_prod_unfold
        status_frame clock_frame)
qed

lemma wp_goal_service:
  assumes "quiet t s"
  shows "wp (RHBKService_CreateOrUpdate d c cr)
    (\<lambda>r s'. quiet t s' \<and> (\<forall>y. r = Inr y \<longrightarrow> (\<exists>svc. serviceSettled a d cr (view (world s')) svc))) (\<lambda>_. goal t cr) s"
  unfolding apply_defs by (rule wp_mono [OF service.wp_submit]) (use assms in \<open>auto simp: quiet_def goal_def\<close>)

lemma wp_goal_route:
  assumes "quiet t s" "\<exists>svc. serviceSettled a d cr (view (world s)) svc"
  shows "wp (RHBKRoute_CreateOrUpdate d c cr)
    (\<lambda>r s'. quiet t s' \<and> (\<forall>rt. r = Inr rt \<longrightarrow> networkSettled a d cr rt (view (world s')))) (\<lambda>_. goal t cr) s"
  unfolding apply_defs by (rule wp_mono [OF route.wp_submit])
    (use assms in \<open>auto simp: quiet_def goal_def networkSettled_def\<close>)

lemma wp_goal_workload:
  assumes "quiet t s" "networkSettled a d cr rt (view (world s))"
  shows "wp (RHBKStatefulSet_CreateOrUpdate d c cr (rtHost (rtSpec rt)))
    (\<lambda>r s'. quiet t s' \<and> (\<forall>y. r = Inr y \<longrightarrow> workloadReady a d cr (view (world s')))) (\<lambda>_. goal t cr) s"
  unfolding apply_defs by (rule wp_mono [OF workload.wp_submit])
    (use assms in \<open>(auto simp: quiet_def goal_def networkSettled_def workloadReady_def); blast\<close>)+

lemma wp_goal_discovery:
  assumes "quiet t s" "workloadReady a d cr (view (world s))"
  shows "wp (RHBKDiscoveryService_CreateOrUpdate d c cr)
    (\<lambda>r s'. quiet t s' \<and> (\<forall>y. r = Inr y \<longrightarrow> workloadReady a d cr (view (world s')) \<and>
       (\<exists>disc. discoverySettled a d cr (view (world s')) disc))) (\<lambda>_. goal t cr) s"
  unfolding apply_defs by (rule wp_mono [OF discovery.wp_submit])
    (use assms service_keys_differ [of cr] in
      \<open>(auto simp: quiet_def goal_def networkSettled_def workloadReady_def settledAt_def); blast\<close>)+

lemma wp_goal_monitor:
  assumes "quiet t s" "workloadReady a d cr (view (world s)) \<and> (\<exists>disc. discoverySettled a d cr (view (world s)) disc)"
  shows "wp (ServiceMonitor_CreateOrUpdate d c cr) (\<lambda>r s'. goal t cr s' \<and> (\<forall>y. r = Inr y \<longrightarrow> True)) (\<lambda>_. goal t cr) s"
  unfolding apply_defs by (rule wp_mono [OF monitor.wp_submit])
    (use assms in \<open>(auto simp: quiet_def goal_def settled_defs split: sum.splits); blast\<close>)+

lemma wp_settles:
  assumes read: "fst (GetKeycloak c req (world s)) = Inr cr"
  shows "ensures (Keycloak_Reconcile d c req) (goal (trace s) cr) s"
proof -
  have get: "wp (call (GetKeycloak c req) (EvGetKeycloak req)) (\<lambda>r s'. quiet (trace s) s' \<and> r = Inr cr)
      (\<lambda>_. goal (trace s) cr) s"
    using read by (auto simp: quiet_def wp_call split: prod.split)
  show ?thesis
    unfolding Keycloak_Reconcile_def
    apply (rule wp_step [OF get])
    apply (erule conjE, simp only: sum.case)
    apply (rule wp_case [OF wp_goal_service], assumption, rule wp_goal_report(1), erule goal_quiet)
    apply (rule wp_case [OF wp_goal_route], assumption+, rule wp_goal_report(1), erule goal_quiet)
    apply (rule wp_case [OF wp_goal_workload], assumption+, rule wp_goal_report(1), erule goal_quiet)
    apply (rule wp_case [OF wp_goal_discovery], assumption+, rule wp_goal_report(1), erule goal_quiet)
    apply (rule wp_case [OF wp_goal_monitor], assumption+, erule wp_goal_report(1))
    apply (simp add: wp_goal_report split: if_split)
    done
qed

text \<open>
  The rollout markers: whatever a run does, and whether or not its calls fail, a stateful set
  that was there is still there with the annotations of its pods.
\<close>

definition marked :: "labels option \<Rightarrow> ObjectKey \<Rightarrow> objects \<Rightarrow> bool" where
  "marked an k objs \<longleftrightarrow> (\<exists>x. objStatefulSets objs k = Some x \<and> podAnnotations x = an)"

lemma build_podAnnotations:
  "RHBKStatefulSet_Build d cr h x = Inr (Inr z) \<Longrightarrow> podAnnotations z = podAnnotations x"
  by (erule RHBKStatefulSet_Build_cases) (simp add: podAnnotations_def)

lemma ensures_marked_workload:
  assumes "marked an k (view (world s))"
  shows "ensures (callBack (ApplyStatefulSet c obj (RHBKStatefulSet_Build d cr h)) ev) (\<lambda>s'. marked an k (view (world s'))) s"
proof -
  obtain r w' where run: "ApplyStatefulSet c obj (RHBKStatefulSet_Build d cr h) (world s) = (r, w')" by fastforce
  have "marked an k (view w')"
  proof (cases "k = keyOf (stsMeta obj)")
    case True
    with workloads.submit_effect [OF run] assms workloads.accepts_keeps show ?thesis
      by (force simp: marked_def lookupOr_def keepsStatefulSet_def dest: build_podAnnotations)
  next
    case False
    with workloads.submit_other [OF run] assms show ?thesis by (simp add: marked_def)
  qed
  with run show ?thesis by (simp add: wp_callBack split: sum.split)
qed

lemma ensures_marked:
  assumes "marked an k (view (world s))"
  shows "ensures (callBack (ApplyService c s1 f1) e1) (\<lambda>s'. marked an k (view (world s'))) s"
    and "ensures (callBack (ApplyRoute c s2 f2) e2) (\<lambda>s'. marked an k (view (world s'))) s"
    and "ensures (callBack (ApplyServiceMonitor c s3 f3) e3) (\<lambda>s'. marked an k (view (world s'))) s"
    and "ensures (call (GetKeycloak c req) e4) (\<lambda>s'. marked an k (view (world s'))) s"
    and "ensures (Keycloak_HandleError d c cr err msg) (\<lambda>s'. marked an k (view (world s'))) s"
    and "ensures (Keycloak_HandleSuccess d c cr) (\<lambda>s'. marked an k (view (world s'))) s"
proof -
  have m: "marked an k (objServices_update g (view (world s)))" "marked an k (objRoutes_update g' (view (world s)))"
    "marked an k (objServiceMonitors_update g'' (view (world s)))" for g g' g''
    using assms by (simp_all add: marked_def)
  show "ensures (callBack (ApplyService c s1 f1) e1) (\<lambda>s'. marked an k (view (world s'))) s"
    by (rule wp_mono [OF services.wp_frame]) (auto simp: m)
  show "ensures (callBack (ApplyRoute c s2 f2) e2) (\<lambda>s'. marked an k (view (world s'))) s"
    by (rule wp_mono [OF routes.wp_frame]) (auto simp: m)
  show "ensures (callBack (ApplyServiceMonitor c s3 f3) e3) (\<lambda>s'. marked an k (view (world s'))) s"
    by (rule wp_mono [OF monitors.wp_frame]) (auto simp: m)
  show "ensures (call (GetKeycloak c req) e4) (\<lambda>s'. marked an k (view (world s'))) s"
    using get_frame [of req "world s"] assms by (auto simp: wp_call split: prod.split)
  show "ensures (Keycloak_HandleError d c cr err msg) (\<lambda>s'. marked an k (view (world s'))) s"
    "ensures (Keycloak_HandleSuccess d c cr) (\<lambda>s'. marked an k (view (world s'))) s"
    by (rule wp_mono [OF wp_report(1) [OF refl]] wp_mono [OF wp_report(2) [OF refl]], use assms in auto)+
qed

lemma ensures_marked_reconcile:
  assumes "marked an k (view (world s))"
  shows "ensures (Keycloak_Reconcile d c req) (\<lambda>s'. marked an k (view (world s'))) s"
  unfolding Keycloak_Reconcile_def apply_defs
  by (intro ensures_case ensures_if ensures_ret ensures_marked ensures_marked_workload assms)

end

end
