(* ===== verification/RealmSecret.thy ===== *)
theory RealmSecret
  imports Client Reference
begin

text \<open>
  \<^verbatim>\<open>internal/resources/realm/realm_import_secret.go\<close>: the secret that holds the realm to import,
  made from the template in the custom resource and the values of other secrets.

  \<^verbatim>\<open>expandTemplate\<close> runs \<^verbatim>\<open>text/template\<close> with the delimiters \<^verbatim>\<open>%\<close> and \<^verbatim>\<open>%\<close> and the option
  \<^verbatim>\<open>missingkey=error\<close>. The model has the part of that language that a substitution needs: text
  and field actions (\<^verbatim>\<open>%.Name%\<close>, with blanks allowed around the field), with the error text of
  a missing key. A template that uses anything else (pipelines, functions, variables, trim
  markers, comments, an action that is not closed) is handed to \<open>engine\<close>, the rest of the
  template language, an argument of the definitions.
\<close>

section \<open>Templates\<close>

type_synonym template_engine = "string \<Rightarrow> labels \<Rightarrow> goerror + string"

datatype segment = TextNode string | FieldNode nat string

definition percent :: char where "percent = CHR 0x25"

definition is_tpl_space :: "char \<Rightarrow> bool" where
  "is_tpl_space c = (c = CHR '' '' \<or> c = CHR 0x09 \<or> c = CHR 0x0D \<or> c = CHR 0x0A)"

text \<open>
  The inside of a field action, after the left delimiter: the offset of the dot, the key and
  what follows the right delimiter.
\<close>

definition lexField :: "string \<Rightarrow> (nat \<times> string \<times> string) option" where
  "lexField s =
     (case dropWhile is_tpl_space s of
        [] \<Rightarrow> None
      | c # r \<Rightarrow>
          (let key = takeWhile is_word_char r;
               after = dropWhile is_tpl_space (dropWhile is_word_char r) in
           if c = CHR ''.'' \<and> key \<noteq> [] \<and> \<not> is_digit_char (hd key) \<and> after \<noteq> [] \<and> hd after = percent
           then Some (length (takeWhile is_tpl_space s), key, tl after)
           else None))"

lemma dropWhile_shorter: "dropWhile P s = c # r \<Longrightarrow> length r < length s"
  by (metis length_Cons length_dropWhile_le less_eq_Suc_le)

lemma lexField_shorter: "lexField s = Some (off, key, rest) \<Longrightarrow> length rest < length s"
proof -
  assume a: "lexField s = Some (off, key, rest)"
  then obtain c r where d: "dropWhile is_tpl_space s = c # r"
    and rest: "rest = tl (dropWhile is_tpl_space (dropWhile is_word_char r))"
    by (auto simp: lexField_def Let_def split: list.splits if_splits)
  from d have "length r < length s" by (rule dropWhile_shorter)
  moreover have "length (dropWhile is_tpl_space (dropWhile is_word_char r)) \<le> length r"
    using length_dropWhile_le order_trans by blast
  ultimately show ?thesis using rest by simp
qed

function parseTemplate :: "nat \<Rightarrow> string \<Rightarrow> segment list option" where
  "parseTemplate pos t =
     (let text = takeWhile (\<lambda>c. c \<noteq> percent) t in
      case dropWhile (\<lambda>c. c \<noteq> percent) t of
        [] \<Rightarrow> Some [TextNode text]
      | _ # s \<Rightarrow>
          (case lexField s of
             None \<Rightarrow> None
           | Some (off, key, rest) \<Rightarrow>
               map_option (\<lambda>nodes. TextNode text # FieldNode (pos + length text + 1 + off) key # nodes)
                 (parseTemplate (pos + (length t - length rest)) rest)))"
  by pat_completeness auto
termination
  by (relation "measure (\<lambda>(pos, t). length t)") (auto dest!: lexField_shorter dropWhile_shorter)

text \<open>\<^verbatim>\<open>ErrorContext\<close>: line and column of a node, and the message for a missing key.\<close>

definition nodeLocation :: "string \<Rightarrow> nat \<Rightarrow> string" where
  "nodeLocation t pos =
     (let before = take pos t;
          column = length (takeWhile (\<lambda>c. c \<noteq> CHR 0x0A) (rev before)) in
      ''Secret replacer:'' @ Itoa (1 + count_list before (CHR 0x0A)) @ '':'' @ Itoa column)"

definition missingKey :: "string \<Rightarrow> nat \<Rightarrow> string \<Rightarrow> goerror" where
  "missingKey t pos key = TemplateError
     (''template: '' @ nodeLocation t pos @ '': executing '' @ dquote # ''Secret replacer'' @ dquote #
      '' at <.'' @ key @ ''>: map has no entry for key '' @ dquote # key @ [dquote])"

fun executeTemplate :: "string \<Rightarrow> labels \<Rightarrow> segment list \<Rightarrow> goerror + string" where
  "executeTemplate t subs [] = Inr []"
| "executeTemplate t subs (TextNode text # nodes) =
     (case executeTemplate t subs nodes of Inl e \<Rightarrow> Inl e | Inr out \<Rightarrow> Inr (text @ out))"
| "executeTemplate t subs (FieldNode pos key # nodes) =
     (case subs key of
        None \<Rightarrow> Inl (missingKey t pos key)
      | Some v \<Rightarrow>
          (case executeTemplate t subs nodes of Inl e \<Rightarrow> Inl e | Inr out \<Rightarrow> Inr (v @ out)))"

definition expandTemplate :: "template_engine \<Rightarrow> string \<Rightarrow> labels \<Rightarrow> goerror + string" where
  "expandTemplate engine t substitutions =
     (case parseTemplate 0 t of
        Some nodes \<Rightarrow> executeTemplate t substitutions nodes
      | None \<Rightarrow> engine t substitutions)"

section \<open>The secret\<close>

definition GetImportJobSecretName :: "KeycloakImport \<Rightarrow> string" where
  "GetImportJobSecretName cr = metaName (kiMeta cr)"

definition GetImportJobSecretRealmName :: "KeycloakImport \<Rightarrow> string" where
  "GetImportJobSecretRealmName cr = metaName (kiMeta cr) @ ''-realm.json''"

text \<open>
  The loop over the substitutions: \<^verbatim>\<open>sub.Secret.Name\<close> panics without a secret, a failed read ends
  the function, and a missing key of the secret reads as the empty string.
\<close>

fun fetchSubstitutions ::
  "'w client \<Rightarrow> KeycloakImport \<Rightarrow> SecretOptionVar list \<Rightarrow> labels \<Rightarrow> ('w sys, goerror + labels) go" where
  "fetchSubstitutions c cr [] substitutions = ret (Inr substitutions)"
| "fetchSubstitutions c cr (sub # rest) substitutions =
     (case sovSecret sub of
        None \<Rightarrow> lift_panic (Inl NilDereference)
      | Some sel \<Rightarrow>
          (let key = objectKey (metaNamespace (kiMeta cr)) (selName sel) in
           andThen (call (GetSecret c key) (EvGetSecret key)) (\<lambda>r.
           case r of
             Inl err \<Rightarrow> ret (Inl err)
           | Inr secret \<Rightarrow>
               (case EscapeString (goIndex (secData secret) (selKey sel)) of
                  Inl err \<Rightarrow>
                    ret (Inl (WrappedError (''failed to escape value for key '' @ sovName sub) err))
                | Inr escapedValue \<Rightarrow>
                    fetchSubstitutions c cr rest (substitutions(sovName sub \<mapsto> escapedValue))))))"

definition ImportRealmSecret_MutateFn ::
  "template_engine \<Rightarrow> KeycloakImport \<Rightarrow> labels \<Rightarrow> Secret \<Rightarrow> goerror + Secret" where
  "ImportRealmSecret_MutateFn engine cr substitutions s =
     (case expandTemplate engine (kiJSON (kiSpec cr)) substitutions of
        Inl err \<Rightarrow> Inl err
      | Inr realm \<Rightarrow>
          (let ownerLabels = (GetOwnerLabels (metaName (kiMeta cr)) (metaNamespace (kiMeta cr)))
                 (RHBKWatchedResourceLabel \<mapsto> FormatBool True) in
           Inr (s\<lparr>secMeta := (secMeta s)\<lparr>metaLabels := Some ownerLabels\<rparr>,
                  secData := Some [GetImportJobSecretRealmName cr \<mapsto> realm]\<rparr>)))"

definition ImportRealmSecret_init :: "KeycloakImport \<Rightarrow> Secret" where
  "ImportRealmSecret_init cr =
     \<lparr>secMeta = namedMeta (GetImportJobSecretName cr) (instNamespace (kiKeycloakInstance (kiSpec cr))),
      secData = None\<rparr>"

definition ImportRealmSecret_CreateOrUpdate ::
  "template_engine \<Rightarrow> 'w client \<Rightarrow> KeycloakImport \<Rightarrow> ('w sys, goerror + Secret) go" where
  "ImportRealmSecret_CreateOrUpdate engine c cr =
     andThen (fetchSubstitutions c cr (kiSubstitutions (kiSpec cr)) Map.empty) (\<lambda>r.
     case r of
       Inl err \<Rightarrow> ret (Inl err)
     | Inr substitutions \<Rightarrow>
         (let f = Inr \<circ> ImportRealmSecret_MutateFn engine cr substitutions in
          callBack (ApplySecret c (ImportRealmSecret_init cr) f)
            (EvApplySecret (ImportRealmSecret_init cr) f)))"

definition GetImportSecrets :: "'w client \<Rightarrow> KeycloakImport \<Rightarrow> ('w sys, goerror + Secret list) go" where
  "GetImportSecrets c kci =
     (let ns = instNamespace (kiKeycloakInstance (kiSpec kci));
          sel = GetOwnerLabels (metaName (kiMeta kci)) (metaNamespace (kiMeta kci)) in
      call (ListSecrets c ns sel) (EvListSecrets ns sel))"

declare parseTemplate.simps [simp del]


section \<open>Templates as pieces\<close>

text \<open>
  The reference view of a template: literal text and references to substitutions. Printing
  the pieces and expanding the result is replacing every reference by its value.
\<close>

datatype piece = Lit string | Ref string

primrec pieceText :: "piece \<Rightarrow> string" where
  "pieceText (Lit s) = s"
| "pieceText (Ref k) = percent # CHR ''.'' # k @ [percent]"

primrec wf_piece :: "piece \<Rightarrow> bool" where
  "wf_piece (Lit s) = (percent \<notin> set s)"
| "wf_piece (Ref k) = (k \<noteq> [] \<and> list_all is_word_char k \<and> \<not> is_digit_char (hd k))"

primrec pieceValue :: "labels \<Rightarrow> piece \<Rightarrow> string option" where
  "pieceValue subs (Lit s) = Some s"
| "pieceValue subs (Ref k) = subs k"

definition templateOf :: "piece list \<Rightarrow> string" where
  "templateOf ps = concat (map pieceText ps)"

lemma word_not_percent: "is_word_char c \<Longrightarrow> c \<noteq> percent"
  by (auto simp: is_word_char_def percent_def)

lemma lexField_key:
  assumes "k \<noteq> []" "list_all is_word_char k" "\<not> is_digit_char (hd k)"
  shows "lexField (CHR ''.'' # k @ percent # rest) = Some (0, k, rest)"
proof -
  have nw: "\<not> is_word_char percent" using word_not_percent by blast
  have ns: "\<not> is_tpl_space percent" "\<not> is_tpl_space (CHR ''.'')"
    by (simp_all add: is_tpl_space_def percent_def)
  have w: "\<forall>c \<in> set k. is_word_char c" using assms(2) by (simp add: list_all_iff)
  have "takeWhile is_word_char (k @ percent # rest) = k" "dropWhile is_word_char (k @ percent # rest) = percent # rest"
    using w nw by simp_all
  with assms ns show ?thesis by (simp add: lexField_def Let_def)
qed

lemma parseTemplate_text:
  assumes "percent \<notin> set s"
  shows "parseTemplate pos s = Some [TextNode s]"
proof -
  have "\<forall>c \<in> set s. c \<noteq> percent" using assms by auto
  then have "takeWhile (\<lambda>c. c \<noteq> percent) s = s" "dropWhile (\<lambda>c. c \<noteq> percent) s = []" by simp_all
  then show ?thesis by (subst parseTemplate.simps) (simp only: Let_def list.case)
qed

lemma parseTemplate_ref:
  assumes "percent \<notin> set s" "wf_piece (Ref k)"
  shows "parseTemplate pos (s @ pieceText (Ref k) @ rest) =
    map_option (\<lambda>nodes. TextNode s # FieldNode (pos + length s + 1) k # nodes)
      (parseTemplate (pos + (length s + length k + 3)) rest)"
proof -
  have "\<forall>c \<in> set s. c \<noteq> percent" using assms(1) by auto
  then have "takeWhile (\<lambda>c. c \<noteq> percent) (s @ percent # r) = s"
    "dropWhile (\<lambda>c. c \<noteq> percent) (s @ percent # r) = percent # r" for r by simp_all
  moreover from assms(2) have "lexField (CHR ''.'' # k @ percent # rest) = Some (0, k, rest)"
    by (intro lexField_key) simp_all
  ultimately show ?thesis
    by (simp add: parseTemplate.simps [of pos] Let_def add.commute)
qed

lemma execute_pieces:
  assumes "list_all wf_piece ps" "percent \<notin> set s"
  shows "\<exists>nodes. parseTemplate pos (s @ templateOf ps) = Some nodes \<and>
    (case executeTemplate t subs nodes of
       Inr out \<Rightarrow> list_all (\<lambda>p. pieceValue subs p \<noteq> None) ps \<and>
                  out = s @ concat (map (the \<circ> pieceValue subs) ps)
     | Inl err \<Rightarrow> \<exists>k pos. Ref k \<in> set ps \<and> subs k = None \<and> err = missingKey t pos k)"
  using assms
proof (induction ps arbitrary: s pos)
  case Nil
  then show ?case by (simp add: templateOf_def parseTemplate_text)
next
  case (Cons p ps)
  show ?case
  proof (cases p)
    case (Lit l)
    with Cons.prems Cons.IH [of "s @ l" pos] show ?thesis
      by (fastforce simp: templateOf_def split: sum.splits)
  next
    case (Ref k)
    from Cons.prems Cons.IH [of "[]" "pos + (length s + length k + 3)", unfolded append_Nil] obtain nodes where
      n: "parseTemplate (pos + (length s + length k + 3)) (templateOf ps) = Some nodes"
      and e: "case executeTemplate t subs nodes of
         Inr out \<Rightarrow> list_all (\<lambda>p. pieceValue subs p \<noteq> None) ps \<and> out = concat (map (the \<circ> pieceValue subs) ps)
       | Inl err \<Rightarrow> \<exists>k pos. Ref k \<in> set ps \<and> subs k = None \<and> err = missingKey t pos k"
      by auto
    have "parseTemplate pos (s @ templateOf (p # ps)) = Some (TextNode s # FieldNode (pos + length s + 1) k # nodes)"
      using parseTemplate_ref [of s k pos "templateOf ps"] n Cons.prems Ref by (simp add: templateOf_def)
    with e Ref show ?thesis by (fastforce split: option.splits sum.splits)
  qed
qed

lemma expandTemplate_pieces:
  assumes "list_all wf_piece ps"
  shows "case expandTemplate engine (templateOf ps) subs of
       Inr out \<Rightarrow> list_all (\<lambda>p. pieceValue subs p \<noteq> None) ps \<and> out = concat (map (the \<circ> pieceValue subs) ps)
     | Inl err \<Rightarrow> \<exists>k pos. Ref k \<in> set ps \<and> subs k = None \<and> err = missingKey (templateOf ps) pos k"
  using execute_pieces [OF assms, where s = "[]" and pos = 0 and t = "templateOf ps" and subs = subs,
      unfolded append_Nil]
  by (auto simp: expandTemplate_def)

section \<open>Reading the substitutions\<close>

text \<open>The events and the values of a run of the loop that reads the secrets \<open>secs\<close>.\<close>

definition readEvent :: "KeycloakImport \<Rightarrow> SecretOptionVar \<Rightarrow> Secret \<Rightarrow> event" where
  "readEvent cr sub secret =
     EvGetSecret (objectKey (metaNamespace (kiMeta cr)) (selName (the (sovSecret sub)))) (Inr secret)"

definition subValue :: "SecretOptionVar \<Rightarrow> Secret \<Rightarrow> string" where
  "subValue sub secret =
     (case EscapeString (goIndex (secData secret) (selKey (the (sovSecret sub)))) of
        Inl _ \<Rightarrow> [] | Inr v \<Rightarrow> v)"

fun subValues :: "SecretOptionVar list \<Rightarrow> Secret list \<Rightarrow> labels \<Rightarrow> labels" where
  "subValues (sub # subs) (sec # secs) m = subValues subs secs (m(sovName sub \<mapsto> subValue sub sec))"
| "subValues _ _ m = m"

definition readAll :: "KeycloakImport \<Rightarrow> SecretOptionVar list \<Rightarrow> Secret list \<Rightarrow> event list \<Rightarrow> bool" where
  "readAll cr subs secs es \<longleftrightarrow> length secs = length subs \<and> list_all (\<lambda>sub. sovSecret sub \<noteq> None) subs \<and>
     es = map2 (readEvent cr) subs secs"

text \<open>What the loop over the substitutions does: it only reads, and ends in one of three ways.\<close>

definition fetched ::
  "KeycloakImport \<Rightarrow> SecretOptionVar list \<Rightarrow> labels \<Rightarrow> panic + (goerror + labels) \<Rightarrow> event list \<Rightarrow> bool" where
  "fetched cr subs m r es \<longleftrightarrow> list_all isRead es \<and> (
     case r of
       Inl p \<Rightarrow> p = NilDereference \<and> list_ex (\<lambda>sub. sovSecret sub = None) subs
     | Inr (Inl err) \<Rightarrow> \<exists>key es'. es = es' @ [EvGetSecret key (Inl err)]
     | Inr (Inr m') \<Rightarrow> \<exists>secs. readAll cr subs secs es \<and> m' = subValues subs secs m)"

lemma fetched_Cons:
  assumes "fetched cr subs (m(sovName sub \<mapsto> subValue sub sec)) r es" "sovSecret sub = Some sel"
  shows "fetched cr (sub # subs) m r (EvGetSecret (objectKey (metaNamespace (kiMeta cr)) (selName sel)) (Inr sec) # es)"
    (is "fetched _ _ _ _ (?e # es)")
proof (cases r)
  case (Inr v)
  then show ?thesis
  proof (cases v)
    case (Inr m')
    with assms(1) \<open>r = Inr v\<close> obtain secs where "list_all isRead es" "readAll cr subs secs es"
      "m' = subValues subs secs (m(sovName sub \<mapsto> subValue sub sec))" by (auto simp: fetched_def)
    then have "readAll cr (sub # subs) (sec # secs) (?e # es)" "m' = subValues (sub # subs) (sec # secs) m"
      by (simp_all add: readAll_def readEvent_def assms(2))
    with Inr \<open>r = Inr v\<close> \<open>list_all isRead es\<close> show ?thesis unfolding fetched_def by auto
  qed (use assms(1) \<open>r = Inr v\<close> in \<open>auto simp: fetched_def intro: exI [of _ "_ # _"]\<close>)
qed (use assms(1) in \<open>auto simp: fetched_def\<close>)

lemma emits_fetchSubstitutions: "emits (fetchSubstitutions c cr subs m) (fetched cr subs m)"
proof (induction subs arbitrary: m)
  case Nil
  show ?case by (simp add: readAll_def fetched_def emits_intros)
next
  case (Cons sub subs)
  show ?case
  proof (cases "sovSecret sub")
    case None
    then show ?thesis by (simp add: fetched_def emits_lift_panicI)
  next
    case (Some sel)
    have "EscapeString (goIndex (secData sec) (selKey sel)) = Inr (subValue sub sec)" for sec
      using EscapeString_total [of "goIndex (secData sec) (selKey sel)"] by (auto simp: subValue_def Some)
    moreover have "fetched cr (sub # subs) m (Inr (Inl err)) [EvGetSecret k (Inl err)]" for k err by (simp add: fetched_def)
    ultimately show ?thesis
      using emits_mono [OF Cons.IH fetched_Cons [OF _ Some]]
      by (auto simp: Some Let_def intro!: emits_intros)
  qed
qed

section \<open>Properties\<close>



text \<open>
  C17: a secret value that is well-formed UTF-8 and has no PEM marker in it cannot break out of the JSON
  string it is substituted into. Take the body of a JSON string literal, given as a template whose text is
  well-formed by itself, and substitute the escaped values of such secrets. Then the expanded body is
  again the body of one JSON string literal, and reading it gives the text with every reference
  replaced by the raw value of the secret. Both conditions are needed: a value with a PEM marker is not escaped and
  can break out (\<open>EscapeString_pem_unsafe\<close>), and ill-formed bytes are replaced.
\<close>

theorem expandTemplate_json_safe:
  assumes "list_all wf_piece ps"
    and "\<And>l. Lit l \<in> set ps \<Longrightarrow> json_unquote l = Some (decoded l)"
    and "\<And>k. Ref k \<in> set ps \<Longrightarrow> valid_utf8 (raw k) \<and> \<not> Contains (raw k) ''-----BEGIN'' \<and>
           \<not> Contains (raw k) ''-----END'' \<and> (\<exists>e. EscapeString (raw k) = Inr e \<and> subs k = Some e)"
  shows "\<exists>out. expandTemplate engine (templateOf ps) subs = Inr out \<and>
     json_unquote out = Some (concat (map (\<lambda>p. case p of Lit l \<Rightarrow> decoded l | Ref k \<Rightarrow> raw k) ps))"
proof -
  have sub: "Ref k \<in> set ps \<Longrightarrow> subs k = Some (appendString (raw k)) \<and> toValidUTF8 (raw k) = raw k" for k
    using assms(3) [of k] by (auto simp: EscapeString_plain toValidUTF8_id)
  have "json_unquote (concat (map (the \<circ> pieceValue subs) qs)) =
      Some (concat (map (\<lambda>p. case p of Lit l \<Rightarrow> decoded l | Ref k \<Rightarrow> raw k) qs))" if "set qs \<subseteq> set ps" for qs
    using that
  proof (induction qs)
    case (Cons q qs)
    then show ?case
      using assms(2) sub by (cases q) (auto simp: json_unquote_append json_unquote_appendString_append)
  qed simp
  moreover have "subs k \<noteq> None" if "Ref k \<in> set ps" for k using sub [OF that] by simp
  ultimately show ?thesis
    using expandTemplate_pieces [OF assms(1), where engine = engine and subs = subs] by (fastforce split: sum.splits)
qed

theorem expandTemplate_json_safe_witness:
  "\<exists>out. expandTemplate (\<lambda>t m. Inl (TemplateError [])) ''user-%.pw%'' [''pw'' \<mapsto> appendString (''a'' @ [dquote, CHR 0x0A])] = Inr out \<and>
     json_unquote out = Some (''user-a'' @ [dquote, CHR 0x0A])"
proof -
  let ?ps = "[Lit ''user-'', Ref ''pw'']" and ?v = "''a'' @ [dquote, CHR 0x0A]"
  have p: "list_all wf_piece ?ps" by (simp add: percent_def is_word_char_def is_digit_char_def)
  have t: "templateOf ?ps = ''user-%.pw%''" by (simp add: templateOf_def percent_def)
  have l: "json_unquote ''user-'' = Some ''user-''" by simp
  have v: "\<not> Contains ?v ''-----BEGIN''" "\<not> Contains ?v ''-----END''"
    by (auto simp: Contains_def dest: sublist_length_le)
  have u: "valid_utf8 ?v" by (simp add: valid_utf8.simps(2) DecodeRune_def RuneError_def)
  from v have "EscapeString ?v = Inr (appendString ?v)" by (rule EscapeString_plain)
  with expandTemplate_json_safe [OF p, where decoded = "\<lambda>l. ''user-''" and raw = "\<lambda>k. ?v"
      and subs = "[''pw'' \<mapsto> appendString ?v]" and engine = "\<lambda>t m. Inl (TemplateError [])"] l u v t
  show ?thesis by auto
qed

text \<open>
  C29: the realm secret is written only from substitutions that were all read, whatever the
  cluster answers. A run either makes one write, after reading every referenced secret once
  and in order in the namespace of the import, with the mutate function for exactly the
  escaped values read; or it writes nothing, because a read failed (that error is returned) or
  because a substitution has no secret (a panic).
\<close>

theorem ImportRealmSecret_CreateOrUpdate_writes:
  "case ImportRealmSecret_CreateOrUpdate engine c cr s of (r, s') \<Rightarrow>
     \<exists>es. trace s' = trace s @ es \<and>
      ((\<exists>secs reads. readAll cr (kiSubstitutions (kiSpec cr)) secs reads \<and>
          es = reads @ [EvApplySecret (ImportRealmSecret_init cr)
            (Inr \<circ> ImportRealmSecret_MutateFn engine cr (subValues (kiSubstitutions (kiSpec cr)) secs Map.empty)) r])
       \<or> list_all isRead es \<and>
         (case r of
            Inl p \<Rightarrow> p = NilDereference \<and> list_ex (\<lambda>sub. sovSecret sub = None) (kiSubstitutions (kiSpec cr))
          | Inr (Inl err) \<Rightarrow> \<exists>key es'. es = es' @ [EvGetSecret key (Inl err)]
          | Inr (Inr _) \<Rightarrow> False))"
proof -
  have "emits (ImportRealmSecret_CreateOrUpdate engine c cr) (\<lambda>r es.
     (\<exists>secs reads. readAll cr (kiSubstitutions (kiSpec cr)) secs reads \<and>
          es = reads @ [EvApplySecret (ImportRealmSecret_init cr)
            (Inr \<circ> ImportRealmSecret_MutateFn engine cr (subValues (kiSubstitutions (kiSpec cr)) secs Map.empty)) r])
       \<or> list_all isRead es \<and>
         (case r of
            Inl p \<Rightarrow> p = NilDereference \<and> list_ex (\<lambda>sub. sovSecret sub = None) (kiSubstitutions (kiSpec cr))
          | Inr (Inl err) \<Rightarrow> \<exists>key es'. es = es' @ [EvGetSecret key (Inl err)]
          | Inr (Inr _) \<Rightarrow> False))"
    unfolding ImportRealmSecret_CreateOrUpdate_def
    by (rule emits_andThenI [OF emits_fetchSubstitutions [unfolded fetched_def]])
      (auto simp: Let_def split: sum.split intro!: emits_intros)
  from emitsD [OF this, of s] show ?thesis by (auto split: prod.split)
qed

end
