(* ===== verification/RealmJob.thy ===== *)
theory RealmJob
  imports RealmSecret StatefulSetBuild
begin

text \<open>
  \<^verbatim>\<open>internal/resources/realm/realm_import_job.go\<close>: the job that imports a realm. Its pod is a
  deep copy of the pod of the stateful set (records are values here), with the environment
  rewritten for a single local node, the realm secret mounted, the probes removed and the
  command replaced.
\<close>

section \<open>The code\<close>

definition GetImportJobName :: "KeycloakImport \<Rightarrow> string" where
  "GetImportJobName cr = metaName (kiMeta cr) @ ''-import''"

definition GetImportJobSecretVolumeName :: "KeycloakImport \<Rightarrow> string" where
  "GetImportJobSecretVolumeName cr = GetImportJobSecretName cr @ ''-volume''"

definition GetRealmMountPath :: "KeycloakImport \<Rightarrow> string" where
  "GetRealmMountPath cr = ''/mnt/realm-import/'' @ metaName (kiMeta cr) @ ''-realm.json''"

definition GetImportJobAnnotation :: "KeycloakImport \<Rightarrow> string" where
  "GetImportJobAnnotation cr = metaName (kiMeta cr) @ ''/'' @ metaNamespace (kiMeta cr)"

definition toModify :: labels where
  "toModify = [''KC_CACHE'' \<mapsto> ''local'', ''KC_HEALTH_ENABLED'' \<mapsto> ''false'', ''KC_CACHE_STACK'' \<mapsto> '''']"

fun jobEnv :: "EnvVar list \<Rightarrow> EnvVar list" where
  "jobEnv [] = []"
| "jobEnv (v # rest) =
     (case toModify (envName v) of
        Some n \<Rightarrow> if n = '''' then jobEnv rest else plainEnv (envName v) n # jobEnv rest
      | None \<Rightarrow> v # jobEnv rest)"

definition jobLabels :: "KeycloakImport \<Rightarrow> string \<Rightarrow> labels option" where
  "jobLabels cr revision = DecorateDefaultLabels
     (Some ((GetOwnerLabels (metaName (kiMeta cr)) (metaNamespace (kiMeta cr)))
        (GetImportJobAnnotation cr \<mapsto> revision)))"

definition realmVolume :: "KeycloakImport \<Rightarrow> Volume" where
  "realmVolume cr =
     \<lparr>volName = GetImportJobSecretVolumeName cr,
      volSource = \<lparr>vsSecret = Some \<lparr>svsSecretName = GetImportJobSecretName cr, svsDefaultMode = None,
                                    svsOptional = None\<rparr>,
                   vsConfigMap = None, vsEmptyDir = None\<rparr>\<rparr>"

definition importCommand :: "KeycloakImport \<Rightarrow> string" where
  "importCommand cr =
     ''/opt/keycloak/bin/kc.sh --verbose build && ''
     @ ''/opt/keycloak/bin/kc.sh --verbose import --optimized --file='' @ CHR 0x27 # GetRealmMountPath cr @ CHR 0x27 #
     '' --override='' @ FormatBool (kiOverrideIfExists (kiSpec cr))"

definition importContainer :: "KeycloakImport \<Rightarrow> Container \<Rightarrow> Container" where
  "importContainer cr kcContainer = kcContainer\<lparr>
     cVolumeMounts := cVolumeMounts kcContainer @
       [\<lparr>mountName = GetImportJobSecretVolumeName cr, mountPath = ''/mnt/realm-import'', mountReadOnly = True\<rparr>],
     cEnv := jobEnv (cEnv kcContainer),
     cReadinessProbe := None, cLivenessProbe := None, cStartupProbe := None,
     cCommand := [''/bin/bash''],
     cArgs := [''-c'', importCommand cr]\<rparr>"

definition Job_Build :: "KeycloakImport \<Rightarrow> StatefulSet \<Rightarrow> string \<Rightarrow> panic + (goerror + Job)" where
  "Job_Build cr sts revision =
     (let template = stsTemplate (stsSpec sts); pod = tplSpec template in
      case podContainers pod of
        [] \<Rightarrow> Inl IndexOutOfRange
      | kcContainer # others \<Rightarrow>
          Inr (Inr \<lparr>
            jobMeta = (namedMeta (GetImportJobName cr) (metaNamespace (stsMeta sts)))
                        \<lparr>metaLabels := jobLabels cr revision\<rparr>,
            jobTemplate = template\<lparr>
              tplMeta := (tplMeta template)\<lparr>metaLabels := jobLabels cr revision\<rparr>,
              tplSpec := pod\<lparr>
                podContainers := importContainer cr kcContainer # others,
                podVolumes := podVolumes pod @ [realmVolume cr],
                podRestartPolicy := RestartPolicyNever\<rparr>\<rparr>,
            jobBackoffLimit = Some 1,
            jobConditions = []\<rparr>))"

definition GetImportJobs :: "'w client \<Rightarrow> KeycloakImport \<Rightarrow> ('w sys, goerror + Job list) go" where
  "GetImportJobs c kci =
     (let ns = instNamespace (kiKeycloakInstance (kiSpec kci));
          sel = GetOwnerLabels (metaName (kiMeta kci)) (metaNamespace (kiMeta kci)) in
      call (ListJobs c ns sel) (EvListJobs ns sel))"

section \<open>Lemmas\<close>

lemma find_jobEnv:
  "distinct (map envName vars) \<Longrightarrow>
   find (\<lambda>e. envName e = n) (jobEnv vars) =
     (case find (\<lambda>e. envName e = n) vars of
        None \<Rightarrow> None
      | Some v \<Rightarrow> (case toModify n of
          None \<Rightarrow> Some v
        | Some x \<Rightarrow> if x = '''' then None else Some (plainEnv n x)))"
proof (induction vars)
  case (Cons v vars)
  have "find (\<lambda>e. envName e = envName v) vars = None"
    using Cons.prems unfolding find_None_iff by (metis distinct.simps(2) image_eqI list.simps(9) set_map)
  with Cons show ?case by (auto split: option.splits)
qed simp

lemma jobEnv_names: "envName ` set (jobEnv vars) = envName ` set vars - {''KC_CACHE_STACK''}"
proof (induction vars)
  case (Cons v vars)
  have "toModify (envName v) = Some x \<Longrightarrow> x = '''' \<longleftrightarrow> envName v = ''KC_CACHE_STACK''" for x
    by (auto simp: toModify_def split: if_splits)
  moreover have "toModify (envName v) = None \<Longrightarrow> envName v \<noteq> ''KC_CACHE_STACK''"
    by (auto simp: toModify_def)
  ultimately show ?case using Cons by (cases "toModify (envName v)") (auto simp: insert_Diff_if)
qed simp

lemma jobEnv_distinct: "distinct (map envName vars) \<Longrightarrow> distinct (map envName (jobEnv vars))"
proof (induction vars)
  case (Cons v vars)
  then show ?case using jobEnv_names [of vars] by (auto split: option.splits)
qed simp

lemma jobEnv_idem: "jobEnv (jobEnv vars) = jobEnv vars"
  by (induction vars) (auto simp: toModify_def split: option.splits)

text \<open>The new volume has a name that no volume of the stateful set has.\<close>

lemma volume_name_fresh: "GetImportJobSecretVolumeName cr \<notin> set (map volName (rhbkVolumes kc))"
proof -
  have "last (GetImportJobSecretVolumeName cr) = CHR ''e'' \<and> GetImportJobSecretVolumeName cr \<noteq> []"
    by (simp add: GetImportJobSecretVolumeName_def)
  then show ?thesis by (auto simp: rhbkVolumes_names TrustedCaVolume_def)
qed


lemma rhbkContainer_env_distinct: "distinct (map envName (cEnv (rhbkContainer kc hostName)))"
  by (simp add: rhbkContainer_def DecorateENV_fold env.distinct_add_all operatorEnv_distinct)

lemma operatorEnv_contains:
  assumes "n \<in> set (map envName (operatorEnv kc hostName))"
  shows "find (\<lambda>e. envName e = n) (cEnv (rhbkContainer kc hostName)) \<noteq> None"
proof -
  have "n \<in> envName ` set (cEnv (rhbkContainer kc hostName))"
    using assms by (simp add: rhbkContainer_def DecorateENV_fold env.set_keys_add_all)
  then show ?thesis by (auto simp: find_None_iff)
qed

lemma jobLabels_lookup:
  "goLookup (jobLabels cr revision) k =
     (if k = ''app'' then Some ''rhbk''
      else if k = GetImportJobAnnotation cr then Some revision
      else GetOwnerLabels (metaName (kiMeta cr)) (metaNamespace (kiMeta cr)) k)"
  by (simp add: jobLabels_def DecorateDefaultLabels_def)

lemma annotation_not_app: "GetImportJobAnnotation cr \<noteq> ''app''"
proof
  assume "GetImportJobAnnotation cr = ''app''"
  then have "CHR ''/'' \<in> set ''app''"
    by (metis GetImportJobAnnotation_def Un_iff list.set_intros(1) set_append append_Cons)
  then show False by simp
qed

lemma annotation_not_owner:
  assumes "metaName (kiMeta cr) \<noteq> ''realm.stakater.com''"
  shows "GetImportJobAnnotation cr \<notin> {RHBKImportOwnerLabel, RHBKImportNamespaceLabel}"
proof -
  have split: "takeWhile (\<lambda>c. c \<noteq> CHR ''/'') (a @ ''/'' @ b) = a \<or> CHR ''/'' \<in> set a" for a b
    by (induction a) auto
  have once: "CHR ''/'' \<notin> set a" if "a @ ''/'' @ b = l" "count_list l (CHR ''/'') = 1" for a b l
    using that by (auto simp flip: count_list_0_iff)
  show ?thesis
  proof
    let ?n = "metaName (kiMeta cr)" and ?ns = "metaNamespace (kiMeta cr)"
    assume "GetImportJobAnnotation cr \<in> {RHBKImportOwnerLabel, RHBKImportNamespaceLabel}"
    then consider "?n @ ''/'' @ ?ns = ''realm.stakater.com/owner''" | "?n @ ''/'' @ ?ns = ''realm.stakater.com/namepsace''"
      by (auto simp: GetImportJobAnnotation_def constant_defs)
    then show False
    proof cases
      case 1
      from once [OF 1] split [of ?n ?ns] assms show False unfolding 1 by simp
    next
      case 2
      from once [OF 2] split [of ?n ?ns] assms show False unfolding 2 by simp
    qed
  qed
qed

text \<open>An import and a stateful set for the examples.\<close>

definition exampleImport :: KeycloakImport where
  "exampleImport = \<lparr>
     kiMeta = namedMeta ''realm-a'' ''team'',
     kiSpec = \<lparr>kiKeycloakInstance = \<lparr>instNamespace = ''identity'', instName = ''sso''\<rparr>,
       kiJSON = ''{}'', kiSubstitutions = [], kiOverrideIfExists = True\<rparr>,
     kiVersion = \<lparr>vsResourceVersions = None\<rparr>, kiConditions = []\<rparr>"

definition exampleSts :: StatefulSet where
  "exampleSts = (RHBKStatefulSet_init exampleKeycloak)\<lparr>stsSpec := rhbkStatefulSetSpec exampleKeycloak ''h'' None []\<rparr>"

lemma Job_Build_sts:
  assumes "RHBKStatefulSet_Build d kc hostName s = Inr (Inr t)"
  shows "\<exists>job. Job_Build cr t revision = Inr (Inr job) \<and>
    jobMeta job = (namedMeta (GetImportJobName cr) (metaNamespace (stsMeta t)))\<lparr>metaLabels := jobLabels cr revision\<rparr> \<and>
    podContainers (tplSpec (jobTemplate job)) = [importContainer cr (rhbkContainer kc hostName)] \<and>
    podVolumes (tplSpec (jobTemplate job)) = rhbkVolumes kc @ [realmVolume cr] \<and>
    podRestartPolicy (tplSpec (jobTemplate job)) = RestartPolicyNever \<and>
    (\<forall>ics. GetInitContainer kc = Inr ics \<longrightarrow> podInitContainers (tplSpec (jobTemplate job)) = ics)"
  using assms by (rule RHBKStatefulSet_Build_cases) (simp add: Job_Build_def rhbkStatefulSetSpec_def)

lemma Job_Build_meta:
  "Job_Build cr sts rv = Inr (Inr job) \<Longrightarrow>
   jobMeta job = (namedMeta (GetImportJobName cr) (metaNamespace (stsMeta sts)))\<lparr>metaLabels := jobLabels cr rv\<rparr>"
  by (auto simp: Job_Build_def Let_def split: list.splits)

lemma Job_Build_selected:
  assumes "label_selector d"
    and "Job_Build cr sts revision = Inr (Inr job)"
    and "metaName (kiMeta cr) \<noteq> ''realm.stakater.com''"
  shows "MatchSet d (metaLabels (jobMeta job)) (Some (GetOwnerLabels n ns))
       \<longleftrightarrow> n = metaName (kiMeta cr) \<and> ns = metaNamespace (kiMeta cr)"
proof -
  have ls: "metaLabels (jobMeta job) = jobLabels cr revision" by (simp add: Job_Build_meta [OF assms(2)])
  have key: "GetImportJobAnnotation cr \<noteq> RHBKImportOwnerLabel" "GetImportJobAnnotation cr \<noteq> RHBKImportNamespaceLabel"
    using annotation_not_owner [OF assms(3)] by blast+
  have "goLookup (jobLabels cr revision) RHBKImportOwnerLabel = Some (metaName (kiMeta cr))"
    "goLookup (jobLabels cr revision) RHBKImportNamespaceLabel = Some (metaNamespace (kiMeta cr))"
    using key by (auto simp: jobLabels_lookup GetOwnerLabels_def)
  then show ?thesis
    using label_selector.MatchSet_owner [OF assms(1), of "jobLabels cr revision" n ns] by (auto simp: ls)
qed

section \<open>Properties\<close>

text \<open>
  C27: the import job runs the same configuration as the server it imports into, except for
  what makes it a single local node: for every custom resource, additional options included,
  its environment has the local cache and no health endpoint, no cache stack, and every other
  variable exactly as in the server; no name occurs twice.
\<close>

theorem importContainer_env:
  "distinct (map envName (cEnv (importContainer cr (rhbkContainer kc hostName)))) \<and>
   find (\<lambda>e. envName e = n) (cEnv (importContainer cr (rhbkContainer kc hostName))) =
     (if n = ''KC_CACHE'' then Some (plainEnv ''KC_CACHE'' ''local'')
      else if n = ''KC_HEALTH_ENABLED'' then Some (plainEnv ''KC_HEALTH_ENABLED'' ''false'')
      else if n = ''KC_CACHE_STACK'' then None
      else find (\<lambda>e. envName e = n) (cEnv (rhbkContainer kc hostName)))"
proof -
  have "find (\<lambda>e. envName e = ''KC_CACHE'') (cEnv (rhbkContainer kc hostName)) \<noteq> None"
    "find (\<lambda>e. envName e = ''KC_HEALTH_ENABLED'') (cEnv (rhbkContainer kc hostName)) \<noteq> None"
    by (rule operatorEnv_contains, simp only: operatorEnv_names, simp)+
  moreover have "distinct (map envName (cEnv (rhbkContainer kc hostName)))"
    by (rule rhbkContainer_env_distinct)
  ultimately show ?thesis
    by (auto simp: importContainer_def find_jobEnv jobEnv_distinct toModify_def split: option.split)
qed

text \<open>
  C20: a job built from the operator's own stateful set is complete. Building it does not
  panic; the volume names of its pod are distinct, and every mount names a declared volume;
  the mounted secret is the one that the realm secret component writes, and the file that the
  import command reads is the key of that secret under the mount path; the probes are gone and
  the pod is not restarted.
\<close>

theorem Job_Build_complete:
  assumes "RHBKStatefulSet_Build d kc hostName s = Inr (Inr t)"
  shows "\<exists>job c m. Job_Build cr t revision = Inr (Inr job) \<and>
    podContainers (tplSpec (jobTemplate job)) = [c] \<and>
    distinct (map volName (podVolumes (tplSpec (jobTemplate job)))) \<and>
    list_all (\<lambda>c. mountName ` set (cVolumeMounts c) \<subseteq> volName ` set (podVolumes (tplSpec (jobTemplate job))))
      (podInitContainers (tplSpec (jobTemplate job)) @ [c]) \<and>
    m \<in> set (cVolumeMounts c) \<and> mountName m = volName (realmVolume cr) \<and>
    realmVolume cr \<in> set (podVolumes (tplSpec (jobTemplate job))) \<and>
    map_option svsSecretName (vsSecret (volSource (realmVolume cr))) = Some (metaName (secMeta (ImportRealmSecret_init cr))) \<and>
    cArgs c = [''-c'', ''/opt/keycloak/bin/kc.sh --verbose build && /opt/keycloak/bin/kc.sh --verbose import --optimized --file=''
      @ CHR 0x27 # mountPath m @ ''/'' @ GetImportJobSecretRealmName cr @ CHR 0x27 # '' --override=''
      @ FormatBool (kiOverrideIfExists (kiSpec cr))] \<and>
    cLivenessProbe c = None \<and> cReadinessProbe c = None \<and> cStartupProbe c = None \<and>
    podRestartPolicy (tplSpec (jobTemplate job)) = RestartPolicyNever"
proof -
  from Job_Build_sts [OF assms] obtain job where job: "Job_Build cr t revision = Inr (Inr job)"
    "podContainers (tplSpec (jobTemplate job)) = [importContainer cr (rhbkContainer kc hostName)]"
    "podVolumes (tplSpec (jobTemplate job)) = rhbkVolumes kc @ [realmVolume cr]"
    "podRestartPolicy (tplSpec (jobTemplate job)) = RestartPolicyNever"
    and ics': "\<And>ics. GetInitContainer kc = Inr ics \<Longrightarrow> podInitContainers (tplSpec (jobTemplate job)) = ics"
    by blast
  from assms obtain ics where ics: "GetInitContainer kc = Inr ics" by (rule RHBKStatefulSet_Build_cases)
  let ?c = "importContainer cr (rhbkContainer kc hostName)"
  let ?m = "\<lparr>mountName = GetImportJobSecretVolumeName cr, mountPath = ''/mnt/realm-import'', mountReadOnly = True\<rparr>"
  have v: "volName ` set (rhbkVolumes kc) = {''keycloak-tls-certificates'', ''providers'', TrustedCaVolume}"
    using arg_cong [OF rhbkVolumes_names [of kc], of set] by simp
  have mounts: "mountName ` set (cVolumeMounts ?c) =
      {''keycloak-tls-certificates'', ''providers'', TrustedCaVolume, GetImportJobSecretVolumeName cr}"
    using arg_cong [OF rhbkContainer_mounts [of kc hostName], of set] by (auto simp: importContainer_def)
  have n: "volName (realmVolume cr) = GetImportJobSecretVolumeName cr" by (simp add: realmVolume_def)
  have "distinct (map volName (rhbkVolumes kc @ [realmVolume cr]))"
    using volume_name_fresh [of cr kc] by (auto simp: rhbkVolumes_names TrustedCaVolume_def n simp del: set_map)
  moreover have "list_all (\<lambda>c. mountName ` set (cVolumeMounts c) \<subseteq> volName ` set (rhbkVolumes kc @ [realmVolume cr]))
      (ics @ [?c])"
    using GetInitContainer_mounts [OF ics] by (auto simp: list_all_iff v mounts n)
  moreover have "?m \<in> set (cVolumeMounts ?c)" by (simp add: importContainer_def)
  moreover have "map_option svsSecretName (vsSecret (volSource (realmVolume cr)))
      = Some (metaName (secMeta (ImportRealmSecret_init cr)))"
    by (simp add: realmVolume_def ImportRealmSecret_init_def namedMeta_def)
  moreover have "cArgs ?c = [''-c'', ''/opt/keycloak/bin/kc.sh --verbose build && /opt/keycloak/bin/kc.sh --verbose import --optimized --file=''
      @ CHR 0x27 # mountPath ?m @ ''/'' @ GetImportJobSecretRealmName cr @ CHR 0x27 # '' --override=''
      @ FormatBool (kiOverrideIfExists (kiSpec cr))]"
    by (simp add: importContainer_def importCommand_def GetRealmMountPath_def GetImportJobSecretRealmName_def)
  ultimately show ?thesis
    using job ics' [OF ics] n
    by (intro exI [of _ job] exI [of _ ?c] exI [of _ ?m]) (simp add: importContainer_def)
qed


theorem Job_Build_complete_witness:
  "\<exists>t job. RHBKStatefulSet_Build refDeps exampleKeycloak ''sso.example.com'' (RHBKStatefulSet_init exampleKeycloak)
       = Inr (Inr t) \<and>
     Job_Build exampleImport t ''7'' = Inr (Inr job) \<and>
     distinct (map volName (podVolumes (tplSpec (jobTemplate job))))"
proof -
  from exampleStatefulSet obtain t where
    "RHBKStatefulSet_Build refDeps exampleKeycloak ''sso.example.com'' (RHBKStatefulSet_init exampleKeycloak)
       = Inr (Inr t)" by blast
  with Job_Build_complete [OF this, of exampleImport "''7''"] show ?thesis by blast
qed

text \<open>
  the operator finds its own jobs again. A job that was built for an import carries the
  revision it was built for under the key of the import, is matched by the selector that
  lists the jobs of that import, and by the selector of no other import. This needs the
  documented meaning of a label selector, and an import whose revision key is not one of the
  two owner labels (that is, an import that is not called \<^verbatim>\<open>realm.stakater.com\<close>).
\<close>

theorem Job_Build_labels:
  assumes "label_selector d"
    and "Job_Build cr sts revision = Inr (Inr job)"
    and "metaName (kiMeta cr) \<noteq> ''realm.stakater.com''"
  shows "goLookup (metaLabels (jobMeta job)) (GetImportJobAnnotation cr) = Some revision \<and>
    (MatchSet d (metaLabels (jobMeta job)) (Some (GetOwnerLabels n ns))
       \<longleftrightarrow> n = metaName (kiMeta cr) \<and> ns = metaNamespace (kiMeta cr))"
proof
  show "goLookup (metaLabels (jobMeta job)) (GetImportJobAnnotation cr) = Some revision"
    using assms(2) by (auto simp: Job_Build_def Let_def jobLabels_lookup annotation_not_app split: list.splits)
qed (rule Job_Build_selected [OF assms])

theorem Job_Build_labels_witness:
  "\<exists>job. Job_Build exampleImport exampleSts ''7'' = Inr (Inr job) \<and>
     goLookup (metaLabels (jobMeta job)) ''realm-a/team'' = Some ''7'' \<and>
     MatchSet refDeps (metaLabels (jobMeta job)) (Some (GetOwnerLabels ''realm-a'' ''team'')) \<and>
     \<not> MatchSet refDeps (metaLabels (jobMeta job)) (Some (GetOwnerLabels ''realm-b'' ''team''))"
proof -
  obtain job where "Job_Build exampleImport exampleSts ''7'' = Inr (Inr job)"
    by (simp add: Job_Build_def exampleSts_def rhbkStatefulSetSpec_def)
  moreover have "label_selector refDeps" ..
  moreover have "metaName (kiMeta exampleImport) \<noteq> ''realm.stakater.com''"
    "metaName (kiMeta exampleImport) = ''realm-a''" "metaNamespace (kiMeta exampleImport) = ''team''"
    by (simp_all add: exampleImport_def namedMeta_def)
  ultimately show ?thesis
    using Job_Build_labels [of refDeps exampleImport exampleSts "''7''" job "''realm-a''" "''team''"]
      Job_Build_labels [of refDeps exampleImport exampleSts "''7''" job "''realm-b''" "''team''"]
    by (auto simp: GetImportJobAnnotation_def)
qed

text \<open>
  C39: the pods of every import job carry all the labels that the selector of the Keycloak
  service asks for, since the job labels go through the default labels as well. The service
  therefore counts import pods among its endpoints while an import runs.
\<close>

theorem import_pods_selected_by_service:
  "case (RHBKService_Build d kc s, Job_Build cr sts revision) of
     (Inr svc, Inr (Inr job)) \<Rightarrow>
        svcSelector (svcSpec svc) \<subseteq>\<^sub>m goSet (metaLabels (tplMeta (jobTemplate job))) \<and>
        svcSelector (svcSpec svc) = [''app'' \<mapsto> ''rhbk'']
   | (_, Inl p) \<Rightarrow> p = IndexOutOfRange \<and> podContainers (tplSpec (stsTemplate (stsSpec sts))) = []
   | (_, Inr (Inl e)) \<Rightarrow> False
   | (Inl e, Inr (Inr job)) \<Rightarrow> True"
  by (auto simp: RHBKService_Build_def Job_Build_def Let_def map_le_def jobLabels_def DecorateDefaultLabels_def
      split: sum.splits list.splits)

end
