(* ===== verification/ImportController.thy ===== *)
theory ImportController
  imports RealmJob Protocol
begin

text \<open>
  \<^verbatim>\<open>internal/controller/keycloakimport_controller.go\<close>: one reconcile of a \<^verbatim>\<open>KeycloakImport\<close>
  resource (deletion and finalizer, the target instance, the realm secret, the jobs, the
  rollout marker), the two functions it is split into, and the event handlers and predicates
  that decide which imports are reconciled when a secret, an instance or a job changes.

  The specification \<open>istep\<close> and the refinement proof are in \<open>ImportProtocol\<close>.
\<close>

section \<open>Reporting\<close>

definition RealmImportFinalizer :: string where "RealmImportFinalizer = ''rhbk.stakater.com/finalizer''"

definition importMessage :: "string \<Rightarrow> goerror option \<Rightarrow> string" where
  "importMessage msg err = (case err of None \<Rightarrow> msg | Some e \<Rightarrow> msg @ ''. '' @ ErrorText e)"

definition importWithReady :: "deps \<Rightarrow> Time \<Rightarrow> KeycloakImport \<Rightarrow> ConditionStatus \<Rightarrow> string list \<Rightarrow> KeycloakImport" where
  "importWithReady d now cr st msg = cr\<lparr>kiConditions := SetReady d now (kiConditions cr) st msg\<rparr>"

definition Import_HandleError ::
  "deps \<Rightarrow> 'w client \<Rightarrow> KeycloakImport \<Rightarrow> goerror option \<Rightarrow> string \<Rightarrow> ('w sys, Result \<times> goerror option) go" where
  "Import_HandleError d c cr err msg =
     andThen (readClock c) (\<lambda>now.
     let cr' = importWithReady d now cr ConditionFalse [importMessage msg err] in
     andThen (call (UpdateKeycloakImportStatus c cr') (EvKeycloakImportStatus cr')) (\<lambda>e. ret (result e)))"

definition Import_HandleSuccess ::
  "deps \<Rightarrow> 'w client \<Rightarrow> KeycloakImport \<Rightarrow> ('w sys, Result \<times> goerror option) go" where
  "Import_HandleSuccess d c cr =
     andThen (readClock c) (\<lambda>now.
     let cr' = importWithReady d now cr ConditionTrue [] in
     andThen (call (UpdateKeycloakImportStatus c cr') (EvKeycloakImportStatus cr')) (\<lambda>e. ret (result e)))"

section \<open>Deletion\<close>

fun deleteJobs :: "'w client \<Rightarrow> Job list \<Rightarrow> ('w sys, goerror option) go" where
  "deleteJobs c [] = ret None"
| "deleteJobs c (job # jobs) =
     andThen (call (DeleteJob c job) (EvDeleteJob job)) (\<lambda>r.
     case r of None \<Rightarrow> deleteJobs c jobs | Some err \<Rightarrow> ret (Some err))"

fun deleteSecrets :: "'w client \<Rightarrow> Secret list \<Rightarrow> ('w sys, goerror option) go" where
  "deleteSecrets c [] = ret None"
| "deleteSecrets c (s # secrets) =
     andThen (call (DeleteSecret c s) (EvDeleteSecret s)) (\<lambda>r.
     case r of None \<Rightarrow> deleteSecrets c secrets | Some err \<Rightarrow> ret (Some err))"

definition cleanupExternalResources :: "'w client \<Rightarrow> KeycloakImport \<Rightarrow> ('w sys, goerror option) go" where
  "cleanupExternalResources c cr =
     andThen (GetImportJobs c cr) (\<lambda>r.
     case r of
       Inl err \<Rightarrow> ret (Some err)
     | Inr jobs \<Rightarrow>
     andThen (deleteJobs c jobs) (\<lambda>r.
     case r of
       Some err \<Rightarrow> ret (Some err)
     | None \<Rightarrow>
     andThen (GetImportSecrets c cr) (\<lambda>r.
     case r of
       Inl err \<Rightarrow> ret (Some err)
     | Inr secrets \<Rightarrow> deleteSecrets c secrets)))"

section \<open>Jobs and rollout\<close>

text \<open>
  The loop over the jobs of the import: the first job with the label of the current revision
  is the one looked for, every job before it is deleted. \<open>Inl\<close> is the error of a deletion.
\<close>

definition jobRevision :: "KeycloakImport \<Rightarrow> Job \<Rightarrow> string" where
  "jobRevision cr job = goIndex (metaLabels (jobMeta job)) (GetImportJobAnnotation cr)"

fun findJob :: "'w client \<Rightarrow> KeycloakImport \<Rightarrow> string \<Rightarrow> Job list \<Rightarrow> ('w sys, goerror + Job option) go" where
  "findJob c cr revision [] = ret (Inr None)"
| "findJob c cr revision (job # jobs) =
     (if jobRevision cr job = revision then ret (Inr (Some job))
      else
        andThen (call (DeleteJob c job) (EvDeleteJob job)) (\<lambda>r.
        case r of None \<Rightarrow> findJob c cr revision jobs | Some err \<Rightarrow> ret (Inl err)))"

definition annotate :: "KeycloakImport \<Rightarrow> string \<Rightarrow> StatefulSet \<Rightarrow> StatefulSet" where
  "annotate kci version sts =
     (let template = stsTemplate (stsSpec sts);
          annotations = goSet (metaAnnotations (tplMeta template)) in
      sts\<lparr>stsSpec := (stsSpec sts)\<lparr>stsTemplate := template\<lparr>tplMeta := (tplMeta template)
            \<lparr>metaAnnotations := Some (annotations(GetImportJobAnnotation kci \<mapsto> version))\<rparr>\<rparr>\<rparr>\<rparr>)"

definition rolloutChanges ::
  "'w client \<Rightarrow> KeycloakImport \<Rightarrow> StatefulSet \<Rightarrow> string \<Rightarrow> ('w sys, goerror option) go" where
  "rolloutChanges c kci statefulSet version =
     (let sts = annotate kci version statefulSet in
      call (UpdateStatefulSet c sts) (EvUpdateStatefulSet sts))"

definition rolloutDone :: "deps \<Rightarrow> KeycloakImport \<Rightarrow> StatefulSet \<Rightarrow> string \<Rightarrow> bool" where
  "rolloutDone d cr sts revision =
     MatchSet d (metaAnnotations (tplMeta (stsTemplate (stsSpec sts))))
       (Some [GetImportJobAnnotation cr \<mapsto> revision])"

section \<open>Reconcile\<close>

definition instanceKey :: "KeycloakImport \<Rightarrow> ObjectKey" where
  "instanceKey cr = objectKey (instNamespace (kiKeycloakInstance (kiSpec cr))) (instName (kiKeycloakInstance (kiSpec cr)))"

text \<open>From the list of jobs to the end (lines 139 to 187).\<close>

definition reconcileJobs ::
  "deps \<Rightarrow> 'w client \<Rightarrow> KeycloakImport \<Rightarrow> StatefulSet \<Rightarrow> string \<Rightarrow> ('w sys, Result \<times> goerror option) go" where
  "reconcileJobs d c cr statefulSet revision =
     (let ns = instNamespace (kiKeycloakInstance (kiSpec cr));
          sel = [RHBKImportOwnerLabel \<mapsto> metaName (kiMeta cr)] in
      andThen (call (ListJobs c ns sel) (EvListJobs ns sel)) (\<lambda>r.
      case r of
        Inl err \<Rightarrow> Import_HandleError d c cr (Some err) ''Failed to fetch import job''
      | Inr jobs \<Rightarrow>
      andThen (findJob c cr revision jobs) (\<lambda>r.
      case r of
        Inl err \<Rightarrow> Import_HandleError d c cr (Some err) ''Failed to delete old job''
      | Inr None \<Rightarrow>
          andThen (lift_panic (Job_Build cr statefulSet revision)) (\<lambda>r.
          case r of
            Inl err \<Rightarrow> Import_HandleError d c cr (Some err) ''Failed to build import job''
          | Inr importJob \<Rightarrow>
          andThen (call (CreateJob c importJob) (EvCreateJob importJob)) (\<lambda>r.
          case r of
            Some err \<Rightarrow> ret (requeue (Some err))
          | None \<Rightarrow> Import_HandleError d c cr None ''Wait for new import job to be ready''))
      | Inr (Some found) \<Rightarrow>
          if \<not> rolloutDone d cr statefulSet revision \<and> IsJobCompleted found then
            andThen (rolloutChanges c cr statefulSet revision) (\<lambda>r.
            case r of
              Some err \<Rightarrow> ret (requeue (Some err))
            | None \<Rightarrow> Import_HandleSuccess d c cr)
          else Import_HandleSuccess d c cr)))"

text \<open>From the target instance on (lines 105 to 187).\<close>

definition reconcileLive ::
  "deps \<Rightarrow> template_engine \<Rightarrow> 'w client \<Rightarrow> KeycloakImport \<Rightarrow> ('w sys, Result \<times> goerror option) go" where
  "reconcileLive d engine c cr =
     andThen (call (GetKeycloak c (instanceKey cr)) (EvGetKeycloak (instanceKey cr))) (\<lambda>r.
     case r of
       Inl err \<Rightarrow> Import_HandleError d c cr (Some err) ''Failed to fetch RHBK instance''
     | Inr keycloak \<Rightarrow>
     if \<not> IsReady d (kcConditions keycloak) then Import_HandleError d c cr None ''RHBK instance not ready''
     else
     (let key = objectKey (metaNamespace (kcMeta keycloak)) (GetStatefulSetName keycloak) in
     andThen (call (GetStatefulSet c key) (EvGetStatefulSet key)) (\<lambda>r.
     case r of
       Inl err \<Rightarrow> Import_HandleError d c cr (Some err) ''RHBK deployment not ready''
     | Inr statefulSet \<Rightarrow>
     andThen (ImportRealmSecret_CreateOrUpdate engine c cr) (\<lambda>r.
     case r of
       Inl err \<Rightarrow> Import_HandleError d c cr (Some err) ''Realm secret not ready''
     | Inr secret \<Rightarrow> reconcileJobs d c cr statefulSet (metaResourceVersion (secMeta secret))))))"

text \<open>The finalizer is added when it is absent (lines 97 to 103).\<close>

definition ensureFinalizer ::
  "deps \<Rightarrow> template_engine \<Rightarrow> 'w client \<Rightarrow> KeycloakImport \<Rightarrow> ('w sys, Result \<times> goerror option) go" where
  "ensureFinalizer d engine c cr =
     (if \<not> ContainsFinalizer d (kiMeta cr) RealmImportFinalizer then
        (let cr' = cr\<lparr>kiMeta := AddFinalizer d (kiMeta cr) RealmImportFinalizer\<rparr> in
         andThen (call (UpdateKeycloakImport c cr') (EvUpdateKeycloakImport cr')) (\<lambda>r.
         case r of
           Inl err \<Rightarrow> ret (result (Some err))
         | Inr cr'' \<Rightarrow> reconcileLive d engine c cr''))
      else reconcileLive d engine c cr)"

text \<open>
  The deletion branch does not return after the finalizer has been removed: the run goes on
  with the object that the update returned.
\<close>

definition Import_Reconcile ::
  "deps \<Rightarrow> template_engine \<Rightarrow> 'w client \<Rightarrow> ObjectKey \<Rightarrow> ('w sys, Result \<times> goerror option) go" where
  "Import_Reconcile d engine c req =
     andThen (call (GetKeycloakImport c req) (EvGetKeycloakImport req)) (\<lambda>r.
     case r of
       Inl err \<Rightarrow> if IsNotFound err then ret (result None) else ret (result (Some err))
     | Inr cr \<Rightarrow>
     if \<not> TimeIsZero d (metaDeletionTimestamp (kiMeta cr)) then
       (if \<not> ContainsFinalizer d (kiMeta cr) RealmImportFinalizer then ret (result None)
        else
          andThen (cleanupExternalResources c cr) (\<lambda>r.
          case r of
            Some err \<Rightarrow> ret (result (Some err))
          | None \<Rightarrow>
          (let cr' = cr\<lparr>kiMeta := RemoveFinalizer d (kiMeta cr) RealmImportFinalizer\<rparr> in
           andThen (call (UpdateKeycloakImport c cr') (EvUpdateKeycloakImport cr')) (\<lambda>r.
           case r of
             Inl err \<Rightarrow> ret (result (Some err))
           | Inr cr'' \<Rightarrow> ensureFinalizer d engine c cr''))))
     else ensureFinalizer d engine c cr)"

section \<open>Event handlers and predicates\<close>

definition requestFor :: "KeycloakImport \<Rightarrow> ObjectKey" where
  "requestFor cr = objectKey (metaNamespace (kiMeta cr)) (metaName (kiMeta cr))"

fun secretRequests :: "deps \<Rightarrow> Secret \<Rightarrow> KeycloakImport list \<Rightarrow> panic + ObjectKey list" where
  "secretRequests d secret [] = Inr []"
| "secretRequests d secret (cr # rest) =
     (case (if MatchSet d (metaLabels (secMeta secret)) (Some [RHBKImportOwnerLabel \<mapsto> metaName (kiMeta cr)])
            then Inr True else HasSecretReference (kiSpec cr) (metaName (secMeta secret))) of
        Inl p \<Rightarrow> Inl p
      | Inr matches \<Rightarrow>
          (case secretRequests d secret rest of
             Inl p \<Rightarrow> Inl p
           | Inr requests \<Rightarrow> Inr (if matches then requestFor cr # requests else requests)))"

definition handleSecretChanged :: "deps \<Rightarrow> 'w client \<Rightarrow> Secret \<Rightarrow> ('w sys, ObjectKey list) go" where
  "handleSecretChanged d c secret =
     andThen (call (ListKeycloakImports c) EvListKeycloakImports) (\<lambda>r.
     case r of Inl err \<Rightarrow> ret [] | Inr imports \<Rightarrow> lift_panic (secretRequests d secret imports))"

definition handleRHBKChanged :: "'w client \<Rightarrow> Keycloak \<Rightarrow> ('w sys, ObjectKey list) go" where
  "handleRHBKChanged c rhbk =
     andThen (call (ListKeycloakImports c) EvListKeycloakImports) (\<lambda>r.
     case r of
       Inl err \<Rightarrow> ret []
     | Inr imports \<Rightarrow>
         ret (map requestFor (filter (\<lambda>cr.
           instName (kiKeycloakInstance (kiSpec cr)) = metaName (kcMeta rhbk) \<and>
           instNamespace (kiKeycloakInstance (kiSpec cr)) = metaNamespace (kcMeta rhbk)) imports)))"

definition handleJobChanged :: "deps \<Rightarrow> 'w client \<Rightarrow> Job \<Rightarrow> ('w sys, ObjectKey list) go" where
  "handleJobChanged d c job =
     andThen (call (ListKeycloakImports c) EvListKeycloakImports) (\<lambda>r.
     case r of
       Inl err \<Rightarrow> ret []
     | Inr imports \<Rightarrow>
         ret (map requestFor (filter (\<lambda>cr.
           MatchSet d (metaLabels (jobMeta job))
             (Some (GetOwnerLabels (metaName (kiMeta cr)) (metaNamespace (kiMeta cr))))) imports)))"

definition Job_CreateFunc :: "Job \<Rightarrow> bool" where "Job_CreateFunc e = False"
definition Job_DeleteFunc :: "Job \<Rightarrow> bool" where "Job_DeleteFunc e = False"
definition Job_UpdateFunc :: "Job \<Rightarrow> Job \<Rightarrow> bool" where
  "Job_UpdateFunc old current = (\<not> IsJobCompleted old \<and> IsJobCompleted current)"

end
