(* ===== verification/ImportProtocol.thy ===== *)
theory ImportProtocol
  imports ImportController
begin

text \<open>
  The specification of the import controller as a step relation \<open>istep\<close> over phases, and the
  proof that \<open>Import_Reconcile\<close> refines it for every client. What the specification guarantees is
  in \<open>ImportSafety\<close>.
\<close>

section \<open>The specification\<close>

datatype iphase =
    IStart
  | ICleanup KeycloakImport
  | IDeleteJobs KeycloakImport "Job list"
  | IDeleteSecrets KeycloakImport "Secret list"
  | IFinalizer KeycloakImport
  | IInstance KeycloakImport
  | IWorkload KeycloakImport Keycloak
  | ISubstitute KeycloakImport StatefulSet "SecretOptionVar list" labels
  | IJobs KeycloakImport StatefulSet string
  | IScan KeycloakImport StatefulSet string "Job list"
  | IReport KeycloakImport ConditionStatus "string list"
  | IEnd "Result \<times> goerror option"
  | IPanic panic

definition deleting :: "deps \<Rightarrow> KeycloakImport \<Rightarrow> bool" where
  "deleting d cr \<longleftrightarrow> \<not> TimeIsZero d (metaDeletionTimestamp (kiMeta cr))"

definition hasFinalizer :: "deps \<Rightarrow> KeycloakImport \<Rightarrow> bool" where
  "hasFinalizer d cr \<longleftrightarrow> ContainsFinalizer d (kiMeta cr) RealmImportFinalizer"

definition withFinalizer :: "deps \<Rightarrow> KeycloakImport \<Rightarrow> KeycloakImport" where
  "withFinalizer d cr = cr\<lparr>kiMeta := AddFinalizer d (kiMeta cr) RealmImportFinalizer\<rparr>"

definition withoutFinalizer :: "deps \<Rightarrow> KeycloakImport \<Rightarrow> KeycloakImport" where
  "withoutFinalizer d cr = cr\<lparr>kiMeta := RemoveFinalizer d (kiMeta cr) RealmImportFinalizer\<rparr>"

definition enter :: "deps \<Rightarrow> KeycloakImport \<Rightarrow> iphase" where
  "enter d cr = (if hasFinalizer d cr then IInstance cr else IFinalizer cr)"

abbreviation targetNamespace :: "KeycloakImport \<Rightarrow> string" where
  "targetNamespace cr \<equiv> instNamespace (kiKeycloakInstance (kiSpec cr))"

abbreviation ownerSelector :: "KeycloakImport \<Rightarrow> labels" where
  "ownerSelector cr \<equiv> GetOwnerLabels (metaName (kiMeta cr)) (metaNamespace (kiMeta cr))"

abbreviation nameSelector :: "KeycloakImport \<Rightarrow> labels" where
  "nameSelector cr \<equiv> [RHBKImportOwnerLabel \<mapsto> metaName (kiMeta cr)]"

abbreviation failure :: "KeycloakImport \<Rightarrow> string \<Rightarrow> goerror option \<Rightarrow> iphase" where
  "failure cr msg err \<equiv> IReport cr ConditionFalse [importMessage msg err]"

abbreviation workloadKey :: "Keycloak \<Rightarrow> ObjectKey" where
  "workloadKey kc \<equiv> objectKey (metaNamespace (kcMeta kc)) (GetStatefulSetName kc)"

inductive istep :: "deps \<Rightarrow> template_engine \<Rightarrow> ObjectKey \<Rightarrow> iphase \<Rightarrow> event \<Rightarrow> iphase \<Rightarrow> bool" for d engine req where
  i_gone: "IsNotFound err \<Longrightarrow> istep d engine req IStart (EvGetKeycloakImport req (Inl err)) (IEnd (result None))"
| i_unreadable: "\<not> IsNotFound err \<Longrightarrow>
    istep d engine req IStart (EvGetKeycloakImport req (Inl err)) (IEnd (result (Some err)))"
| i_live: "\<not> deleting d cr \<Longrightarrow> istep d engine req IStart (EvGetKeycloakImport req (Inr cr)) (enter d cr)"
| i_released: "deleting d cr \<Longrightarrow> \<not> hasFinalizer d cr \<Longrightarrow>
    istep d engine req IStart (EvGetKeycloakImport req (Inr cr)) (IEnd (result None))"
| i_delete: "deleting d cr \<Longrightarrow> hasFinalizer d cr \<Longrightarrow>
    istep d engine req IStart (EvGetKeycloakImport req (Inr cr)) (ICleanup cr)"
| i_jobs_owned: "istep d engine req (ICleanup cr)
    (EvListJobs (targetNamespace cr) (ownerSelector cr) (Inr jobs)) (IDeleteJobs cr jobs)"
| i_jobs_owned_err: "istep d engine req (ICleanup cr)
    (EvListJobs (targetNamespace cr) (ownerSelector cr) (Inl err)) (IEnd (result (Some err)))"
| i_del_job: "istep d engine req (IDeleteJobs cr (job # jobs)) (EvDeleteJob job None) (IDeleteJobs cr jobs)"
| i_del_job_err: "istep d engine req (IDeleteJobs cr (job # jobs)) (EvDeleteJob job (Some err)) (IEnd (result (Some err)))"
| i_secrets_owned: "istep d engine req (IDeleteJobs cr [])
    (EvListSecrets (targetNamespace cr) (ownerSelector cr) (Inr secrets)) (IDeleteSecrets cr secrets)"
| i_secrets_owned_err: "istep d engine req (IDeleteJobs cr [])
    (EvListSecrets (targetNamespace cr) (ownerSelector cr) (Inl err)) (IEnd (result (Some err)))"
| i_del_secret: "istep d engine req (IDeleteSecrets cr (s # secrets)) (EvDeleteSecret s None) (IDeleteSecrets cr secrets)"
| i_del_secret_err: "istep d engine req (IDeleteSecrets cr (s # secrets)) (EvDeleteSecret s (Some err)) (IEnd (result (Some err)))"
| i_release: "istep d engine req (IDeleteSecrets cr [])
    (EvUpdateKeycloakImport (withoutFinalizer d cr) (Inr cr')) (enter d cr')"
| i_release_err: "istep d engine req (IDeleteSecrets cr [])
    (EvUpdateKeycloakImport (withoutFinalizer d cr) (Inl err)) (IEnd (result (Some err)))"
| i_finalizer: "istep d engine req (IFinalizer cr)
    (EvUpdateKeycloakImport (withFinalizer d cr) (Inr cr')) (IInstance cr')"
| i_finalizer_err: "istep d engine req (IFinalizer cr)
    (EvUpdateKeycloakImport (withFinalizer d cr) (Inl err)) (IEnd (result (Some err)))"
| i_instance: "IsReady d (kcConditions kc) \<Longrightarrow>
    istep d engine req (IInstance cr) (EvGetKeycloak (instanceKey cr) (Inr kc)) (IWorkload cr kc)"
| i_instance_wait: "\<not> IsReady d (kcConditions kc) \<Longrightarrow>
    istep d engine req (IInstance cr) (EvGetKeycloak (instanceKey cr) (Inr kc)) (failure cr ''RHBK instance not ready'' None)"
| i_instance_err: "istep d engine req (IInstance cr) (EvGetKeycloak (instanceKey cr) (Inl err))
    (failure cr ''Failed to fetch RHBK instance'' (Some err))"
| i_workload: "istep d engine req (IWorkload cr kc) (EvGetStatefulSet (workloadKey kc) (Inr sts))
    (ISubstitute cr sts (kiSubstitutions (kiSpec cr)) Map.empty)"
| i_workload_err: "istep d engine req (IWorkload cr kc) (EvGetStatefulSet (workloadKey kc) (Inl err))
    (failure cr ''RHBK deployment not ready'' (Some err))"
| i_sub: "sovSecret sub = Some sel \<Longrightarrow> istep d engine req (ISubstitute cr sts (sub # subs) m)
    (EvGetSecret (objectKey (metaNamespace (kiMeta cr)) (selName sel)) (Inr sec))
    (ISubstitute cr sts subs (m(sovName sub \<mapsto> subValue sub sec)))"
| i_sub_err: "sovSecret sub = Some sel \<Longrightarrow> istep d engine req (ISubstitute cr sts (sub # subs) m)
    (EvGetSecret (objectKey (metaNamespace (kiMeta cr)) (selName sel)) (Inl err))
    (failure cr ''Realm secret not ready'' (Some err))"
| i_secret: "istep d engine req (ISubstitute cr sts [] m)
    (EvApplySecret (ImportRealmSecret_init cr) (Inr \<circ> ImportRealmSecret_MutateFn engine cr m) (Inr (Inr sec)))
    (IJobs cr sts (metaResourceVersion (secMeta sec)))"
| i_secret_err: "istep d engine req (ISubstitute cr sts [] m)
    (EvApplySecret (ImportRealmSecret_init cr) (Inr \<circ> ImportRealmSecret_MutateFn engine cr m) (Inr (Inl err)))
    (failure cr ''Realm secret not ready'' (Some err))"
| i_secret_panic: "istep d engine req (ISubstitute cr sts [] m)
    (EvApplySecret (ImportRealmSecret_init cr) (Inr \<circ> ImportRealmSecret_MutateFn engine cr m) (Inl p)) (IPanic p)"
| i_jobs: "istep d engine req (IJobs cr sts rv)
    (EvListJobs (targetNamespace cr) (nameSelector cr) (Inr jobs)) (IScan cr sts rv jobs)"
| i_jobs_err: "istep d engine req (IJobs cr sts rv)
    (EvListJobs (targetNamespace cr) (nameSelector cr) (Inl err)) (failure cr ''Failed to fetch import job'' (Some err))"
| i_stale: "jobRevision cr job \<noteq> rv \<Longrightarrow>
    istep d engine req (IScan cr sts rv (job # jobs)) (EvDeleteJob job None) (IScan cr sts rv jobs)"
| i_stale_err: "jobRevision cr job \<noteq> rv \<Longrightarrow>
    istep d engine req (IScan cr sts rv (job # jobs)) (EvDeleteJob job (Some err))
      (failure cr ''Failed to delete old job'' (Some err))"
| i_create: "Job_Build cr sts rv = Inr (Inr job) \<Longrightarrow>
    istep d engine req (IScan cr sts rv []) (EvCreateJob job None)
      (failure cr ''Wait for new import job to be ready'' None)"
| i_create_err: "Job_Build cr sts rv = Inr (Inr job) \<Longrightarrow>
    istep d engine req (IScan cr sts rv []) (EvCreateJob job (Some err)) (IEnd (requeue (Some err)))"
| i_rollout: "jobRevision cr job = rv \<Longrightarrow> IsJobCompleted job \<Longrightarrow> \<not> rolloutDone d cr sts rv \<Longrightarrow>
    istep d engine req (IScan cr sts rv (job # jobs)) (EvUpdateStatefulSet (annotate cr rv sts) None)
      (IReport cr ConditionTrue [])"
| i_rollout_err: "jobRevision cr job = rv \<Longrightarrow> IsJobCompleted job \<Longrightarrow> \<not> rolloutDone d cr sts rv \<Longrightarrow>
    istep d engine req (IScan cr sts rv (job # jobs)) (EvUpdateStatefulSet (annotate cr rv sts) (Some err))
      (IEnd (requeue (Some err)))"
| i_ready: "jobRevision cr job = rv \<Longrightarrow> rolloutDone d cr sts rv \<or> \<not> IsJobCompleted job \<Longrightarrow>
    istep d engine req (IScan cr sts rv (job # jobs))
      (EvKeycloakImportStatus (importWithReady d now cr ConditionTrue []) err) (IEnd (result err))"
| i_report: "istep d engine req (IReport cr st msg)
    (EvKeycloakImportStatus (importWithReady d now cr st msg) err) (IEnd (result err))"

text \<open>
  What a finished run returns. Two panics come without a call: a substitution without a
  secret, and a stateful set without containers.
\<close>

fun iresult :: "panic + Result \<times> goerror option \<Rightarrow> iphase \<Rightarrow> bool" where
  "iresult r (IEnd x) = (r = Inr x)"
| "iresult r (IPanic p) = (r = Inl p)"
| "iresult r (ISubstitute cr sts (sub # subs) m) = (r = Inl NilDereference \<and> sovSecret sub = None)"
| "iresult r (IScan cr sts rv []) = (r = Inl IndexOutOfRange \<and> podContainers (tplSpec (stsTemplate (stsSpec sts))) = [])"
| "iresult r _ = False"

section \<open>The code refines the specification\<close>

lemmas istep_to = istep.intros [THEN step_to [of "istep d engine req" for d engine req]]
lemmas istep_from = step_to [of "istep d engine req" for d engine req]

lemma conforms_Import_HandleError:
  "conforms (istep d engine req) (failure cr msg err) (Import_HandleError d c cr err msg) iresult"
  unfolding Import_HandleError_def Let_def
  by (intro conforms_readClock_then conforms_call_then istep_to conforms_ret) simp

lemma conforms_Import_HandleSuccess:
  "conforms (istep d engine req) (IReport cr ConditionTrue []) (Import_HandleSuccess d c cr) iresult"
  unfolding Import_HandleSuccess_def Let_def
  by (intro conforms_readClock_then conforms_call_then istep_to conforms_ret) simp

lemma conforms_deleteJobs:
  "conforms (istep d engine req) (IDeleteJobs cr jobs) (deleteJobs c jobs)
     (\<lambda>r ph. case r of Inr None \<Rightarrow> ph = IDeleteJobs cr [] | Inr (Some err) \<Rightarrow> ph = IEnd (result (Some err)) | Inl p \<Rightarrow> False)"
proof (induction jobs)
  case (Cons job jobs)
  then show ?case by (simp, intro conforms_call_error istep_to) (simp_all add: conforms_ret)
qed (simp add: conforms_ret)

lemma conforms_deleteSecrets:
  "conforms (istep d engine req) (IDeleteSecrets cr secrets) (deleteSecrets c secrets)
     (\<lambda>r ph. case r of Inr None \<Rightarrow> ph = IDeleteSecrets cr [] | Inr (Some err) \<Rightarrow> ph = IEnd (result (Some err)) | Inl p \<Rightarrow> False)"
proof (induction secrets)
  case (Cons s secrets)
  then show ?case by (simp, intro conforms_call_error istep_to) (simp_all add: conforms_ret)
qed (simp add: conforms_ret)

lemma conforms_fetchSubstitutions:
  "conforms (istep d engine req) (ISubstitute cr sts subs m) (fetchSubstitutions c cr subs m)
     (\<lambda>r ph. case r of
        Inl p \<Rightarrow> iresult (Inl p) ph
      | Inr (Inl err) \<Rightarrow> ph = failure cr ''Realm secret not ready'' (Some err)
      | Inr (Inr m') \<Rightarrow> ph = ISubstitute cr sts [] m')"
proof (induction subs arbitrary: m)
  case (Cons sub subs)
  show ?case
  proof (cases "sovSecret sub")
    case None
    then show ?thesis by (simp add: conforms_panic)
  next
    case (Some sel)
    have v: "EscapeString (goIndex (secData sec) (selKey sel)) = Inr (subValue sub sec)" for sec
      using EscapeString_total [of "goIndex (secData sec) (selKey sel)"] by (auto simp: subValue_def Some)
    show ?thesis
      unfolding fetchSubstitutions.simps Some option.case Let_def v sum.case
      by (intro conforms_call_case istep_to Some Cons.IH) (simp add: conforms_ret)
  qed
qed (simp add: conforms_ret)


lemma Job_Build_result:
  obtains (none) "Job_Build cr sts rv = Inl IndexOutOfRange" "podContainers (tplSpec (stsTemplate (stsSpec sts))) = []"
  | (job) job where "Job_Build cr sts rv = Inr (Inr job)"
  by (cases "podContainers (tplSpec (stsTemplate (stsSpec sts)))") (auto simp: Job_Build_def Let_def)

text \<open>The rest of a run, once the jobs have been listed.\<close>

definition afterScan ::
  "deps \<Rightarrow> 'w client \<Rightarrow> KeycloakImport \<Rightarrow> StatefulSet \<Rightarrow> string \<Rightarrow> goerror + Job option \<Rightarrow> ('w sys, Result \<times> goerror option) go" where
  "afterScan d c cr sts revision r =
     (case r of
        Inl err \<Rightarrow> Import_HandleError d c cr (Some err) ''Failed to delete old job''
      | Inr None \<Rightarrow>
          andThen (lift_panic (Job_Build cr sts revision)) (\<lambda>r.
          case r of
            Inl err \<Rightarrow> Import_HandleError d c cr (Some err) ''Failed to build import job''
          | Inr importJob \<Rightarrow>
          andThen (call (CreateJob c importJob) (EvCreateJob importJob)) (\<lambda>r.
          case r of
            Some err \<Rightarrow> ret (requeue (Some err))
          | None \<Rightarrow> Import_HandleError d c cr None ''Wait for new import job to be ready''))
      | Inr (Some found) \<Rightarrow>
          if \<not> rolloutDone d cr sts revision \<and> IsJobCompleted found then
            andThen (rolloutChanges c cr sts revision) (\<lambda>r.
            case r of
              Some err \<Rightarrow> ret (requeue (Some err))
            | None \<Rightarrow> Import_HandleSuccess d c cr)
          else Import_HandleSuccess d c cr)"

lemma conforms_create:
  "conforms (istep d engine req) (IScan cr sts rv []) (afterScan d c cr sts rv (Inr None)) iresult"
proof (cases rule: Job_Build_result [of cr sts rv])
  case none
  then show ?thesis by (simp add: afterScan_def andThen_def lift_panic_def)
      (use conforms_panic [of iresult IndexOutOfRange "IScan cr sts rv []"] none in \<open>simp add: lift_panic_def\<close>)
next
  case (job j)
  have [simp]: "andThen (lift_panic (Inr x)) f = f x" for x :: "goerror + Job" and f :: "_ \<Rightarrow> ('w sys, 'b) go"
    by (simp add: andThen_def lift_panic_def)
  show ?thesis
    by (simp add: afterScan_def job, intro conforms_call_error istep_to job conforms_Import_HandleError)
      (simp add: conforms_ret)
qed

lemma conforms_found:
  assumes "jobRevision cr job = rv"
  shows "conforms (istep d engine req) (IScan cr sts rv (job # jobs)) (afterScan d c cr sts rv (Inr (Some job))) iresult"
proof (cases "\<not> rolloutDone d cr sts rv \<and> IsJobCompleted job")
  case True
  then have r: "\<not> rolloutDone d cr sts rv" "IsJobCompleted job" by simp_all
  show ?thesis
    by (simp add: afterScan_def True rolloutChanges_def Let_def,
        intro conforms_call_error istep_from [OF i_rollout] istep_from [OF i_rollout_err] assms r
          conforms_Import_HandleSuccess)
      (simp add: conforms_ret)
next
  case False
  then have r: "rolloutDone d cr sts rv \<or> \<not> IsJobCompleted job" by blast
  have a: "afterScan d c cr sts rv (Inr (Some job)) = Import_HandleSuccess d c cr"
    using False by (auto simp: afterScan_def)
  show ?thesis
    unfolding a Import_HandleSuccess_def Let_def
    by (intro conforms_readClock_then conforms_call_then istep_from [OF i_ready] assms r conforms_ret) simp
qed

lemma conforms_scan:
  "conforms (istep d engine req) (IScan cr sts rv jobs)
     (andThen (findJob c cr rv jobs) (afterScan d c cr sts rv)) iresult"
proof (induction jobs)
  case Nil
  then show ?case by (simp add: conforms_create)
next
  case (Cons job jobs)
  show ?case
  proof (cases "jobRevision cr job = rv")
    case True
    then show ?thesis by (simp add: conforms_found)
  next
    case False
    have e: "afterScan d c cr sts rv (Inl err) = Import_HandleError d c cr (Some err) ''Failed to delete old job''" for err
      by (simp add: afterScan_def)
    have "andThen (findJob c cr rv (job # jobs)) (afterScan d c cr sts rv) =
      andThen (call (DeleteJob c job) (EvDeleteJob job)) (\<lambda>r. case r of
        None \<Rightarrow> andThen (findJob c cr rv jobs) (afterScan d c cr sts rv)
      | Some err \<Rightarrow> Import_HandleError d c cr (Some err) ''Failed to delete old job'')"
      using False by (auto simp: andThen_assoc e intro!: arg_cong2 [of _ _ _ _ andThen] split: option.split)
    then show ?thesis
      by (simp only:, intro conforms_call_error istep_to False Cons.IH conforms_Import_HandleError)
  qed
qed

lemma conforms_reconcileJobs:
  "conforms (istep d engine req) (IJobs cr sts rv) (reconcileJobs d c cr sts rv) iresult"
  unfolding reconcileJobs_def Let_def afterScan_def [symmetric]
  by (intro conforms_call_case istep_to conforms_scan conforms_Import_HandleError)


lemma conforms_reconcileLive:
  "conforms (istep d engine req) (IInstance cr) (reconcileLive d engine c cr) iresult"
proof -
  let ?P = "\<lambda>ph. conforms (istep d engine req) ph"
  have secret: "?P (ISubstitute cr sts (kiSubstitutions (kiSpec cr)) Map.empty)
     (andThen (ImportRealmSecret_CreateOrUpdate engine c cr) (\<lambda>r. case r of
        Inl err \<Rightarrow> Import_HandleError d c cr (Some err) ''Realm secret not ready''
      | Inr secret \<Rightarrow> reconcileJobs d c cr sts (metaResourceVersion (secMeta secret)))) iresult" for sts
    unfolding ImportRealmSecret_CreateOrUpdate_def andThen_assoc
  proof (rule conforms_andThen [OF conforms_fetchSubstitutions], goal_cases)
    case (1 r ph)
    then show ?case
    proof (cases r)
      case (Inl err)
      with 1 show ?thesis by (simp add: conforms_Import_HandleError)
    next
      case (Inr m)
      with 1 show ?thesis
        by (simp add: Let_def, intro conforms_callBack_case istep_to conforms_Import_HandleError conforms_reconcileJobs)
          simp
    qed
  qed simp
  have workload: "?P (IWorkload cr kc) (andThen (call (GetStatefulSet c (workloadKey kc)) (EvGetStatefulSet (workloadKey kc)))
     (\<lambda>r. case r of
        Inl err \<Rightarrow> Import_HandleError d c cr (Some err) ''RHBK deployment not ready''
      | Inr sts \<Rightarrow> andThen (ImportRealmSecret_CreateOrUpdate engine c cr) (\<lambda>r. case r of
          Inl err \<Rightarrow> Import_HandleError d c cr (Some err) ''Realm secret not ready''
        | Inr secret \<Rightarrow> reconcileJobs d c cr sts (metaResourceVersion (secMeta secret))))) iresult" for kc
    by (intro conforms_call_case istep_to secret conforms_Import_HandleError)
  show ?thesis
    unfolding reconcileLive_def Let_def
  proof (intro conforms_call_case istep_from [OF i_instance_err] conforms_Import_HandleError, goal_cases)
    case (1 kc)
    then show ?case
      by (cases "IsReady d (kcConditions kc)")
        (simp_all, blast intro: i_instance workload, blast intro: i_instance_wait conforms_Import_HandleError)
  qed
qed

lemma conforms_ensureFinalizer:
  "conforms (istep d engine req) (enter d cr) (ensureFinalizer d engine c cr) iresult"
proof (cases "hasFinalizer d cr")
  case True
  then show ?thesis by (simp add: enter_def ensureFinalizer_def hasFinalizer_def conforms_reconcileLive)
next
  case False
  then show ?thesis
    by (simp add: enter_def ensureFinalizer_def hasFinalizer_def Let_def withFinalizer_def [symmetric],
        intro conforms_call_case istep_to conforms_reconcileLive) (simp add: conforms_ret)
qed

lemma conforms_cleanup:
  "conforms (istep d engine req) (ICleanup cr) (cleanupExternalResources c cr)
     (\<lambda>r ph. case r of Inr None \<Rightarrow> ph = IDeleteSecrets cr [] | Inr (Some err) \<Rightarrow> ph = IEnd (result (Some err)) | Inl p \<Rightarrow> False)"
  (is "conforms _ _ _ ?F")
proof -
  let ?step = "istep d engine req"
  have secrets: "conforms ?step (IDeleteJobs cr []) (andThen (GetImportSecrets c cr)
      (\<lambda>r. case r of Inl err \<Rightarrow> ret (Some err) | Inr secrets \<Rightarrow> deleteSecrets c secrets)) ?F"
    unfolding GetImportSecrets_def Let_def
    by (intro conforms_call_case istep_to conforms_deleteSecrets) (simp add: conforms_ret)
  have jobs: "conforms ?step (IDeleteJobs cr jobs) (andThen (deleteJobs c jobs)
      (\<lambda>r. case r of Some err \<Rightarrow> ret (Some err) | None \<Rightarrow> andThen (GetImportSecrets c cr)
      (\<lambda>r. case r of Inl err \<Rightarrow> ret (Some err) | Inr secrets \<Rightarrow> deleteSecrets c secrets))) ?F" for jobs
  proof (rule conforms_andThen [OF conforms_deleteJobs], goal_cases)
    case (1 r ph)
    then show ?case by (cases r) (auto intro: secrets conforms_ret)
  qed simp
  show ?thesis
    unfolding cleanupExternalResources_def GetImportJobs_def Let_def
    by (intro conforms_call_case istep_to jobs) (simp add: conforms_ret)
qed

lemma Import_Reconcile_conforms:
  "conforms (istep d engine req) IStart (Import_Reconcile d engine c req) iresult"
proof -
  let ?step = "istep d engine req"
  have delete: "conforms ?step (ICleanup cr)
     (andThen (cleanupExternalResources c cr) (\<lambda>r. case r of
          Some err \<Rightarrow> ret (result (Some err))
        | None \<Rightarrow> andThen (call (UpdateKeycloakImport c (withoutFinalizer d cr)) (EvUpdateKeycloakImport (withoutFinalizer d cr))) (\<lambda>r.
           case r of Inl err \<Rightarrow> ret (result (Some err)) | Inr cr'' \<Rightarrow> ensureFinalizer d engine c cr''))) iresult" for cr
  proof (rule conforms_andThen [OF conforms_cleanup], goal_cases)
    case (1 r ph)
    show ?case
    proof (cases r)
      case None
      with 1 have "ph = IDeleteSecrets cr []" by simp
      then show ?thesis
        by (simp add: None, intro conforms_call_case istep_to conforms_ensureFinalizer) (simp add: conforms_ret)
    qed (use 1 in \<open>simp add: conforms_ret\<close>)
  qed simp
  have get: "\<exists>ph. ?step IStart (EvGetKeycloakImport req (Inl err)) ph \<and>
      conforms ?step ph (if IsNotFound err then ret (result None) else ret (result (Some err))) iresult" for err
    using i_gone [of err d engine req] i_unreadable [of err d engine req]
    by (cases "IsNotFound err") (force intro: conforms_ret)+
  show ?thesis
    unfolding Import_Reconcile_def Let_def deleting_def [symmetric] hasFinalizer_def [symmetric] withoutFinalizer_def [symmetric]
  proof (intro conforms_call_case get, goal_cases)
    case (1 cr)
    show ?case
    proof (cases "deleting d cr")
      case True
      have "conforms ?step (IEnd (result None)) (ret (result None)) iresult" by (simp add: conforms_ret)
      with True i_delete [OF True] i_released [OF True] delete [of cr] show ?thesis
        by (cases "hasFinalizer d cr") (simp_all, blast+)
    next
      case False
      with i_live [OF False] conforms_ensureFinalizer show ?thesis by (simp, blast)
    qed
  qed
qed

lemma Import_Reconcile_run:
  assumes "Import_Reconcile d engine c req s = (r, s')"
  obtains es ph where "trace s' = trace s @ es" "path (istep d engine req) IStart es ph" "iresult r ph"
  using conformsD [OF Import_Reconcile_conforms assms] by blast


end
