(* ===== verification/Server.thy ===== *)
theory Server
  imports Cluster ImportProtocol
begin

text \<open>
  The API server as the controllers see it when they run at the same time: objects have versions, a
  write is accepted only for the version it was made from, and reads may be answered from a
  cache that is behind. \<open>serves d V e V'\<close> says which answers a call may get in the state \<open>V\<close>, and what it may
  change; it covers the kinds that both controllers or several imports share: stateful sets, jobs and
  imports. The other kinds are left open: a call on them may be answered in any way and changes nothing here.

  A \<open>store\<close> has the objects of one kind that exist now, and all that have ever existed. The second component
  is not part of a server; it is what a cache may still hold.
\<close>

section \<open>Stores with versions\<close>

record 'o store =
  storeNow :: "ObjectKey \<rightharpoonup> 'o"
  storePast :: "'o set"

definition fresh :: "('o \<Rightarrow> ObjectMeta) \<Rightarrow> 'o store \<Rightarrow> 'o \<Rightarrow> bool" where
  "fresh meta st y \<longleftrightarrow> metaResourceVersion (meta y) \<noteq> [] \<and>
     (\<forall>x \<in> storePast st. keyOf (meta x) = keyOf (meta y) \<longrightarrow> metaResourceVersion (meta x) \<noteq> metaResourceVersion (meta y))"

definition put :: "('o \<Rightarrow> ObjectMeta) \<Rightarrow> 'o \<Rightarrow> 'o store \<Rightarrow> 'o store" where
  "put meta y st = \<lparr>storeNow = (storeNow st)(keyOf (meta y) \<mapsto> y), storePast = insert y (storePast st)\<rparr>"

definition removed :: "ObjectKey \<Rightarrow> 'o store \<Rightarrow> 'o store" where
  "removed k st = st\<lparr>storeNow := (storeNow st)(k := None)\<rparr>"

text \<open>
  An update: the object exists, and its version is the one that is sent (none is sent for an
  unconditional update). \<open>admits cur z y\<close>: the server may store \<open>y\<close> when it is sent \<open>z\<close> for the
  existing \<open>cur\<close>. An update that changes nothing is not stored.
\<close>

definition updates ::
  "('o \<Rightarrow> ObjectMeta) \<Rightarrow> ('o \<Rightarrow> 'o \<Rightarrow> 'o \<Rightarrow> bool) \<Rightarrow> 'o \<Rightarrow> 'o store \<Rightarrow> 'o store \<Rightarrow> bool" where
  "updates meta admits z st st' \<longleftrightarrow>
     (\<exists>cur. storeNow st (keyOf (meta z)) = Some cur \<and>
        (metaResourceVersion (meta z) = [] \<or> metaResourceVersion (meta z) = metaResourceVersion (meta cur)) \<and>
        (st' = st \<and> admits cur z cur \<or> (\<exists>y. admits cur z y \<and> fresh meta st y \<and> st' = put meta y st)))"

definition creates :: "('o \<Rightarrow> ObjectMeta) \<Rightarrow> ('o \<Rightarrow> 'o \<Rightarrow> bool) \<Rightarrow> 'o \<Rightarrow> 'o store \<Rightarrow> 'o store \<Rightarrow> bool" where
  "creates meta keeps z st st' \<longleftrightarrow>
     storeNow st (keyOf (meta z)) = None \<and> (\<exists>y. keeps z y \<and> fresh meta st y \<and> st' = put meta y st)"

text \<open>A version identifies an object.\<close>

definition wfStore :: "('o \<Rightarrow> ObjectMeta) \<Rightarrow> 'o store \<Rightarrow> bool" where
  "wfStore meta st \<longleftrightarrow>
     (\<forall>k x. storeNow st k = Some x \<longrightarrow> x \<in> storePast st \<and> keyOf (meta x) = k) \<and>
     (\<forall>x \<in> storePast st. metaResourceVersion (meta x) \<noteq> []) \<and>
     (\<forall>x \<in> storePast st. \<forall>y \<in> storePast st. keyOf (meta x) = keyOf (meta y) \<longrightarrow>
        metaResourceVersion (meta x) = metaResourceVersion (meta y) \<longrightarrow> x = y)"

lemma put_simps [simp]:
  "storeNow (put meta y st) = (storeNow st)(keyOf (meta y) \<mapsto> y)"
  "storePast (put meta y st) = insert y (storePast st)"
  "storeNow (removed k st) = (storeNow st)(k := None)" "storePast (removed k st) = storePast st"
  by (simp_all add: put_def removed_def)

lemma wfStore_put: "wfStore meta st \<Longrightarrow> fresh meta st y \<Longrightarrow> wfStore meta (put meta y st)"
  unfolding wfStore_def fresh_def by (auto split: if_splits)

lemma wfStore_removed: "wfStore meta st \<Longrightarrow> wfStore meta (removed k st)"
  unfolding wfStore_def by (auto split: if_splits)

lemma wfStore_updates: "wfStore meta st \<Longrightarrow> updates meta admits z st st' \<Longrightarrow> wfStore meta st'"
  by (auto simp: updates_def intro: wfStore_put)

lemma wfStore_creates: "wfStore meta st \<Longrightarrow> creates meta keeps z st st' \<Longrightarrow> wfStore meta st'"
  by (auto simp: creates_def intro: wfStore_put)

lemma updates_past: "updates meta admits z st st' \<Longrightarrow> storePast st \<subseteq> storePast st'"
  by (auto simp: updates_def)

lemma creates_past: "creates meta keeps z st st' \<Longrightarrow> storePast st \<subseteq> storePast st'"
  by (auto simp: creates_def)

text \<open>
  Optimistic locking: an update that was made from an object that has ever been stored is accepted
  only while that object is the current one.
\<close>

lemma updates_current:
  assumes "wfStore meta st" "updates meta admits z st st'" "x \<in> storePast st"
    and "keyOf (meta z) = keyOf (meta x)" "metaResourceVersion (meta z) = metaResourceVersion (meta x)"
  shows "storeNow st (keyOf (meta x)) = Some x"
    and "st' = st \<and> admits x z x \<or> (\<exists>y. admits x z y \<and> fresh meta st y \<and> st' = put meta y st)"
proof -
  from assms(2) obtain cur where cur: "storeNow st (keyOf (meta z)) = Some cur"
    "metaResourceVersion (meta z) = [] \<or> metaResourceVersion (meta z) = metaResourceVersion (meta cur)"
    "st' = st \<and> admits cur z cur \<or> (\<exists>y. admits cur z y \<and> fresh meta st y \<and> st' = put meta y st)"
    unfolding updates_def by blast
  with assms(1,3-5) have "cur = x" unfolding wfStore_def by metis
  with cur assms(4) show "storeNow st (keyOf (meta x)) = Some x"
    "st' = st \<and> admits x z x \<or> (\<exists>y. admits x z y \<and> fresh meta st y \<and> st' = put meta y st)" by simp_all
qed

section \<open>The server\<close>

record server =
  svStatefulSets :: "StatefulSet store"
  svJobs :: "Job store"
  svImports :: "KeycloakImport store"

definition wfServer :: "server \<Rightarrow> bool" where
  "wfServer V \<longleftrightarrow> wfStore stsMeta (svStatefulSets V) \<and> wfStore jobMeta (svJobs V) \<and> wfStore kiMeta (svImports V)"

text \<open>A job is stored as it is sent, with an empty status.\<close>

definition keepsJob :: "Job \<Rightarrow> Job \<Rightarrow> bool" where
  "keepsJob z y \<longleftrightarrow> sameMeta (jobMeta z) (jobMeta y) \<and> jobConditions y = []"

text \<open>
  An update of an import leaves the status alone, cannot take back a deletion and cannot add a finalizer to
  an object that is being deleted. An object that is being deleted and has no finalizer left is gone.
\<close>

definition admitsImport :: "deps \<Rightarrow> KeycloakImport \<Rightarrow> KeycloakImport \<Rightarrow> KeycloakImport \<Rightarrow> bool" where
  "admitsImport d cur z y \<longleftrightarrow>
     y = z\<lparr>kiMeta := (kiMeta z)\<lparr>metaResourceVersion := metaResourceVersion (kiMeta y),
             metaDeletionTimestamp := metaDeletionTimestamp (kiMeta cur)\<rparr>,
           kiVersion := kiVersion cur, kiConditions := kiConditions cur\<rparr> \<and>
     (deleting d cur \<and> \<not> hasFinalizer d cur \<longrightarrow> \<not> hasFinalizer d z)"

definition collected :: "deps \<Rightarrow> ObjectKey \<Rightarrow> KeycloakImport store \<Rightarrow> KeycloakImport store" where
  "collected d k st =
     (case storeNow st k of
        Some x \<Rightarrow> if deleting d x \<and> metaFinalizers (kiMeta x) = [] then removed k st else st
      | None \<Rightarrow> st)"

text \<open>An update of the status changes the status only.\<close>

definition admitsStatus :: "KeycloakImport \<Rightarrow> KeycloakImport \<Rightarrow> KeycloakImport \<Rightarrow> bool" where
  "admitsStatus cur z y \<longleftrightarrow>
     y = cur\<lparr>kiMeta := (kiMeta cur)\<lparr>metaResourceVersion := metaResourceVersion (kiMeta y)\<rparr>,
             kiVersion := kiVersion z, kiConditions := kiConditions z\<rparr>"

text \<open>
  \<^verbatim>\<open>CreateOrUpdate\<close>: mutate what the cache has and send it with its version, or create the mutated
  object when there is none.
\<close>

definition submits ::
  "('o \<Rightarrow> ObjectMeta) \<Rightarrow> ('o \<Rightarrow> 'o \<Rightarrow> bool) \<Rightarrow> 'o \<Rightarrow> 'o mutateFn \<Rightarrow> 'o store \<Rightarrow> 'o store \<Rightarrow> bool" where
  "submits meta keeps obj f st st' \<longleftrightarrow>
     (\<exists>z. f obj = Inr (Inr z) \<and> creates meta keeps z st st') \<or>
     (\<exists>x z. x \<in> storePast st \<and> keyOf (meta x) = keyOf (meta obj) \<and> f x = Inr (Inr z) \<and>
        updates meta (\<lambda>_. keeps) z st st')"

text \<open>
  What a call may be answered, and what it may do. A call that fails may still have been carried
  out, since the answer can be lost.
\<close>

fun serves :: "deps \<Rightarrow> server \<Rightarrow> event \<Rightarrow> server \<Rightarrow> bool" where
  "serves d V (EvGetStatefulSet k r) V' =
     (V' = V \<and> (\<forall>x. r = Inr x \<longrightarrow> x \<in> storePast (svStatefulSets V) \<and> keyOf (stsMeta x) = k))"
| "serves d V (EvUpdateStatefulSet z r) V' =
     (\<exists>st'. V' = V\<lparr>svStatefulSets := st'\<rparr> \<and>
        (r \<noteq> None \<and> st' = svStatefulSets V \<or> updates stsMeta (\<lambda>_. keepsStatefulSet) z (svStatefulSets V) st'))"
| "serves d V (EvApplyStatefulSet obj f r) V' =
     (\<exists>st'. V' = V\<lparr>svStatefulSets := st'\<rparr> \<and>
        (st' = svStatefulSets V \<or> submits stsMeta keepsStatefulSet obj f (svStatefulSets V) st') \<and>
        (\<forall>y. r = Inr (Inr y) \<longrightarrow> y \<in> storePast st' \<and> keyOf (stsMeta y) = keyOf (stsMeta obj)))"
| "serves d V (EvListJobs ns sel r) V' =
     (V' = V \<and> (\<forall>jobs. r = Inr jobs \<longrightarrow> list_all (\<lambda>j. j \<in> storePast (svJobs V) \<and>
        metaNamespace (jobMeta j) = ns \<and> SelectorMatches d sel (goSet (metaLabels (jobMeta j)))) jobs))"
| "serves d V (EvCreateJob z r) V' =
     (\<exists>st'. V' = V\<lparr>svJobs := st'\<rparr> \<and> (r \<noteq> None \<and> st' = svJobs V \<or> creates jobMeta keepsJob z (svJobs V) st'))"
| "serves d V (EvDeleteJob z r) V' =
     (\<exists>st'. V' = V\<lparr>svJobs := st'\<rparr> \<and>
        (st' = svJobs V \<or> st' = removed (keyOf (jobMeta z)) (svJobs V) \<or>
         (\<exists>cur y. storeNow (svJobs V) (keyOf (jobMeta z)) = Some cur \<and>
            y = cur\<lparr>jobMeta := (jobMeta cur)\<lparr>metaResourceVersion := metaResourceVersion (jobMeta y),
                  metaDeletionTimestamp := metaDeletionTimestamp (jobMeta y),
                  metaFinalizers := metaFinalizers (jobMeta y)\<rparr>\<rparr> \<and>
            fresh jobMeta (svJobs V) y \<and> st' = put jobMeta y (svJobs V))))"
| "serves d V (EvGetKeycloakImport k r) V' =
     (V' = V \<and> (\<forall>x. r = Inr x \<longrightarrow> x \<in> storePast (svImports V) \<and> keyOf (kiMeta x) = k))"
| "serves d V (EvUpdateKeycloakImport z r) V' =
     (\<exists>st'. V' = V\<lparr>svImports := st'\<rparr> \<and>
        (isl r \<and> st' = svImports V \<or>
         (\<exists>st1. updates kiMeta (admitsImport d) z (svImports V) st1 \<and>
            (\<forall>y. r = Inr y \<longrightarrow> storeNow st1 (keyOf (kiMeta z)) = Some y) \<and>
            st' = collected d (keyOf (kiMeta z)) st1)))"
| "serves d V (EvKeycloakImportStatus z r) V' =
     (\<exists>st'. V' = V\<lparr>svImports := st'\<rparr> \<and>
        (r \<noteq> None \<and> st' = svImports V \<or> updates kiMeta admitsStatus z (svImports V) st'))"
| "serves d V e V' = (V' = V)"

lemma collected_past [simp]: "storePast (collected d k st) = storePast st"
  by (simp add: collected_def split: option.split)

lemma wfStore_collected: "wfStore meta st \<Longrightarrow> wfStore meta (collected d k st)"
  by (simp add: collected_def wfStore_removed split: option.split)

lemma wfStore_submits: "wfStore meta st \<Longrightarrow> submits meta keeps obj f st st' \<Longrightarrow> wfStore meta st'"
  by (auto simp: submits_def intro: wfStore_creates wfStore_updates)

lemma submits_past: "submits meta keeps obj f st st' \<Longrightarrow> storePast st \<subseteq> storePast st'"
  by (auto simp: submits_def dest: creates_past updates_past)

lemmas wfStore_intros = wfStore_put wfStore_removed wfStore_collected

text \<open>A call changes one kind at most; versions stay unique, and what a cache may hold only grows.\<close>

definition grows :: "('o \<Rightarrow> ObjectMeta) \<Rightarrow> 'o store \<Rightarrow> 'o store \<Rightarrow> bool" where
  "grows meta st st' \<longleftrightarrow> (wfStore meta st \<longrightarrow> wfStore meta st') \<and> storePast st \<subseteq> storePast st'"

lemma grows_intros:
  "grows meta st st" "fresh meta st y \<Longrightarrow> grows meta st (put meta y st)" "grows meta st (removed k st)"
  "updates meta admits z st st' \<Longrightarrow> grows meta st st'" "creates meta keeps z st st' \<Longrightarrow> grows meta st st'"
  "submits meta keeps obj f st st' \<Longrightarrow> grows meta st st'"
  by (auto simp: grows_def intro: wfStore_intros wfStore_updates wfStore_creates wfStore_submits
      dest: updates_past creates_past submits_past)

lemma grows_collected: "updates kiMeta admits z st st1 \<Longrightarrow> grows kiMeta st (collected d k st1)"
  by (auto simp: grows_def intro: wfStore_collected wfStore_updates dest: updates_past)

definition evolves :: "server \<Rightarrow> server \<Rightarrow> bool" where
  "evolves V V' \<longleftrightarrow> grows stsMeta (svStatefulSets V) (svStatefulSets V') \<and> grows jobMeta (svJobs V) (svJobs V') \<and>
     grows kiMeta (svImports V) (svImports V')"

lemma serves_evolves: "serves d V e V' \<Longrightarrow> evolves V V'"
  by (cases "(d, V, e, V')" rule: serves.cases)
    (auto simp: evolves_def split: sum.split_asm intro: grows_intros grows_collected)

lemma evolves_wf: "evolves V V' \<Longrightarrow> wfServer V \<Longrightarrow> wfServer V'"
  by (simp add: evolves_def grows_def wfServer_def)

lemma evolves_past:
  assumes "evolves V V'"
  shows "x \<in> storePast (svStatefulSets V) \<Longrightarrow> x \<in> storePast (svStatefulSets V')"
    and "j \<in> storePast (svJobs V) \<Longrightarrow> j \<in> storePast (svJobs V')"
    and "cr \<in> storePast (svImports V) \<Longrightarrow> cr \<in> storePast (svImports V')"
  using assms by (auto simp: evolves_def grows_def)

end
