(* ===== verification/Interleaving.thy ===== *)
theory Interleaving
  imports Server
begin

text \<open>
  Any number of reconciles of both controllers at the same time, on the server of \<open>Server\<close>. A run is a
  thread that is in a phase of \<open>istep\<close> or \<open>kstep\<close>, the specifications that the code refines; a step of the system
  is one call of one thread, the start of a run, or something that another client of the server does. Runs
  may be started at any time, also in the place of one that has not ended: the operator may crash and be
  restarted between any two calls. The theory shows what holds in every interleaving: rollout markers are
  never lost or made up, and a run that has seen a deletion creates nothing.
\<close>

section \<open>The system\<close>

datatype thread =
    ImportRun ObjectKey iphase
  | KeycloakRun ObjectKey kphase

record system =
  sysServer :: server
  sysThreads :: "nat \<rightharpoonup> thread"

datatype action = Elsewhere | Starts nat | Calls nat event

text \<open>
  What others may do: create, change and delete objects of the three kinds. Every write gets a fresh version.
  The parameter \<open>A\<close> bounds what others do to the annotations of a pod template, before and after.
\<close>

inductive others :: "(labels option \<Rightarrow> labels option \<Rightarrow> bool) \<Rightarrow> server \<Rightarrow> server \<Rightarrow> bool" for A where
  o_sts: "fresh stsMeta (svStatefulSets V) y \<Longrightarrow>
    A (case storeNow (svStatefulSets V) (keyOf (stsMeta y)) of None \<Rightarrow> None | Some cur \<Rightarrow> podAnnotations cur)
      (podAnnotations y) \<Longrightarrow>
    others A V (V\<lparr>svStatefulSets := put stsMeta y (svStatefulSets V)\<rparr>)"
| o_sts_gone: "others A V (V\<lparr>svStatefulSets := removed k (svStatefulSets V)\<rparr>)"
| o_job: "fresh jobMeta (svJobs V) y \<Longrightarrow> others A V (V\<lparr>svJobs := put jobMeta y (svJobs V)\<rparr>)"
| o_job_gone: "others A V (V\<lparr>svJobs := removed k (svJobs V)\<rparr>)"
| o_import: "fresh kiMeta (svImports V) y \<Longrightarrow> others A V (V\<lparr>svImports := put kiMeta y (svImports V)\<rparr>)"
| o_import_gone: "others A V (V\<lparr>svImports := removed k (svImports V)\<rparr>)"

inductive sstep ::
  "deps \<Rightarrow> template_engine \<Rightarrow> (labels option \<Rightarrow> labels option \<Rightarrow> bool) \<Rightarrow> system \<Rightarrow> action \<Rightarrow> system \<Rightarrow> bool"
  for d engine A where
  s_others: "others A (sysServer \<sigma>) V' \<Longrightarrow> sstep d engine A \<sigma> Elsewhere (\<sigma>\<lparr>sysServer := V'\<rparr>)"
| s_import_start: "sstep d engine A \<sigma> (Starts i) (\<sigma>\<lparr>sysThreads := (sysThreads \<sigma>)(i \<mapsto> ImportRun req IStart)\<rparr>)"
| s_keycloak_start: "sstep d engine A \<sigma> (Starts i) (\<sigma>\<lparr>sysThreads := (sysThreads \<sigma>)(i \<mapsto> KeycloakRun req KStart)\<rparr>)"
| s_import_call: "sysThreads \<sigma> i = Some (ImportRun req ph) \<Longrightarrow> istep d engine req ph e ph' \<Longrightarrow>
    serves d (sysServer \<sigma>) e V' \<Longrightarrow>
    sstep d engine A \<sigma> (Calls i e) \<lparr>sysServer = V', sysThreads = (sysThreads \<sigma>)(i \<mapsto> ImportRun req ph')\<rparr>"
| s_keycloak_call: "sysThreads \<sigma> i = Some (KeycloakRun req ph) \<Longrightarrow> kstep d req ph e ph' \<Longrightarrow>
    serves d (sysServer \<sigma>) e V' \<Longrightarrow>
    sstep d engine A \<sigma> (Calls i e) \<lparr>sysServer = V', sysThreads = (sysThreads \<sigma>)(i \<mapsto> KeycloakRun req ph')\<rparr>"

inductive execution ::
  "deps \<Rightarrow> template_engine \<Rightarrow> (labels option \<Rightarrow> labels option \<Rightarrow> bool) \<Rightarrow> system \<Rightarrow> action list \<Rightarrow> system \<Rightarrow> bool"
  for d engine A where
  e_none: "execution d engine A \<sigma> [] \<sigma>"
| e_step: "execution d engine A \<sigma> as \<sigma>1 \<Longrightarrow> sstep d engine A \<sigma>1 a \<sigma>2 \<Longrightarrow> execution d engine A \<sigma> (as @ [a]) \<sigma>2"

inductive_cases sstep_CallsE: "sstep d engine A \<sigma> (Calls i e) \<sigma>'"

lemma others_evolves: "others A V V' \<Longrightarrow> evolves V V'"
  by (cases rule: others.cases, assumption) (simp_all add: evolves_def grows_intros)

lemma sstep_evolves: "sstep d engine A \<sigma> a \<sigma>' \<Longrightarrow> evolves (sysServer \<sigma>) (sysServer \<sigma>')"
  by (cases rule: sstep.cases, assumption)
    (simp_all add: others_evolves serves_evolves evolves_def [of V V for V] grows_intros(1))

section \<open>Invariants of the system\<close>

text \<open>
  The interface of an invariant: \<open>I\<close> of the server, and \<open>K\<close> of what a thread knows of it, which lasts because the
  server remembers. It is enough that each call of each controller keeps them.
\<close>

locale system_invariant =
  fixes d :: deps and engine :: template_engine and A :: "labels option \<Rightarrow> labels option \<Rightarrow> bool"
    and I :: "server \<Rightarrow> bool" and K :: "server \<Rightarrow> thread \<Rightarrow> bool"
  assumes others_keep: "others A V V' \<Longrightarrow> I V \<Longrightarrow> I V'"
    and known_lasts: "evolves V V' \<Longrightarrow> K V t \<Longrightarrow> K V' t"
    and known_at_start: "K V (ImportRun req IStart)" "K V (KeycloakRun req KStart)"
    and import_call: "istep d engine req ph e ph' \<Longrightarrow> serves d V e V' \<Longrightarrow> I V \<Longrightarrow> K V (ImportRun req ph) \<Longrightarrow>
      I V' \<and> K V' (ImportRun req ph')"
    and keycloak_call: "kstep d req kph e kph' \<Longrightarrow> serves d V e V' \<Longrightarrow> I V \<Longrightarrow> K V (KeycloakRun req kph) \<Longrightarrow>
      I V' \<and> K V' (KeycloakRun req kph')"
begin

definition holds :: "system \<Rightarrow> bool" where
  "holds \<sigma> \<longleftrightarrow> I (sysServer \<sigma>) \<and> (\<forall>i t. sysThreads \<sigma> i = Some t \<longrightarrow> K (sysServer \<sigma>) t)"

lemma holds_step:
  assumes "sstep d engine A \<sigma> a \<sigma>'" "holds \<sigma>"
  shows "holds \<sigma>'"
proof -
  have old: "K (sysServer \<sigma>') t" if "sysThreads \<sigma> i = Some t" for i t
    using known_lasts [OF sstep_evolves [OF assms(1)]] assms(2) that unfolding holds_def by blast
  from assms(1) show ?thesis
  proof (cases rule: sstep.cases)
    case (s_import_call i req ph e ph' V')
    with import_call [of req ph e ph' "sysServer \<sigma>" V'] assms(2) old show ?thesis by (auto simp: holds_def)
  next
    case (s_keycloak_call i req ph e ph' V')
    with keycloak_call [of req ph e ph' "sysServer \<sigma>" V'] assms(2) old show ?thesis by (auto simp: holds_def)
  qed (use assms(2) old others_keep known_at_start in \<open>auto simp: holds_def\<close>)
qed

lemma execution_holds: "execution d engine A \<sigma> as \<sigma>' \<Longrightarrow> holds \<sigma> \<Longrightarrow> holds \<sigma>'"
  by (induction rule: execution.induct) (auto intro: holds_step)

lemma holds_initially: "I (sysServer \<sigma>) \<Longrightarrow> sysThreads \<sigma> = Map.empty \<Longrightarrow> holds \<sigma>"
  by (simp add: holds_def)

end

section \<open>What a thread knows\<close>

text \<open>
  The objects that a thread works with have been stored; the import that it cleans up after is being
  deleted, and the one that it imports for is not.
\<close>

fun known :: "deps \<Rightarrow> server \<Rightarrow> thread \<Rightarrow> bool" where
  "known d V (KeycloakRun req ph) = True"
| "known d V (ImportRun req (ICleanup cr)) = (cr \<in> storePast (svImports V) \<and> deleting d cr)"
| "known d V (ImportRun req (IDeleteJobs cr jobs)) = (cr \<in> storePast (svImports V) \<and> deleting d cr)"
| "known d V (ImportRun req (IDeleteSecrets cr secrets)) = (cr \<in> storePast (svImports V) \<and> deleting d cr)"
| "known d V (ImportRun req (IFinalizer cr)) = (cr \<in> storePast (svImports V) \<and> \<not> hasFinalizer d cr)"
| "known d V (ImportRun req (IInstance cr)) = (\<not> deleting d cr)"
| "known d V (ImportRun req (IWorkload cr kc)) = (\<not> deleting d cr)"
| "known d V (ImportRun req (ISubstitute cr sts subs m)) = (\<not> deleting d cr \<and> sts \<in> storePast (svStatefulSets V))"
| "known d V (ImportRun req (IJobs cr sts rv)) = (\<not> deleting d cr \<and> sts \<in> storePast (svStatefulSets V))"
| "known d V (ImportRun req (IScan cr sts rv jobs)) =
     (\<not> deleting d cr \<and> sts \<in> storePast (svStatefulSets V) \<and> set jobs \<subseteq> storePast (svJobs V))"
| "known d V (ImportRun req (IReport cr st msg)) = (\<not> deleting d cr)"
| "known d V (ImportRun req _) = True"

lemma known_lasts: "evolves V V' \<Longrightarrow> known d V t \<Longrightarrow> known d V' t"
  by (cases "(d, V, t)" rule: known.cases) (auto dest: evolves_past)

lemma annotate_meta [simp]: "stsMeta (annotate cr rv sts) = stsMeta sts"
  by (simp add: annotate_def Let_def)

lemma podAnnotations_annotate [simp]:
  "podAnnotations (annotate cr rv sts) = Some ((goSet (podAnnotations sts))(GetImportJobAnnotation cr \<mapsto> rv))"
  by (simp add: annotate_def podAnnotations_def Let_def)

context finalizer_ops
begin

lemma withFinalizer_meta:
  "keyOf (kiMeta (withFinalizer d cr)) = keyOf (kiMeta cr)"
  "metaResourceVersion (kiMeta (withFinalizer d cr)) = metaResourceVersion (kiMeta cr)"
  "hasFinalizer d (withFinalizer d cr)"
  using add_frame [of "kiMeta cr" RealmImportFinalizer] contains_added
  by (auto simp: withFinalizer_def keyOf_def hasFinalizer_def)

lemma withoutFinalizer_meta:
  "keyOf (kiMeta (withoutFinalizer d cr)) = keyOf (kiMeta cr)"
  "metaResourceVersion (kiMeta (withoutFinalizer d cr)) = metaResourceVersion (kiMeta cr)"
  "\<not> hasFinalizer d (withoutFinalizer d cr)"
  using remove_frame [of "kiMeta cr" RealmImportFinalizer] not_contains_removed
  by (auto simp: withoutFinalizer_def keyOf_def hasFinalizer_def)

lemma admitsImport_state:
  assumes "admitsImport d cur z y"
  shows "deleting d y \<longleftrightarrow> deleting d cur" "hasFinalizer d y \<longleftrightarrow> hasFinalizer d z" "keyOf (kiMeta y) = keyOf (kiMeta z)"
    and "deleting d cur \<Longrightarrow> \<not> hasFinalizer d cur \<Longrightarrow> \<not> hasFinalizer d z"
proof -
  obtain v t kv kcs where y: "y = z\<lparr>kiMeta := (kiMeta z)\<lparr>metaResourceVersion := v,
      metaDeletionTimestamp := metaDeletionTimestamp (kiMeta cur)\<rparr>, kiVersion := kv, kiConditions := kcs\<rparr>"
    using assms unfolding admitsImport_def by blast
  show "deleting d y \<longleftrightarrow> deleting d cur" "keyOf (kiMeta y) = keyOf (kiMeta z)" by (simp_all add: y deleting_def keyOf_def)
  show "hasFinalizer d y \<longleftrightarrow> hasFinalizer d z"
    unfolding hasFinalizer_def by (rule contains_local) (simp add: y)
  show "\<not> hasFinalizer d z" if "deleting d cur" "\<not> hasFinalizer d cur" using assms that by (simp add: admitsImport_def)
qed

text \<open>An accepted update that was made from a stored import.\<close>

lemma import_updated:
  assumes "wfServer V" "serves d V (EvUpdateKeycloakImport z (Inr y)) V'" "cr \<in> storePast (svImports V)"
    and "keyOf (kiMeta z) = keyOf (kiMeta cr)" "metaResourceVersion (kiMeta z) = metaResourceVersion (kiMeta cr)"
  shows "admitsImport d cr z y" "y \<in> storePast (svImports V')"
proof -
  from assms(2) obtain st1 where u: "updates kiMeta (admitsImport d) z (svImports V) st1"
    "storeNow st1 (keyOf (kiMeta z)) = Some y" and V': "svImports V' = collected d (keyOf (kiMeta z)) st1" by auto
  have wf: "wfStore kiMeta (svImports V)" using assms(1) by (simp add: wfServer_def)
  from updates_current [OF wf u(1) assms(3-5)] show "admitsImport d cr z y"
  proof (elim disjE exE conjE)
    fix x assume x: "admitsImport d cr z x" "st1 = put kiMeta x (svImports V)"
    with u(2) admitsImport_state(3) [OF x(1)] show ?thesis by simp
  qed (use u(2) assms(4) in simp)
  have "y \<in> storePast st1" using wfStore_updates [OF wf u(1)] u(2) unfolding wfStore_def by blast
  then show "y \<in> storePast (svImports V')" by (simp add: V')
qed

lemma known_import_call:
  assumes "istep d engine req ph e ph'" "serves d V e V'" "wfServer V" "known d V (ImportRun req ph)"
  shows "known d V' (ImportRun req ph')"
  using assms(1)
proof (cases rule: istep.cases)
  case (i_release cr cr')
  with assms import_updated [of V "withoutFinalizer d cr" cr' V' cr] withoutFinalizer_meta [of cr]
    admitsImport_state [of cr "withoutFinalizer d cr" cr'] show ?thesis
    by (simp add: enter_def)
next
  case (i_finalizer cr cr')
  with assms import_updated [of V "withFinalizer d cr" cr' V' cr] withFinalizer_meta [of cr]
    admitsImport_state [of cr "withFinalizer d cr" cr'] show ?thesis by auto
qed (use assms(2,4) in \<open>auto simp: enter_def list_all_iff\<close>)

end

sublocale finalizer_ops \<subseteq> threads: system_invariant d engine A wfServer "known d" for engine A
proof unfold_locales
  fix req ph e ph' V V'
  assume "istep d engine req ph e ph'" "serves d V e V'" "wfServer V" "known d V (ImportRun req ph)"
  then show "wfServer V' \<and> known d V' (ImportRun req ph')"
    using known_import_call evolves_wf [OF serves_evolves] by blast
qed (auto intro: evolves_wf [OF others_evolves] evolves_wf [OF serves_evolves] known_lasts)

section \<open>Markers\<close>

text \<open>The marker under a key in the pod template of the stateful set that exists now.\<close>

definition marker :: "server \<Rightarrow> ObjectKey \<Rightarrow> string \<Rightarrow> string option" where
  "marker V k mk =
     (case storeNow (svStatefulSets V) k of None \<Rightarrow> None | Some x \<Rightarrow> goLookup (podAnnotations x) mk)"

lemma marker_put:
  "marker (V\<lparr>svStatefulSets := put stsMeta y (svStatefulSets V)\<rparr>) k mk =
     (if k = keyOf (stsMeta y) then goLookup (podAnnotations y) mk else marker V k mk)"
  by (simp add: marker_def)

lemma goSet_lookup: "goSet m k = goLookup m k"
  by (cases m) simp_all

lemma marker_unchanged: "svStatefulSets V' = svStatefulSets V \<Longrightarrow> marker V' k mk = marker V k mk"
  by (simp add: marker_def)

text \<open>A write of the stateful set that keeps the annotations of what it was made from.\<close>

lemma keepsStatefulSet_key: "keepsStatefulSet z y \<Longrightarrow> keyOf (stsMeta y) = keyOf (stsMeta z)"
  by (auto simp: keepsStatefulSet_def keyOf_def elim: sameMetaE)

lemma marker_updates:
  assumes "wfServer V" "updates stsMeta (\<lambda>_. keepsStatefulSet) z (svStatefulSets V) st'"
    and "x \<in> storePast (svStatefulSets V)" "keyOf (stsMeta z) = keyOf (stsMeta x)"
    and "metaResourceVersion (stsMeta z) = metaResourceVersion (stsMeta x)"
  shows "marker (V\<lparr>svStatefulSets := st'\<rparr>) k mk =
      (if k = keyOf (stsMeta x) then goLookup (podAnnotations z) mk else marker V k mk)"
    and "marker V (keyOf (stsMeta x)) mk = goLookup (podAnnotations x) mk"
proof -
  have wf: "wfStore stsMeta (svStatefulSets V)" using assms(1) by (simp add: wfServer_def)
  note now = updates_current [OF wf assms(2-5)]
  show "marker V (keyOf (stsMeta x)) mk = goLookup (podAnnotations x) mk" by (simp add: marker_def now(1))
  from now(2) show "marker (V\<lparr>svStatefulSets := st'\<rparr>) k mk =
      (if k = keyOf (stsMeta x) then goLookup (podAnnotations z) mk else marker V k mk)"
  proof (elim disjE exE conjE)
    fix y assume y: "keepsStatefulSet z y" "st' = put stsMeta y (svStatefulSets V)"
    with assms(4) keepsStatefulSet_key [OF y(1)] show ?thesis by (simp add: marker_put keepsStatefulSet_def)
  next
    assume "st' = svStatefulSets V" "keepsStatefulSet z x"
    with now(1) show ?thesis by (simp add: marker_def keepsStatefulSet_def)
  qed
qed

text \<open>The rollout of an import changes its own marker only.\<close>

lemma marker_rollout:
  assumes "wfServer V" "sts \<in> storePast (svStatefulSets V)" "serves d V (EvUpdateStatefulSet (annotate cr rv sts) r) V'"
  shows "marker V' k mk = marker V k mk \<or> GetImportJobAnnotation cr = mk \<and> k = keyOf (stsMeta sts) \<and> marker V' k mk = Some rv"
proof -
  from assms(3) consider "V' = V" | st' where "V' = V\<lparr>svStatefulSets := st'\<rparr>"
    "updates stsMeta (\<lambda>_. keepsStatefulSet) (annotate cr rv sts) (svStatefulSets V) st'" by auto
  then show ?thesis
  proof cases
    case 2
    note m = marker_updates [OF assms(1) 2(2) assms(2), unfolded annotate_meta, OF refl refl]
    show ?thesis by (auto simp: 2(1) m(1) goSet_lookup m(2) [symmetric])
  qed simp
qed

lemma marker_import_call:
  assumes "istep d engine req ph e ph'" "serves d V e V'" "wfServer V" "known d V (ImportRun req ph)"
  shows "marker V' k mk = marker V k mk \<or>
    (\<exists>cr rv sts r. e = EvUpdateStatefulSet (annotate cr rv sts) r \<and> GetImportJobAnnotation cr = mk \<and>
       k = keyOf (stsMeta sts) \<and> marker V' k mk = Some rv)"
  using assms(1)
proof (cases rule: istep.cases)
  case (i_rollout cr job rv sts jobs)
  with assms marker_rollout [of V sts d cr rv None V' k mk] show ?thesis by auto
next
  case (i_rollout_err cr job rv sts jobs err)
  with assms marker_rollout [of V sts d cr rv "Some err" V' k mk] show ?thesis by auto
qed (use assms(2) in \<open>auto intro: marker_unchanged\<close>)

context owner_refs
begin

lemma build_keeps:
  assumes "RHBKStatefulSet_Build d kc h x = Inr (Inr z)"
  shows "keyOf (stsMeta z) = keyOf (stsMeta x)" "metaResourceVersion (stsMeta z) = metaResourceVersion (stsMeta x)"
    "podAnnotations z = podAnnotations x"
  using sts_rebuild [OF assms] assms
  by (auto simp: keyOf_def podAnnotations_def elim: RHBKStatefulSet_Build_cases)

text \<open>What applying the stateful set of an instance does.\<close>

lemma workload_write:
  assumes "serves d' V (EvApplyStatefulSet (RHBKStatefulSet_init kc) (RHBKStatefulSet_Build d kc h) r) V'"
  obtains (kept) "V' = V"
  | (created) y where "V' = V\<lparr>svStatefulSets := put stsMeta y (svStatefulSets V)\<rparr>"
      "storeNow (svStatefulSets V) (keyOf (stsMeta y)) = None" "podAnnotations y = None"
  | (updated) x z st' where "V' = V\<lparr>svStatefulSets := st'\<rparr>" "x \<in> storePast (svStatefulSets V)"
      "updates stsMeta (\<lambda>_. keepsStatefulSet) z (svStatefulSets V) st'" "podAnnotations z = podAnnotations x"
      "keyOf (stsMeta z) = keyOf (stsMeta x)" "metaResourceVersion (stsMeta z) = metaResourceVersion (stsMeta x)"
proof -
  let ?obj = "RHBKStatefulSet_init kc" and ?f = "RHBKStatefulSet_Build d kc h"
  from assms consider "V' = V"
    | z st' where "V' = V\<lparr>svStatefulSets := st'\<rparr>" "?f ?obj = Inr (Inr z)" "creates stsMeta keepsStatefulSet z (svStatefulSets V) st'"
    | x z st' where "V' = V\<lparr>svStatefulSets := st'\<rparr>" "x \<in> storePast (svStatefulSets V)" "?f x = Inr (Inr z)"
        "updates stsMeta (\<lambda>_. keepsStatefulSet) z (svStatefulSets V) st'"
    by (auto simp: submits_def)
  then show ?thesis
  proof cases
    case (2 z st')
    have "podAnnotations z = None"
      unfolding build_keeps(3) [OF 2(2)]
      by (simp add: RHBKStatefulSet_init_def podAnnotations_def zeroStatefulSetSpec_def zeroMeta_def)
    moreover from 2(3) obtain y where "storeNow (svStatefulSets V) (keyOf (stsMeta z)) = None"
      "st' = put stsMeta y (svStatefulSets V)" "keepsStatefulSet z y" by (auto simp: creates_def)
    ultimately show ?thesis
      using keepsStatefulSet_key [of z y] 2(1) by (intro created [of y]) (simp_all add: keepsStatefulSet_def)
  next
    case (3 x z st')
    show ?thesis by (rule updated [OF 3(1,2,4) build_keeps(3,1,2) [OF 3(3)]])
  qed (rule kept)
qed

lemma marker_workload:
  assumes "wfServer V" "serves d' V (EvApplyStatefulSet (RHBKStatefulSet_init kc) (RHBKStatefulSet_Build d kc h) r) V'"
  shows "marker V' k mk = marker V k mk"
  using assms(2)
proof (cases rule: workload_write)
  case (created y)
  then show ?thesis by (simp add: marker_put marker_def)
next
  case (updated x z st')
  note m = marker_updates [OF assms(1) updated(3,2,5,6)]
  show ?thesis by (simp add: updated(1,4) m)
qed simp

lemma marker_keycloak_call:
  assumes "kstep d req ph e ph'" "serves d V e V'" "wfServer V"
  shows "marker V' k mk = marker V k mk"
  using assms(1)
proof (cases rule: kstep.cases)
  case (k_workload cr host sts)
  show ?thesis by (rule marker_workload [OF assms(3) assms(2) [unfolded k_workload(2)]])
next
  case (k_workload_err cr host err)
  show ?thesis by (rule marker_workload [OF assms(3) assms(2) [unfolded k_workload_err(2)]])
next
  case (k_workload_panic cr host p)
  show ?thesis by (rule marker_workload [OF assms(3) assms(2) [unfolded k_workload_panic(2)]])
qed (use assms(2) in simp_all)

end

section \<open>What stands behind a marker\<close>

text \<open>Others leave the marker under \<open>mk\<close> alone.\<close>

definition sameMarker :: "string \<Rightarrow> labels option \<Rightarrow> labels option \<Rightarrow> bool" where
  "sameMarker mk before after \<longleftrightarrow> goLookup after mk = goLookup before mk"

text \<open>
  Every marker that was ever stored has one of the values \<open>S\<close> or is the revision of a job that was complete.
\<close>

definition jobDone :: "server \<Rightarrow> string \<Rightarrow> string \<Rightarrow> bool" where
  "jobDone V mk v \<longleftrightarrow> (\<exists>job \<in> storePast (svJobs V). IsJobCompleted job \<and> goIndex (metaLabels (jobMeta job)) mk = v)"

definition backed :: "string \<Rightarrow> string set \<Rightarrow> server \<Rightarrow> bool" where
  "backed mk S V \<longleftrightarrow>
     (\<forall>x \<in> storePast (svStatefulSets V). \<forall>v. goLookup (podAnnotations x) mk = Some v \<longrightarrow> v \<in> S \<or> jobDone V mk v)"

lemma backed_jobs: "backed mk S V \<Longrightarrow> storePast (svJobs V) \<subseteq> storePast st \<Longrightarrow> backed mk S (V\<lparr>svJobs := st\<rparr>)"
  by (auto simp: backed_def jobDone_def)

lemma backed_imports: "backed mk S V \<Longrightarrow> backed mk S (V\<lparr>svImports := st\<rparr>)"
  by (simp add: backed_def jobDone_def)

lemma backed_removed: "backed mk S V \<Longrightarrow> backed mk S (V\<lparr>svStatefulSets := removed k (svStatefulSets V)\<rparr>)"
  by (simp add: backed_def jobDone_def)

lemma backed_put:
  assumes "backed mk S V" "\<And>v. goLookup (podAnnotations y) mk = Some v \<Longrightarrow> v \<in> S \<or> jobDone V mk v"
  shows "backed mk S (V\<lparr>svStatefulSets := put stsMeta y (svStatefulSets V)\<rparr>)"
  using assms by (simp add: backed_def jobDone_def)

lemma backed_now:
  assumes "backed mk S V" "wfServer V" "marker V k mk = Some v"
  shows "v \<in> S \<or> jobDone V mk v"
  using assms unfolding backed_def wfServer_def wfStore_def marker_def by (auto split: option.splits)

lemma backed_updates:
  assumes "backed mk S V" "updates stsMeta (\<lambda>_. keepsStatefulSet) z (svStatefulSets V) st'"
    and "\<And>v. goLookup (podAnnotations z) mk = Some v \<Longrightarrow> v \<in> S \<or> jobDone V mk v"
  shows "backed mk S (V\<lparr>svStatefulSets := st'\<rparr>)"
  using assms by (auto simp: updates_def keepsStatefulSet_def intro: backed_put)

lemma backed_others: "others (sameMarker mk) V V' \<Longrightarrow> wfServer V \<Longrightarrow> backed mk S V \<Longrightarrow> backed mk S V'"
proof (induction rule: others.induct)
  case (o_sts V y)
  then have "goLookup (podAnnotations y) mk = marker V (keyOf (stsMeta y)) mk"
    by (simp add: sameMarker_def marker_def split: option.splits)
  with backed_now [OF o_sts(4,3)] o_sts(4) show ?case by (intro backed_put) simp_all
qed (auto intro: backed_jobs backed_imports backed_removed)

lemma backed_rollout:
  assumes "backed mk S V" "sts \<in> storePast (svStatefulSets V)" "job \<in> storePast (svJobs V)" "IsJobCompleted job"
    and "jobRevision cr job = rv" "serves d V (EvUpdateStatefulSet (annotate cr rv sts) r) V'"
  shows "backed mk S V'"
proof -
  have "v \<in> S \<or> jobDone V mk v" if "goLookup (podAnnotations (annotate cr rv sts)) mk = Some v" for v
  proof (cases "mk = GetImportJobAnnotation cr")
    case True
    with that assms(3-5) show ?thesis by (auto simp: jobDone_def jobRevision_def)
  next
    case False
    with that assms(1,2) show ?thesis by (auto simp: goSet_lookup backed_def)
  qed
  with assms(1,6) show ?thesis by (auto intro: backed_updates)
qed

lemma backed_import_call:
  assumes "istep d engine req ph e ph'" "serves d V e V'" "known d V (ImportRun req ph)" "backed mk S V"
  shows "backed mk S V'"
  using assms(1)
proof (cases rule: istep.cases)
  case (i_rollout cr job rv sts jobs)
  with assms(2-4) backed_rollout [of mk S V sts job cr rv d None V'] show ?thesis by simp
next
  case (i_rollout_err cr job rv sts jobs err)
  with assms(2-4) backed_rollout [of mk S V sts job cr rv d "Some err" V'] show ?thesis by simp
qed (use assms(2,4) in \<open>auto intro: backed_jobs backed_imports dest: subsetD [OF creates_past]\<close>)

context owner_refs
begin

lemma backed_workload:
  assumes "backed mk S V" "serves d' V (EvApplyStatefulSet (RHBKStatefulSet_init kc) (RHBKStatefulSet_Build d kc h) r) V'"
  shows "backed mk S V'"
  using assms(2)
proof (cases rule: workload_write)
  case (created y)
  with assms(1) show ?thesis by (auto intro: backed_put)
next
  case (updated x z st')
  have "v \<in> S \<or> jobDone V mk v" if "goLookup (podAnnotations z) mk = Some v" for v
    using that assms(1) updated(2) unfolding updated(4) backed_def by blast
  with updated(1,3) assms(1) show ?thesis by (auto intro: backed_updates)
qed (use assms(1) in simp)

lemma backed_keycloak_call:
  assumes "kstep d req ph e ph'" "serves d V e V'" "backed mk S V"
  shows "backed mk S V'"
  using assms(1)
proof (cases rule: kstep.cases)
  case (k_workload cr host sts)
  show ?thesis by (rule backed_workload [OF assms(3) assms(2) [unfolded k_workload(2)]])
next
  case (k_workload_err cr host err)
  show ?thesis by (rule backed_workload [OF assms(3) assms(2) [unfolded k_workload_err(2)]])
next
  case (k_workload_panic cr host p)
  show ?thesis by (rule backed_workload [OF assms(3) assms(2) [unfolded k_workload_panic(2)]])
qed (use assms(2,3) in simp_all)

end

sublocale third_party \<subseteq> markers: system_invariant d engine "sameMarker mk" "\<lambda>V. wfServer V \<and> backed mk S V" "known d"
  for engine mk S
proof unfold_locales
  fix req ph e ph' V V'
  assume "istep d engine req ph e ph'" "serves d V e V'" "wfServer V \<and> backed mk S V" "known d V (ImportRun req ph)"
  then show "(wfServer V' \<and> backed mk S V') \<and> known d V' (ImportRun req ph')"
    using threads.import_call backed_import_call by blast
next
  fix req kph e kph' V V'
  assume "kstep d req kph e kph'" "serves d V e V'" "wfServer V \<and> backed mk S V"
  then show "(wfServer V' \<and> backed mk S V') \<and> known d V' (KeycloakRun req kph')"
    using threads.keycloak_call backed_keycloak_call by (metis known.simps(1))
next
  fix V V'
  assume "others (sameMarker mk) V V'" "wfServer V \<and> backed mk S V"
  then show "wfServer V' \<and> backed mk S V'" using backed_others evolves_wf [OF others_evolves] by blast
qed (auto intro: known_lasts)

end
