(* ===== verification/Calls.thy ===== *)
theory Calls
  imports ImportProtocol KeycloakController
begin

text \<open>
  What a run of a controller does to the state behind its client, for any laws of the calls. A law relates the state before
  a call, the call with its answer and the state after it; a client that obeys the laws call by call obeys them
  over every run of a controller: the run is a chain of the calls of its trace.
\<close>

section \<open>Clients that obey laws\<close>

text \<open>
  \<open>view\<close> is the part of the world that the laws speak about, \<open>R\<close> the law of the calls and \<open>Q\<close> what may
  happen while the clock is read.
\<close>

definition calls_obey ::
  "('v \<Rightarrow> event \<Rightarrow> 'v \<Rightarrow> bool) \<Rightarrow> ('w \<Rightarrow> 'v) \<Rightarrow> ('w \<Rightarrow> 'r \<times> 'w) \<Rightarrow> ('r \<Rightarrow> event) \<Rightarrow> bool" where
  "calls_obey R view f ev \<longleftrightarrow> (\<forall>w r w'. f w = (r, w') \<longrightarrow> R (view w) (ev r) (view w'))"

lemma calls_obeyI: "(\<And>w r w'. f w = (r, w') \<Longrightarrow> R (view w) (ev r) (view w')) \<Longrightarrow> calls_obey R view f ev"
  by (simp add: calls_obey_def)

locale client_laws =
  fixes c :: "'w client" and view :: "'w \<Rightarrow> 'v" and R :: "'v \<Rightarrow> event \<Rightarrow> 'v \<Rightarrow> bool" and Q :: "'v \<Rightarrow> 'v \<Rightarrow> bool"
  assumes reads_obey:
      "calls_obey R view (GetKeycloak c k) (EvGetKeycloak k)"
      "calls_obey R view (GetKeycloakImport c k) (EvGetKeycloakImport k)"
      "calls_obey R view (GetStatefulSet c k) (EvGetStatefulSet k)"
      "calls_obey R view (GetSecret c k) (EvGetSecret k)"
      "calls_obey R view (ListJobs c ns sel) (EvListJobs ns sel)"
      "calls_obey R view (ListSecrets c ns sel) (EvListSecrets ns sel)"
    and writes_obey:
      "calls_obey R view (CreateJob c job) (EvCreateJob job)"
      "calls_obey R view (DeleteJob c job) (EvDeleteJob job)"
      "calls_obey R view (DeleteSecret c sec) (EvDeleteSecret sec)"
      "calls_obey R view (UpdateKeycloakImport c cr) (EvUpdateKeycloakImport cr)"
      "calls_obey R view (UpdateStatefulSet c sts) (EvUpdateStatefulSet sts)"
      "calls_obey R view (UpdateKeycloakStatus c kc) (EvKeycloakStatus kc)"
      "calls_obey R view (UpdateKeycloakImportStatus c cr) (EvKeycloakImportStatus cr)"
    and applies_obey:
      "calls_obey R view (ApplyService c svc f1) (EvApplyService svc f1)"
      "calls_obey R view (ApplyRoute c rt f2) (EvApplyRoute rt f2)"
      "calls_obey R view (ApplyStatefulSet c sts f3) (EvApplyStatefulSet sts f3)"
      "calls_obey R view (ApplyServiceMonitor c sm f4) (EvApplyServiceMonitor sm f4)"
      "calls_obey R view (ApplySecret c sec f5) (EvApplySecret sec f5)"
    and clock_obeys: "Now c w = (t, w') \<Longrightarrow> Q (view w) (view w')"

section \<open>Runs of programs\<close>

inductive chain :: "('v \<Rightarrow> event \<Rightarrow> 'v \<Rightarrow> bool) \<Rightarrow> ('v \<Rightarrow> 'v \<Rightarrow> bool) \<Rightarrow> 'v \<Rightarrow> event list \<Rightarrow> 'v \<Rightarrow> bool" for R Q where
  c_end: "chain R Q V [] V"
| c_wait: "Q V V1 \<Longrightarrow> chain R Q V1 es V' \<Longrightarrow> chain R Q V es V'"
| c_call: "R V e V1 \<Longrightarrow> chain R Q V1 es V' \<Longrightarrow> chain R Q V (e # es) V'"

lemma chain_append: "chain R Q V es V1 \<Longrightarrow> chain R Q V1 es' V' \<Longrightarrow> chain R Q V (es @ es') V'"
  by (induction rule: chain.induct) (auto intro: chain.intros)

lemma chain_single: "R V e V' \<Longrightarrow> chain R Q V [e] V'"
  by (auto intro: chain.intros)

text \<open>An invariant of a specification and of the state, along a run.\<close>

lemma chain_path_inv:
  assumes "\<And>ph e ph' V V' es. step ph e ph' \<Longrightarrow> R V e V' \<Longrightarrow> I es V ph \<Longrightarrow> I (es @ [e]) V' ph'"
    and "\<And>V V' es ph. Q V V' \<Longrightarrow> I es V ph \<Longrightarrow> I es V' ph"
  shows "chain R Q V es V' \<Longrightarrow> path step ph es ph' \<Longrightarrow> I es0 V ph \<Longrightarrow> I (es0 @ es) V' ph'"
proof (induction arbitrary: es0 ph rule: chain.induct)
  case (c_call V e V1 es V')
  from c_call.prems(1) obtain ph1 where ph1: "step ph e ph1" "path step ph1 es ph'" by (auto elim: path_ConsE)
  from c_call.IH [OF ph1(2) assms(1) [OF ph1(1) c_call.hyps(1) c_call.prems(2)]] show ?case by simp
qed (auto elim: path_NilE intro: assms(2))

context client_laws
begin

definition served :: "('w sys, 'a) go \<Rightarrow> bool" where
  "served m \<longleftrightarrow> (\<forall>s r s'. m s = (r, s') \<longrightarrow> (\<exists>es. trace s' = trace s @ es \<and> chain R Q (view (world s)) es (view (world s'))))"

lemma servedD:
  assumes "served m" "m s = (r, s')"
  obtains es where "trace s' = trace s @ es" "chain R Q (view (world s)) es (view (world s'))"
  using assms unfolding served_def by blast

lemma served_ret: "served (ret x)"
  by (auto simp: served_def ret_def intro: c_end)

lemma served_lift_panic: "served (lift_panic x)"
  by (auto simp: served_def lift_panic_def intro: c_end)

lemma served_call: "calls_obey R view f ev \<Longrightarrow> served (call f ev)"
  by (auto simp: served_def call_def calls_obey_def intro: chain_single split: prod.splits)

lemma served_readClock: "served (readClock c)"
  by (auto simp: served_def readClock_def intro: c_end c_wait dest: clock_obeys split: prod.splits)

lemma served_andThen:
  assumes "served m" "\<And>x. served (f x)"
  shows "served (andThen m f)"
  unfolding served_def
proof (intro allI impI)
  fix s r s' assume run: "andThen m f s = (r, s')"
  obtain r1 s1 where m: "m s = (r1, s1)" by fastforce
  obtain es1 where e1: "trace s1 = trace s @ es1" "chain R Q (view (world s)) es1 (view (world s1))"
    by (rule servedD [OF assms(1) m])
  show "\<exists>es. trace s' = trace s @ es \<and> chain R Q (view (world s)) es (view (world s'))"
  proof (cases r1)
    case (Inl p)
    with run m e1 show ?thesis by (auto simp: andThen_def)
  next
    case (Inr x)
    with run m have "f x s1 = (r, s')" by (simp add: andThen_def)
    then obtain es2 where "trace s' = trace s1 @ es2" "chain R Q (view (world s1)) es2 (view (world s'))"
      by (rule servedD [OF assms(2)])
    with e1 show ?thesis by (auto intro: chain_append)
  qed
qed

lemma served_callBack: "calls_obey R view f ev \<Longrightarrow> served (callBack f ev)"
  by (simp add: callBack_def served_andThen served_call served_lift_panic)

lemma served_sum: "(\<And>e. served (f e)) \<Longrightarrow> (\<And>y. served (g y)) \<Longrightarrow> served (case x of Inl e \<Rightarrow> f e | Inr y \<Rightarrow> g y)"
  by (cases x) simp_all

lemma served_option: "served f \<Longrightarrow> (\<And>y. served (g y)) \<Longrightarrow> served (case x of None \<Rightarrow> f | Some y \<Rightarrow> g y)"
  by (cases x) simp_all

lemma served_if: "served m \<Longrightarrow> served n \<Longrightarrow> served (if b then m else n)"
  by simp

lemmas served_intros = served_ret served_lift_panic served_call served_callBack served_readClock served_andThen
  served_sum served_option served_if reads_obey writes_obey applies_obey

lemma served_reports:
  "served (Keycloak_HandleError d c kc err msg)" "served (Keycloak_HandleSuccess d c kc)"
  "served (Import_HandleError d c cr err msg)" "served (Import_HandleSuccess d c cr)"
  unfolding Keycloak_HandleError_def Keycloak_HandleSuccess_def Import_HandleError_def Import_HandleSuccess_def Let_def
  by (intro served_intros)+

lemma served_applies:
  "served (RHBKService_CreateOrUpdate d c kc)" "served (RHBKDiscoveryService_CreateOrUpdate d c kc)"
  "served (RHBKRoute_CreateOrUpdate d c kc)" "served (RHBKStatefulSet_CreateOrUpdate d c kc h)"
  "served (ServiceMonitor_CreateOrUpdate d c kc)"
  unfolding RHBKService_CreateOrUpdate_def RHBKDiscoveryService_CreateOrUpdate_def RHBKRoute_CreateOrUpdate_def
    RHBKStatefulSet_CreateOrUpdate_def ServiceMonitor_CreateOrUpdate_def Let_def
  by (intro served_intros)+

lemma served_Keycloak_Reconcile: "served (Keycloak_Reconcile d c req)"
  unfolding Keycloak_Reconcile_def by (intro served_intros served_reports served_applies)

lemma served_loops:
  "served (deleteJobs c jobs)" "served (deleteSecrets c secrets)" "served (findJob c cr rv jobs)"
  "served (fetchSubstitutions c cr subs m)"
proof -
  show "served (deleteJobs c jobs)" by (induction jobs) (simp_all add: served_intros)
  show "served (deleteSecrets c secrets)" by (induction secrets) (simp_all add: served_intros)
  show "served (findJob c cr rv jobs)" by (induction jobs) (simp_all add: served_intros)
  show "served (fetchSubstitutions c cr subs m)"
    by (induction subs arbitrary: m) (auto simp: Let_def intro!: served_intros)
qed

lemma served_Import_Reconcile: "served (Import_Reconcile d engine c req)"
  unfolding Import_Reconcile_def ensureFinalizer_def reconcileLive_def reconcileJobs_def cleanupExternalResources_def
    GetImportJobs_def GetImportSecrets_def rolloutChanges_def ImportRealmSecret_CreateOrUpdate_def Let_def
  by (intro served_intros served_reports served_loops)

end

end
