(* ===== verification/Simulation.thy ===== *)
theory Simulation
  imports Interleaving Calls
begin

text \<open>
  From the code to the system of \<open>Interleaving\<close>: a reconcile whose client behaves like the server of
  \<open>Server\<close> is an execution of the system in which its own thread makes the calls of its trace and everything else is
  done by others. So what holds in every execution holds of the program.
\<close>

section \<open>Clients that behave like the server\<close>

text \<open>
  A call is served after whatever others have done since the last one; \<open>view\<close> is the state of the server.
\<close>

definition answered ::
  "deps \<Rightarrow> (labels option \<Rightarrow> labels option \<Rightarrow> bool) \<Rightarrow> server \<Rightarrow> event \<Rightarrow> server \<Rightarrow> bool" where
  "answered d A V e V' \<longleftrightarrow> (\<exists>V1. (others A)\<^sup>*\<^sup>* V V1 \<and> serves d V1 e V')"

locale api_server = client_laws c view "answered d A" "(others A)\<^sup>*\<^sup>*"
  for d :: deps and A :: "labels option \<Rightarrow> labels option \<Rightarrow> bool" and c :: "'w client" and view :: "'w \<Rightarrow> server"

abbreviation served_calls ::
  "deps \<Rightarrow> (labels option \<Rightarrow> labels option \<Rightarrow> bool) \<Rightarrow> server \<Rightarrow> event list \<Rightarrow> server \<Rightarrow> bool" where
  "served_calls d A \<equiv> chain (answered d A) (others A)\<^sup>*\<^sup>*"

lemma answered_serves: "serves d V e V' \<Longrightarrow> answered d A V e V'"
  by (auto simp: answered_def)

section \<open>Runs as executions\<close>

definition callsOf :: "action list \<Rightarrow> (nat \<times> event) list" where
  "callsOf as = concat (map (\<lambda>a. case a of Calls i e \<Rightarrow> [(i, e)] | _ \<Rightarrow> []) as)"

lemma callsOf_simps [simp]:
  "callsOf [] = []" "callsOf [Elsewhere] = []" "callsOf [Starts i] = []" "callsOf [Calls i e] = [(i, e)]"
  "callsOf (as @ bs) = callsOf as @ callsOf bs"
  by (simp_all add: callsOf_def)

lemma execution_append: "execution d engine A \<sigma>1 bs \<sigma>2 \<Longrightarrow> execution d engine A \<sigma> as \<sigma>1 \<Longrightarrow> execution d engine A \<sigma> (as @ bs) \<sigma>2"
  by (induction rule: execution.induct) (auto simp flip: append_assoc intro: execution.intros)

lemma execution_wait:
  "(others A)\<^sup>*\<^sup>* V V' \<Longrightarrow> sysServer \<sigma> = V \<Longrightarrow> \<exists>as. execution d engine A \<sigma> as (\<sigma>\<lparr>sysServer := V'\<rparr>) \<and> callsOf as = []"
proof (induction rule: rtranclp_induct)
  case base
  then have "\<sigma>\<lparr>sysServer := V\<rparr> = \<sigma>" by (cases \<sigma>) simp
  then have "execution d engine A \<sigma> [] (\<sigma>\<lparr>sysServer := V\<rparr>)" by (simp add: e_none)
  then show ?case by (intro exI [of _ "[]"]) simp
next
  case (step V1 V2)
  then obtain as where "execution d engine A \<sigma> as (\<sigma>\<lparr>sysServer := V1\<rparr>)" "callsOf as = []" by blast
  moreover have "sstep d engine A (\<sigma>\<lparr>sysServer := V1\<rparr>) Elsewhere (\<sigma>\<lparr>sysServer := V1\<rparr>\<lparr>sysServer := V2\<rparr>)"
    by (rule s_others) (simp add: step.hyps(2))
  ultimately show ?case by (intro exI [of _ "as @ [Elsewhere]"]) (auto intro: e_step)
qed

text \<open>One thread makes the calls of a chain; \<open>run\<close> tells which kind of thread.\<close>

lemma chain_execution:
  assumes step: "\<And>\<sigma> ph e ph' V'. sysThreads \<sigma> i = Some (run ph) \<Longrightarrow> step ph e ph' \<Longrightarrow> serves d (sysServer \<sigma>) e V' \<Longrightarrow>
      sstep d engine A \<sigma> (Calls i e) \<lparr>sysServer = V', sysThreads = (sysThreads \<sigma>)(i \<mapsto> run ph')\<rparr>"
  shows "served_calls d A V es V' \<Longrightarrow> path step ph es ph' \<Longrightarrow> sysServer \<sigma> = V \<Longrightarrow> sysThreads \<sigma> i = Some (run ph) \<Longrightarrow>
    \<exists>as. execution d engine A \<sigma> as \<lparr>sysServer = V', sysThreads = (sysThreads \<sigma>)(i \<mapsto> run ph')\<rparr> \<and> callsOf as = map (Pair i) es"
proof (induction arbitrary: \<sigma> ph rule: chain.induct)
  case (c_end V)
  then have "ph' = ph" by (auto elim: path_NilE)
  with c_end have "execution d engine A \<sigma> [] \<lparr>sysServer = V, sysThreads = (sysThreads \<sigma>)(i \<mapsto> run ph')\<rparr>"
    by (cases \<sigma>) (simp add: fun_upd_idem e_none)
  then show ?case by (intro exI [of _ "[]"]) (simp del: fun_upd_apply)
next
  case (c_wait V V1 es V')
  obtain as where as: "execution d engine A \<sigma> as (\<sigma>\<lparr>sysServer := V1\<rparr>)" "callsOf as = []"
    using execution_wait [OF c_wait.hyps(1) c_wait.prems(2)] by blast
  obtain bs where "execution d engine A (\<sigma>\<lparr>sysServer := V1\<rparr>) bs \<lparr>sysServer = V', sysThreads = (sysThreads \<sigma>)(i \<mapsto> run ph')\<rparr>"
    "callsOf bs = map (Pair i) es"
    using c_wait.IH [OF c_wait.prems(1), of "\<sigma>\<lparr>sysServer := V1\<rparr>"] c_wait.prems(3) by (auto simp del: fun_upd_apply)
  with as execution_append [OF this(1) as(1)] show ?case by (intro exI [of _ "as @ bs"]) (simp del: fun_upd_apply)
next
  case (c_call V e V2 es V')
  from c_call.prems(1) obtain ph1 where ph1: "step ph e ph1" "path step ph1 es ph'" by (auto elim: path_ConsE)
  from c_call.hyps(1) obtain V1 where V1: "(others A)\<^sup>*\<^sup>* V V1" "serves d V1 e V2" by (auto simp: answered_def)
  obtain as where as: "execution d engine A \<sigma> as (\<sigma>\<lparr>sysServer := V1\<rparr>)" "callsOf as = []"
    using execution_wait [OF V1(1) c_call.prems(2)] by blast
  let ?\<sigma>2 = "\<lparr>sysServer = V2, sysThreads = (sysThreads \<sigma>)(i \<mapsto> run ph1)\<rparr>"
  have "sstep d engine A (\<sigma>\<lparr>sysServer := V1\<rparr>) (Calls i e) ?\<sigma>2"
    using step [of "\<sigma>\<lparr>sysServer := V1\<rparr>" ph e ph1 V2] ph1(1) V1(2) c_call.prems(3) by simp
  with as(1) have "execution d engine A \<sigma> (as @ [Calls i e]) ?\<sigma>2" by (rule e_step)
  moreover obtain bs where "execution d engine A ?\<sigma>2 bs \<lparr>sysServer = V', sysThreads = (sysThreads \<sigma>)(i \<mapsto> run ph')\<rparr>"
    "callsOf bs = map (Pair i) es"
    using c_call.IH [OF ph1(2), of ?\<sigma>2] by (auto simp del: fun_upd_apply simp add: fun_upd_same)
  moreover have "callsOf ((as @ [Calls i e]) @ bs) = map (Pair i) (e # es)" if "callsOf bs = map (Pair i) es" for bs
    unfolding callsOf_simps(5) by (simp add: as(2) that)
  ultimately show ?case using execution_append by blast
qed

lemma import_chain:
  "served_calls d A V es V' \<Longrightarrow> path (istep d engine req) ph es ph' \<Longrightarrow> sysServer \<sigma> = V \<Longrightarrow>
    sysThreads \<sigma> i = Some (ImportRun req ph) \<Longrightarrow>
    \<exists>as. execution d engine A \<sigma> as \<lparr>sysServer = V', sysThreads = (sysThreads \<sigma>)(i \<mapsto> ImportRun req ph')\<rparr> \<and>
      callsOf as = map (Pair i) es"
  by (rule chain_execution [where run = "ImportRun req"]) (rule s_import_call)

lemma keycloak_chain:
  "served_calls d A V es V' \<Longrightarrow> path (kstep d req) ph es ph' \<Longrightarrow> sysServer \<sigma> = V \<Longrightarrow>
    sysThreads \<sigma> i = Some (KeycloakRun req ph) \<Longrightarrow>
    \<exists>as. execution d engine A \<sigma> as \<lparr>sysServer = V', sysThreads = (sysThreads \<sigma>)(i \<mapsto> KeycloakRun req ph')\<rparr> \<and>
      callsOf as = map (Pair i) es"
  by (rule chain_execution [where run = "KeycloakRun req"]) (rule s_keycloak_call)

context api_server
begin

lemma import_execution:
  assumes "Import_Reconcile d engine c req s = (r, s')"
    and "sysServer \<sigma> = view (world s)" "sysThreads \<sigma> i = Some (ImportRun req IStart)"
  obtains as ph es where "execution d engine A \<sigma> as \<lparr>sysServer = view (world s'), sysThreads = (sysThreads \<sigma>)(i \<mapsto> ImportRun req ph)\<rparr>"
    "callsOf as = map (Pair i) es" "trace s' = trace s @ es" "iresult r ph"
proof -
  obtain es ph where es: "trace s' = trace s @ es" "path (istep d engine req) IStart es ph" "iresult r ph"
    using assms(1) by (rule Import_Reconcile_run)
  moreover have "served_calls d A (view (world s)) es (view (world s'))"
    by (rule servedD [OF served_Import_Reconcile assms(1)]) (use es(1) in simp)
  ultimately show ?thesis
    using import_chain assms(2,3) that by blast
qed

lemma keycloak_execution:
  assumes "Keycloak_Reconcile d c req s = (r, s')"
    and "sysServer \<sigma> = view (world s)" "sysThreads \<sigma> i = Some (KeycloakRun req KStart)"
  obtains as ph es where "execution d engine A \<sigma> as \<lparr>sysServer = view (world s'), sysThreads = (sysThreads \<sigma>)(i \<mapsto> KeycloakRun req ph)\<rparr>"
    "callsOf as = map (Pair i) es" "trace s' = trace s @ es" "kresult r ph"
proof -
  obtain es ph where es: "trace s' = trace s @ es" "path (kstep d req) KStart es ph" "kresult r ph"
    using conformsD [OF Keycloak_Reconcile_conforms assms(1)] by blast
  moreover have "served_calls d A (view (world s)) es (view (world s'))"
    by (rule servedD [OF served_Keycloak_Reconcile assms(1)]) (use es(1) in simp)
  ultimately show ?thesis
    using keycloak_chain assms(2,3) that by blast
qed

end

end
