(* ===== verification/RefServer.thy ===== *)
theory RefServer
  imports Simulation
begin

text \<open>
  A server in memory that serves the calls of both controllers and satisfies \<open>api_server\<close>. It keeps the
  stores of \<open>Server\<close> and the secrets, gives a new version to every object that it writes and rejects updates
  that were made from an older version. The kinds that are not shared (services, routes, service monitors) are
  not kept: \<^verbatim>\<open>CreateOrUpdate\<close> returns what the mutate function makes of the object that it is given.
\<close>

section \<open>Operations on a store\<close>

record memWorld =
  mwServer :: server
  mwTick :: nat
  mwKeycloaks :: "ObjectKey \<rightharpoonup> Keycloak"
  mwSecrets :: "ObjectKey \<rightharpoonup> Secret"
  mwJobKeys :: "ObjectKey list"
  mwImportKeys :: "ObjectKey list"

definition versionOf :: "nat \<Rightarrow> string" where
  "versionOf n = CHR ''v'' # replicate n (CHR ''i'')"

definition missing :: goerror where "missing = StatusError True ''not found''"
definition conflict :: goerror where "conflict = StatusError False ''the object has been modified''"

definition memGet :: "('o \<Rightarrow> ObjectMeta) \<Rightarrow> 'o store \<Rightarrow> ObjectKey \<Rightarrow> goerror + 'o" where
  "memGet meta st k =
     (case storeNow st k of
        None \<Rightarrow> Inl missing
      | Some x \<Rightarrow> if x \<in> storePast st \<and> keyOf (meta x) = k then Inr x else Inl missing)"

text \<open>The object that an update stores, when it is accepted: \<open>admit cur z\<close>, which has the new version.\<close>

definition memUpdate :: "('o \<Rightarrow> ObjectMeta) \<Rightarrow> ('o \<Rightarrow> 'o \<Rightarrow> 'o) \<Rightarrow> 'o \<Rightarrow> 'o store \<Rightarrow> 'o option" where
  "memUpdate meta admit z st =
     (case storeNow st (keyOf (meta z)) of
        None \<Rightarrow> None
      | Some cur \<Rightarrow>
          if metaResourceVersion (meta z) = [] \<or> metaResourceVersion (meta z) = metaResourceVersion (meta cur)
          then (let y = admit cur z in if fresh meta st y then Some y else None)
          else None)"

definition memCreate :: "('o \<Rightarrow> ObjectMeta) \<Rightarrow> ('o \<Rightarrow> 'o) \<Rightarrow> 'o \<Rightarrow> 'o store \<Rightarrow> 'o option" where
  "memCreate meta admit z st =
     (if storeNow st (keyOf (meta z)) = None \<and> fresh meta st (admit z) then Some (admit z) else None)"

lemma memUpdate_updates:
  assumes "memUpdate meta admit z st = Some y" "\<And>cur. admits cur z (admit cur z)"
  shows "updates meta admits z st (put meta y st)"
  using assms unfolding memUpdate_def updates_def by (auto simp: Let_def split: option.splits if_splits)

lemma memUpdate_is:
  assumes "memUpdate meta admit z st = Some y"
  obtains cur where "y = admit cur z"
  using assms by (auto simp: memUpdate_def Let_def split: option.splits if_splits)

lemma memCreate_creates:
  assumes "memCreate meta admit z st = Some y" "keeps z (admit z)"
  shows "creates meta keeps z st (put meta y st)"
  using assms by (auto simp: memCreate_def creates_def split: if_splits)

lemma memGet_past: "memGet meta st k = Inr x \<Longrightarrow> x \<in> storePast st \<and> keyOf (meta x) = k"
  by (auto simp: memGet_def split: option.splits if_splits)

section \<open>The calls\<close>

definition written :: "memWorld \<Rightarrow> server \<Rightarrow> memWorld" where
  "written w V = w\<lparr>mwServer := V, mwTick := Suc (mwTick w)\<rparr>"

definition memStatefulSet :: "memWorld \<Rightarrow> StatefulSet \<Rightarrow> StatefulSet \<Rightarrow> StatefulSet" where
  "memStatefulSet w cur z = z\<lparr>stsMeta := (stsMeta z)\<lparr>metaResourceVersion := versionOf (mwTick w)\<rparr>,
     stsStatusReplicas := stsStatusReplicas cur, stsStatusReadyReplicas := stsStatusReadyReplicas cur\<rparr>"

definition memJob :: "memWorld \<Rightarrow> Job \<Rightarrow> Job" where
  "memJob w z = z\<lparr>jobMeta := (jobMeta z)\<lparr>metaResourceVersion := versionOf (mwTick w)\<rparr>, jobConditions := []\<rparr>"

definition memImport :: "memWorld \<Rightarrow> KeycloakImport \<Rightarrow> KeycloakImport \<Rightarrow> KeycloakImport" where
  "memImport w cur z =
     z\<lparr>kiMeta := (kiMeta z)\<lparr>metaResourceVersion := versionOf (mwTick w),
         metaDeletionTimestamp := metaDeletionTimestamp (kiMeta cur)\<rparr>,
       kiVersion := kiVersion cur, kiConditions := kiConditions cur\<rparr>"

definition memImportStatus :: "memWorld \<Rightarrow> KeycloakImport \<Rightarrow> KeycloakImport \<Rightarrow> KeycloakImport" where
  "memImportStatus w cur z =
     cur\<lparr>kiMeta := (kiMeta cur)\<lparr>metaResourceVersion := versionOf (mwTick w)\<rparr>,
       kiVersion := kiVersion z, kiConditions := kiConditions z\<rparr>"

definition memUpdateStatefulSet :: "StatefulSet \<Rightarrow> memWorld \<Rightarrow> goerror option \<times> memWorld" where
  "memUpdateStatefulSet z w =
     (let st = svStatefulSets (mwServer w) in
      case memUpdate stsMeta (memStatefulSet w) z st of
        None \<Rightarrow> (Some conflict, w)
      | Some y \<Rightarrow> (None, written w ((mwServer w)\<lparr>svStatefulSets := put stsMeta y st\<rparr>)))"

text \<open>\<^verbatim>\<open>CreateOrUpdate\<close>: \<open>mutating\<close> runs the mutate function, whose errors and panics end the call.\<close>

definition mutating ::
  "panic + (goerror + 'o) \<Rightarrow> memWorld \<Rightarrow> ('o \<Rightarrow> (panic + (goerror + 'o)) \<times> memWorld) \<Rightarrow> (panic + (goerror + 'o)) \<times> memWorld" where
  "mutating r w send =
     (case r of Inl p \<Rightarrow> (Inl p, w) | Inr (Inl err) \<Rightarrow> (Inr (Inl err), w) | Inr (Inr z) \<Rightarrow> send z)"

definition memStoreStatefulSet ::
  "ObjectKey \<Rightarrow> memWorld \<Rightarrow> StatefulSet option \<Rightarrow> (panic + (goerror + StatefulSet)) \<times> memWorld" where
  "memStoreStatefulSet k w r =
     (case r of
        None \<Rightarrow> (Inr (Inl conflict), w)
      | Some y \<Rightarrow>
          if keyOf (stsMeta y) = k
          then (Inr (Inr y), written w ((mwServer w)\<lparr>svStatefulSets := put stsMeta y (svStatefulSets (mwServer w))\<rparr>))
          else (Inr (Inl conflict), w))"

definition memApplyStatefulSet ::
  "StatefulSet \<Rightarrow> StatefulSet mutateFn \<Rightarrow> memWorld \<Rightarrow> (panic + (goerror + StatefulSet)) \<times> memWorld" where
  "memApplyStatefulSet obj f w =
     (let st = svStatefulSets (mwServer w); k = keyOf (stsMeta obj) in
      case memGet stsMeta st k of
        Inl _ \<Rightarrow> mutating (f obj) w (\<lambda>z. memStoreStatefulSet k w (memCreate stsMeta (memStatefulSet w z) z st))
      | Inr x \<Rightarrow> mutating (f x) w (\<lambda>z.
          if z = x then (Inr (Inr x), w) else memStoreStatefulSet k w (memUpdate stsMeta (memStatefulSet w) z st)))"

definition memCreateJob :: "Job \<Rightarrow> memWorld \<Rightarrow> goerror option \<times> memWorld" where
  "memCreateJob z w =
     (let st = svJobs (mwServer w) in
      case memCreate jobMeta (memJob w) z st of
        None \<Rightarrow> (Some conflict, w)
      | Some y \<Rightarrow> (None, (written w ((mwServer w)\<lparr>svJobs := put jobMeta y st\<rparr>))
          \<lparr>mwJobKeys := mwJobKeys w @ [keyOf (jobMeta y)]\<rparr>))"

definition memDeleteJob :: "Job \<Rightarrow> memWorld \<Rightarrow> goerror option \<times> memWorld" where
  "memDeleteJob z w =
     (let st = svJobs (mwServer w); k = keyOf (jobMeta z) in
      (None, w\<lparr>mwServer := (mwServer w)\<lparr>svJobs := removed k st\<rparr>, mwJobKeys := removeAll k (mwJobKeys w)\<rparr>))"

definition memListJobs :: "string \<Rightarrow> labels \<Rightarrow> memWorld \<Rightarrow> (goerror + Job list) \<times> memWorld" where
  "memListJobs ns sel w =
     (Inr (filter (\<lambda>j. j \<in> storePast (svJobs (mwServer w)) \<and> metaNamespace (jobMeta j) = ns \<and>
        SelectorMatches refDeps sel (goSet (metaLabels (jobMeta j))))
        (List.map_filter (storeNow (svJobs (mwServer w))) (mwJobKeys w))), w)"

definition memUpdateImport :: "KeycloakImport \<Rightarrow> memWorld \<Rightarrow> (goerror + KeycloakImport) \<times> memWorld" where
  "memUpdateImport z w =
     (let st = svImports (mwServer w); k = keyOf (kiMeta z) in
      case memUpdate kiMeta (memImport w) z st of
        None \<Rightarrow> (Inl conflict, w)
      | Some y \<Rightarrow>
          if deleting refDeps y \<and> hasFinalizer refDeps z then (Inl conflict, w)
          else (Inr y, written w ((mwServer w)\<lparr>svImports := collected refDeps k (put kiMeta y st)\<rparr>)))"

definition memImportStatusUpdate :: "KeycloakImport \<Rightarrow> memWorld \<Rightarrow> goerror option \<times> memWorld" where
  "memImportStatusUpdate z w =
     (let st = svImports (mwServer w) in
      case memUpdate kiMeta (memImportStatus w) z st of
        None \<Rightarrow> (Some conflict, w)
      | Some y \<Rightarrow> (None, written w ((mwServer w)\<lparr>svImports := put kiMeta y st\<rparr>)))"

definition memApplySecret :: "Secret \<Rightarrow> Secret mutateFn \<Rightarrow> memWorld \<Rightarrow> (panic + (goerror + Secret)) \<times> memWorld" where
  "memApplySecret obj f w =
     (let k = keyOf (secMeta obj) in
      mutating (f (lookupOr secMeta (mwSecrets w) obj)) w (\<lambda>z.
        if mwSecrets w k = Some z then (Inr (Inr z), w)
        else (let y = z\<lparr>secMeta := (secMeta z)\<lparr>metaResourceVersion := versionOf (mwTick w)\<rparr>\<rparr> in
              (Inr (Inr y), w\<lparr>mwSecrets := (mwSecrets w)(k \<mapsto> y), mwTick := Suc (mwTick w)\<rparr>))))"

definition memClient :: "memWorld client" where
  "memClient = \<lparr>
     GetKeycloak = (\<lambda>k w. (case mwKeycloaks w k of None \<Rightarrow> Inl missing | Some kc \<Rightarrow> Inr kc, w)),
     GetKeycloakImport = (\<lambda>k w. (memGet kiMeta (svImports (mwServer w)) k, w)),
     GetStatefulSet = (\<lambda>k w. (memGet stsMeta (svStatefulSets (mwServer w)) k, w)),
     GetSecret = (\<lambda>k w. (case mwSecrets w k of None \<Rightarrow> Inl missing | Some s \<Rightarrow> Inr s, w)),
     ListJobs = memListJobs, ListSecrets = (\<lambda>ns sel w. (Inr [], w)), 
     ListKeycloakImports = (\<lambda>w. (Inr (List.map_filter (storeNow (svImports (mwServer w))) (mwImportKeys w)), w)),
     CreateJob = memCreateJob, DeleteJob = memDeleteJob,
     DeleteSecret = (\<lambda>s w. (None, w\<lparr>mwSecrets := (mwSecrets w)(keyOf (secMeta s) := None)\<rparr>)),
     UpdateKeycloakImport = memUpdateImport, UpdateStatefulSet = memUpdateStatefulSet,
     UpdateKeycloakStatus = (\<lambda>kc w. (None, w\<lparr>mwKeycloaks := (mwKeycloaks w)(keyOf (kcMeta kc) \<mapsto> kc)\<rparr>)),
     UpdateKeycloakImportStatus = memImportStatusUpdate,
     ApplyService = (\<lambda>obj f w. (f obj, w)), ApplyRoute = (\<lambda>obj f w. (f obj, w)),
     ApplyStatefulSet = memApplyStatefulSet, ApplyServiceMonitor = (\<lambda>obj f w. (f obj, w)),
     ApplySecret = memApplySecret, Now = (\<lambda>w. (mwTick w, w))\<rparr>"

section \<open>The server satisfies the laws\<close>

lemma calls_servedI: "(\<And>w r w'. f w = (r, w') \<Longrightarrow> serves d (view w) (ev r) (view w')) \<Longrightarrow> calls_obey (answered d A) view f ev"
  by (simp add: calls_obey_def answered_serves)

lemma written_server [simp]: "mwServer (written w V) = V"
  by (simp add: written_def)

lemma memStatefulSet_keeps: "keepsStatefulSet z (memStatefulSet w cur z)"
  by (simp add: memStatefulSet_def keepsStatefulSet_def podAnnotations_def)

lemma memJob_keeps: "keepsJob z (memJob w z)"
  by (simp add: memJob_def keepsJob_def)

text \<open>A call that fails and does nothing, and one that writes one kind.\<close>

lemma serves_nothing:
  "serves d V (EvUpdateStatefulSet z (Some err)) V" "serves d V (EvApplyStatefulSet obj f (Inl p)) V"
  "serves d V (EvApplyStatefulSet obj f (Inr (Inl err))) V" "serves d V (EvCreateJob job (Some err)) V"
  "serves d V (EvUpdateKeycloakImport cr (Inl err)) V" "serves d V (EvKeycloakImportStatus cr (Some err)) V"
  by (cases V; auto)+

lemma serves_update:
  "updates stsMeta (\<lambda>_. keepsStatefulSet) z (svStatefulSets V) st \<Longrightarrow> serves d V (EvUpdateStatefulSet z r) (V\<lparr>svStatefulSets := st\<rparr>)"
  "creates jobMeta keepsJob job (svJobs V) st1 \<Longrightarrow> serves d V (EvCreateJob job r) (V\<lparr>svJobs := st1\<rparr>)"
  "updates kiMeta admitsStatus cr (svImports V) st2 \<Longrightarrow> serves d V (EvKeycloakImportStatus cr r) (V\<lparr>svImports := st2\<rparr>)"
  by auto

lemma serves_import:
  "updates kiMeta (admitsImport d) z (svImports V) st \<Longrightarrow> storeNow st (keyOf (kiMeta z)) = Some y \<Longrightarrow>
   serves d V (EvUpdateKeycloakImport z (Inr y)) (V\<lparr>svImports := collected d (keyOf (kiMeta z)) st\<rparr>)"
  by auto

lemma serves_submit:
  "st = svStatefulSets V \<or> submits stsMeta keepsStatefulSet obj f (svStatefulSets V) st \<Longrightarrow>
   y \<in> storePast st \<Longrightarrow> keyOf (stsMeta y) = keyOf (stsMeta obj) \<Longrightarrow>
   serves d V (EvApplyStatefulSet obj f (Inr (Inr y))) (V\<lparr>svStatefulSets := st\<rparr>)"
  by auto

lemma served_memUpdateStatefulSet: "calls_obey (answered d A) mwServer (memUpdateStatefulSet z) (EvUpdateStatefulSet z)"
  by (rule calls_servedI)
    (auto simp: memUpdateStatefulSet_def Let_def simp del: serves.simps split: option.splits
      intro!: serves_nothing serves_update dest: memUpdate_updates [where admits = "\<lambda>_. keepsStatefulSet"]
      intro: memStatefulSet_keeps)

lemma serves_store:
  assumes "\<And>y. ry = Some y \<Longrightarrow> submits stsMeta keepsStatefulSet obj f (svStatefulSets (mwServer w)) (put stsMeta y (svStatefulSets (mwServer w)))"
    and "memStoreStatefulSet (keyOf (stsMeta obj)) w ry = (r, w')"
  shows "serves d (mwServer w) (EvApplyStatefulSet obj f r) (mwServer w')"
  using assms
  by (auto simp: memStoreStatefulSet_def simp del: serves.simps split: option.splits if_splits
      intro!: serves_nothing serves_submit)

lemma serves_mutating:
  assumes "mutating (f x) w send = (r, w')"
    and "\<And>z. f x = Inr (Inr z) \<Longrightarrow> send z = (r, w') \<Longrightarrow> serves d (mwServer w) (EvApplyStatefulSet obj f r) (mwServer w')"
  shows "serves d (mwServer w) (EvApplyStatefulSet obj f r) (mwServer w')"
proof (cases "f x")
  case (Inl p)
  then have "r = Inl p" "w' = w" using assms(1) by (simp_all add: mutating_def)
  then show ?thesis by (simp only: serves_nothing)
next
  case (Inr q)
  then show ?thesis
  proof (cases q)
    case (Inl err)
    with Inr have "r = Inr (Inl err)" "w' = w" using assms(1) by (simp_all add: mutating_def)
    then show ?thesis by (simp only: serves_nothing)
  next
    case (Inr z)
    with \<open>f x = Inr q\<close> assms show ?thesis by (simp add: mutating_def del: serves.simps)
  qed
qed

lemma serves_created:
  assumes "mutating (f obj) w (\<lambda>z. memStoreStatefulSet (keyOf (stsMeta obj)) w
      (memCreate stsMeta (memStatefulSet w z) z (svStatefulSets (mwServer w)))) = (r, w')"
  shows "serves d (mwServer w) (EvApplyStatefulSet obj f r) (mwServer w')"
  using assms
proof (rule serves_mutating)
  fix z assume z: "f obj = Inr (Inr z)" "memStoreStatefulSet (keyOf (stsMeta obj)) w
      (memCreate stsMeta (memStatefulSet w z) z (svStatefulSets (mwServer w))) = (r, w')"
  show "serves d (mwServer w) (EvApplyStatefulSet obj f r) (mwServer w')"
    by (rule serves_store [OF _ z(2)])
      (use z(1) memCreate_creates [where keeps = keepsStatefulSet] memStatefulSet_keeps in \<open>auto simp: submits_def\<close>)
qed

lemma serves_updated:
  assumes "x \<in> storePast (svStatefulSets (mwServer w)) \<and> keyOf (stsMeta x) = keyOf (stsMeta obj)"
    and "mutating (f x) w (\<lambda>z. if z = x then (Inr (Inr x), w) else memStoreStatefulSet (keyOf (stsMeta obj)) w
      (memUpdate stsMeta (memStatefulSet w) z (svStatefulSets (mwServer w)))) = (r, w')"
  shows "serves d (mwServer w) (EvApplyStatefulSet obj f r) (mwServer w')"
  using assms(2)
proof (rule serves_mutating)
  let ?V = "mwServer w"
  fix z assume z: "f x = Inr (Inr z)" "(if z = x then (Inr (Inr x), w) else memStoreStatefulSet (keyOf (stsMeta obj)) w
      (memUpdate stsMeta (memStatefulSet w) z (svStatefulSets ?V))) = (r, w')"
  show "serves d ?V (EvApplyStatefulSet obj f r) (mwServer w')"
  proof (cases "z = x")
    case True
    have "?V\<lparr>svStatefulSets := svStatefulSets ?V\<rparr> = ?V" by (cases ?V) simp
    with True z(2) assms(1) serves_submit [of "svStatefulSets ?V" ?V obj f x d] show ?thesis by auto
  next
    case False
    with z(2) have s: "memStoreStatefulSet (keyOf (stsMeta obj)) w
        (memUpdate stsMeta (memStatefulSet w) z (svStatefulSets ?V)) = (r, w')" by simp
    show ?thesis
      by (rule serves_store [OF _ s])
        (use z(1) assms(1) memUpdate_updates [where admits = "\<lambda>_. keepsStatefulSet"] memStatefulSet_keeps in
          \<open>auto simp: submits_def\<close>)
  qed
qed

lemma served_memApplyStatefulSet: "calls_obey (answered d A) mwServer (memApplyStatefulSet obj f) (EvApplyStatefulSet obj f)"
proof (rule calls_servedI)
  fix w :: memWorld and r w'
  assume run: "memApplyStatefulSet obj f w = (r, w')"
  show "serves d (mwServer w) (EvApplyStatefulSet obj f r) (mwServer w')"
  proof (cases "memGet stsMeta (svStatefulSets (mwServer w)) (keyOf (stsMeta obj))")
    case (Inl e)
    with run show ?thesis by (intro serves_created) (simp add: memApplyStatefulSet_def)
  next
    case (Inr x)
    with run show ?thesis by (intro serves_updated [OF memGet_past [OF Inr]]) (simp add: memApplyStatefulSet_def)
  qed
qed

lemma served_memCreateJob: "calls_obey (answered d A) mwServer (memCreateJob z) (EvCreateJob z)"
  by (rule calls_servedI)
    (auto simp: memCreateJob_def Let_def simp del: serves.simps split: option.splits
      intro!: serves_nothing serves_update dest: memCreate_creates [where keeps = keepsJob] intro: memJob_keeps)

lemma served_memDeleteJob: "calls_obey (answered d A) mwServer (memDeleteJob z) (EvDeleteJob z)"
  by (rule calls_servedI) (auto simp: memDeleteJob_def Let_def)

lemma served_memListJobs: "calls_obey (answered refDeps A) mwServer (memListJobs ns sel) (EvListJobs ns sel)"
  by (rule calls_servedI) (auto simp: memListJobs_def list_all_iff)

lemma served_memImportStatusUpdate: "calls_obey (answered d A) mwServer (memImportStatusUpdate z) (EvKeycloakImportStatus z)"
  by (rule calls_servedI)
    (auto simp: memImportStatusUpdate_def Let_def simp del: serves.simps split: option.splits
      intro!: serves_nothing serves_update dest: memUpdate_updates [where admits = admitsStatus]
      simp: memImportStatus_def admitsStatus_def)

lemma served_memUpdateImport: "calls_obey (answered refDeps A) mwServer (memUpdateImport z) (EvUpdateKeycloakImport z)"
proof (rule calls_servedI)
  fix w :: memWorld and r w'
  let ?st = "svImports (mwServer w)"
  assume run: "memUpdateImport z w = (r, w')"
  show "serves refDeps (mwServer w) (EvUpdateKeycloakImport z r) (mwServer w')"
  proof (cases "memUpdate kiMeta (memImport w) z ?st")
    case (Some y)
    then obtain cur where cur: "y = memImport w cur z" "storeNow ?st (keyOf (kiMeta z)) = Some cur"
      "updates kiMeta (\<lambda>c z y. c = cur \<and> y = memImport w cur z) z ?st (put kiMeta y ?st)"
      by (auto simp: memUpdate_def updates_def Let_def split: option.splits if_splits)
    show ?thesis
    proof (cases "deleting refDeps y \<and> hasFinalizer refDeps z")
      case False
      have "admitsImport refDeps cur z y"
        using False by (auto simp: cur(1) admitsImport_def memImport_def deleting_def)
      then have u: "updates kiMeta (admitsImport refDeps) z ?st (put kiMeta y ?st)"
        using cur(3) by (auto simp: updates_def cur(1))
      have k: "keyOf (kiMeta y) = keyOf (kiMeta z)" by (simp add: cur(1) memImport_def keyOf_def)
      from run Some False have "r = Inr y" "mwServer w' = (mwServer w)\<lparr>svImports := collected refDeps (keyOf (kiMeta z)) (put kiMeta y ?st)\<rparr>"
        by (auto simp: memUpdateImport_def Let_def)
      with u k show ?thesis by (simp add: serves_import del: serves.simps)
    qed (use run Some in \<open>auto simp: memUpdateImport_def simp del: serves.simps intro!: serves_nothing\<close>)
  qed (use run in \<open>auto simp: memUpdateImport_def simp del: serves.simps intro!: serves_nothing\<close>)
qed

interpretation mem: api_server refDeps A memClient mwServer for A
proof
  show "(others A)\<^sup>*\<^sup>* (mwServer w) (mwServer w')" if "Now memClient w = (t, w')" for w t w'
    using that by (auto simp: memClient_def)
qed (simp_all add: memClient_def served_memUpdateStatefulSet served_memApplyStatefulSet served_memCreateJob
    served_memDeleteJob served_memListJobs served_memImportStatusUpdate served_memUpdateImport,
    (rule calls_servedI, auto dest: memGet_past simp: memApplySecret_def mutating_def Let_def split: sum.splits if_splits)+)

end
