(* ===== verification/Triggers.thy ===== *)
theory Triggers
  imports ImportController KeycloakController
begin

text \<open>
  What makes the operator reconcile: the watch predicates of both controllers, the three event
  handlers of the import controller, and the label selector of the secret cache, which
  \<^verbatim>\<open>cmd/main.go\<close> installs (a secret without the label is invisible to the operator).
\<close>

section \<open>The secret cache\<close>

definition watchEnabledLabel :: labels where
  "watchEnabledLabel = [RHBKWatchedResourceLabel \<mapsto> FormatBool True]"

definition secretCached :: "deps \<Rightarrow> Secret \<Rightarrow> bool" where
  "secretCached d s = SelectorMatches d watchEnabledLabel (goSet (metaLabels (secMeta s)))"

section \<open>Lemmas\<close>

text \<open>An import that refers to a secret by name.\<close>

definition refersTo :: "KeycloakImport \<Rightarrow> string \<Rightarrow> bool" where
  "refersTo cr n = list_ex (\<lambda>v. map_option selName (sovSecret v) = Some n) (kiSubstitutions (kiSpec cr))"

definition allSecretsSet :: "KeycloakImport \<Rightarrow> bool" where
  "allSecretsSet cr = list_all (\<lambda>v. sovSecret v \<noteq> None) (kiSubstitutions (kiSpec cr))"

text \<open>The substitution at which the search for a name stops has no secret.\<close>

definition breaksOn :: "KeycloakImport \<Rightarrow> string \<Rightarrow> bool" where
  "breaksOn cr n =
     (case find (\<lambda>v. sovSecret v = None \<or> map_option selName (sovSecret v) = Some n) (kiSubstitutions (kiSpec cr)) of
        None \<Rightarrow> False
      | Some v \<Rightarrow> sovSecret v = None)"

lemma HasSecretReference_eq:
  "HasSecretReference (kiSpec cr) n = (if breaksOn cr n then Inl NilDereference else Inr (refersTo cr n))"
proof (cases "find (\<lambda>v. sovSecret v = None \<or> map_option selName (sovSecret v) = Some n) (kiSubstitutions (kiSpec cr))")
  case None
  then have "\<not> (\<exists>v \<in> set (kiSubstitutions (kiSpec cr)). map_option selName (sovSecret v) = Some n)"
    unfolding find_None_iff by blast
  then show ?thesis
    unfolding HasSecretReference_def HasSecretReference_loop_find breaksOn_def refersTo_def list_ex_iff None by simp
next
  case (Some v)
  from find_SomeD [OF Some] show ?thesis
    unfolding HasSecretReference_def HasSecretReference_loop_find breaksOn_def refersTo_def list_ex_iff Some by auto
qed

lemma secretRequests_eq:
  assumes "\<And>cr. owned cr \<longleftrightarrow> MatchSet d (metaLabels (secMeta secret)) (Some [RHBKImportOwnerLabel \<mapsto> metaName (kiMeta cr)])"
  shows "secretRequests d secret crs =
    (if list_ex (\<lambda>cr. \<not> owned cr \<and> breaksOn cr (metaName (secMeta secret))) crs then Inl NilDereference
     else Inr (map requestFor (filter (\<lambda>cr. owned cr \<or> refersTo cr (metaName (secMeta secret))) crs)))"
  by (induction crs) (simp_all add: HasSecretReference_eq assms [symmetric])

lemma handler_run:
  assumes "ListKeycloakImports c w = (Inr imports, w')"
  shows "fst (handleSecretChanged d c secret \<lparr>world = w, trace = t\<rparr>) = secretRequests d secret imports"
    and "fst (handleJobChanged d c job \<lparr>world = w, trace = t\<rparr>) = Inr (map requestFor (filter (\<lambda>cr.
           MatchSet d (metaLabels (jobMeta job))
             (Some (GetOwnerLabels (metaName (kiMeta cr)) (metaNamespace (kiMeta cr))))) imports))"
    and "fst (handleRHBKChanged c kc \<lparr>world = w, trace = t\<rparr>) = Inr (map requestFor (filter (\<lambda>cr.
           instName (kiKeycloakInstance (kiSpec cr)) = metaName (kcMeta kc) \<and>
           instNamespace (kiKeycloakInstance (kiSpec cr)) = metaNamespace (kcMeta kc)) imports))"
  using assms by (simp_all add: handleSecretChanged_def handleJobChanged_def handleRHBKChanged_def
      andThen_def call_def lift_panic_def ret_def)

text \<open>A client that lists one import and knows nothing else.\<close>

definition listingClient :: "KeycloakImport list \<Rightarrow> unit client" where
  "listingClient imports =
     (let nope = StatusError True ''not found'' in \<lparr>
      GetKeycloak = (\<lambda>k w. (Inl nope, w)), GetKeycloakImport = (\<lambda>k w. (Inl nope, w)),
      GetStatefulSet = (\<lambda>k w. (Inl nope, w)), GetSecret = (\<lambda>k w. (Inl nope, w)),
      ListJobs = (\<lambda>ns sel w. (Inr [], w)), ListSecrets = (\<lambda>ns sel w. (Inr [], w)),
      ListKeycloakImports = (\<lambda>w. (Inr imports, w)),
      CreateJob = (\<lambda>j w. (None, w)), DeleteJob = (\<lambda>j w. (None, w)), DeleteSecret = (\<lambda>s w. (None, w)),
      UpdateKeycloakImport = (\<lambda>cr w. (Inr cr, w)), UpdateStatefulSet = (\<lambda>s w. (None, w)),
      UpdateKeycloakStatus = (\<lambda>cr w. (None, w)), UpdateKeycloakImportStatus = (\<lambda>cr w. (None, w)),
      ApplyService = (\<lambda>x f w. (f x, w)), ApplyRoute = (\<lambda>x f w. (f x, w)),
      ApplyStatefulSet = (\<lambda>x f w. (f x, w)), ApplyServiceMonitor = (\<lambda>x f w. (f x, w)),
      ApplySecret = (\<lambda>x f w. (f x, w)), Now = (\<lambda>w. (0, w))\<rparr>)"

text \<open>An import with a literal substitution.\<close>

definition literalImport :: KeycloakImport where
  "literalImport = exampleImport\<lparr>kiSpec := (kiSpec exampleImport)\<lparr>kiSubstitutions :=
     [\<lparr>sovName = ''url'', sovValue = ''http://x'', sovSecret = None\<rparr>]\<rparr>\<rparr>"

lemma exampleImport_names:
  "metaName (kiMeta exampleImport) = ''realm-a''" "metaNamespace (kiMeta exampleImport) = ''team''"
  by (simp_all add: exampleImport_def namedMeta_def)

section \<open>Properties\<close>

text \<open>
  C36: a change of a secret reconciles exactly the imports it matters to, or none at all. The handler
  returns one request, in the order of the list, for every import whose name is in the owner label of
  the secret or that refers to the secret by name, and for no other; unless the list contains an import
  that the owner label does not match and in which a substitution without a secret (a literal value)
  comes before any reference to this secret: then it panics, and no import is reconciled.
\<close>

theorem handleSecretChanged_requests:
  assumes "label_selector d"
    and "ListKeycloakImports c w = (Inr imports, w')"
  shows "fst (handleSecretChanged d c secret \<lparr>world = w, trace = t\<rparr>) =
    (let owned = (\<lambda>cr. goLookup (metaLabels (secMeta secret)) RHBKImportOwnerLabel = Some (metaName (kiMeta cr)));
         n = metaName (secMeta secret) in
     if list_ex (\<lambda>cr. \<not> owned cr \<and>
          (case find (\<lambda>v. sovSecret v = None \<or> map_option selName (sovSecret v) = Some n) (kiSubstitutions (kiSpec cr)) of
             None \<Rightarrow> False | Some v \<Rightarrow> sovSecret v = None)) imports
     then Inl NilDereference
     else Inr (map requestFor (filter (\<lambda>cr. owned cr \<or> refersTo cr n) imports)))"
  unfolding handler_run(1) [OF assms(2)] Let_def breaksOn_def [symmetric]
  by (rule secretRequests_eq) (simp add: label_selector.MatchSet_single [OF assms(1)])

theorem handleSecretChanged_requests_witness:
  "fst (handleSecretChanged refDeps (listingClient [exampleImport, literalImport])
     \<lparr>secMeta = (namedMeta ''x'' ''y'')\<lparr>metaLabels := Some [RHBKImportOwnerLabel \<mapsto> ''realm-a'']\<rparr>, secData = None\<rparr>
     \<lparr>world = (), trace = []\<rparr>) = Inr [objectKey ''team'' ''realm-a'', objectKey ''team'' ''realm-a''] \<and>
   fst (handleSecretChanged refDeps (listingClient [exampleImport, literalImport])
     \<lparr>secMeta = namedMeta ''x'' ''y'', secData = None\<rparr> \<lparr>world = (), trace = []\<rparr>) = Inl NilDereference"
proof -
  have l: "ListKeycloakImports (listingClient [exampleImport, literalImport]) () = (Inr [exampleImport, literalImport], ())"
    by (simp add: listingClient_def Let_def)
  have "label_selector refDeps" ..
  note run = handleSecretChanged_requests [OF this l, where t = "[]"]
  have "kiMeta literalImport = kiMeta exampleImport" "kiSubstitutions (kiSpec exampleImport) = []"
    "kiSubstitutions (kiSpec literalImport) = [\<lparr>sovName = ''url'', sovValue = ''http://x'', sovSecret = None\<rparr>]"
    by (simp_all add: literalImport_def exampleImport_def)
  then show ?thesis
    by (simp add: run exampleImport_names requestFor_def) (simp add: namedMeta_def zeroMeta_def)
qed

text \<open>
  the completion of a job reconciles the import it was built for and nothing else: for a
  job made by \<open>Job_Build\<close>, the handler returns a request for exactly the listed imports with the
  name and the namespace of that import.
\<close>

theorem handleJobChanged_requests:
  assumes "label_selector d"
    and "ListKeycloakImports c w = (Inr imports, w')"
    and "Job_Build cr sts revision = Inr (Inr job)"
    and "metaName (kiMeta cr) \<noteq> ''realm.stakater.com''"
  shows "fst (handleJobChanged d c job \<lparr>world = w, trace = t\<rparr>) =
    Inr (map requestFor (filter (\<lambda>x. metaName (kiMeta x) = metaName (kiMeta cr) \<and>
                                     metaNamespace (kiMeta x) = metaNamespace (kiMeta cr)) imports))"
  using handler_run(2) [OF assms(2)] Job_Build_selected [OF assms(1,3,4)] by simp

theorem handleJobChanged_requests_witness:
  "\<exists>job. Job_Build exampleImport exampleSts ''7'' = Inr (Inr job) \<and>
     fst (handleJobChanged refDeps (listingClient [exampleImport]) job \<lparr>world = (), trace = []\<rparr>)
       = Inr [objectKey ''team'' ''realm-a'']"
proof -
  obtain job where "Job_Build exampleImport exampleSts ''7'' = Inr (Inr job)"
    by (simp add: Job_Build_def exampleSts_def rhbkStatefulSetSpec_def)
  moreover have "label_selector refDeps" ..
  moreover have "ListKeycloakImports (listingClient [exampleImport]) () = (Inr [exampleImport], ())"
    by (simp add: listingClient_def Let_def)
  moreover have "metaName (kiMeta exampleImport) \<noteq> ''realm.stakater.com''"
    by (simp add: exampleImport_def namedMeta_def)
  ultimately show ?thesis
    using handleJobChanged_requests [of refDeps "listingClient [exampleImport]" "()" "[exampleImport]" "()"
        exampleImport exampleSts "''7''" job]
    by (simp add: requestFor_def exampleImport_names)
qed

text \<open>
  the realm secret that the operator writes is one that its own cache shows: after the mutate
  function the secret carries the label that the cache selects, so the next reconcile finds it and
  the watch on secrets sees its changes. The name and the namespace are untouched.
\<close>

theorem realm_secret_cached:
  assumes "label_selector d" and "ImportRealmSecret_MutateFn engine cr subs s = Inr s'"
  shows "secretCached d s' \<and> metaName (secMeta s') = metaName (secMeta s) \<and>
         metaNamespace (secMeta s') = metaNamespace (secMeta s)"
proof -
  have "goSet (metaLabels (secMeta s')) RHBKWatchedResourceLabel = Some (FormatBool True)"
    using assms(2) by (auto simp: ImportRealmSecret_MutateFn_def Let_def split: sum.splits)
  with assms show ?thesis
    by (auto simp: secretCached_def label_selector.selector_iff watchEnabledLabel_def
        ImportRealmSecret_MutateFn_def Let_def split: sum.splits)
qed

theorem realm_secret_cached_witness:
  "\<exists>s'. ImportRealmSecret_MutateFn (\<lambda>t m. Inl (TemplateError [])) exampleImport Map.empty
          (ImportRealmSecret_init exampleImport) = Inr s' \<and> secretCached refDeps s'"
proof -
  obtain s' where "ImportRealmSecret_MutateFn (\<lambda>t m. Inl (TemplateError [])) exampleImport Map.empty
          (ImportRealmSecret_init exampleImport) = Inr s'"
    by (simp add: ImportRealmSecret_MutateFn_def expandTemplate_def exampleImport_def parseTemplate_text percent_def)
  moreover have "label_selector refDeps" ..
  ultimately show ?thesis using realm_secret_cached by blast
qed

text \<open>
  both watches are edges, not levels: an update of a stateful set reconciles its instance
  exactly when the set becomes ready, an update of a job its import exactly when the job becomes
  complete. A stateful set that loses readiness, or a job that fails, triggers nothing, so an
  instance that was reported ready stays so until something else happens.
\<close>

theorem watch_predicates_edge:
  "(StatefulSet_UpdateFunc old new \<longleftrightarrow>
      stsStatusReadyReplicas old \<noteq> stsStatusReplicas old \<and> stsStatusReadyReplicas new = stsStatusReplicas new) \<and>
   (Job_UpdateFunc j j' \<longleftrightarrow>
      find (\<lambda>c. jcType c = JobComplete) (jobConditions j') \<in> {Some c |c. jcStatus c = ConditionTrue} \<and>
      find (\<lambda>c. jcType c = JobComplete) (jobConditions j) \<notin> {Some c |c. jcStatus c = ConditionTrue}) \<and>
   \<not> StatefulSet_CreateFunc new \<and> StatefulSet_DeleteFunc old \<and> \<not> Job_CreateFunc j \<and> \<not> Job_DeleteFunc j"
  by (auto simp: StatefulSet_UpdateFunc_def IsStatefulSetReady_def Job_UpdateFunc_def IsJobCompleted_find
      StatefulSet_CreateFunc_def StatefulSet_DeleteFunc_def Job_CreateFunc_def Job_DeleteFunc_def)

end
