(* ===== verification/ImportSafety.thy ===== *)
theory ImportSafety
  imports ImportProtocol Triggers
begin

text \<open>
  What the import controller guarantees, proved of its specification by an invariant that
  justifies every call by the calls before it: what was read, written and deleted when a job is
  created, a stateful set is rolled out, a job is deleted, a finalizer is removed, or success is
  reported.
\<close>

section \<open>Justification of every call\<close>

text \<open>The object a run works on: the one that was read, or what an update returned.\<close>

definition current :: "ObjectKey \<Rightarrow> event list \<Rightarrow> KeycloakImport \<Rightarrow> bool" where
  "current req es cr \<longleftrightarrow>
     EvGetKeycloakImport req (Inr cr) \<in> set es \<or> (\<exists>x. EvUpdateKeycloakImport x (Inr cr) \<in> set es)"

definition targetReady :: "deps \<Rightarrow> event list \<Rightarrow> KeycloakImport \<Rightarrow> StatefulSet \<Rightarrow> bool" where
  "targetReady d es cr sts \<longleftrightarrow>
     (\<exists>kc. EvGetKeycloak (instanceKey cr) (Inr kc) \<in> set es \<and> IsReady d (kcConditions kc) \<and>
           EvGetStatefulSet (workloadKey kc) (Inr sts) \<in> set es)"

definition stored :: "template_engine \<Rightarrow> event list \<Rightarrow> KeycloakImport \<Rightarrow> string \<Rightarrow> bool" where
  "stored engine es cr rv \<longleftrightarrow>
     (\<exists>m sec. EvApplySecret (ImportRealmSecret_init cr) (Inr \<circ> ImportRealmSecret_MutateFn engine cr m) (Inr (Inr sec)) \<in> set es \<and>
              rv = metaResourceVersion (secMeta sec))"

definition jobsListed :: "event list \<Rightarrow> KeycloakImport \<Rightarrow> labels \<Rightarrow> Job list \<Rightarrow> bool" where
  "jobsListed es cr sel jobs \<longleftrightarrow> EvListJobs (targetNamespace cr) sel (Inr jobs) \<in> set es"

text \<open>All jobs, and all secrets, that were listed for the import have been deleted.\<close>

definition jobsCleaned :: "event list \<Rightarrow> KeycloakImport \<Rightarrow> Job list \<Rightarrow> bool" where
  "jobsCleaned es cr rest \<longleftrightarrow>
     (\<exists>jobs. jobsListed es cr (ownerSelector cr) jobs \<and> set rest \<subseteq> set jobs \<and>
             (\<forall>j \<in> set jobs. j \<in> set rest \<or> EvDeleteJob j None \<in> set es))"

definition secretsCleaned :: "event list \<Rightarrow> KeycloakImport \<Rightarrow> Secret list \<Rightarrow> bool" where
  "secretsCleaned es cr rest \<longleftrightarrow>
     (\<exists>secrets. EvListSecrets (targetNamespace cr) (ownerSelector cr) (Inr secrets) \<in> set es \<and> set rest \<subseteq> set secrets \<and>
             (\<forall>s \<in> set secrets. s \<in> set rest \<or> EvDeleteSecret s None \<in> set es))"

text \<open>Of the jobs that carry the name of the import, those before \<open>rest\<close> are stale and deleted.\<close>

definition scanned :: "event list \<Rightarrow> KeycloakImport \<Rightarrow> string \<Rightarrow> Job list \<Rightarrow> bool" where
  "scanned es cr rv rest \<longleftrightarrow>
     (\<exists>jobs. jobsListed es cr (nameSelector cr) jobs \<and> set rest \<subseteq> set jobs \<and>
             (\<forall>j \<in> set jobs. j \<in> set rest \<or> jobRevision cr j \<noteq> rv \<and> EvDeleteJob j None \<in> set es))"

text \<open>The state in which success is reported.\<close>

definition imported :: "deps \<Rightarrow> template_engine \<Rightarrow> event list \<Rightarrow> KeycloakImport \<Rightarrow> bool" where
  "imported d engine es cr \<longleftrightarrow>
     (\<exists>sts rv jobs job. targetReady d es cr sts \<and> stored engine es cr rv \<and> jobsListed es cr (nameSelector cr) jobs \<and>
        job \<in> set jobs \<and> jobRevision cr job = rv \<and>
        (rolloutDone d cr sts rv \<or> \<not> IsJobCompleted job \<or> EvUpdateStatefulSet (annotate cr rv sts) None \<in> set es))"

lemmas justification_defs =
  current_def targetReady_def stored_def jobsListed_def jobsCleaned_def secretsCleaned_def scanned_def imported_def

fun iinv :: "deps \<Rightarrow> template_engine \<Rightarrow> ObjectKey \<Rightarrow> event list \<Rightarrow> iphase \<Rightarrow> bool" where
  "iinv d engine req es IStart = (es = [])"
| "iinv d engine req es (ICleanup cr) = (current req es cr \<and> deleting d cr)"
| "iinv d engine req es (IDeleteJobs cr jobs) = (current req es cr \<and> deleting d cr \<and> jobsCleaned es cr jobs)"
| "iinv d engine req es (IDeleteSecrets cr secrets) =
     (current req es cr \<and> deleting d cr \<and> jobsCleaned es cr [] \<and> secretsCleaned es cr secrets)"
| "iinv d engine req es (IFinalizer cr) = (current req es cr \<and> \<not> hasFinalizer d cr)"
| "iinv d engine req es (IInstance cr) = current req es cr"
| "iinv d engine req es (IWorkload cr kc) =
     (current req es cr \<and> EvGetKeycloak (instanceKey cr) (Inr kc) \<in> set es \<and> IsReady d (kcConditions kc))"
| "iinv d engine req es (ISubstitute cr sts subs m) = (current req es cr \<and> targetReady d es cr sts)"
| "iinv d engine req es (IJobs cr sts rv) = (current req es cr \<and> targetReady d es cr sts \<and> stored engine es cr rv)"
| "iinv d engine req es (IScan cr sts rv jobs) =
     (current req es cr \<and> targetReady d es cr sts \<and> stored engine es cr rv \<and> scanned es cr rv jobs)"
| "iinv d engine req es (IReport cr st msg) = (current req es cr \<and> (st = ConditionTrue \<longrightarrow> imported d engine es cr))"
| "iinv d engine req es _ = True"

fun ijustified :: "deps \<Rightarrow> template_engine \<Rightarrow> ObjectKey \<Rightarrow> event list \<Rightarrow> event \<Rightarrow> bool" where
  "ijustified d engine req es (EvCreateJob job a) =
     (\<exists>cr sts rv. current req es cr \<and> targetReady d es cr sts \<and> stored engine es cr rv \<and> scanned es cr rv [] \<and>
        Job_Build cr sts rv = Inr (Inr job))"
| "ijustified d engine req es (EvUpdateStatefulSet sts' a) =
     (\<exists>cr sts rv jobs job. current req es cr \<and> targetReady d es cr sts \<and> stored engine es cr rv \<and>
        jobsListed es cr (nameSelector cr) jobs \<and> job \<in> set jobs \<and> jobRevision cr job = rv \<and> IsJobCompleted job \<and>
        \<not> rolloutDone d cr sts rv \<and> sts' = annotate cr rv sts)"
| "ijustified d engine req es (EvDeleteJob job a) =
     (\<exists>cr jobs. current req es cr \<and> job \<in> set jobs \<and>
        (deleting d cr \<and> jobsListed es cr (ownerSelector cr) jobs \<or>
         (\<exists>rv. stored engine es cr rv \<and> jobsListed es cr (nameSelector cr) jobs \<and> jobRevision cr job \<noteq> rv)))"
| "ijustified d engine req es (EvDeleteSecret s a) =
     (\<exists>cr secrets. current req es cr \<and> deleting d cr \<and> s \<in> set secrets \<and>
        EvListSecrets (targetNamespace cr) (ownerSelector cr) (Inr secrets) \<in> set es)"
| "ijustified d engine req es (EvUpdateKeycloakImport cr' a) =
     ((\<exists>cr. current req es cr \<and> deleting d cr \<and> cr' = withoutFinalizer d cr \<and> jobsCleaned es cr [] \<and> secretsCleaned es cr []) \<or>
      (\<exists>cr. current req es cr \<and> \<not> hasFinalizer d cr \<and> cr' = withFinalizer d cr))"
| "ijustified d engine req es (EvKeycloakImportStatus cr' a) =
     (\<exists>cr now st msg. current req es cr \<and> cr' = importWithReady d now cr st msg \<and>
        (st = ConditionTrue \<longrightarrow> imported d engine es cr))"
| "ijustified d engine req es _ = True"

lemma justification_mono:
  "current req es cr \<Longrightarrow> current req (es @ es') cr"
  "targetReady d es cr sts \<Longrightarrow> targetReady d (es @ es') cr sts"
  "stored engine es cr rv \<Longrightarrow> stored engine (es @ es') cr rv"
  "jobsListed es cr sel jobs \<Longrightarrow> jobsListed (es @ es') cr sel jobs"
  "jobsCleaned es cr jobs \<Longrightarrow> jobsCleaned (es @ es') cr jobs"
  by (auto simp: justification_defs)

text \<open>How each call extends what is known.\<close>

lemma justification_now:
  "current req (es @ [EvGetKeycloakImport req (Inr cr)]) cr"
  "current req (es @ [EvUpdateKeycloakImport x (Inr cr)]) cr"
  "jobsCleaned (es @ [EvListJobs (targetNamespace cr) (ownerSelector cr) (Inr jobs)]) cr jobs"
  "jobsCleaned es cr (j # js) \<Longrightarrow> jobsCleaned (es @ [EvDeleteJob j None]) cr js"
  "secretsCleaned (es @ [EvListSecrets (targetNamespace cr) (ownerSelector cr) (Inr secrets)]) cr secrets"
  "secretsCleaned es cr (s # ss) \<Longrightarrow> secretsCleaned (es @ [EvDeleteSecret s None]) cr ss"
  "EvGetKeycloak (instanceKey cr) (Inr kc) \<in> set es \<Longrightarrow> IsReady d (kcConditions kc) \<Longrightarrow>
     targetReady d (es @ [EvGetStatefulSet (workloadKey kc) (Inr sts)]) cr sts"
  "stored engine (es @ [EvApplySecret (ImportRealmSecret_init cr)
     (Inr \<circ> ImportRealmSecret_MutateFn engine cr m) (Inr (Inr sec))]) cr (metaResourceVersion (secMeta sec))"
  "scanned (es @ [EvListJobs (targetNamespace cr) (nameSelector cr) (Inr jobs)]) cr rv jobs"
  "scanned es cr rv (j # js) \<Longrightarrow> jobRevision cr j \<noteq> rv \<Longrightarrow> scanned (es @ [EvDeleteJob j None]) cr rv js"
  unfolding justification_defs by auto

lemma scanned_listed: "scanned es cr rv (j # js) \<Longrightarrow> \<exists>jobs. jobsListed es cr (nameSelector cr) jobs \<and> j \<in> set jobs"
  unfolding scanned_def by auto

lemma imported_rollout:
  assumes "targetReady d es cr sts" "stored engine es cr rv" "scanned es cr rv (j # js)" "jobRevision cr j = rv"
  shows "imported d engine (es @ [EvUpdateStatefulSet (annotate cr rv sts) None]) cr"
  using justification_mono(2) [OF assms(1)] justification_mono(3) [OF assms(2)] scanned_listed [OF assms(3)] assms(4)
  unfolding imported_def by (auto intro!: exI [of _ sts] exI [of _ rv] dest: justification_mono(4))

lemma imported_ready:
  assumes "targetReady d es cr sts" "stored engine es cr rv" "scanned es cr rv (j # js)" "jobRevision cr j = rv"
    and "rolloutDone d cr sts rv \<or> \<not> IsJobCompleted j"
  shows "imported d engine es cr"
  using assms(1,2,4,5) scanned_listed [OF assms(3)] unfolding imported_def by blast

lemma istep_iinv: "istep d engine req ph e ph' \<Longrightarrow> iinv d engine req es ph \<Longrightarrow> iinv d engine req (es @ [e]) ph'"
  by (cases rule: istep.cases, assumption)
    (auto simp: justification_now justification_now(1) [of _ "[]", simplified] justification_mono enter_def
      intro: imported_rollout)

lemma istep_ijustified:
  assumes "istep d engine req ph e ph'" "iinv d engine req es ph"
  shows "ijustified d engine req es e"
  using assms(1)
proof (cases rule: istep.cases)
  case i_ready
  with assms(2) imported_ready show ?thesis by (fastforce intro!: exI)
next
  case i_report
  with assms(2) show ?thesis by fastforce
next
  case i_stale
  with assms(2) show ?thesis by (auto dest!: scanned_listed)
next
  case i_stale_err
  with assms(2) show ?thesis by (auto dest!: scanned_listed)
next
  case i_rollout
  with assms(2) show ?thesis by (simp, blast dest: scanned_listed)
next
  case i_rollout_err
  with assms(2) show ?thesis by (simp, blast dest: scanned_listed)
qed (use assms(2) in \<open>auto simp: jobsCleaned_def secretsCleaned_def\<close>)


interpretation import: protocol_invariant "istep d engine req" IStart "iinv d engine req" "ijustified d engine req"
  for d engine req
  by unfold_locales (auto intro: istep_iinv istep_ijustified)

text \<open>The one report of a run, and the runs that end without one.\<close>

definition endsEarly :: "deps \<Rightarrow> ObjectKey \<Rightarrow> event \<Rightarrow> Result \<times> goerror option \<Rightarrow> bool" where
  "endsEarly d req e res \<longleftrightarrow>
     (case e of
        EvGetKeycloakImport k (Inl err) \<Rightarrow> res = result (if IsNotFound err then None else Some err)
      | EvGetKeycloakImport k (Inr cr) \<Rightarrow> deleting d cr \<and> \<not> hasFinalizer d cr \<and> res = result None
      | EvListJobs ns sel (Inl err) \<Rightarrow> res = result (Some err)
      | EvDeleteJob job (Some err) \<Rightarrow> res = result (Some err)
      | EvListSecrets ns sel (Inl err) \<Rightarrow> res = result (Some err)
      | EvDeleteSecret secret (Some err) \<Rightarrow> res = result (Some err)
      | EvUpdateKeycloakImport cr (Inl err) \<Rightarrow> res = result (Some err)
      | EvCreateJob job (Some err) \<Rightarrow> res = requeue (Some err)
      | EvUpdateStatefulSet sts (Some err) \<Rightarrow> res = requeue (Some err)
      | _ \<Rightarrow> False)"

fun ireported :: "deps \<Rightarrow> ObjectKey \<Rightarrow> event list \<Rightarrow> iphase \<Rightarrow> bool" where
  "ireported d req es (IEnd res) =
     (\<exists>es' e. es = es' @ [e] \<and> list_all (\<lambda>e. \<not> isImportStatus e) es' \<and>
        (endsEarly d req e res \<or> (\<exists>cr' err. e = EvKeycloakImportStatus cr' err \<and> res = result err)))"
| "ireported d req es _ = list_all (\<lambda>e. \<not> isImportStatus e) es"

lemma istep_ireported: "istep d engine req ph e ph' \<Longrightarrow> ireported d req es ph \<Longrightarrow> ireported d req (es @ [e]) ph'"
  by (cases rule: istep.cases, assumption) (simp_all add: enter_def endsEarly_def)

interpretation import_report: protocol_invariant "istep d engine req" IStart "ireported d req" "\<lambda>es e. True"
  for d engine req
  by unfold_locales (auto intro: istep_ireported)

text \<open>Inversion of the step that adds the finalizer.\<close>

inductive_cases istep_finalizerE: "istep d engine req (IFinalizer cr) e ph'"

lemma finalizer_clash:
  assumes "finalizer_ops d"
  shows "\<not> hasFinalizer d (withoutFinalizer d cr)" "hasFinalizer d (withFinalizer d cr)"
  using finalizer_ops.contains_added [OF assms] finalizer_ops.not_contains_removed [OF assms]
  by (simp_all add: hasFinalizer_def withFinalizer_def withoutFinalizer_def)

text \<open>An import that is being deleted, and a client that has it and stores every update.\<close>

definition deletedImport :: KeycloakImport where
  "deletedImport = exampleImport\<lparr>kiMeta := (kiMeta exampleImport)
     \<lparr>metaDeletionTimestamp := Some 5, metaFinalizers := [RealmImportFinalizer]\<rparr>\<rparr>"

definition releasingClient :: "unit client" where
  "releasingClient = (listingClient [])\<lparr>GetKeycloakImport := (\<lambda>k w. (Inr deletedImport, w))\<rparr>"

lemma deletion_run:
  "Import_Reconcile refDeps engine releasingClient req \<lparr>world = (), trace = []\<rparr> =
     ensureFinalizer refDeps engine releasingClient (withoutFinalizer refDeps deletedImport) \<lparr>world = (), trace =
       [EvGetKeycloakImport req (Inr deletedImport),
        EvListJobs ''identity'' (GetOwnerLabels ''realm-a'' ''team'') (Inr []),
        EvListSecrets ''identity'' (GetOwnerLabels ''realm-a'' ''team'') (Inr []),
        EvUpdateKeycloakImport (withoutFinalizer refDeps deletedImport) (Inr (withoutFinalizer refDeps deletedImport))]\<rparr>"
proof -
  have cr: "metaName (kiMeta deletedImport) = ''realm-a''" "metaNamespace (kiMeta deletedImport) = ''team''"
    "targetNamespace deletedImport = ''identity''" "metaDeletionTimestamp (kiMeta deletedImport) = Some 5"
    "metaFinalizers (kiMeta deletedImport) = [RealmImportFinalizer]"
    by (simp_all add: deletedImport_def exampleImport_def namedMeta_def)
  have fin: "deleting refDeps deletedImport" "hasFinalizer refDeps deletedImport"
    by (simp_all add: deleting_def hasFinalizer_def refDeps_def cr)
  show ?thesis
    unfolding Import_Reconcile_def cleanupExternalResources_def GetImportJobs_def GetImportSecrets_def Let_def
      deleting_def [symmetric] hasFinalizer_def [symmetric] withoutFinalizer_def [symmetric] andThen_def call_def
    by (simp add: releasingClient_def listingClient_def Let_def fin cr ret_def)
qed

section \<open>Properties\<close>

text \<open>
  C1: the reconcile function refines the specification of the import controller, for every
  client and template engine: the calls it makes are a path of \<open>istep\<close>, and what it returns (or
  how it panics) is what the last phase says.
\<close>

theorem Import_Reconcile_refines:
  "case Import_Reconcile d engine c req s of (r, s') \<Rightarrow>
     \<exists>es ph. trace s' = trace s @ es \<and> path (istep d engine req) IStart es ph \<and> iresult r ph"
  by (rule conforms_runs [OF Import_Reconcile_conforms])

text \<open>
  C2: a job is created only for a ready instance and a stored realm, and replaces all jobs of
  another revision. When a run creates a job, it has read the target instance and found it ready,
  read the stateful set of that instance, and stored the realm secret; the job is exactly the one
  that is built from this stateful set for the version of this secret; and every job that was
  listed for the import has another revision and was deleted without an error.
\<close>

theorem Import_Reconcile_creates:
  "case Import_Reconcile d engine c req s of (r, s') \<Rightarrow>
     \<exists>es. trace s' = trace s @ es \<and> everyCall (\<lambda>before e. case e of
       EvCreateJob job a \<Rightarrow>
         (\<exists>cr kc sts m sec jobs. current req before cr \<and>
            EvGetKeycloak (instanceKey cr) (Inr kc) \<in> set before \<and> IsReady d (kcConditions kc) \<and>
            EvGetStatefulSet (workloadKey kc) (Inr sts) \<in> set before \<and>
            EvApplySecret (ImportRealmSecret_init cr) (Inr \<circ> ImportRealmSecret_MutateFn engine cr m) (Inr (Inr sec)) \<in> set before \<and>
            EvListJobs (targetNamespace cr) (nameSelector cr) (Inr jobs) \<in> set before \<and>
            list_all (\<lambda>j. jobRevision cr j \<noteq> metaResourceVersion (secMeta sec) \<and> EvDeleteJob j None \<in> set before) jobs \<and>
            Job_Build cr sts (metaResourceVersion (secMeta sec)) = Inr (Inr job))
     | _ \<Rightarrow> True) es"
proof (rule import.every_run [OF Import_Reconcile_conforms], goal_cases)
  case (1 before e)
  show ?case
  proof (cases e)
    case (EvCreateJob job a)
    with 1 obtain cr sts rv where *: "current req before cr" "targetReady d before cr sts" "stored engine before cr rv"
      "scanned before cr rv []" "Job_Build cr sts rv = Inr (Inr job)" by auto
    then show ?thesis
      unfolding EvCreateJob event.case targetReady_def stored_def scanned_def jobsListed_def list_all_iff by auto blast
  qed simp_all
qed

text \<open>
  C3: a rollout is triggered only by a finished import of the current realm: when a run
  updates the stateful set, a job that carries the version of the stored secret was listed and is
  complete, the pods do not have this marker yet, and the only change is the marker of this
  import on the pod template of the stateful set that was read.
\<close>

theorem Import_Reconcile_rolls_out:
  "case Import_Reconcile d engine c req s of (r, s') \<Rightarrow>
     \<exists>es. trace s' = trace s @ es \<and> everyCall (\<lambda>before e. case e of
       EvUpdateStatefulSet sts' a \<Rightarrow>
         (\<exists>cr kc sts m sec jobs job. current req before cr \<and>
            EvGetKeycloak (instanceKey cr) (Inr kc) \<in> set before \<and> IsReady d (kcConditions kc) \<and>
            EvGetStatefulSet (workloadKey kc) (Inr sts) \<in> set before \<and>
            EvApplySecret (ImportRealmSecret_init cr) (Inr \<circ> ImportRealmSecret_MutateFn engine cr m) (Inr (Inr sec)) \<in> set before \<and>
            EvListJobs (targetNamespace cr) (nameSelector cr) (Inr jobs) \<in> set before \<and> job \<in> set jobs \<and>
            jobRevision cr job = metaResourceVersion (secMeta sec) \<and> IsJobCompleted job \<and>
            \<not> rolloutDone d cr sts (metaResourceVersion (secMeta sec)) \<and>
            sts' = annotate cr (metaResourceVersion (secMeta sec)) sts)
     | _ \<Rightarrow> True) es"
proof (rule import.every_run [OF Import_Reconcile_conforms], goal_cases)
  case (1 before e)
  then show ?case
    by (cases e) (simp_all add: targetReady_def stored_def jobsListed_def, blast)
qed

text \<open>
  C35: nothing is deleted that was not listed for this import: a deleted job was returned by a
  list over the target namespace, and either the import is being deleted and the list was by
  owner and namespace, or the list was by the name of the import and the job does not carry the
  version of the stored secret; secrets are deleted only for an import that is being deleted.
\<close>

theorem Import_Reconcile_deletes:
  "case Import_Reconcile d engine c req s of (r, s') \<Rightarrow>
     \<exists>es. trace s' = trace s @ es \<and> everyCall (\<lambda>before e. case e of
       EvDeleteJob job a \<Rightarrow>
         (\<exists>cr jobs. current req before cr \<and> job \<in> set jobs \<and>
           (deleting d cr \<and> EvListJobs (targetNamespace cr) (ownerSelector cr) (Inr jobs) \<in> set before \<or>
            (\<exists>rv. stored engine before cr rv \<and> EvListJobs (targetNamespace cr) (nameSelector cr) (Inr jobs) \<in> set before \<and>
                  jobRevision cr job \<noteq> rv)))
     | EvDeleteSecret secret a \<Rightarrow>
         (\<exists>cr secrets. current req before cr \<and> deleting d cr \<and> secret \<in> set secrets \<and>
            EvListSecrets (targetNamespace cr) (ownerSelector cr) (Inr secrets) \<in> set before)
     | _ \<Rightarrow> True) es"
proof (rule import.every_run [OF Import_Reconcile_conforms], goal_cases)
  case (1 before e)
  then show ?case by (cases e) (simp_all add: jobsListed_def)
qed

text \<open>
  C21: the finalizer is released last: an update of the import either adds the finalizer to an
  import that does not have it, or removes it from an import that is being deleted, and then
  every job and every secret that was listed for it has been deleted without an error.
\<close>

theorem Import_Reconcile_finalizer:
  "case Import_Reconcile d engine c req s of (r, s') \<Rightarrow>
     \<exists>es. trace s' = trace s @ es \<and> everyCall (\<lambda>before e. case e of
       EvUpdateKeycloakImport cr' a \<Rightarrow>
         (\<exists>cr. current req before cr \<and> \<not> hasFinalizer d cr \<and>
            cr' = cr\<lparr>kiMeta := AddFinalizer d (kiMeta cr) RealmImportFinalizer\<rparr>) \<or>
         (\<exists>cr jobs secrets. current req before cr \<and> deleting d cr \<and>
            cr' = cr\<lparr>kiMeta := RemoveFinalizer d (kiMeta cr) RealmImportFinalizer\<rparr> \<and>
            EvListJobs (targetNamespace cr) (ownerSelector cr) (Inr jobs) \<in> set before \<and>
            list_all (\<lambda>j. EvDeleteJob j None \<in> set before) jobs \<and>
            EvListSecrets (targetNamespace cr) (ownerSelector cr) (Inr secrets) \<in> set before \<and>
            list_all (\<lambda>x. EvDeleteSecret x None \<in> set before) secrets)
     | _ \<Rightarrow> True) es"
proof (rule import.every_run [OF Import_Reconcile_conforms], goal_cases)
  case (1 before e)
  show ?case
  proof (cases e)
    case (EvUpdateKeycloakImport cr' a)
    with 1 show ?thesis
      by (simp add: jobsCleaned_def secretsCleaned_def jobsListed_def withFinalizer_def withoutFinalizer_def list_all_iff) blast
  qed simp_all
qed

text \<open>
  C28: success is reported only when the current realm has a job: when a run sets the ready
  condition, the instance was ready, the realm secret was stored, and a job that carries the
  version of this secret was listed. The last conjunct is what the code checks of the job: if it
  is complete, the rollout has been done before or in this run; nothing is required of a job that
  is still running or has failed.
\<close>

theorem Import_Reconcile_ready:
  "case Import_Reconcile d engine c req s of (r, s') \<Rightarrow>
     \<exists>es. trace s' = trace s @ es \<and> everyCall (\<lambda>before e. case e of
       EvKeycloakImportStatus cr' a \<Rightarrow>
         (\<exists>cr now st msg. current req before cr \<and>
            cr' = cr\<lparr>kiConditions := SetReady d now (kiConditions cr) st msg\<rparr> \<and>
            (if st = ConditionTrue then
               (\<exists>sts rv jobs job. targetReady d before cr sts \<and> stored engine before cr rv \<and>
                  EvListJobs (targetNamespace cr) (nameSelector cr) (Inr jobs) \<in> set before \<and>
                  job \<in> set jobs \<and> jobRevision cr job = rv \<and>
                  (if IsJobCompleted job
                   then rolloutDone d cr sts rv \<or> EvUpdateStatefulSet (annotate cr rv sts) None \<in> set before
                   else True))
             else True))
     | _ \<Rightarrow> True) es"
proof (rule import.every_run [OF Import_Reconcile_conforms], goal_cases)
  case (1 before e)
  show ?case
  proof (cases e)
    case (EvKeycloakImportStatus cr' a)
    with 1 obtain cr now st msg where
      *: "current req before cr" "cr' = importWithReady d now cr st msg" "st = ConditionTrue \<longrightarrow> imported d engine before cr"
      by (simp, blast)
    show ?thesis
      unfolding EvKeycloakImportStatus event.case
      by (intro exI [of _ cr] exI [of _ now] exI [of _ st] exI [of _ msg])
        (use * in \<open>auto simp: importWithReady_def imported_def jobsListed_def\<close>)
  qed simp_all
qed

text \<open>
  a run that does not panic reports at most once, as its last call, and then returns the
  outcome of that report. The other runs end with the call that failed, or with the first read,
  and return the error of that call; a retry is asked for after a failed creation of a job or a
  failed rollout only.
\<close>

theorem Import_Reconcile_reports_once:
  "case Import_Reconcile d engine c req s of
     (Inl p, s') \<Rightarrow> \<exists>es. trace s' = trace s @ es \<and> list_all (\<lambda>e. \<not> isImportStatus e) es
   | (Inr res, s') \<Rightarrow> \<exists>es e. trace s' = trace s @ es @ [e] \<and> list_all (\<lambda>e. \<not> isImportStatus e) es \<and>
       (endsEarly d req e res \<or> (\<exists>cr' err. e = EvKeycloakImportStatus cr' err \<and> res = result err))"
proof -
  obtain r s' where run: "Import_Reconcile d engine c req s = (r, s')" by fastforce
  then obtain es ph where t: "trace s' = trace s @ es" and p: "path (istep d engine req) IStart es ph" and k: "iresult r ph"
    by (rule Import_Reconcile_run)
  have inv: "ireported d req es ph" by (rule import_report.path_inv [OF p])
  show ?thesis
  proof (cases r)
    case (Inl q)
    with k have "list_all (\<lambda>e. \<not> isImportStatus e) es"
      using inv by (cases ph) auto
    with Inl t run show ?thesis by auto
  next
    case (Inr res)
    with k have "ph = IEnd res" by (cases "(r, ph)" rule: iresult.cases) auto
    with Inr inv t run show ?thesis by auto
  qed
qed


text \<open>
  the deletion of an import is undone in the same run. Whenever an update that removes the
  finalizer succeeds and returns what was written, the next call of the run is an update that adds
  the finalizer again, since the deletion branch does not return. (Kubernetes refuses to add a
  finalizer to an object that is being deleted, so in a cluster this call ends the run with an error.)
\<close>

theorem Import_Reconcile_readds_finalizer:
  assumes "finalizer_ops d"
    and "Import_Reconcile d engine c req s = (r, s')"
    and "trace s' = trace s @ pre @ EvUpdateKeycloakImport (withoutFinalizer d cr) (Inr (withoutFinalizer d cr)) # post"
  shows "\<exists>a post'. post = EvUpdateKeycloakImport (withFinalizer d (withoutFinalizer d cr)) a # post'"
proof -
  let ?e = "EvUpdateKeycloakImport (withoutFinalizer d cr) (Inr (withoutFinalizer d cr))"
  from assms(2) obtain es ph where "trace s' = trace s @ es" "path (istep d engine req) IStart es ph" and k: "iresult r ph"
    by (rule Import_Reconcile_run)
  with assms(3) have "path (istep d engine req) IStart (pre @ ?e # post) ph" by simp
  from path_prefix [OF this] obtain ph1 where "path (istep d engine req) ph1 (?e # post) ph" by blast
  then obtain ph2 where step: "istep d engine req ph1 ?e ph2" and p: "path (istep d engine req) ph2 post ph"
    by (rule path_ConsE)
  from step have "ph2 = IFinalizer (withoutFinalizer d cr)"
  proof (cases rule: istep.cases)
    case i_release
    then show ?thesis by (simp add: enter_def finalizer_clash(1) [OF assms(1)])
  next
    case (i_finalizer cr0)
    then show ?thesis using finalizer_clash(1) [OF assms(1), of cr] finalizer_clash(2) [OF assms(1), of cr0] by simp
  qed
  with p have q: "path (istep d engine req) (IFinalizer (withoutFinalizer d cr)) post ph" by simp
  show ?thesis
  proof (cases post)
    case Nil
    with q have "ph = IFinalizer (withoutFinalizer d cr)" by (auto elim: path_NilE)
    with k show ?thesis by simp
  next
    case (Cons e post')
    with q obtain ph3 where "istep d engine req (IFinalizer (withoutFinalizer d cr)) e ph3" by (auto elim: path_ConsE)
    then show ?thesis using Cons by (auto elim: istep_finalizerE)
  qed
qed

theorem Import_Reconcile_readds_finalizer_witness:
  "\<exists>r s' pre a post'.
     Import_Reconcile refDeps (\<lambda>t m. Inl (TemplateError [])) releasingClient (objectKey ''team'' ''realm-a'')
       \<lparr>world = (), trace = []\<rparr> = (r, s') \<and>
     trace s' = pre @ EvUpdateKeycloakImport (withoutFinalizer refDeps deletedImport) (Inr (withoutFinalizer refDeps deletedImport))
       # EvUpdateKeycloakImport (withFinalizer refDeps (withoutFinalizer refDeps deletedImport)) a # post'"
proof -
  let ?s = "\<lparr>world = (), trace = []\<rparr> :: unit sys"
  obtain r s' where run: "Import_Reconcile refDeps (\<lambda>t m. Inl (TemplateError [])) releasingClient
      (objectKey ''team'' ''realm-a'') ?s = (r, s')" by fastforce
  let ?pre = "[EvGetKeycloakImport (objectKey ''team'' ''realm-a'') (Inr deletedImport),
      EvListJobs ''identity'' (GetOwnerLabels ''realm-a'' ''team'') (Inr []),
      EvListSecrets ''identity'' (GetOwnerLabels ''realm-a'' ''team'') (Inr [])]"
  from conformsD [OF conforms_ensureFinalizer run [unfolded deletion_run]] obtain post where
    t: "trace s' = trace ?s @ ?pre @ EvUpdateKeycloakImport (withoutFinalizer refDeps deletedImport)
      (Inr (withoutFinalizer refDeps deletedImport)) # post" by auto
  have "finalizer_ops refDeps" ..
  from Import_Reconcile_readds_finalizer [OF this run t] obtain a post' where
    p: "post = EvUpdateKeycloakImport (withFinalizer refDeps (withoutFinalizer refDeps deletedImport)) a # post'" by blast
  show ?thesis
    by (intro exI [of _ r] exI [of _ s'] exI [of _ ?pre] exI [of _ a] exI [of _ post'] conjI run) (simp add: t p)
qed

end
