(* ===== verification/ImportProgress.thy ===== *)
theory ImportProgress
  imports ImportSafety KeycloakController
begin

text \<open>
  Termination and progress of the controllers. The step relations have no cycles: a potential
  on the phases bounds the number of calls of a run by a constant, the number of listed objects and the
  substitutions of one import. When every
  call of a run succeeds and the instance is ready, the run of a live import does one of three
  things: it creates the job of the stored realm, rolls the imported realm out, or finds nothing left to
  do; in each case it reports and returns without an error.
\<close>

section \<open>A bound on the calls\<close>

text \<open>The objects that an answer lists.\<close>

fun listed :: "event \<Rightarrow> nat" where
  "listed (EvListJobs _ _ (Inr jobs)) = length jobs"
| "listed (EvListSecrets _ _ (Inr secrets)) = length secrets"
| "listed _ = 0"

text \<open>
  How many calls may follow a phase; the objects that will still be listed do not count here, and neither do the
  substitutions before they are known.
\<close>

fun ipotential :: "iphase \<Rightarrow> nat" where
  "ipotential IStart = 11"
| "ipotential (ICleanup cr) = 10"
| "ipotential (IDeleteJobs cr jobs) = 9 + length jobs"
| "ipotential (IDeleteSecrets cr secrets) = 8 + length secrets"
| "ipotential (IFinalizer cr) = 7"
| "ipotential (IInstance cr) = 6"
| "ipotential (IWorkload cr kc) = 5"
| "ipotential (ISubstitute cr sts subs m) = 4 + length subs"
| "ipotential (IJobs cr sts rv) = 3"
| "ipotential (IScan cr sts rv jobs) = 2 + length jobs"
| "ipotential (IReport cr st msg) = 1"
| "ipotential _ = 0"

text \<open>A run enters the substitutions of one import, and only once.\<close>

fun substitutionsOf :: "iphase \<Rightarrow> nat" where
  "substitutionsOf (IWorkload cr kc) = length (kiSubstitutions (kiSpec cr))"
| "substitutionsOf _ = 0"

fun kpotential :: "kphase \<Rightarrow> nat" where
  "kpotential KStart = 7"
| "kpotential (KService cr) = 6"
| "kpotential (KRoute cr) = 5"
| "kpotential (KWorkload cr h) = 4"
| "kpotential (KDiscovery cr sts) = 3"
| "kpotential (KMonitor cr sts) = 2"
| "kpotential (KReport cr st msg) = 1"
| "kpotential _ = 0"

text \<open>
  The interface of a bounded protocol: every call uses up one unit of the potential. The credit of its
  answer adds to it, and so does a grant, which only one transition of a run can have: \<open>before\<close> holds in
  the phases from which that transition is still possible. \<open>origin\<close> is what is known in a phase about the calls so far,
  and \<open>granted\<close> where the size of a grant comes from.
\<close>

locale bounded_protocol =
  fixes step :: "'ph \<Rightarrow> event \<Rightarrow> 'ph \<Rightarrow> bool"
    and start :: 'ph
    and potential :: "'ph \<Rightarrow> nat"
    and credit :: "event \<Rightarrow> nat"
    and grant :: "'ph \<Rightarrow> nat"
    and before :: "'ph \<Rightarrow> bool"
    and origin :: "event list \<Rightarrow> 'ph \<Rightarrow> bool"
    and granted :: "event list \<Rightarrow> nat \<Rightarrow> bool"
  assumes step_pays: "step ph e ph' \<Longrightarrow> Suc (potential ph') \<le> potential ph + credit e + grant ph"
    and grant_once: "0 < grant ph \<Longrightarrow> before ph" "step ph e ph' \<Longrightarrow> 0 < grant ph \<Longrightarrow> \<not> before ph'"
      "step ph e ph' \<Longrightarrow> before ph' \<Longrightarrow> before ph"
    and origin_start: "origin [] start"
    and origin_step: "origin es ph \<Longrightarrow> step ph e ph' \<Longrightarrow> origin (es @ [e]) ph'"
    and origin_grant: "origin es ph \<Longrightarrow> 0 < grant ph \<Longrightarrow> granted es (grant ph)"
    and granted_mono: "granted es n \<Longrightarrow> granted (es @ es') n"
begin

definition inBudget :: "event list \<Rightarrow> 'ph \<Rightarrow> nat \<Rightarrow> bool" where
  "inBudget es ph n \<longleftrightarrow> length es + potential ph \<le> potential start + sum_list (map credit es) + n"

lemma inBudget_step:
  assumes "inBudget es ph n" "step ph e ph'"
  shows "inBudget (es @ [e]) ph' (n + grant ph)"
  using assms(1) step_pays [OF assms(2)] by (simp add: inBudget_def)

lemma path_bound:
  assumes "path step start es ph"
  obtains n where "inBudget es ph n" "n = 0 \<or> granted es n"
proof -
  have "\<exists>n. inBudget es ph n \<and> (n = 0 \<or> granted es n) \<and> (before ph \<longrightarrow> n = 0) \<and> origin es ph"
  proof (rule protocol_invariant.path_inv [OF _ assms, where justified = "\<lambda>es e. True"], unfold_locales)
    show "\<exists>n. inBudget [] start n \<and> (n = 0 \<or> granted [] n) \<and> (before start \<longrightarrow> n = 0) \<and> origin [] start"
      by (intro exI [of _ 0]) (simp add: inBudget_def origin_start)
  next
    fix es ph e ph'
    assume "\<exists>n. inBudget es ph n \<and> (n = 0 \<or> granted es n) \<and> (before ph \<longrightarrow> n = 0) \<and> origin es ph"
      and s: "step ph e ph'"
    then obtain n where n: "inBudget es ph n" "n = 0 \<or> granted es n" "before ph \<longrightarrow> n = 0" "origin es ph" by blast
    have w: "inBudget (es @ [e]) ph' (n + grant ph)" using n(1) s by (rule inBudget_step)
    have "(n + grant ph = 0 \<or> granted (es @ [e]) (n + grant ph)) \<and> (before ph' \<longrightarrow> n + grant ph = 0)"
    proof (cases "0 < grant ph")
      case True
      with n(3) grant_once(1) have "n = 0" by blast
      with grant_once(2) [OF s True] granted_mono [OF origin_grant [OF n(4) True]] show ?thesis by simp
    next
      case False
      with n(2,3) grant_once(3) [OF s] granted_mono show ?thesis by auto
    qed
    with w origin_step [OF n(4) s]
    show "\<exists>n. inBudget (es @ [e]) ph' n \<and> (n = 0 \<or> granted (es @ [e]) n) \<and> (before ph' \<longrightarrow> n = 0) \<and> origin (es @ [e]) ph'"
      by blast
  qed simp
  with that show ?thesis by blast
qed

lemma run_bound:
  assumes "conforms step start m F"
  shows "case m s of (r, s') \<Rightarrow> \<exists>es n. trace s' = trace s @ es \<and> (n = 0 \<or> granted es n) \<and>
    length es \<le> potential start + sum_list (map credit es) + n"
proof -
  obtain r s' where m: "m s = (r, s')" by fastforce
  with conforms_runs [OF assms, of s] obtain es ph where t: "trace s' = trace s @ es" and p: "path step start es ph" by auto
  from path_bound [OF p] obtain n where "inBudget es ph n" "n = 0 \<or> granted es n" .
  with t m show ?thesis by (auto simp: inBudget_def intro!: exI [of _ n])
qed

end

lemma istep_pays: "istep d engine req ph e ph' \<Longrightarrow> Suc (ipotential ph') \<le> ipotential ph + listed e + substitutionsOf ph"
  by (cases rule: istep.cases, assumption) (simp_all add: enter_def)

lemma kstep_pays: "kstep d req ph e ph' \<Longrightarrow> Suc (kpotential ph') \<le> kpotential ph"
  by (cases rule: kstep.cases, assumption) simp_all

text \<open>The phases before the substitutions, and the import that a run works on there.\<close>

fun beforeSubstitutions :: "iphase \<Rightarrow> bool" where
  "beforeSubstitutions IStart = True"
| "beforeSubstitutions (ICleanup cr) = True"
| "beforeSubstitutions (IDeleteJobs cr jobs) = True"
| "beforeSubstitutions (IDeleteSecrets cr secrets) = True"
| "beforeSubstitutions (IFinalizer cr) = True"
| "beforeSubstitutions (IInstance cr) = True"
| "beforeSubstitutions (IWorkload cr kc) = True"
| "beforeSubstitutions _ = False"

fun workedOn :: "ObjectKey \<Rightarrow> event list \<Rightarrow> iphase \<Rightarrow> bool" where
  "workedOn req es (IFinalizer cr) = current req es cr"
| "workedOn req es (IInstance cr) = current req es cr"
| "workedOn req es (IWorkload cr kc) = current req es cr"
| "workedOn req es _ = True"

lemma istep_workedOn: "istep d engine req ph e ph' \<Longrightarrow> workedOn req es ph \<Longrightarrow> workedOn req (es @ [e]) ph'"
  by (cases rule: istep.cases, assumption) (auto simp: enter_def current_def)

lemma istep_before:
  "istep d engine req ph e ph' \<Longrightarrow> beforeSubstitutions ph' \<Longrightarrow> beforeSubstitutions ph"
  "istep d engine req ph e ph' \<Longrightarrow> 0 < substitutionsOf ph \<Longrightarrow> \<not> beforeSubstitutions ph'"
  by (cases rule: istep.cases, assumption; simp)+

interpretation import_bound: bounded_protocol "istep d engine req" IStart ipotential listed substitutionsOf beforeSubstitutions
  "workedOn req" "\<lambda>es n. \<exists>cr. current req es cr \<and> n = length (kiSubstitutions (kiSpec cr))" for d engine req
proof
  show "beforeSubstitutions ph" if "0 < substitutionsOf ph" for ph using that by (cases ph) simp_all
  show "\<exists>cr. current req es cr \<and> substitutionsOf ph = length (kiSubstitutions (kiSpec cr))"
    if "workedOn req es ph" "0 < substitutionsOf ph" for es ph using that by (cases ph) auto
qed (auto simp: istep_pays istep_before istep_workedOn current_def)

interpretation keycloak_bound: bounded_protocol "kstep d req" KStart kpotential "\<lambda>_. 0" "\<lambda>_. 0" "\<lambda>_. True" "\<lambda>_ _. True" "\<lambda>_ _. False" for d req
  by unfold_locales (simp_all add: kstep_pays)

section \<open>Progress of a run\<close>

text \<open>
  An answer with which the run goes on: the call succeeded, an import that is read is not being
  deleted and every substitution of an import names a secret, the instance is ready and its stateful set has
  a container.
\<close>

fun goodAnswer :: "deps \<Rightarrow> event \<Rightarrow> bool" where
  "goodAnswer d (EvGetKeycloakImport _ r) =
     (case r of Inr cr \<Rightarrow> \<not> deleting d cr \<and> allSecretsSet cr | _ \<Rightarrow> False)"
| "goodAnswer d (EvUpdateKeycloakImport _ r) = (case r of Inr cr \<Rightarrow> allSecretsSet cr | _ \<Rightarrow> False)"
| "goodAnswer d (EvGetKeycloak _ r) = (case r of Inr kc \<Rightarrow> IsReady d (kcConditions kc) | _ \<Rightarrow> False)"
| "goodAnswer d (EvGetStatefulSet _ r) =
     (case r of Inr sts \<Rightarrow> podContainers (tplSpec (stsTemplate (stsSpec sts))) \<noteq> [] | _ \<Rightarrow> False)"
| "goodAnswer d (EvGetSecret _ r) = (case r of Inr _ \<Rightarrow> True | _ \<Rightarrow> False)"
| "goodAnswer d (EvApplySecret _ _ r) = (case r of Inr (Inr _) \<Rightarrow> True | _ \<Rightarrow> False)"
| "goodAnswer d (EvListJobs _ _ r) = (case r of Inr _ \<Rightarrow> True | _ \<Rightarrow> False)"
| "goodAnswer d (EvDeleteJob _ r) = (r = None)"
| "goodAnswer d (EvCreateJob _ r) = (r = None)"
| "goodAnswer d (EvUpdateStatefulSet _ r) = (r = None)"
| "goodAnswer d (EvKeycloakImportStatus _ r) = (r = None)"
| "goodAnswer d _ = True"

text \<open>What such a run has done when it reports \<open>st\<close>.\<close>

definition progressed :: "deps \<Rightarrow> template_engine \<Rightarrow> ObjectKey \<Rightarrow> event list \<Rightarrow> KeycloakImport \<Rightarrow> ConditionStatus \<Rightarrow> bool" where
  "progressed d engine req es cr st \<longleftrightarrow>
     (\<exists>sts rv jobs. current req es cr \<and> targetReady d es cr sts \<and> stored engine es cr rv \<and>
        EvListJobs (targetNamespace cr) (nameSelector cr) (Inr jobs) \<in> set es \<and>
        list_all (\<lambda>j. EvDeleteJob j None \<in> set es) (takeWhile (\<lambda>j. jobRevision cr j \<noteq> rv) jobs) \<and>
        (case find (\<lambda>j. jobRevision cr j = rv) jobs of
           None \<Rightarrow> st = ConditionFalse \<and>
             (\<exists>job. Job_Build cr sts rv = Inr (Inr job) \<and> EvCreateJob job None \<in> set es)
         | Some job \<Rightarrow> st = ConditionTrue \<and>
             (if IsJobCompleted job \<and> \<not> rolloutDone d cr sts rv
              then EvUpdateStatefulSet (annotate cr rv sts) None \<in> set es else True)))"

definition scannedTo :: "event list \<Rightarrow> KeycloakImport \<Rightarrow> string \<Rightarrow> Job list \<Rightarrow> bool" where
  "scannedTo es cr rv rest \<longleftrightarrow>
     (\<exists>dn. jobsListed es cr (nameSelector cr) (dn @ rest) \<and>
        list_all (\<lambda>j. jobRevision cr j \<noteq> rv \<and> EvDeleteJob j None \<in> set es) dn)"

fun ginv :: "deps \<Rightarrow> template_engine \<Rightarrow> ObjectKey \<Rightarrow> event list \<Rightarrow> iphase \<Rightarrow> bool" where
  "ginv d engine req es IStart = True"
| "ginv d engine req es (IFinalizer cr) = (current req es cr \<and> allSecretsSet cr)"
| "ginv d engine req es (IInstance cr) = (current req es cr \<and> allSecretsSet cr)"
| "ginv d engine req es (IWorkload cr kc) = (current req es cr \<and> allSecretsSet cr \<and>
     EvGetKeycloak (instanceKey cr) (Inr kc) \<in> set es \<and> IsReady d (kcConditions kc))"
| "ginv d engine req es (ISubstitute cr sts subs m) = (current req es cr \<and> targetReady d es cr sts \<and>
     podContainers (tplSpec (stsTemplate (stsSpec sts))) \<noteq> [] \<and> list_all (\<lambda>v. sovSecret v \<noteq> None) subs)"
| "ginv d engine req es (IJobs cr sts rv) = (current req es cr \<and> targetReady d es cr sts \<and>
     podContainers (tplSpec (stsTemplate (stsSpec sts))) \<noteq> [] \<and> stored engine es cr rv)"
| "ginv d engine req es (IScan cr sts rv jobs) = (current req es cr \<and> targetReady d es cr sts \<and>
     podContainers (tplSpec (stsTemplate (stsSpec sts))) \<noteq> [] \<and> stored engine es cr rv \<and> scannedTo es cr rv jobs)"
| "ginv d engine req es (IReport cr st msg) = progressed d engine req es cr st"
| "ginv d engine req es (IEnd res) = (res = result None \<and>
     (\<exists>es' cr now st msg. es = es' @ [EvKeycloakImportStatus (importWithReady d now cr st msg) None] \<and>
        progressed d engine req es' cr st))"
| "ginv d engine req es _ = False"

lemma scannedTo_now:
  "scannedTo (es @ [EvListJobs (targetNamespace cr) (nameSelector cr) (Inr jobs)]) cr rv jobs"
  "scannedTo es cr rv (j # js) \<Longrightarrow> jobRevision cr j \<noteq> rv \<Longrightarrow> scannedTo (es @ [EvDeleteJob j None]) cr rv js"
proof -
  show "scannedTo (es @ [EvListJobs (targetNamespace cr) (nameSelector cr) (Inr jobs)]) cr rv jobs"
    by (simp add: scannedTo_def jobsListed_def exI [of _ "[]"])
next
  assume "scannedTo es cr rv (j # js)" and j: "jobRevision cr j \<noteq> rv"
  then obtain dn where "jobsListed es cr (nameSelector cr) (dn @ j # js)"
    "list_all (\<lambda>j. jobRevision cr j \<noteq> rv \<and> EvDeleteJob j None \<in> set es) dn" unfolding scannedTo_def by blast
  with j show "scannedTo (es @ [EvDeleteJob j None]) cr rv js"
    unfolding scannedTo_def by (intro exI [of _ "dn @ [j]"]) (auto simp: jobsListed_def list_all_iff)
qed

text \<open>The scan has found the first job of the revision, or none.\<close>

lemma scannedTo_found:
  assumes "scannedTo es cr rv rest" "\<And>j js. rest = j # js \<Longrightarrow> jobRevision cr j = rv"
  obtains jobs where "EvListJobs (targetNamespace cr) (nameSelector cr) (Inr jobs) \<in> set es"
    "list_all (\<lambda>j. EvDeleteJob j None \<in> set es) (takeWhile (\<lambda>j. jobRevision cr j \<noteq> rv) jobs)"
    "find (\<lambda>j. jobRevision cr j = rv) jobs = (case rest of [] \<Rightarrow> None | j # js \<Rightarrow> Some j)"
proof -
  from assms(1) obtain dn where l: "jobsListed es cr (nameSelector cr) (dn @ rest)"
    and dn: "list_all (\<lambda>j. jobRevision cr j \<noteq> rv \<and> EvDeleteJob j None \<in> set es) dn" unfolding scannedTo_def by blast
  have n: "find (\<lambda>j. jobRevision cr j = rv) dn = None" "takeWhile (\<lambda>j. jobRevision cr j \<noteq> rv) dn = dn"
    using dn by (auto simp: list_all_iff find_None_iff takeWhile_eq_all_conv)
  have r: "find (\<lambda>j. jobRevision cr j = rv) rest = (case rest of [] \<Rightarrow> None | j # js \<Rightarrow> Some j)"
    "takeWhile (\<lambda>j. jobRevision cr j \<noteq> rv) rest = []"
    using assms(2) by (cases rest; simp)+
  have "takeWhile (\<lambda>j. jobRevision cr j \<noteq> rv) (dn @ rest) = dn"
    using dn r(2) by (subst takeWhile_append2) (auto simp: list_all_iff)
  with that [of "dn @ rest"] l dn n(1) r(1) show ?thesis
    by (auto simp: jobsListed_def find_append list_all_iff)
qed

lemma progressedI:
  assumes "current req es cr" "targetReady d es cr sts" "stored engine es cr rv" "scannedTo es cr rv rest"
    and "\<And>j js. rest = j # js \<Longrightarrow> jobRevision cr j = rv"
    and "case rest of
      [] \<Rightarrow> st = ConditionFalse \<and> (\<exists>job. Job_Build cr sts rv = Inr (Inr job) \<and> EvCreateJob job None \<in> set (es @ es'))
    | job # _ \<Rightarrow> st = ConditionTrue \<and> (IsJobCompleted job \<and> \<not> rolloutDone d cr sts rv \<longrightarrow>
        EvUpdateStatefulSet (annotate cr rv sts) None \<in> set (es @ es'))"
  shows "progressed d engine req (es @ es') cr st"
proof -
  obtain jobs where j:
    "EvListJobs (targetNamespace cr) (nameSelector cr) (Inr jobs) \<in> set es"
    "list_all (\<lambda>j. EvDeleteJob j None \<in> set es) (takeWhile (\<lambda>j. jobRevision cr j \<noteq> rv) jobs)"
    "find (\<lambda>j. jobRevision cr j = rv) jobs = (case rest of [] \<Rightarrow> None | j # js \<Rightarrow> Some j)"
    by (rule scannedTo_found [OF assms(4)]) (use assms(5) in blast)+
  show ?thesis
    unfolding progressed_def
    by (intro exI [of _ sts] exI [of _ rv] exI [of _ jobs] conjI justification_mono assms(1-3))
      (use j assms(6) in \<open>auto simp: list_all_iff split: list.splits\<close>)
qed

lemma istep_ginv:
  assumes "istep d engine req ph e ph'" "goodAnswer d e" "ginv d engine req es ph"
  shows "ginv d engine req (es @ [e]) ph'"
  using assms(1)
proof (cases rule: istep.cases)
  case (i_create cr sts rv job)
  with assms(3) show ?thesis by (auto intro: progressedI [where rest = "[]"])
next
  case (i_rollout cr job rv sts jobs)
  with assms(3) show ?thesis by (auto intro!: progressedI [where rest = "job # jobs"])
next
  case (i_ready cr job rv sts jobs now err)
  with assms(2,3) progressedI [of req es cr d sts engine rv "job # jobs" ConditionTrue "[]"] show ?thesis by auto
qed (use assms(2,3) in \<open>auto simp: enter_def justification_now justification_mono scannedTo_now allSecretsSet_def list_all_iff\<close>)

interpretation import_progress: protocol_invariant "istep d engine req" IStart
  "\<lambda>es ph. list_all (goodAnswer d) es \<longrightarrow> ginv d engine req es ph" "\<lambda>es e. True" for d engine req
  by unfold_locales (auto intro: istep_ginv)

text \<open>A ready instance, and a client that has it and an import for it.\<close>

definition readyKeycloak :: Keycloak where
  "readyKeycloak = exampleKeycloak\<lparr>kcConditions := SetReady refDeps 1 [] ConditionTrue []\<rparr>"

definition liveImport :: KeycloakImport where
  "liveImport = exampleImport\<lparr>kiMeta := (kiMeta exampleImport)\<lparr>metaFinalizers := [RealmImportFinalizer]\<rparr>\<rparr>"

definition progressClient :: "unit client" where
  "progressClient = (listingClient [liveImport])\<lparr>
     GetKeycloakImport := (\<lambda>k w. (Inr liveImport, w)), GetKeycloak := (\<lambda>k w. (Inr readyKeycloak, w)),
     GetStatefulSet := (\<lambda>k w. (Inr exampleSts, w)),
     ApplySecret := (\<lambda>x f w. (Inr (Inr (x\<lparr>secMeta := (secMeta x)\<lparr>metaResourceVersion := ''7''\<rparr>\<rparr>)), w))\<rparr>"

lemma progressClient_run:
  "\<exists>r s'. Import_Reconcile refDeps engine progressClient req \<lparr>world = (), trace = []\<rparr> = (r, s') \<and>
     list_all (goodAnswer refDeps) (trace s')"
proof -
  have cr: "\<not> deleting refDeps liveImport" "hasFinalizer refDeps liveImport" "allSecretsSet liveImport"
    "kiSubstitutions (kiSpec liveImport) = []"
    by (simp_all add: deleting_def hasFinalizer_def refDeps_def allSecretsSet_def liveImport_def exampleImport_def
        namedMeta_def zeroMeta_def)
  have "condition_store refDeps" ..
  then have kc: "IsReady refDeps (kcConditions readyKeycloak)"
    by (simp add: readyKeycloak_def condition_store.IsReady_SetReady)
  have sts: "podContainers (tplSpec (stsTemplate (stsSpec exampleSts))) \<noteq> []"
    by (simp add: exampleSts_def rhbkStatefulSetSpec_def)
  obtain job where job: "Job_Build liveImport exampleSts ''7'' = Inr (Inr job)"
    using sts by (cases rule: Job_Build_result [of liveImport exampleSts "''7''"]) auto
  show ?thesis
    using sts
    by (simp add: Import_Reconcile_def ensureFinalizer_def deleting_def [symmetric] hasFinalizer_def [symmetric]
        reconcileLive_def reconcileJobs_def ImportRealmSecret_CreateOrUpdate_def Import_HandleError_def Let_def
        andThen_def call_def callBack_def lift_panic_def ret_def readClock_def progressClient_def listingClient_def
        cr kc job)
qed

section \<open>Properties\<close>

text \<open>
  C25: every reconcile comes to an end after a bounded number of calls, whatever the cluster
  answers: a run of the Keycloak controller makes at most 7 calls. A run of the import controller makes
  at most 11, one more for each job and each secret that it lists, and one more for each substitution of
  one import: the resource of the request as the run read it or as one of its updates returned it.
\<close>

theorem reconciles_bounded:
  "(case Keycloak_Reconcile d c req s of (r, s') \<Rightarrow> \<exists>es. trace s' = trace s @ es \<and> length es \<le> 7) \<and>
   (case Import_Reconcile d engine c req s of (r, s') \<Rightarrow>
      \<exists>es substitutions. trace s' = trace s @ es \<and> length es \<le> 11 + sum_list (map listed es) + substitutions \<and>
        (substitutions = 0 \<or> (\<exists>cr. current req es cr \<and> substitutions = length (kiSubstitutions (kiSpec cr)))))"
  using keycloak_bound.run_bound [OF Keycloak_Reconcile_conforms [of d req c], of s]
    import_bound.run_bound [OF Import_Reconcile_conforms [of d engine req c], of s]
  by (auto split: prod.splits)

text \<open>
  C4: a run of the import controller makes progress. If every call of the run succeeds, the import
  is not being deleted and its substitutions name secrets, the instance is ready and its stateful
  set has a container, then the run does not panic, ends with a status report and returns no
  error; and before the report it has stored the realm secret, deleted the listed jobs up to the
  first one with the version of that secret, and, when there is none, created the job for it (and reports
  that it is not ready), or else reports success, after the rollout if that job is complete and
  the stateful set does not carry the version yet.
\<close>

theorem Import_Reconcile_progress:
  assumes "Import_Reconcile d engine c req s = (r, s')"
    and "trace s' = trace s @ es" and "list_all (goodAnswer d) es"
  shows "r = Inr (result None) \<and>
    (\<exists>es' cr now st msg sts rv jobs.
       es = es' @ [EvKeycloakImportStatus (cr\<lparr>kiConditions := SetReady d now (kiConditions cr) st msg\<rparr>) None] \<and>
       current req es' cr \<and> targetReady d es' cr sts \<and> stored engine es' cr rv \<and>
       EvListJobs (targetNamespace cr) (nameSelector cr) (Inr jobs) \<in> set es' \<and>
       list_all (\<lambda>j. EvDeleteJob j None \<in> set es') (takeWhile (\<lambda>j. jobRevision cr j \<noteq> rv) jobs) \<and>
       (case find (\<lambda>j. jobRevision cr j = rv) jobs of
          None \<Rightarrow> st = ConditionFalse \<and>
            (\<exists>job. Job_Build cr sts rv = Inr (Inr job) \<and> EvCreateJob job None \<in> set es')
        | Some job \<Rightarrow> st = ConditionTrue \<and>
            (if IsJobCompleted job \<and> \<not> rolloutDone d cr sts rv
             then EvUpdateStatefulSet (annotate cr rv sts) None \<in> set es' else True)))"
proof -
  from assms(1) obtain es0 ph where "trace s' = trace s @ es0" and p: "path (istep d engine req) IStart es0 ph"
    and k: "iresult r ph" by (rule Import_Reconcile_run)
  with assms(2,3) have "ginv d engine req es ph" using import_progress.path_inv [OF p] by simp
  with k obtain es' cr now st msg where "r = Inr (result None)"
    "es = es' @ [EvKeycloakImportStatus (importWithReady d now cr st msg) None]" "progressed d engine req es' cr st"
    by (cases "(r, ph)" rule: iresult.cases) auto
  then show ?thesis unfolding progressed_def importWithReady_def by blast
qed

theorem Import_Reconcile_progress_witness:
  "\<exists>s'. Import_Reconcile refDeps (\<lambda>t m. Inr t) progressClient (objectKey ''team'' ''realm-a'')
       \<lparr>world = (), trace = []\<rparr> = (Inr (result None), s') \<and>
     list_all (goodAnswer refDeps) (trace s') \<and> (\<exists>es cr. trace s' = es @ [EvKeycloakImportStatus cr None])"
proof -
  let ?s = "\<lparr>world = (), trace = []\<rparr> :: unit sys"
  obtain r s' where run: "Import_Reconcile refDeps (\<lambda>t m. Inr t) progressClient (objectKey ''team'' ''realm-a'') ?s = (r, s')"
    and good: "list_all (goodAnswer refDeps) (trace s')" using progressClient_run by blast
  have t: "trace s' = trace ?s @ trace s'" by simp
  from Import_Reconcile_progress [OF run t good] run good show ?thesis by auto
qed

end
