(* ===== verification/Concurrency.thy ===== *)
theory Concurrency
  imports RefServer ImportProgress
begin

text \<open>
  What holds of the operator when any number of its reconciles run at the same time, with caches that
  are behind, calls whose answer is lost, crashes and other clients of the API server: the properties of the
  system of \<open>Interleaving\<close>, and that the code is a part of it.
\<close>

section \<open>Reachable systems\<close>

text \<open>The calls that bring something into being for an import, and the import that a phase works for.\<close>

fun creating :: "event \<Rightarrow> bool" where
  "creating (EvCreateJob job r) = True"
| "creating (EvApplySecret obj f r) = True"
| "creating (EvUpdateStatefulSet sts r) = True"
| "creating _ = False"

fun actingFor :: "iphase \<Rightarrow> KeycloakImport option" where
  "actingFor (ISubstitute cr sts subs m) = Some cr"
| "actingFor (IScan cr sts rv jobs) = Some cr"
| "actingFor _ = None"

lemmas sstep_call_cases = sstep_CallsE [consumes 1, case_names import_call keycloak_call]

context third_party
begin

lemma reachable:
  assumes "wfServer (sysServer \<sigma>0)" "sysThreads \<sigma>0 = Map.empty" "execution d engine A \<sigma>0 as \<sigma>"
  shows "wfServer (sysServer \<sigma>)" "sysThreads \<sigma> i = Some t \<Longrightarrow> known d (sysServer \<sigma>) t"
  using threads.execution_holds [OF assms(3) threads.holds_initially [OF assms(1,2)]]
  by (auto simp: threads.holds_def)

lemma reachable_backed:
  assumes "wfServer (sysServer \<sigma>0)" "backed mk S (sysServer \<sigma>0)" "sysThreads \<sigma>0 = Map.empty"
    and "execution d engine (sameMarker mk) \<sigma>0 as \<sigma>"
  shows "wfServer (sysServer \<sigma>)" "backed mk S (sysServer \<sigma>)"
  using markers.execution_holds [OF assms(4) markers.holds_initially, of S] assms(1-3)
  by (auto simp: markers.holds_def)

text \<open>An update of a stateful set is a rollout, and an accepted one was made from the current object.\<close>

lemma rollout_call:
  assumes "istep d engine req ph (EvUpdateStatefulSet z r) ph'" "known d V (ImportRun req ph)"
  obtains cr rv sts job where "z = annotate cr rv sts" "sts \<in> storePast (svStatefulSets V)"
    "job \<in> storePast (svJobs V)" "IsJobCompleted job" "jobRevision cr job = rv" "\<not> deleting d cr"
    "goLookup (podAnnotations sts) (GetImportJobAnnotation cr) \<noteq> Some rv"
  using assms
  by (cases rule: istep.cases)
    (auto simp: rolloutDone_def MatchSet_single podAnnotations_def intro: that)

lemma rollout_accepted:
  assumes "wfServer V" "sts \<in> storePast (svStatefulSets V)" "serves d V (EvUpdateStatefulSet (annotate cr rv sts) None) V'"
  shows "storeNow (svStatefulSets V) (keyOf (stsMeta sts)) = Some sts"
    "marker V' (keyOf (stsMeta sts)) (GetImportJobAnnotation cr) = Some rv"
proof -
  from assms(3) obtain st' where st': "V' = V\<lparr>svStatefulSets := st'\<rparr>"
    "updates stsMeta (\<lambda>_. keepsStatefulSet) (annotate cr rv sts) (svStatefulSets V) st'" by auto
  have wf: "wfStore stsMeta (svStatefulSets V)" using assms(1) by (simp add: wfServer_def)
  show "storeNow (svStatefulSets V) (keyOf (stsMeta sts)) = Some sts"
    by (rule updates_current(1) [OF wf st'(2) assms(2)]) simp_all
  show "marker V' (keyOf (stsMeta sts)) (GetImportJobAnnotation cr) = Some rv"
    unfolding st'(1) using marker_updates(1) [OF assms(1) st'(2) assms(2)] by simp
qed

text \<open>The finalizer cannot be added to an import that this thread has released.\<close>

lemma refinalize_fails:
  assumes "wfServer V" "cr \<in> storePast (svImports V)" "deleting d cr" "\<not> hasFinalizer d cr"
    and "serves d V (EvUpdateKeycloakImport (withFinalizer d cr) r) V'"
  shows "V' = V" "isl r"
proof -
  have "\<not> updates kiMeta (admitsImport d) (withFinalizer d cr) (svImports V) st" for st
  proof
    have wf: "wfStore kiMeta (svImports V)" using assms(1) by (simp add: wfServer_def)
    assume u: "updates kiMeta (admitsImport d) (withFinalizer d cr) (svImports V) st"
    obtain y where "admitsImport d cr (withFinalizer d cr) y"
      using updates_current(2) [OF wf u assms(2)] withFinalizer_meta [of cr] by blast
    from admitsImport_state(4) [OF this assms(3,4)] withFinalizer_meta(3) show False by blast
  qed
  with assms(5) show "V' = V" "isl r" by auto
qed

end

section \<open>A small system\<close>

text \<open>
  A stateful set that carries the marker of another import, a completed job for revision \<open>7\<close> of the example
  import, and the import: \<open>liveSystem\<close> has it as it is, \<open>dyingSystem\<close> while it is being deleted.
\<close>

definition markedSts :: "string \<Rightarrow> StatefulSet" where
  "markedSts v = (let sts = annotate (exampleImport\<lparr>kiMeta := namedMeta ''realm-b'' ''team''\<rparr>) ''5'' exampleSts in
     sts\<lparr>stsMeta := (stsMeta sts)\<lparr>metaResourceVersion := v\<rparr>\<rparr>)"

definition doneJob :: Job where
  "doneJob = \<lparr>jobMeta = (namedMeta ''realm-a-import'' ''identity'')
       \<lparr>metaLabels := jobLabels exampleImport ''7'', metaResourceVersion := ''2''\<rparr>,
     jobTemplate = stsTemplate (stsSpec exampleSts), jobBackoffLimit = Some 1,
     jobConditions = [\<lparr>jcType = JobComplete, jcStatus = ConditionTrue\<rparr>]\<rparr>"

definition storedAs :: "string \<Rightarrow> KeycloakImport \<Rightarrow> KeycloakImport" where
  "storedAs v cr = cr\<lparr>kiMeta := (kiMeta cr)\<lparr>metaResourceVersion := v\<rparr>\<rparr>"

definition holding :: "('o \<Rightarrow> ObjectMeta) \<Rightarrow> 'o \<Rightarrow> 'o store" where
  "holding meta x = \<lparr>storeNow = [keyOf (meta x) \<mapsto> x], storePast = {x}\<rparr>"

definition smallServer :: "KeycloakImport \<Rightarrow> server" where
  "smallServer cr = \<lparr>svStatefulSets = holding stsMeta (markedSts ''1''), svJobs = holding jobMeta doneJob,
     svImports = holding kiMeta cr\<rparr>"

definition liveSystem :: system where
  "liveSystem = \<lparr>sysServer = smallServer (storedAs ''3'' liveImport), sysThreads = Map.empty\<rparr>"

definition dyingSystem :: system where
  "dyingSystem = \<lparr>sysServer = smallServer (storedAs ''3'' deletedImport), sysThreads = Map.empty\<rparr>"

abbreviation anything :: "labels option \<Rightarrow> labels option \<Rightarrow> bool" where "anything \<equiv> \<lambda>_ _. True"

lemma updates_now:
  "storeNow st (keyOf (meta z)) = Some cur \<Longrightarrow> metaResourceVersion (meta z) = metaResourceVersion (meta cur) \<Longrightarrow>
   admits cur z y \<Longrightarrow> fresh meta st y \<Longrightarrow> updates meta admits z st (put meta y st)"
  by (auto simp: updates_def)

lemma wfStore_holding: "metaResourceVersion (meta x) \<noteq> [] \<Longrightarrow> wfStore meta (holding meta x)"
  by (auto simp: wfStore_def holding_def)

lemma small_wf: "wfServer (sysServer liveSystem)" "wfServer (sysServer dyingSystem)"
  by (simp_all add: liveSystem_def dyingSystem_def smallServer_def wfServer_def wfStore_holding markedSts_def doneJob_def
      storedAs_def Let_def)

text \<open>The example run, up to the rollout: it only reads what is there.\<close>

abbreviation exampleKey :: ObjectKey where "exampleKey \<equiv> objectKey ''team'' ''realm-a''"

definition realmSecret :: Secret where
  "realmSecret = \<lparr>secMeta = (namedMeta ''realm-a'' ''identity'')\<lparr>metaResourceVersion := ''7'',
       metaLabels := Some ((GetOwnerLabels ''realm-a'' ''team'')(RHBKWatchedResourceLabel \<mapsto> FormatBool True))\<rparr>,
     secData = Some [''realm-a-realm.json'' \<mapsto> ''{}'']\<rparr>"

abbreviation runScan :: iphase where
  "runScan \<equiv> IScan (storedAs ''3'' liveImport) (markedSts ''1'') ''7'' [doneJob]"

definition runReads :: "template_engine \<Rightarrow> event list" where
  "runReads engine = (let cr = storedAs ''3'' liveImport in
     [EvGetKeycloakImport exampleKey (Inr cr), EvGetKeycloak (instanceKey cr) (Inr readyKeycloak),
      EvGetStatefulSet (workloadKey readyKeycloak) (Inr (markedSts ''1'')),
      EvApplySecret (ImportRealmSecret_init cr) (Inr \<circ> ImportRealmSecret_MutateFn engine cr Map.empty)
        (Inr (Inr realmSecret)),
      EvListJobs (targetNamespace cr) (nameSelector cr) (Inr [doneJob])])"

lemma live_facts:
  "\<not> deleting refDeps (storedAs v liveImport)" "hasFinalizer refDeps (storedAs v liveImport)"
  "kiSubstitutions (kiSpec (storedAs v liveImport)) = []" "IsReady refDeps (kcConditions readyKeycloak)"
  "jobRevision (storedAs v liveImport) doneJob = ''7''" "IsJobCompleted doneJob"
  "GetImportJobAnnotation (storedAs v liveImport) = ''realm-a/team''"
proof -
  have "condition_store refDeps" ..
  then show "IsReady refDeps (kcConditions readyKeycloak)"
    by (simp add: readyKeycloak_def condition_store.IsReady_SetReady)
qed (simp_all add: deleting_def hasFinalizer_def refDeps_def liveImport_def exampleImport_def storedAs_def
    namedMeta_def zeroMeta_def jobRevision_def doneJob_def jobLabels_def DecorateDefaultLabels_def
    GetImportJobAnnotation_def IsJobCompleted_def goIndex_def)

lemma runReads_path: "path (istep refDeps engine exampleKey) IStart (runReads engine) runScan"
proof -
  let ?cr = "storedAs ''3'' liveImport"
  let ?sec = "ImportRealmSecret_init ?cr" and ?step = "istep refDeps engine exampleKey"
  have 1: "?step IStart (EvGetKeycloakImport exampleKey (Inr ?cr)) (IInstance ?cr)"
    using i_live [OF live_facts(1)] by (simp add: enter_def live_facts)
  have 2: "?step (IWorkload ?cr readyKeycloak) (EvGetStatefulSet (workloadKey readyKeycloak) (Inr (markedSts ''1'')))
      (ISubstitute ?cr (markedSts ''1'') [] Map.empty)"
    using i_workload [of refDeps engine exampleKey ?cr] by (simp add: live_facts)
  have 3: "?step (ISubstitute ?cr (markedSts ''1'') [] Map.empty)
      (EvApplySecret ?sec (Inr \<circ> ImportRealmSecret_MutateFn engine ?cr Map.empty) (Inr (Inr realmSecret)))
      (IJobs ?cr (markedSts ''1'') ''7'')"
    using i_secret [of refDeps engine exampleKey ?cr _ Map.empty realmSecret] by (simp add: realmSecret_def)
  show ?thesis
    unfolding runReads_def Let_def
    by (rule path.go, rule 1, rule path.go, rule i_instance [OF live_facts(4)], rule path.go, rule 2,
        rule path.go, rule 3, rule path.go, rule i_jobs, rule path.stop)
qed

lemma chain_reads: "list_all (\<lambda>e. serves d V e V) es \<Longrightarrow> served_calls d A V es V"
  by (induction es) (auto intro: chain.intros answered_serves)

lemma runReads_served: "served_calls refDeps A (sysServer liveSystem) (runReads engine) (sysServer liveSystem)"
  by (rule chain_reads)
    (simp add: runReads_def Let_def liveSystem_def smallServer_def holding_def markedSts_def storedAs_def doneJob_def
      liveImport_def exampleImport_def exampleSts_def RHBKStatefulSet_init_def readyKeycloak_def exampleKeycloak_def
      GetStatefulSetName_def keyOf_def namedMeta_def refDeps_def refMatches_def jobLabels_def DecorateDefaultLabels_def
      GetOwnerLabels_def GetImportJobAnnotation_def constant_defs)

definition scanning :: system where
  "scanning = \<lparr>sysServer = sysServer liveSystem, sysThreads = [0 \<mapsto> ImportRun exampleKey runScan]\<rparr>"

lemma live_execution: "\<exists>as. execution refDeps engine A liveSystem as scanning"
proof -
  let ?\<sigma>1 = "liveSystem\<lparr>sysThreads := [0 \<mapsto> ImportRun exampleKey IStart]\<rparr>"
  have "execution refDeps engine A liveSystem ([] @ [Starts 0]) ?\<sigma>1"
    using e_step [OF e_none s_import_start, of refDeps engine A liveSystem 0 exampleKey] by (simp add: liveSystem_def)
  moreover obtain as where "execution refDeps engine A ?\<sigma>1 as scanning"
    using import_chain [OF runReads_served runReads_path, of ?\<sigma>1 0 engine] by (auto simp: scanning_def)
  ultimately show ?thesis using execution_append by blast
qed

text \<open>The rollout.\<close>

abbreviation rolled :: "string \<Rightarrow> StatefulSet" where
  "rolled v \<equiv> annotate (storedAs ''3'' liveImport) ''7'' (markedSts v)"

definition rolledOut :: system where
  "rolledOut = (let V = sysServer liveSystem in
     \<lparr>sysServer = V\<lparr>svStatefulSets := put stsMeta (rolled ''9'') (svStatefulSets V)\<rparr>,
      sysThreads = [0 \<mapsto> ImportRun exampleKey (IReport (storedAs ''3'' liveImport) ConditionTrue [])]\<rparr>)"

lemma markedSts_simps [simp]:
  "stsMeta (markedSts v) = (namedMeta ''sso'' ''identity'')\<lparr>metaResourceVersion := v\<rparr>"
  "podAnnotations (markedSts v) = Some [''realm-b/team'' \<mapsto> ''5'']"
  by (simp_all add: markedSts_def Let_def exampleSts_def RHBKStatefulSet_init_def exampleKeycloak_def GetStatefulSetName_def
      podAnnotations_def annotate_def rhbkStatefulSetSpec_def GetImportJobAnnotation_def namedMeta_def)

lemma rollout_step:
  "sstep refDeps engine A scanning (Calls 0 (EvUpdateStatefulSet (rolled ''1'') None)) rolledOut"
proof -
  let ?V = "sysServer liveSystem"
  have "\<not> rolloutDone refDeps (storedAs ''3'' liveImport) (markedSts ''1'') ''7''"
    unfolding rolloutDone_def podAnnotations_def [symmetric] ref.MatchSet_single by (simp add: live_facts)
  then have "istep refDeps engine exampleKey runScan (EvUpdateStatefulSet (rolled ''1'') None)
      (IReport (storedAs ''3'' liveImport) ConditionTrue [])"
    by (intro i_rollout live_facts)
  moreover have "serves refDeps ?V (EvUpdateStatefulSet (rolled ''1'') None) (?V\<lparr>svStatefulSets := put stsMeta (rolled ''9'') (svStatefulSets ?V)\<rparr>)"
  proof (intro serves_update updates_now [where cur = "markedSts ''1''"])
    show "keepsStatefulSet (rolled ''1'') (rolled ''9'')" by (simp add: keepsStatefulSet_def sameMeta_def)
    show "fresh stsMeta (svStatefulSets ?V) (rolled ''9'')"
      by (simp add: fresh_def liveSystem_def smallServer_def holding_def)
    show "storeNow (svStatefulSets ?V) (keyOf (stsMeta (rolled ''1''))) = Some (markedSts ''1'')"
      by (simp add: liveSystem_def smallServer_def holding_def)
  qed simp
  ultimately show ?thesis
    using s_import_call [of scanning 0 exampleKey runScan refDeps engine] by (simp add: scanning_def rolledOut_def Let_def)
qed

text \<open>A deletion, up to the attempt to add the finalizer again.\<close>

abbreviation dyingImport :: KeycloakImport where "dyingImport \<equiv> storedAs ''3'' deletedImport"
abbreviation releasedImport :: KeycloakImport where "releasedImport \<equiv> storedAs ''4'' (withoutFinalizer refDeps dyingImport)"

definition releasedSystem :: "iphase \<Rightarrow> system" where
  "releasedSystem ph = (let V = sysServer dyingSystem in
     \<lparr>sysServer = V\<lparr>svImports := collected refDeps exampleKey (put kiMeta releasedImport (svImports V))\<rparr>,
      sysThreads = [0 \<mapsto> ImportRun exampleKey ph]\<rparr>)"

lemmas dying_defs = storedAs_def deletedImport_def exampleImport_def namedMeta_def zeroMeta_def
  withoutFinalizer_def deleting_def hasFinalizer_def refDeps_def

lemma dying_facts:
  "deleting refDeps dyingImport" "hasFinalizer refDeps dyingImport" "deleting refDeps releasedImport"
  "\<not> hasFinalizer refDeps releasedImport" "keyOf (kiMeta dyingImport) = exampleKey"
  "keyOf (kiMeta (withoutFinalizer refDeps dyingImport)) = exampleKey" "keyOf (kiMeta releasedImport) = exampleKey"
  by (simp_all add: dying_defs keyOf_def)

lemma release_served:
  "serves refDeps (sysServer dyingSystem) (EvUpdateKeycloakImport (withoutFinalizer refDeps dyingImport) (Inr releasedImport))
     (sysServer (releasedSystem ph))"
proof -
  let ?st = "svImports (sysServer dyingSystem)"
  have "updates kiMeta (admitsImport refDeps) (withoutFinalizer refDeps dyingImport) ?st (put kiMeta releasedImport ?st)"
  proof (rule updates_now [where cur = dyingImport])
    show "admitsImport refDeps dyingImport (withoutFinalizer refDeps dyingImport) releasedImport"
      by (simp add: admitsImport_def dying_defs)
    show "fresh kiMeta ?st releasedImport"
      by (simp add: fresh_def dyingSystem_def smallServer_def holding_def dying_defs)
    show "storeNow ?st (keyOf (kiMeta (withoutFinalizer refDeps dyingImport))) = Some dyingImport"
      by (simp add: dyingSystem_def smallServer_def holding_def dying_facts)
  qed (simp add: dying_defs)
  from serves_import [OF this, of releasedImport] show ?thesis
    by (simp add: dying_facts releasedSystem_def Let_def del: serves.simps)
qed

lemma dying_execution: "\<exists>as. execution refDeps engine A dyingSystem as (releasedSystem (IFinalizer releasedImport))"
proof -
  let ?\<sigma>1 = "dyingSystem\<lparr>sysThreads := [0 \<mapsto> ImportRun exampleKey IStart]\<rparr>" and ?cr = dyingImport
  let ?reads = "[EvGetKeycloakImport exampleKey (Inr ?cr), EvListJobs (targetNamespace ?cr) (ownerSelector ?cr) (Inr []),
      EvListSecrets (targetNamespace ?cr) (ownerSelector ?cr) (Inr [])]"
  let ?release = "EvUpdateKeycloakImport (withoutFinalizer refDeps ?cr) (Inr releasedImport)"
  have start: "execution refDeps engine A dyingSystem ([] @ [Starts 0]) ?\<sigma>1"
    using e_step [OF e_none s_import_start, of refDeps engine A dyingSystem 0 exampleKey] by (simp add: dyingSystem_def)
  have "served_calls refDeps A (sysServer dyingSystem) ?reads (sysServer dyingSystem)"
    by (rule chain_reads) (simp add: dyingSystem_def smallServer_def holding_def dying_facts)
  then have calls: "served_calls refDeps A (sysServer dyingSystem) (?reads @ [?release]) (sysServer (releasedSystem (IFinalizer releasedImport)))"
    by (rule chain_append) (rule chain_single, rule answered_serves, rule release_served)
  have "istep refDeps engine exampleKey (IDeleteSecrets ?cr []) ?release (IFinalizer releasedImport)"
    using i_release [of refDeps engine exampleKey ?cr releasedImport] by (simp add: enter_def dying_facts)
  moreover have "path (istep refDeps engine exampleKey) IStart ?reads (IDeleteSecrets ?cr [])"
    by (rule path.go, rule i_delete [OF dying_facts(1,2)], rule path.go, rule i_jobs_owned, rule path.go,
        rule i_secrets_owned, rule path.stop)
  ultimately have "path (istep refDeps engine exampleKey) IStart (?reads @ [?release]) (IFinalizer releasedImport)"
    by (intro path_snocI)
  then obtain as where "execution refDeps engine A ?\<sigma>1 as (releasedSystem (IFinalizer releasedImport))"
    using import_chain [OF calls, of engine exampleKey IStart "IFinalizer releasedImport" ?\<sigma>1 0]
    by (auto simp: releasedSystem_def Let_def)
  with start show ?thesis using execution_append by blast
qed

lemma refused_step:
  "sstep refDeps engine A (releasedSystem (IFinalizer releasedImport))
     (Calls 0 (EvUpdateKeycloakImport (withFinalizer refDeps releasedImport) (Inl conflict)))
     (releasedSystem (IEnd (result (Some conflict))))"
  using s_import_call [of "releasedSystem (IFinalizer releasedImport)" 0 exampleKey "IFinalizer releasedImport" refDeps engine,
      OF _ i_finalizer_err serves_nothing(5)]
  by (simp add: releasedSystem_def Let_def)

text \<open>The same run by the code, on the server in memory.\<close>

definition memoryState :: "memWorld sys" where
  "memoryState = \<lparr>world = \<lparr>mwServer = sysServer liveSystem, mwTick = 9,
     mwKeycloaks = [objectKey ''identity'' ''sso'' \<mapsto> readyKeycloak], mwSecrets = [objectKey ''identity'' ''realm-a'' \<mapsto> realmSecret],
     mwJobKeys = [keyOf (jobMeta doneJob)], mwImportKeys = [exampleKey]\<rparr>, trace = []\<rparr>"

lemma memory_reads:
  "GetKeycloakImport memClient exampleKey (world memoryState) = (Inr (storedAs ''3'' liveImport), world memoryState)"
  "GetKeycloak memClient (instanceKey (storedAs ''3'' liveImport)) (world memoryState) = (Inr readyKeycloak, world memoryState)"
  "GetStatefulSet memClient (workloadKey readyKeycloak) (world memoryState) = (Inr (markedSts ''1''), world memoryState)"
  "ListJobs memClient (targetNamespace (storedAs v liveImport)) (nameSelector (storedAs v liveImport)) (world memoryState) =
     (Inr [doneJob], world memoryState)"
  by (simp_all add: memClient_def memGet_def memoryState_def memListJobs_def liveSystem_def smallServer_def holding_def
      storedAs_def liveImport_def exampleImport_def instanceKey_def readyKeycloak_def exampleKeycloak_def
      GetStatefulSetName_def keyOf_def namedMeta_def List.map_filter_def doneJob_def jobLabels_def
      DecorateDefaultLabels_def GetOwnerLabels_def GetImportJobAnnotation_def constant_defs refDeps_def refMatches_def)

lemma memory_secret:
  "ApplySecret memClient (ImportRealmSecret_init (storedAs v liveImport))
     (Inr \<circ> ImportRealmSecret_MutateFn engine (storedAs v liveImport) Map.empty) (world memoryState) =
   (Inr (Inr realmSecret), world memoryState)"
proof -
  have "expandTemplate engine ''{}'' Map.empty = Inr ''{}''"
    by (simp add: expandTemplate_def parseTemplate.simps percent_def)
  then show ?thesis
    by (simp add: memClient_def memApplySecret_def memoryState_def mutating_def lookupOr_def ImportRealmSecret_init_def
        ImportRealmSecret_MutateFn_def realmSecret_def GetImportJobSecretName_def GetImportJobSecretRealmName_def
        storedAs_def liveImport_def exampleImport_def keyOf_def namedMeta_def)
qed

definition memoryRolled :: memWorld where
  "memoryRolled = (let w = world memoryState; V = mwServer w in
     written w (V\<lparr>svStatefulSets := put stsMeta (memStatefulSet w (markedSts ''1'') (rolled ''1'')) (svStatefulSets V)\<rparr>))"

lemma memory_rollout: "UpdateStatefulSet memClient (rolled ''1'') (world memoryState) = (None, memoryRolled)"
proof -
  let ?w = "world memoryState"
  have st: "svStatefulSets (mwServer ?w) = holding stsMeta (markedSts ''1'')"
    by (simp add: memoryState_def liveSystem_def smallServer_def)
  have "memUpdate stsMeta (memStatefulSet ?w) (rolled ''1'') (svStatefulSets (mwServer ?w)) =
      Some (memStatefulSet ?w (markedSts ''1'') (rolled ''1''))"
    unfolding st by (simp add: memUpdate_def holding_def fresh_def memStatefulSet_def versionOf_def)
  then show ?thesis by (simp add: memClient_def memUpdateStatefulSet_def memoryRolled_def Let_def)
qed

lemma memory_report:
  "\<exists>w'. UpdateKeycloakImportStatus memClient ((storedAs ''3'' liveImport)\<lparr>kiConditions := cs\<rparr>) memoryRolled = (None, w') \<and>
     svStatefulSets (mwServer w') = svStatefulSets (mwServer memoryRolled) \<and> mwSecrets w' = mwSecrets (world memoryState)"
proof -
  have st: "svImports (mwServer memoryRolled) = holding kiMeta (storedAs ''3'' liveImport)"
    by (simp add: memoryRolled_def memoryState_def liveSystem_def smallServer_def Let_def)
  have "\<exists>y. memUpdate kiMeta (memImportStatus memoryRolled) ((storedAs ''3'' liveImport)\<lparr>kiConditions := cs\<rparr>)
      (svImports (mwServer memoryRolled)) = Some y"
    unfolding st by (simp add: memUpdate_def holding_def fresh_def memImportStatus_def versionOf_def storedAs_def)
  then show ?thesis by (auto simp: memClient_def memImportStatusUpdate_def memoryRolled_def written_def Let_def)
qed

lemma memory_facts:
  "metaResourceVersion (secMeta realmSecret) = ''7''" "Now memClient w = (mwTick w, w)"
  "\<not> rolloutDone refDeps (storedAs v liveImport) (markedSts u) ''7''"
  "marker (mwServer memoryRolled) (objectKey ''identity'' ''sso'') ''realm-a/team'' = Some ''7''"
proof -
  show "\<not> rolloutDone refDeps (storedAs v liveImport) (markedSts u) ''7''"
    unfolding rolloutDone_def podAnnotations_def [symmetric] ref.MatchSet_single by (simp add: live_facts)
  have "podAnnotations (memStatefulSet (world memoryState) x z) = podAnnotations z" for x z
    by (simp add: memStatefulSet_def podAnnotations_def)
  then show "marker (mwServer memoryRolled) (objectKey ''identity'' ''sso'') ''realm-a/team'' = Some ''7''"
    by (simp add: memoryRolled_def Let_def marker_put live_facts) (simp add: memStatefulSet_def keyOf_def namedMeta_def)
qed (simp_all add: realmSecret_def memClient_def)

lemma memory_run:
  "\<exists>s'. Import_Reconcile refDeps engine memClient exampleKey memoryState = (Inr (result None), s') \<and>
     trace s' = runReads engine @ [EvUpdateStatefulSet (rolled ''1'') None,
       EvKeycloakImportStatus (importWithReady refDeps (mwTick memoryRolled) (storedAs ''3'' liveImport) ConditionTrue []) None] \<and>
     marker (mwServer (world s')) (objectKey ''identity'' ''sso'') ''realm-a/team'' = Some ''7'' \<and>
     mwSecrets (world memoryState) = mwSecrets (world s')"
proof -
  let ?cr = "storedAs ''3'' liveImport"
  obtain w' where w': "UpdateKeycloakImportStatus memClient
      (importWithReady refDeps (mwTick memoryRolled) ?cr ConditionTrue []) memoryRolled = (None, w')"
    "svStatefulSets (mwServer w') = svStatefulSets (mwServer memoryRolled)" "mwSecrets w' = mwSecrets (world memoryState)"
    using memory_report unfolding importWithReady_def by blast
  have t: "trace memoryState = []" by (simp add: memoryState_def)
  show ?thesis
    using marker_unchanged [OF w'(2)] w'(3)
    by (simp add: Import_Reconcile_def ensureFinalizer_def deleting_def [symmetric] hasFinalizer_def [symmetric]
        reconcileLive_def reconcileJobs_def ImportRealmSecret_CreateOrUpdate_def Import_HandleSuccess_def Let_def
        andThen_def call_def callBack_def lift_panic_def ret_def readClock_def rolloutChanges_def
        memory_reads memory_secret memory_rollout memory_facts live_facts t runReads_def w'(1) [unfolded importWithReady_def] importWithReady_def)
qed

section \<open>Properties\<close>

text \<open>
  C9: rollout markers of imports do not interfere. Start from any well-formed server with no run in progress,
  and let any number of reconciles of both controllers, and others, take any steps: stale reads, lost answers,
  crashes. A call of a controller then leaves the marker under a given key of a given stateful set as it is, or it is
  the rollout of an import with that key, and the marker is the revision it rolls out. So neither the Keycloak
  controller, which rebuilds the stateful set from a copy that may be old, nor the rollout of another import takes
  a marker away or sets it back.
\<close>

theorem markers_isolated:
  assumes "third_party d" and "wfServer (sysServer \<sigma>0)" and "sysThreads \<sigma>0 = Map.empty"
    and "execution d engine A \<sigma>0 as \<sigma>" and "sstep d engine A \<sigma> (Calls i e) \<sigma>'"
  shows "marker (sysServer \<sigma>') k mk = marker (sysServer \<sigma>) k mk \<or>
    (\<exists>cr rv sts r. e = EvUpdateStatefulSet (annotate cr rv sts) r \<and> GetImportJobAnnotation cr = mk \<and>
       k = keyOf (stsMeta sts) \<and> marker (sysServer \<sigma>') k mk = Some rv)"
  using assms(5)
proof (cases rule: sstep_call_cases)
  case (import_call req ph ph' V')
  note r = third_party.reachable [OF assms(1-4)]
  show ?thesis using marker_import_call [OF import_call(3,4) r(1) r(2) [OF import_call(2)]] by (simp add: import_call(1))
next
  case (keycloak_call req ph ph' V')
  have "owner_refs d" using assms(1) by (simp add: third_party_def)
  from owner_refs.marker_keycloak_call [OF this keycloak_call(3,4) third_party.reachable(1) [OF assms(1-4)]]
  show ?thesis by (simp add: keycloak_call(1))
qed

theorem markers_isolated_witness:
  "\<exists>as. execution refDeps (\<lambda>t m. Inr t) anything liveSystem as scanning \<and>
     sstep refDeps (\<lambda>t m. Inr t) anything scanning (Calls 0 (EvUpdateStatefulSet (rolled ''1'') None)) rolledOut \<and>
     marker (sysServer rolledOut) (objectKey ''identity'' ''sso'') ''realm-b/team'' = Some ''5''"
proof -
  obtain as where x: "execution refDeps (\<lambda>t m. Inr t) anything liveSystem as scanning" using live_execution by blast
  have "sysThreads liveSystem = Map.empty" by (simp add: liveSystem_def)
  note m = markers_isolated [OF third_party_refDeps small_wf(1) this x rollout_step,
      of "objectKey ''identity'' ''sso''" "''realm-b/team''"]
  have "marker (sysServer scanning) (objectKey ''identity'' ''sso'') ''realm-b/team'' = Some ''5''"
    by (simp add: scanning_def liveSystem_def smallServer_def holding_def marker_def keyOf_def namedMeta_def)
  moreover have "rv = ''5''" if "rolled ''1'' = annotate cr rv sts" "GetImportJobAnnotation cr = ''realm-b/team''" for cr rv sts
    using arg_cong [OF that(1), of "\<lambda>z. goLookup (podAnnotations z) ''realm-b/team''"] that(2) by (simp add: live_facts)
  ultimately show ?thesis using m x rollout_step by (intro exI [of _ as]) auto
qed

text \<open>
  C8: a revision is rolled out once. In every interleaving, an update of a stateful set that is accepted is the rollout
  of a revision whose import job was complete, for an import that was not being deleted; it was made from
  the stateful set that is stored at that moment, which does not carry the marker of that revision yet, and afterwards
  it does. A run with a stale copy of the stateful set cannot restart the pods again for the same revision.
\<close>

theorem rollouts_once:
  assumes "third_party d" and "wfServer (sysServer \<sigma>0)" and "sysThreads \<sigma>0 = Map.empty"
    and "execution d engine A \<sigma>0 as \<sigma>" and "sstep d engine A \<sigma> (Calls i (EvUpdateStatefulSet z None)) \<sigma>'"
  shows "\<exists>cr rv sts job. z = annotate cr rv sts \<and> \<not> deleting d cr \<and>
    job \<in> storePast (svJobs (sysServer \<sigma>)) \<and> IsJobCompleted job \<and> jobRevision cr job = rv \<and>
    storeNow (svStatefulSets (sysServer \<sigma>)) (keyOf (stsMeta sts)) = Some sts \<and>
    marker (sysServer \<sigma>) (keyOf (stsMeta sts)) (GetImportJobAnnotation cr) \<noteq> Some rv \<and>
    marker (sysServer \<sigma>') (keyOf (stsMeta sts)) (GetImportJobAnnotation cr) = Some rv"
  using assms(5)
proof (cases rule: sstep_call_cases)
  case (import_call req ph ph' V')
  note r = third_party.reachable [OF assms(1-4)]
  from third_party.rollout_call [OF assms(1) import_call(3) r(2) [OF import_call(2)]] obtain cr rv sts job where
    u: "z = annotate cr rv sts" "sts \<in> storePast (svStatefulSets (sysServer \<sigma>))" and
    j: "job \<in> storePast (svJobs (sysServer \<sigma>))" "IsJobCompleted job" "jobRevision cr job = rv" "\<not> deleting d cr"
    "goLookup (podAnnotations sts) (GetImportJobAnnotation cr) \<noteq> Some rv" by blast
  note a = third_party.rollout_accepted [OF assms(1) r(1) u(2) import_call(4) [unfolded u(1)]]
  with u(1) j show ?thesis unfolding import_call(1) by (intro exI [of _ cr] exI [of _ rv] exI [of _ sts] exI [of _ job]) (simp add: marker_def)
next
  case (keycloak_call req ph ph' V')
  then show ?thesis by (auto elim: kstep.cases)
qed

theorem rollouts_once_witness:
  "\<exists>as cr rv sts. execution refDeps (\<lambda>t m. Inr t) anything liveSystem as scanning \<and>
     sstep refDeps (\<lambda>t m. Inr t) anything scanning (Calls 0 (EvUpdateStatefulSet (rolled ''1'') None)) rolledOut \<and>
     rolled ''1'' = annotate cr rv sts \<and> marker (sysServer rolledOut) (keyOf (stsMeta sts)) (GetImportJobAnnotation cr) = Some rv"
proof -
  obtain as where x: "execution refDeps (\<lambda>t m. Inr t) anything liveSystem as scanning" using live_execution by blast
  have "sysThreads liveSystem = Map.empty" by (simp add: liveSystem_def)
  with rollouts_once [OF third_party_refDeps small_wf(1) this x rollout_step] x rollout_step show ?thesis by blast
qed

text \<open>
  C12: every marker stands for a completed import, unless another client writes markers. In every execution
  from a server without running reconciles in which the other clients leave the marker under a key as it is
  (creations and updates of stateful sets by others keep its value), a value that is found under it in a
  stateful set that is or was stored, so also in a copy that a cache may still hold, was there from the start or is
  the revision label of an import job that was stored as complete. Without that restriction another client
  could write any value.
\<close>

theorem markers_backed:
  assumes "third_party d" and "wfServer (sysServer \<sigma>0)" and "sysThreads \<sigma>0 = Map.empty"
    and "execution d engine (sameMarker mk) \<sigma>0 as \<sigma>"
    and "sts \<in> storePast (svStatefulSets (sysServer \<sigma>))" and "goLookup (podAnnotations sts) mk = Some v"
  shows "(\<exists>old \<in> storePast (svStatefulSets (sysServer \<sigma>0)). goLookup (podAnnotations old) mk = Some v) \<or>
    (\<exists>job \<in> storePast (svJobs (sysServer \<sigma>)). IsJobCompleted job \<and> goIndex (metaLabels (jobMeta job)) mk = v)"
proof -
  let ?S = "{v. \<exists>old \<in> storePast (svStatefulSets (sysServer \<sigma>0)). goLookup (podAnnotations old) mk = Some v}"
  have "backed mk ?S (sysServer \<sigma>0)" by (auto simp: backed_def)
  from third_party.reachable_backed(2) [OF assms(1,2) this assms(3,4)] assms(5,6)
  show ?thesis unfolding backed_def jobDone_def by blast
qed

theorem markers_backed_witness:
  "\<exists>as. execution refDeps (\<lambda>t m. Inr t) (sameMarker ''realm-a/team'') liveSystem as rolledOut \<and>
     (\<exists>job \<in> storePast (svJobs (sysServer rolledOut)).
        IsJobCompleted job \<and> goIndex (metaLabels (jobMeta job)) ''realm-a/team'' = ''7'')"
proof -
  let ?mk = "''realm-a/team''"
  obtain as where "execution refDeps (\<lambda>t m. Inr t) (sameMarker ?mk) liveSystem as scanning" using live_execution by blast
  from e_step [OF this rollout_step] obtain as' where
    x: "execution refDeps (\<lambda>t m. Inr t) (sameMarker ?mk) liveSystem as' rolledOut" by blast
  have "sysThreads liveSystem = Map.empty" "rolled ''9'' \<in> storePast (svStatefulSets (sysServer rolledOut))"
    "goLookup (podAnnotations (rolled ''9'')) ?mk = Some ''7''"
    by (simp_all add: liveSystem_def rolledOut_def Let_def live_facts)
  from markers_backed [OF third_party_refDeps small_wf(1) this(1) x this(2,3)] x show ?thesis
    by (auto simp: liveSystem_def smallServer_def holding_def)
qed

text \<open>
  C13: an import that is being deleted is only cleaned up. In every interleaving, a run that creates a job, writes
  a realm secret or rolls out works for a copy of the import that is not being deleted; and a run that has
  removed the finalizer of an import that is being deleted, and goes on to add it again, is refused, changes nothing
  and ends with that error.
\<close>

theorem deletions_only_clean_up:
  assumes "third_party d" and "wfServer (sysServer \<sigma>0)" and "sysThreads \<sigma>0 = Map.empty"
    and "execution d engine A \<sigma>0 as \<sigma>" and "sstep d engine A \<sigma> (Calls i e) \<sigma>'"
    and "sysThreads \<sigma> i = Some (ImportRun req ph)"
  shows "(creating e \<longrightarrow> (\<exists>cr. actingFor ph = Some cr \<and> \<not> deleting d cr)) \<and>
    (\<forall>cr. ph = IFinalizer cr \<and> deleting d cr \<longrightarrow>
       (\<exists>err. e = EvUpdateKeycloakImport (withFinalizer d cr) (Inl err) \<and> sysServer \<sigma>' = sysServer \<sigma> \<and>
          sysThreads \<sigma>' i = Some (ImportRun req (IEnd (result (Some err))))))"
proof -
  note r = third_party.reachable [OF assms(1-4)]
  from assms(5,6) obtain ph' V' where step: "istep d engine req ph e ph'" "serves d (sysServer \<sigma>) e V'"
    "\<sigma>' = \<lparr>sysServer = V', sysThreads = (sysThreads \<sigma>)(i \<mapsto> ImportRun req ph')\<rparr>"
    by (auto elim!: sstep_CallsE)
  have k: "known d (sysServer \<sigma>) (ImportRun req ph)" using r(2) assms(6) .
  have "\<exists>cr. actingFor ph = Some cr \<and> \<not> deleting d cr" if "creating e"
    using step(1) that k by (cases rule: istep.cases) auto
  moreover have "\<exists>err. e = EvUpdateKeycloakImport (withFinalizer d cr) (Inl err) \<and> V' = sysServer \<sigma> \<and>
      ph' = IEnd (result (Some err))" if "ph = IFinalizer cr" "deleting d cr" for cr
    using step(1) that(1)
  proof (cases rule: istep.cases)
    case (i_finalizer cr0 cr')
    with that k third_party.refinalize_fails [OF assms(1) r(1), of cr "Inr cr'" V'] step(2) show ?thesis by simp
  next
    case (i_finalizer_err cr0 err)
    with that k third_party.refinalize_fails [OF assms(1) r(1), of cr "Inl err" V'] step(2) show ?thesis by simp
  qed simp_all
  ultimately show ?thesis unfolding step(3) by auto
qed

theorem deletions_only_clean_up_witness:
  "\<exists>as. execution refDeps (\<lambda>t m. Inr t) anything dyingSystem as (releasedSystem (IFinalizer releasedImport)) \<and>
     sstep refDeps (\<lambda>t m. Inr t) anything (releasedSystem (IFinalizer releasedImport))
       (Calls 0 (EvUpdateKeycloakImport (withFinalizer refDeps releasedImport) (Inl conflict)))
       (releasedSystem (IEnd (result (Some conflict)))) \<and>
     sysServer (releasedSystem (IEnd (result (Some conflict)))) = sysServer (releasedSystem (IFinalizer releasedImport))"
proof -
  obtain as where x: "execution refDeps (\<lambda>t m. Inr t) anything dyingSystem as (releasedSystem (IFinalizer releasedImport))"
    using dying_execution by blast
  have "sysThreads dyingSystem = Map.empty"
    "sysThreads (releasedSystem (IFinalizer releasedImport)) 0 = Some (ImportRun exampleKey (IFinalizer releasedImport))"
    by (simp_all add: dyingSystem_def releasedSystem_def Let_def)
  from deletions_only_clean_up [OF third_party_refDeps small_wf(2) this(1) x refused_step this(2)] x refused_step
  show ?thesis by (auto simp: dying_facts)
qed

text \<open>
  C11: the code is part of that system. Take any client whose calls are served like those of the API server, in
  between of which others may do anything. A reconcile of either controller is then an execution of the system: from the state
  of the server before the run, with a thread at its start beside any other threads, to the state of the server after it;
  the calls of the execution are the calls that the run has made, all by that thread, and the thread ends in the
  phase that stands for the result of the run. So what holds in every execution holds of the code.
\<close>

theorem reconciles_simulated:
  assumes "api_server d A c view"
  shows "(case Import_Reconcile d engine c req s of (r, s') \<Rightarrow>
      \<exists>as ph es. execution d engine A \<lparr>sysServer = view (world s), sysThreads = T(i \<mapsto> ImportRun req IStart)\<rparr> as
          \<lparr>sysServer = view (world s'), sysThreads = T(i \<mapsto> ImportRun req ph)\<rparr> \<and>
        callsOf as = map (Pair i) es \<and> trace s' = trace s @ es \<and> iresult r ph) \<and>
    (case Keycloak_Reconcile d c req s of (r, s') \<Rightarrow>
      \<exists>as ph es. execution d engine A \<lparr>sysServer = view (world s), sysThreads = T(i \<mapsto> KeycloakRun req KStart)\<rparr> as
          \<lparr>sysServer = view (world s'), sysThreads = T(i \<mapsto> KeycloakRun req ph)\<rparr> \<and>
        callsOf as = map (Pair i) es \<and> trace s' = trace s @ es \<and> kresult r ph)"
proof (intro conjI; clarify)
  fix r s' assume "Import_Reconcile d engine c req s = (r, s')"
  then show "\<exists>as ph es. execution d engine A \<lparr>sysServer = view (world s), sysThreads = T(i \<mapsto> ImportRun req IStart)\<rparr> as
      \<lparr>sysServer = view (world s'), sysThreads = T(i \<mapsto> ImportRun req ph)\<rparr> \<and>
    callsOf as = map (Pair i) es \<and> trace s' = trace s @ es \<and> iresult r ph"
    by (rule api_server.import_execution [OF assms, where i = i and
          \<sigma> = "\<lparr>sysServer = view (world s), sysThreads = T(i \<mapsto> ImportRun req IStart)\<rparr>"]) auto
next
  fix r s' assume "Keycloak_Reconcile d c req s = (r, s')"
  then show "\<exists>as ph es. execution d engine A \<lparr>sysServer = view (world s), sysThreads = T(i \<mapsto> KeycloakRun req KStart)\<rparr> as
      \<lparr>sysServer = view (world s'), sysThreads = T(i \<mapsto> KeycloakRun req ph)\<rparr> \<and>
    callsOf as = map (Pair i) es \<and> trace s' = trace s @ es \<and> kresult r ph"
    by (rule api_server.keycloak_execution [OF assms, where i = i and
          \<sigma> = "\<lparr>sysServer = view (world s), sysThreads = T(i \<mapsto> KeycloakRun req KStart)\<rparr>"]) auto
qed

theorem reconciles_simulated_witness:
  "\<exists>s' as ph. Import_Reconcile refDeps (\<lambda>t m. Inr t) memClient exampleKey memoryState = (Inr (result None), s') \<and>
     length (trace s') = 7 \<and> callsOf as = map (Pair 0) (trace s') \<and>
     execution refDeps (\<lambda>t m. Inr t) anything
       \<lparr>sysServer = sysServer liveSystem, sysThreads = [0 \<mapsto> ImportRun exampleKey IStart]\<rparr> as
       \<lparr>sysServer = mwServer (world s'), sysThreads = [0 \<mapsto> ImportRun exampleKey ph]\<rparr>"
proof -
  obtain s' where run: "Import_Reconcile refDeps (\<lambda>t m. Inr t) memClient exampleKey memoryState = (Inr (result None), s')"
    "length (trace s') = 7" using memory_run by (force simp: runReads_def Let_def)
  have "mwServer (world memoryState) = sysServer liveSystem" "trace memoryState = []" by (simp_all add: memoryState_def)
  with reconciles_simulated [OF mem.api_server_axioms [of anything], where engine = "\<lambda>t m. Inr t" and req = exampleKey
      and s = memoryState and T = Map.empty and i = 0] run
  show ?thesis by force
qed

text \<open>
  C40: two imports of the same name, in different namespaces, for instances in one namespace get in each other's way, although
  labels and markers tell them apart. They share the realm secret, and no secret is settled for both: what
  one stores the other rewrites, so that the revision changes with every reconcile. They share the name of the
  import job, and a job of one is listed for the other and stale for it, whatever the revision.
\<close>

theorem imports_collide:
  assumes "label_selector d" and "metaName (kiMeta cr1) = metaName (kiMeta cr2)" and "metaNamespace (kiMeta cr1) \<noteq> metaNamespace (kiMeta cr2)"
    and "targetNamespace cr1 = targetNamespace cr2" and "metaName (kiMeta cr1) \<noteq> ''realm.stakater.com''"
    and "ImportRealmSecret_MutateFn engine cr1 m1 s = Inr s1" and "ImportRealmSecret_MutateFn engine cr2 m2 s1 = Inr s2"
    and "Job_Build cr1 sts rv1 = Inr (Inr j1)" and "Job_Build cr2 sts rv2 = Inr (Inr j2)" and "rv2 \<noteq> []"
  shows "keyOf (secMeta (ImportRealmSecret_init cr1)) = keyOf (secMeta (ImportRealmSecret_init cr2)) \<and> s2 \<noteq> s1 \<and>
    keyOf (jobMeta j1) = keyOf (jobMeta j2) \<and> SelectorMatches d (nameSelector cr2) (goSet (metaLabels (jobMeta j1))) \<and>
    jobRevision cr2 j1 \<noteq> rv2"
proof (intro conjI)
  note j = Job_Build_meta [OF assms(8)] Job_Build_meta [OF assms(9)]
  show "keyOf (secMeta (ImportRealmSecret_init cr1)) = keyOf (secMeta (ImportRealmSecret_init cr2))"
    using assms(2,4) by (simp add: ImportRealmSecret_init_def GetImportJobSecretName_def)
  show "keyOf (jobMeta j1) = keyOf (jobMeta j2)"
    unfolding j using assms(2) by (simp add: GetImportJobName_def keyOf_def namedMeta_def)
  have "goLookup (metaLabels (secMeta s1)) RHBKImportNamespaceLabel = Some (metaNamespace (kiMeta cr1))"
    "goLookup (metaLabels (secMeta s2)) RHBKImportNamespaceLabel = Some (metaNamespace (kiMeta cr2))"
    using assms(6,7) by (auto simp: ImportRealmSecret_MutateFn_def GetOwnerLabels_def constant_defs Let_def split: sum.splits)
  with assms(3) show "s2 \<noteq> s1" by auto
  have n: "GetImportJobAnnotation cr1 \<notin> {RHBKImportOwnerLabel, RHBKImportNamespaceLabel}"
    "GetImportJobAnnotation cr2 \<notin> {RHBKImportOwnerLabel, RHBKImportNamespaceLabel}"
    using annotation_not_owner assms(2,5) by metis+
  then have l: "goLookup (metaLabels (jobMeta j1)) RHBKImportOwnerLabel = Some (metaName (kiMeta cr2))"
    unfolding j using assms(2) by (auto simp: jobLabels_lookup GetOwnerLabels_def constant_defs)
  then show "SelectorMatches d (nameSelector cr2) (goSet (metaLabels (jobMeta j1)))"
    using label_selector.selector_iff [OF assms(1)] by (simp add: goSet_lookup)
  have "goLookup (metaLabels (jobMeta j1)) (GetImportJobAnnotation cr2) = None"
    unfolding j using n(2) assms(2,3) annotation_not_app [of cr2]
    by (simp add: jobLabels_lookup GetOwnerLabels_def GetImportJobAnnotation_def)
  with assms(10) show "jobRevision cr2 j1 \<noteq> rv2" by (simp add: jobRevision_def goIndex_def)
qed

theorem imports_collide_witness:
  "\<exists>s1 s2 j1 j2. let other = exampleImport\<lparr>kiMeta := namedMeta ''realm-a'' ''guests''\<rparr> in
     ImportRealmSecret_MutateFn (\<lambda>t m. Inr t) exampleImport Map.empty realmSecret = Inr s1 \<and>
     ImportRealmSecret_MutateFn (\<lambda>t m. Inr t) other Map.empty s1 = Inr s2 \<and>
     Job_Build exampleImport exampleSts ''7'' = Inr (Inr j1) \<and> Job_Build other exampleSts ''8'' = Inr (Inr j2) \<and>
     s2 \<noteq> s1 \<and> keyOf (jobMeta j1) = keyOf (jobMeta j2) \<and> jobRevision other j1 \<noteq> ''8''"
proof -
  let ?o = "exampleImport\<lparr>kiMeta := namedMeta ''realm-a'' ''guests''\<rparr>"
  have "expandTemplate (\<lambda>t m. Inr t) ''{}'' Map.empty = Inr ''{}''"
    by (simp add: expandTemplate_def parseTemplate.simps percent_def)
  then obtain s1 s2 where s: "ImportRealmSecret_MutateFn (\<lambda>t m. Inr t) exampleImport Map.empty realmSecret = Inr s1"
    "ImportRealmSecret_MutateFn (\<lambda>t m. Inr t) ?o Map.empty s1 = Inr s2"
    by (simp add: ImportRealmSecret_MutateFn_def exampleImport_def)
  have "podContainers (tplSpec (stsTemplate (stsSpec exampleSts))) \<noteq> []" by (simp add: exampleSts_def rhbkStatefulSetSpec_def)
  then obtain j1 j2 where j: "Job_Build exampleImport exampleSts ''7'' = Inr (Inr j1)" "Job_Build ?o exampleSts ''8'' = Inr (Inr j2)"
    using Job_Build_result [of exampleImport exampleSts "''7''"] Job_Build_result [of ?o exampleSts "''8''"] by metis
  have d: "label_selector refDeps" ..
  from imports_collide [OF d _ _ _ _ s j] s j show ?thesis
    by (auto simp: exampleImport_def namedMeta_def Let_def)
qed

end
