(* ===== verification/ImportStable.thy ===== *)
theory ImportStable
  imports Concurrency
begin

text \<open>
  An import that has not changed is not imported again. The revision of an import is the version of its
  realm secret, so this rests on the secret being written only when its content changes. The laws of the secrets
  of a cluster are those of \<^verbatim>\<open>CreateOrUpdate\<close>, without other writers during a run.
\<close>

section \<open>The secrets of a cluster\<close>

type_synonym secrets = "ObjectKey \<rightharpoonup> Secret"

definition keepsSecret :: "Secret \<Rightarrow> Secret \<Rightarrow> bool" where
  "keepsSecret z y \<longleftrightarrow> sameMeta (secMeta z) (secMeta y) \<and> secData y = secData z"

text \<open>
  \<^verbatim>\<open>CreateOrUpdate\<close> mutates the stored secret, or the given one, and stores the result under a new version; it
  writes nothing when the mutate function changes nothing. A call that fails may have written.
\<close>

fun secretCalls :: "secrets \<Rightarrow> event \<Rightarrow> secrets \<Rightarrow> bool" where
  "secretCalls V (EvGetSecret k r) V' \<longleftrightarrow> V' = V \<and> (\<forall>x. r = Inr x \<longrightarrow> V k = Some x)"
| "secretCalls V (EvDeleteSecret s r) V' \<longleftrightarrow> V' = V \<or> V' = V(keyOf (secMeta s) := None)"
| "secretCalls V (EvApplySecret obj f r) V' \<longleftrightarrow>
     (let k = keyOf (secMeta obj); x = lookupOr secMeta V obj in
      (V' = V \<or> (\<exists>z y. f x = Inr (Inr z) \<and> keepsSecret z y \<and> V' = V(k \<mapsto> y))) \<and>
      (\<forall>y. r = Inr (Inr y) \<longrightarrow> V' k = Some y \<and> (\<exists>z. f x = Inr (Inr z) \<and> keepsSecret z y)) \<and>
      (V k = Some x \<and> f x = Inr (Inr x) \<longrightarrow> V' = V))"
| "secretCalls V e V' \<longleftrightarrow> V' = V"

locale secret_store = client_laws c secrets secretCalls "(=)"
  for c :: "'w client" and secrets :: "'w \<Rightarrow> secrets"

section \<open>The settled secret of an import\<close>

text \<open>The values of the substitutions, read from the secrets of the cluster.\<close>

abbreviation sourceKey :: "KeycloakImport \<Rightarrow> SecretKeySelector \<Rightarrow> ObjectKey" where
  "sourceKey cr sel \<equiv> objectKey (metaNamespace (kiMeta cr)) (selName sel)"

abbreviation realmKey :: "KeycloakImport \<Rightarrow> ObjectKey" where
  "realmKey cr \<equiv> keyOf (secMeta (ImportRealmSecret_init cr))"

fun substituted :: "secrets \<Rightarrow> KeycloakImport \<Rightarrow> SecretOptionVar list \<Rightarrow> labels \<Rightarrow> labels option" where
  "substituted V cr [] m = Some m"
| "substituted V cr (sub # subs) m =
     (case sovSecret sub of
        None \<Rightarrow> None
      | Some sel \<Rightarrow> (case V (sourceKey cr sel) of
          None \<Rightarrow> None
        | Some sec \<Rightarrow> substituted V cr subs (m(sovName sub \<mapsto> subValue sub sec))))"

definition settled :: "secrets \<Rightarrow> template_engine \<Rightarrow> KeycloakImport \<Rightarrow> Secret \<Rightarrow> bool" where
  "settled V engine cr sec \<longleftrightarrow> V (realmKey cr) = Some sec \<and>
     (\<exists>m. substituted V cr (kiSubstitutions (kiSpec cr)) Map.empty = Some m \<and> ImportRealmSecret_MutateFn engine cr m sec = Inr sec)"

text \<open>No substitution of the import reads the secret that the import writes.\<close>

definition noSelfReference :: "KeycloakImport \<Rightarrow> bool" where
  "noSelfReference cr \<longleftrightarrow>
     list_all (\<lambda>sub. case sovSecret sub of None \<Rightarrow> True | Some sel \<Rightarrow> sourceKey cr sel \<noteq> realmKey cr) (kiSubstitutions (kiSpec cr))"

lemma substituted_other:
  "list_all (\<lambda>sub. case sovSecret sub of None \<Rightarrow> True | Some sel \<Rightarrow> sourceKey cr sel \<noteq> k) subs \<Longrightarrow>
   substituted (V(k := x)) cr subs m = substituted V cr subs m"
  by (induction subs arbitrary: m) (auto split: option.splits)

lemma MutateFn_again:
  assumes "ImportRealmSecret_MutateFn engine cr m x = Inr z" "keepsSecret z y"
  shows "ImportRealmSecret_MutateFn engine cr m y = Inr y"
  using assms
  by (auto simp: ImportRealmSecret_MutateFn_def keepsSecret_def Let_def split: sum.splits elim!: sameMetaE)

lemma apply_settles:
  assumes "secretCalls V (EvApplySecret (ImportRealmSecret_init cr) (Inr \<circ> ImportRealmSecret_MutateFn engine cr m) (Inr (Inr sec))) V'"
    and "noSelfReference cr" "substituted V cr (kiSubstitutions (kiSpec cr)) Map.empty = Some m"
  shows "settled V' engine cr sec"
proof -
  from assms(1) have "V' (realmKey cr) = Some sec" and V': "V' = V \<or> (\<exists>y. V' = V(realmKey cr \<mapsto> y))"
    and "ImportRealmSecret_MutateFn engine cr m sec = Inr sec"
    by (auto simp: Let_def intro: MutateFn_again)
  moreover have "substituted V' cr (kiSubstitutions (kiSpec cr)) Map.empty = Some m"
    using V' assms(2,3) substituted_other unfolding noSelfReference_def by fastforce
  ultimately show ?thesis by (simp add: settled_def)
qed

lemma apply_settled:
  assumes "secretCalls V (EvApplySecret (ImportRealmSecret_init cr) (Inr \<circ> ImportRealmSecret_MutateFn engine cr m) r) V'"
    and "substituted V cr (kiSubstitutions (kiSpec cr)) Map.empty = Some m" "settled V engine cr sec"
  shows "V' = V"
  using assms by (auto simp: Let_def settled_def lookupOr_def)

section \<open>A run\<close>

fun acting :: "event \<Rightarrow> bool" where
  "acting (EvApplySecret obj f r) = True"
| "acting (EvCreateJob job r) = True"
| "acting (EvDeleteJob job r) = True"
| "acting _ = False"

text \<open>
  What a run from the secrets \<open>V0\<close> to \<open>V\<close> has done: what it stored is settled, jobs were created and deleted for the
  settled revision, and secrets that were settled before are as before.
\<close>

definition settling :: "template_engine \<Rightarrow> KeycloakImport \<Rightarrow> secrets \<Rightarrow> secrets \<Rightarrow> event list \<Rightarrow> bool" where
  "settling engine cr V0 V es \<longleftrightarrow>
     (\<forall>f sec. EvApplySecret (ImportRealmSecret_init cr) f (Inr (Inr sec)) \<in> set es \<longrightarrow> settled V engine cr sec) \<and>
     (\<forall>job r. EvCreateJob job r \<in> set es \<longrightarrow> (\<exists>sts sec jobs. settled V engine cr sec \<and>
        Job_Build cr sts (metaResourceVersion (secMeta sec)) = Inr (Inr job) \<and> jobsListed es cr (nameSelector cr) jobs \<and>
        list_all (\<lambda>j. jobRevision cr j \<noteq> metaResourceVersion (secMeta sec)) jobs)) \<and>
     (\<forall>job r. EvDeleteJob job r \<in> set es \<longrightarrow> (\<exists>sec. settled V engine cr sec \<and>
        jobRevision cr job \<noteq> metaResourceVersion (secMeta sec))) \<and>
     (\<forall>sec. settled V0 engine cr sec \<longrightarrow> V = V0)"

definition settledAs :: "secrets \<Rightarrow> template_engine \<Rightarrow> KeycloakImport \<Rightarrow> string \<Rightarrow> bool" where
  "settledAs V engine cr rv \<longleftrightarrow> (\<exists>sec. settled V engine cr sec \<and> rv = metaResourceVersion (secMeta sec))"

fun settlesIn :: "template_engine \<Rightarrow> KeycloakImport \<Rightarrow> secrets \<Rightarrow> event list \<Rightarrow> secrets \<Rightarrow> iphase \<Rightarrow> bool" where
  "settlesIn engine cr V0 es V (IInstance cr') \<longleftrightarrow> cr' = cr \<and> V = V0 \<and> list_all (\<lambda>e. \<not> acting e) es"
| "settlesIn engine cr V0 es V (IWorkload cr' kc) \<longleftrightarrow> cr' = cr \<and> V = V0 \<and> list_all (\<lambda>e. \<not> acting e) es"
| "settlesIn engine cr V0 es V (ISubstitute cr' sts subs m) \<longleftrightarrow> cr' = cr \<and> V = V0 \<and> list_all (\<lambda>e. \<not> acting e) es \<and>
     substituted V cr (kiSubstitutions (kiSpec cr)) Map.empty = substituted V cr subs m"
| "settlesIn engine cr V0 es V (IJobs cr' sts rv) \<longleftrightarrow> cr' = cr \<and> settledAs V engine cr rv \<and> settling engine cr V0 V es"
| "settlesIn engine cr V0 es V (IScan cr' sts rv jobs) \<longleftrightarrow> cr' = cr \<and> settledAs V engine cr rv \<and> settling engine cr V0 V es"
| "settlesIn engine cr V0 es V (IReport cr' st msg) \<longleftrightarrow> settling engine cr V0 V es"
| "settlesIn engine cr V0 es V (IEnd r) \<longleftrightarrow> settling engine cr V0 V es"
| "settlesIn engine cr V0 es V (IPanic p) \<longleftrightarrow> settling engine cr V0 V es"
| "settlesIn engine cr V0 es V ph \<longleftrightarrow> False"

lemma settling_idle: "list_all (\<lambda>e. \<not> acting e) es \<Longrightarrow> settling engine cr V V es"
  by (auto simp: settling_def list_all_iff)

lemma settling_mono:
  "settling engine cr V0 V es \<Longrightarrow> EvCreateJob job r \<in> set es \<Longrightarrow> \<exists>sts sec jobs. settled V engine cr sec \<and>
     Job_Build cr sts (metaResourceVersion (secMeta sec)) = Inr (Inr job) \<and> jobsListed (es @ es') cr (nameSelector cr) jobs \<and>
     list_all (\<lambda>j. jobRevision cr j \<noteq> metaResourceVersion (secMeta sec)) jobs"
  unfolding settling_def by (blast intro: justification_mono(4))

lemma settling_quiet: "settling engine cr V0 V es \<Longrightarrow> \<not> acting e \<Longrightarrow> settling engine cr V0 V (es @ [e])"
  using settling_mono [of engine cr V0 V es _ _ "[e]"] by (auto simp: settling_def)

lemma settling_delete:
  "settling engine cr V0 V es \<Longrightarrow> settledAs V engine cr rv \<Longrightarrow> jobRevision cr job \<noteq> rv \<Longrightarrow>
   settling engine cr V0 V (es @ [EvDeleteJob job r])"
  using settling_mono [of engine cr V0 V es _ _ "[EvDeleteJob job r]"] by (auto simp: settling_def settledAs_def)

lemma settling_create:
  assumes "settling engine cr V0 V es" "settledAs V engine cr rv" "Job_Build cr sts rv = Inr (Inr job)" "scanned es cr rv []"
  shows "settling engine cr V0 V (es @ [EvCreateJob job r])"
proof -
  from assms(4) obtain jobs where "jobsListed es cr (nameSelector cr) jobs" "list_all (\<lambda>j. jobRevision cr j \<noteq> rv) jobs"
    by (auto simp: scanned_def list_all_iff)
  from justification_mono(4) [OF this(1), of "[EvCreateJob job r]"] this(2) assms(1-3)
    settling_mono [of engine cr V0 V es _ _ "[EvCreateJob job r]"]
  show ?thesis unfolding settling_def settledAs_def by auto
qed

lemma settling_apply:
  assumes "list_all (\<lambda>e. \<not> acting e) es" "noSelfReference cr"
    and "substituted V cr (kiSubstitutions (kiSpec cr)) Map.empty = Some m"
    and "secretCalls V (EvApplySecret (ImportRealmSecret_init cr) (Inr \<circ> ImportRealmSecret_MutateFn engine cr m) r) V'"
  shows "settling engine cr V V' (es @ [EvApplySecret (ImportRealmSecret_init cr) (Inr \<circ> ImportRealmSecret_MutateFn engine cr m) r])"
    and "r = Inr (Inr sec) \<Longrightarrow> settledAs V' engine cr (metaResourceVersion (secMeta sec))"
proof -
  have new: "settled V' engine cr sec" if "r = Inr (Inr sec)" for sec
    using apply_settles [OF _ assms(2,3)] assms(4) that by blast
  then show "r = Inr (Inr sec) \<Longrightarrow> settledAs V' engine cr (metaResourceVersion (secMeta sec))"
    by (auto simp: settledAs_def)
  show "settling engine cr V V' (es @ [EvApplySecret (ImportRealmSecret_init cr) (Inr \<circ> ImportRealmSecret_MutateFn engine cr m) r])"
    using assms(1) new apply_settled [OF assms(4,3)] by (auto simp: settling_def list_all_iff simp del: secretCalls.simps)
qed

lemma settles_secret:
  assumes "settlesIn engine cr V0 es V (ISubstitute cr' sts [] m)" "noSelfReference cr"
    and "secretCalls V (EvApplySecret (ImportRealmSecret_init cr') (Inr \<circ> ImportRealmSecret_MutateFn engine cr' m) r) V'"
  shows "settling engine cr V0 V' (es @ [EvApplySecret (ImportRealmSecret_init cr') (Inr \<circ> ImportRealmSecret_MutateFn engine cr' m) r])"
    and "cr' = cr" and "r = Inr (Inr sec) \<Longrightarrow> settledAs V' engine cr (metaResourceVersion (secMeta sec))"
proof -
  from assms(1) have eq: "cr' = cr" "V0 = V" and pre: "list_all (\<lambda>e. \<not> acting e) es"
    "substituted V cr (kiSubstitutions (kiSpec cr)) Map.empty = Some m" by auto
  note s = settling_apply [OF pre(1) assms(2) pre(2) assms(3) [unfolded eq(1)]]
  from s(1) show "settling engine cr V0 V' (es @ [EvApplySecret (ImportRealmSecret_init cr')
      (Inr \<circ> ImportRealmSecret_MutateFn engine cr' m) r])" unfolding eq .
  show "r = Inr (Inr sec) \<Longrightarrow> settledAs V' engine cr (metaResourceVersion (secMeta sec))" by (rule s(2))
qed (use assms(1) in simp)

lemma istep_settles:
  assumes "istep d engine req ph e ph'" "secretCalls V e V'" "settlesIn engine cr V0 es V ph" "noSelfReference cr"
    and "iinv d engine req es ph"
  shows "settlesIn engine cr V0 (es @ [e]) V' ph'"
  using assms(1)
proof (cases rule: istep.cases)
  case (i_secret cr' sts m sec)
  from settles_secret [OF assms(3) [unfolded i_secret(1)] assms(4) assms(2) [unfolded i_secret(2)]]
  show ?thesis unfolding i_secret by simp
next
  case (i_secret_err cr' sts m err)
  from settles_secret [OF assms(3) [unfolded i_secret_err(1)] assms(4) assms(2) [unfolded i_secret_err(2)]]
  show ?thesis unfolding i_secret_err by simp
next
  case (i_secret_panic cr' sts m p)
  from settles_secret [OF assms(3) [unfolded i_secret_panic(1)] assms(4) assms(2) [unfolded i_secret_panic(2)]]
  show ?thesis unfolding i_secret_panic by simp
qed (use assms(2,3,5) in \<open>auto intro: settling_idle settling_quiet settling_delete settling_create\<close>)

text \<open>From the start of a run that reads \<open>cr\<close>.\<close>

definition settlesRun ::
  "deps \<Rightarrow> template_engine \<Rightarrow> ObjectKey \<Rightarrow> KeycloakImport \<Rightarrow> secrets \<Rightarrow> event list \<Rightarrow> secrets \<Rightarrow> iphase \<Rightarrow> bool" where
  "settlesRun d engine req cr V0 es V ph \<longleftrightarrow> iinv d engine req es ph \<and>
     (if ph = IStart then V = V0 else EvGetKeycloakImport req (Inr cr) \<in> set es \<longrightarrow> settlesIn engine cr V0 es V ph)"

lemma istep_not_start: "istep d engine req ph e ph' \<Longrightarrow> ph' \<noteq> IStart"
  by (cases rule: istep.cases, assumption) (auto simp: enter_def)

lemma istep_reads_first: "istep d engine req ph (EvGetKeycloakImport k r) ph' \<Longrightarrow> ph = IStart"
  by (cases rule: istep.cases, assumption) auto

lemma istep_settlesRun:
  assumes "istep d engine req ph e ph'" "secretCalls V e V'" "settlesRun d engine req cr V0 es V ph"
    and "\<not> deleting d cr" "hasFinalizer d cr" "noSelfReference cr"
  shows "settlesRun d engine req cr V0 (es @ [e]) V' ph'"
proof (cases "ph = IStart")
  case True
  with assms(3) have start: "es = []" "V = V0" by (auto simp: settlesRun_def)
  have "settlesIn engine cr V0 [e] V' ph'" if "e = EvGetKeycloakImport req (Inr cr)"
    using assms(1) True
  proof (cases rule: istep.cases)
    case (i_live cr')
    with that start assms(2,5) show ?thesis by (simp add: enter_def)
  qed (use that assms(4) in auto)
  with assms(1,3) True start istep_not_start [OF assms(1)] istep_iinv [OF assms(1)] show ?thesis
    by (auto simp: settlesRun_def)
next
  case False
  with istep_reads_first assms(1) have "e \<noteq> EvGetKeycloakImport req (Inr cr)" by blast
  with False assms(3) istep_not_start [OF assms(1)] istep_iinv [OF assms(1)]
    istep_settles [OF assms(1,2) _ assms(6), of V0 es] show ?thesis
    by (auto simp: settlesRun_def)
qed

context secret_store
begin

lemma Import_Reconcile_settling:
  assumes "Import_Reconcile d engine c req s = (r, s')" "trace s' = trace s @ es" "EvGetKeycloakImport req (Inr cr) \<in> set es"
    and "\<not> deleting d cr" "hasFinalizer d cr" "noSelfReference cr"
  shows "settling engine cr (secrets (world s)) (secrets (world s')) es"
proof -
  let ?I = "settlesRun d engine req cr (secrets (world s))"
  obtain ph where p: "path (istep d engine req) IStart es ph" "iresult r ph"
    using Import_Reconcile_run [OF assms(1)] assms(2) by auto
  have ch: "chain secretCalls (=) (secrets (world s)) es (secrets (world s'))"
    by (rule servedD [OF served_Import_Reconcile assms(1)]) (use assms(2) in simp)
  have start: "?I [] (secrets (world s)) IStart" by (simp add: settlesRun_def)
  have "?I ([] @ es) (secrets (world s')) ph"
  proof (rule chain_path_inv [where step = "istep d engine req" and I = ?I, OF _ _ ch p(1) start])
    show "?I (es @ [e]) V' ph'" if "istep d engine req ph e ph'" "secretCalls V e V'" "?I es V ph" for ph e ph' V V' es
      by (rule istep_settlesRun [OF that assms(4-6)])
  qed simp
  moreover from p assms(3) have "ph \<noteq> IStart" by (auto elim: path.cases)
  ultimately have "settlesIn engine cr (secrets (world s)) es (secrets (world s')) ph"
    using assms(3) by (simp add: settlesRun_def)
  with p(2) show ?thesis
    by (cases "(r, ph)" rule: iresult.cases) (auto intro: settling_idle)
qed

end

text \<open>What the run uses of an import; the rest, its version and status for instance, may change between runs.\<close>

definition sameImport :: "KeycloakImport \<Rightarrow> KeycloakImport \<Rightarrow> bool" where
  "sameImport cr cr' \<longleftrightarrow> metaName (kiMeta cr') = metaName (kiMeta cr) \<and> metaNamespace (kiMeta cr') = metaNamespace (kiMeta cr) \<and>
     kiSpec cr' = kiSpec cr"

lemma sameImport_eqs:
  assumes "sameImport cr cr'"
  shows "settled V engine cr' = settled V engine cr" "noSelfReference cr' = noSelfReference cr"
proof -
  have f: "ImportRealmSecret_init cr' = ImportRealmSecret_init cr"
    "ImportRealmSecret_MutateFn engine cr' = ImportRealmSecret_MutateFn engine cr"
    using assms by (auto simp: sameImport_def fun_eq_iff ImportRealmSecret_MutateFn_def ImportRealmSecret_init_def
        GetImportJobSecretName_def GetImportJobSecretRealmName_def split: sum.split)
  have "substituted V cr' subs m = substituted V cr subs m" for subs m
    using assms by (induction subs arbitrary: m) (auto simp: sameImport_def split: option.split)
  with f assms show "settled V engine cr' = settled V engine cr" by (auto simp: fun_eq_iff settled_def sameImport_def)
  show "noSelfReference cr' = noSelfReference cr"
    using f(1) assms by (simp add: noSelfReference_def sameImport_def cong: option.case_cong)
qed

lemma settled_unique: "settled V engine cr sec \<Longrightarrow> settled V engine cr sec' \<Longrightarrow> sec' = sec"
  by (simp add: settled_def)

section \<open>The server in memory\<close>

lemma served_secret: "calls_obey secretCalls mwSecrets (memApplySecret obj f) (EvApplySecret obj f)"
proof (rule calls_obeyI)
  fix w r w' assume run: "memApplySecret obj f w = (r, w')"
  show "secretCalls (mwSecrets w) (EvApplySecret obj f r) (mwSecrets w')"
  proof (cases "f (lookupOr secMeta (mwSecrets w) obj)")
    case (Inl p)
    with run show ?thesis by (auto simp: memApplySecret_def mutating_def Let_def)
  next
    case (Inr q)
    then show ?thesis
    proof (cases q)
      case (Inl err)
      with Inr run show ?thesis by (auto simp: memApplySecret_def mutating_def Let_def)
    next
      case (Inr z)
      with \<open>f _ = Inr q\<close> have z: "f (lookupOr secMeta (mwSecrets w) obj) = Inr (Inr z)" by simp
      let ?y = "z\<lparr>secMeta := (secMeta z)\<lparr>metaResourceVersion := versionOf (mwTick w)\<rparr>\<rparr>"
      have k: "keepsSecret z z" "keepsSecret z ?y" by (simp_all add: keepsSecret_def)
      show ?thesis
      proof (cases "mwSecrets w (keyOf (secMeta obj)) = Some z")
        case True
        with run z k show ?thesis by (auto simp: memApplySecret_def mutating_def Let_def)
      next
        case False
        with run z have "r = Inr (Inr ?y)" "mwSecrets w' = (mwSecrets w)(keyOf (secMeta obj) \<mapsto> ?y)"
          by (auto simp: memApplySecret_def mutating_def Let_def)
        with z k False show ?thesis by (auto simp: Let_def)
      qed
    qed
  qed
qed

interpretation mem_secrets: secret_store memClient mwSecrets
proof
  show "mwSecrets w = mwSecrets w'" if "Now memClient w = (t, w')" for w t w'
    using that by (auto simp: memClient_def)
qed (simp_all add: memClient_def served_secret,
    (rule calls_obeyI, auto simp: memListJobs_def memCreateJob_def memDeleteJob_def memUpdateImport_def memUpdateStatefulSet_def
      memImportStatusUpdate_def memApplyStatefulSet_def memStoreStatefulSet_def mutating_def written_def Let_def
      split: option.splits sum.splits if_splits)+)

section \<open>Properties\<close>

text \<open>
  C10: an import that has not changed is not imported again. Take any cluster whose secrets obey the laws of \<^verbatim>\<open>CreateOrUpdate\<close>, a
  live import that has its finalizer and whose substitutions do not read the secret that it writes, and a run that
  stored the realm secret. A later run, while the import and the secrets are as the first run left them, writes no
  secret; it deletes no job of that revision, and it creates a job only for that revision and when no listed job has it:
  reconciling again and again does not import again and again.
\<close>

theorem Import_Reconcile_converges:
  assumes "secret_store c secrets" and "noSelfReference cr"
    and "Import_Reconcile d engine c req s = (r, s1)" and "trace s1 = trace s @ es1"
    and "EvGetKeycloakImport req (Inr cr) \<in> set es1" and "\<not> deleting d cr" and "hasFinalizer d cr"
    and "EvApplySecret (ImportRealmSecret_init cr) f (Inr (Inr sec)) \<in> set es1"
    and "secrets (world s2) = secrets (world s1)"
    and "Import_Reconcile d engine c req s2 = (r', s3)" and "trace s3 = trace s2 @ es2"
    and "EvGetKeycloakImport req (Inr cr') \<in> set es2" and "\<not> deleting d cr'" and "hasFinalizer d cr'"
    and "sameImport cr cr'"
  shows "secrets (world s3) = secrets (world s1) \<and>
    (\<forall>job a. EvDeleteJob job a \<in> set es2 \<longrightarrow> jobRevision cr' job \<noteq> metaResourceVersion (secMeta sec)) \<and>
    (\<forall>job a. EvCreateJob job a \<in> set es2 \<longrightarrow> (\<exists>sts jobs. Job_Build cr' sts (metaResourceVersion (secMeta sec)) = Inr (Inr job) \<and>
       EvListJobs (targetNamespace cr') (nameSelector cr') (Inr jobs) \<in> set es2 \<and>
       list_all (\<lambda>j. jobRevision cr' j \<noteq> metaResourceVersion (secMeta sec)) jobs))"
proof -
  have "settling engine cr (secrets (world s)) (secrets (world s1)) es1"
    by (rule secret_store.Import_Reconcile_settling [OF assms(1,3-7,2)])
  then have first: "settled (secrets (world s1)) engine cr' sec"
    using assms(8) unfolding settling_def sameImport_eqs(1) [OF assms(15)] by blast
  have second: "settling engine cr' (secrets (world s1)) (secrets (world s3)) es2"
    using secret_store.Import_Reconcile_settling [OF assms(1,10-14)] assms(2,9) sameImport_eqs(2) [OF assms(15)] by simp
  with first have same: "secrets (world s3) = secrets (world s1)" unfolding settling_def by blast
  moreover have "sec' = sec" if "settled (secrets (world s3)) engine cr' sec'" for sec'
    using settled_unique first that same by metis
  ultimately show ?thesis using second unfolding settling_def jobsListed_def by blast
qed

theorem Import_Reconcile_converges_witness:
  "\<exists>s1. Import_Reconcile refDeps (\<lambda>t m. Inr t) memClient exampleKey memoryState = (Inr (result None), s1) \<and>
     mwSecrets (world s1) = mwSecrets (world memoryState) \<and>
     (\<forall>job a. EvDeleteJob job a \<in> set (trace s1) \<longrightarrow> jobRevision (storedAs ''3'' liveImport) job \<noteq> ''7'')"
proof -
  let ?cr = "storedAs ''3'' liveImport"
  obtain s1 f where run: "Import_Reconcile refDeps (\<lambda>t m. Inr t) memClient exampleKey memoryState = (Inr (result None), s1)"
    and get: "EvGetKeycloakImport exampleKey (Inr ?cr) \<in> set (trace s1)"
    and app: "EvApplySecret (ImportRealmSecret_init ?cr) f (Inr (Inr realmSecret)) \<in> set (trace s1)"
    and sec: "mwSecrets (world memoryState) = mwSecrets (world s1)"
    using memory_run by (force simp: runReads_def Let_def)
  have t: "trace s1 = trace memoryState @ trace s1" by (simp add: memoryState_def)
  have "noSelfReference ?cr" "sameImport ?cr ?cr" by (simp_all add: noSelfReference_def sameImport_def live_facts)
  from Import_Reconcile_converges [OF mem_secrets.secret_store_axioms this(1) run t get live_facts(1,2) app sec run t get
      live_facts(1,2) this(2)] run sec
  show ?thesis by (simp add: memory_facts)
qed

end
