(* ===== verification/Manager.thy ===== *)
theory Manager
  imports Triggers KeycloakController
begin

text \<open>
  \<^verbatim>\<open>cmd/main.go\<close> and the \<^verbatim>\<open>SetupWithManager\<close> methods of the two controllers: the options of the
  manager, the watches that are registered, and the start-up sequence with its exit codes.

  The manager and the builders of controller-runtime are not part of the repository: \<open>bootstrap\<close> has
  one function per call that \<^verbatim>\<open>init\<close> and \<^verbatim>\<open>main\<close> make, over an abstract process state, each with the error it
  returns. What is registered (options, watches) is data that the calls are given, and the trace records
  it. The command line is parsed as the package \<^verbatim>\<open>flag\<close> of Go does it, with the flags of \<^verbatim>\<open>main\<close> and those that
  imported packages define (an argument). Logging is left out.
\<close>

section \<open>Flags and options\<close>

record flags =
  metricsAddr :: string
  probeAddr :: string
  enableLeaderElection :: bool
  secureMetrics :: bool
  enableHTTP2 :: bool

definition defaultFlags :: flags where
  "defaultFlags = \<lparr>metricsAddr = '':8080'', probeAddr = '':8081'', enableLeaderElection = False,
     secureMetrics = False, enableHTTP2 = False\<rparr>"

text \<open>
  \<^verbatim>\<open>flag.Parse\<close>, on the command line after the name of the program. Libraries define flags of their own
  (\<^verbatim>\<open>--kubeconfig\<close>, the \<^verbatim>\<open>--zap-\<close> options that \<^verbatim>\<open>BindFlags\<close> adds): whether such a flag is boolean, and which
  values it accepts. The accepted values are collected, for \<^verbatim>\<open>GetConfigOrDie\<close>.
\<close>

record otherFlag =
  otherIsBool :: bool
  otherAccepts :: "string \<Rightarrow> bool"

type_synonym flagValues = "flags \<times> (string \<times> string) list"

datatype parseResult =
    Parsed flags "(string \<times> string) list"
  | HelpAsked
  | BadFlags

definition ParseBool :: "string \<Rightarrow> bool option" where
  "ParseBool str =
     (if str \<in> {''1'', ''t'', ''T'', ''true'', ''TRUE'', ''True''} then Some True
      else if str \<in> {''0'', ''f'', ''F'', ''false'', ''FALSE'', ''False''} then Some False
      else None)"

text \<open>Whether a flag of this name is defined, and whether it is boolean.\<close>

definition flagKind :: "(string \<Rightarrow> otherFlag option) \<Rightarrow> string \<Rightarrow> bool option" where
  "flagKind others name =
     (if name \<in> {''metrics-bind-address'', ''health-probe-bind-address''} then Some False
      else if name \<in> {''leader-elect'', ''metrics-secure'', ''enable-http2''} then Some True
      else map_option otherIsBool (others name))"

definition setFlag :: "(string \<Rightarrow> otherFlag option) \<Rightarrow> string \<Rightarrow> string \<Rightarrow> flagValues \<Rightarrow> flagValues option" where
  "setFlag others name value vals =
     (case vals of (args, rest) \<Rightarrow>
        if name = ''metrics-bind-address'' then Some (args\<lparr>metricsAddr := value\<rparr>, rest)
        else if name = ''health-probe-bind-address'' then Some (args\<lparr>probeAddr := value\<rparr>, rest)
        else if name = ''leader-elect'' then map_option (\<lambda>x. (args\<lparr>enableLeaderElection := x\<rparr>, rest)) (ParseBool value)
        else if name = ''metrics-secure'' then map_option (\<lambda>x. (args\<lparr>secureMetrics := x\<rparr>, rest)) (ParseBool value)
        else if name = ''enable-http2'' then map_option (\<lambda>x. (args\<lparr>enableHTTP2 := x\<rparr>, rest)) (ParseBool value)
        else (case others name of
            None \<Rightarrow> None
          | Some fg \<Rightarrow> if otherAccepts fg value then Some (args, rest @ [(name, value)]) else None))"

fun parseFlags :: "(string \<Rightarrow> otherFlag option) \<Rightarrow> string list \<Rightarrow> flagValues \<Rightarrow> parseResult" where
  "parseFlags others [] vals = Parsed (fst vals) (snd vals)"
| "parseFlags others (s # rest) vals =
     (if length s < 2 \<or> s ! 0 \<noteq> CHR ''-'' \<or> s = ''--'' then Parsed (fst vals) (snd vals)
      else
        let name = drop (if s ! 1 = CHR ''-'' then 2 else 1) s in
        if name = [] \<or> hd name = CHR ''-'' \<or> hd name = CHR ''='' then BadFlags
        else
          let value = (case dropWhile (\<lambda>c. c \<noteq> CHR ''='') name of [] \<Rightarrow> None | eq # v \<Rightarrow> Some v);
              name = takeWhile (\<lambda>c. c \<noteq> CHR ''='') name
          in case flagKind others name of
               None \<Rightarrow> if name = ''help'' \<or> name = ''h'' then HelpAsked else BadFlags
             | Some True \<Rightarrow>
                 (case setFlag others name (case value of Some v \<Rightarrow> v | None \<Rightarrow> ''true'') vals of
                    None \<Rightarrow> BadFlags
                  | Some vals' \<Rightarrow> parseFlags others rest vals')
             | Some False \<Rightarrow>
                 (case value of
                    Some v \<Rightarrow>
                      (case setFlag others name v vals of None \<Rightarrow> BadFlags | Some vals' \<Rightarrow> parseFlags others rest vals')
                  | None \<Rightarrow>
                      (case rest of
                         [] \<Rightarrow> BadFlags
                       | v # rest' \<Rightarrow>
                           (case setFlag others name v vals of None \<Rightarrow> BadFlags | Some vals' \<Rightarrow> parseFlags others rest' vals'))))"

record tlsConfig =
  NextProtos :: "string list"

definition disableHTTP2 :: "tlsConfig \<Rightarrow> tlsConfig" where
  "disableHTTP2 c = c\<lparr>NextProtos := [''http/1.1'']\<rparr>"

definition tlsOptions :: "flags \<Rightarrow> (tlsConfig \<Rightarrow> tlsConfig) list" where
  "tlsOptions args = (let tlsOpts = [] in if \<not> enableHTTP2 args then tlsOpts @ [disableHTTP2] else tlsOpts)"

text \<open>\<open>optSecretSelector\<close> is the selector of the secret cache that \<^verbatim>\<open>NewCache\<close> sets.\<close>

record ManagerOptions =
  optMetricsBindAddress :: string
  optMetricsSecureServing :: bool
  optMetricsTLSOpts :: "(tlsConfig \<Rightarrow> tlsConfig) list"
  optWebhookTLSOpts :: "(tlsConfig \<Rightarrow> tlsConfig) list"
  optHealthProbeBindAddress :: string
  optLeaderElection :: bool
  optLeaderElectionID :: string
  optSecretSelector :: labels

definition managerOptions :: "flags \<Rightarrow> ManagerOptions" where
  "managerOptions args =
     (let tlsOpts = tlsOptions args in
      \<lparr>optMetricsBindAddress = metricsAddr args, optMetricsSecureServing = secureMetrics args,
       optMetricsTLSOpts = tlsOpts, optWebhookTLSOpts = tlsOpts,
       optHealthProbeBindAddress = probeAddr args, optLeaderElection = enableLeaderElection args,
       optLeaderElectionID = ''a507ffcc.stakater.com'', optSecretSelector = watchEnabledLabel\<rparr>)"

section \<open>Watches\<close>

text \<open>
  A predicate is a filter on the creations, deletions and updates of a kind. \<open>NoPredicate\<close> lets every event
  through; \<open>GenerationChanged\<close> is the predicate of controller-runtime.
\<close>

datatype 'o watchPredicate =
    NoPredicate
  | GenerationChanged
  | PredicateFuncs "'o \<Rightarrow> bool" "'o \<Rightarrow> bool" "'o \<Rightarrow> 'o \<Rightarrow> bool"

text \<open>The kinds that the Keycloak controller watches: its resource, and what it owns.\<close>

record KeycloakWatches =
  kwFor :: "Keycloak watchPredicate"
  kwOwnsService :: "Service watchPredicate"
  kwOwnsRoute :: "Route watchPredicate"
  kwOwnsServiceMonitor :: "ServiceMonitor watchPredicate"
  kwOwnsStatefulSet :: "StatefulSet watchPredicate"

definition Keycloak_SetupWithManager :: KeycloakWatches where
  "Keycloak_SetupWithManager =
     \<lparr>kwFor = GenerationChanged, kwOwnsService = GenerationChanged, kwOwnsRoute = GenerationChanged,
      kwOwnsServiceMonitor = GenerationChanged,
      kwOwnsStatefulSet = PredicateFuncs StatefulSet_CreateFunc StatefulSet_DeleteFunc StatefulSet_UpdateFunc\<rparr>"

text \<open>The kinds that the import controller watches: its resource, and three with a handler each.\<close>

record 'w ImportWatches =
  iwFor :: "KeycloakImport watchPredicate"
  iwJob :: "Job watchPredicate \<times> (Job \<Rightarrow> ('w sys, ObjectKey list) go)"
  iwKeycloak :: "Keycloak watchPredicate \<times> (Keycloak \<Rightarrow> ('w sys, ObjectKey list) go)"
  iwSecret :: "Secret watchPredicate \<times> (Secret \<Rightarrow> ('w sys, ObjectKey list) go)"

definition Import_SetupWithManager :: "deps \<Rightarrow> 'w client \<Rightarrow> 'w ImportWatches" where
  "Import_SetupWithManager d c =
     \<lparr>iwFor = GenerationChanged,
      iwJob = (PredicateFuncs Job_CreateFunc Job_DeleteFunc Job_UpdateFunc, handleJobChanged d c),
      iwKeycloak = (NoPredicate, handleRHBKChanged c),
      iwSecret = (NoPredicate, handleSecretChanged d c)\<rparr>"

section \<open>Start-up\<close>

text \<open>
  The groups of types that are added to the scheme. Those of this repository are registered by the
  \<^verbatim>\<open>init\<close> functions of the package \<^verbatim>\<open>v1alpha1\<close>, which run in the order of the file names.
\<close>

definition GroupVersion :: "string \<times> string" where
  "GroupVersion = (''sso.stakater.com'', ''v1alpha1'')"

definition Keycloak_init :: "string list \<Rightarrow> string list" where
  "Keycloak_init registered = registered @ [''Keycloak'', ''KeycloakList'']"

definition KeycloakImport_init :: "string list \<Rightarrow> string list" where
  "KeycloakImport_init registered = registered @ [''KeycloakImport'', ''KeycloakImportList'']"

datatype apiGroup =
    CoreV1
  | ClientGoScheme
  | RouteV1
  | MonitoringV1
  | SchemeBuilder "string \<times> string" "string list"

definition ssov1alpha1 :: apiGroup where
  "ssov1alpha1 = SchemeBuilder GroupVersion (KeycloakImport_init (Keycloak_init []))"

datatype 'w startEvent =
    StAddToScheme apiGroup "goerror option"
  | StGetConfig "(string \<times> string) list" "goerror option"
  | StNewManager ManagerOptions "goerror option"
  | StKeycloak KeycloakWatches "goerror option"
  | StImport "'w ImportWatches" "goerror option"
  | StHealthz string "goerror option"
  | StReadyz string "goerror option"
  | StStart "goerror option"

record ('w, 'p) bootstrap =
  AddToScheme :: "apiGroup \<Rightarrow> 'p \<Rightarrow> goerror option \<times> 'p"
  OtherFlags :: "string \<Rightarrow> otherFlag option"
  GetConfig :: "(string \<times> string) list \<Rightarrow> 'p \<Rightarrow> goerror option \<times> 'p"
  NewManager :: "ManagerOptions \<Rightarrow> 'p \<Rightarrow> goerror option \<times> 'p"
  CompleteKeycloak :: "KeycloakWatches \<Rightarrow> 'p \<Rightarrow> goerror option \<times> 'p"
  CompleteImport :: "'w ImportWatches \<Rightarrow> 'p \<Rightarrow> goerror option \<times> 'p"
  AddHealthzCheck :: "string \<Rightarrow> 'p \<Rightarrow> goerror option \<times> 'p"
  AddReadyzCheck :: "string \<Rightarrow> 'p \<Rightarrow> goerror option \<times> 'p"
  StartManager :: "'p \<Rightarrow> goerror option \<times> 'p"

type_synonym ('w, 'p) process = "'p \<times> 'w startEvent list"

text \<open>
  A step: make a call; on an error the process ends with an exit code. That is 1 for \<^verbatim>\<open>os.Exit(1)\<close>
  (and \<^verbatim>\<open>GetConfigOrDie\<close>), and 2 for the panic of \<^verbatim>\<open>utilruntime.Must\<close>.
\<close>

definition orExit ::
  "nat \<Rightarrow> ('p \<Rightarrow> goerror option \<times> 'p) \<Rightarrow> (goerror option \<Rightarrow> 'w startEvent) \<Rightarrow>
   (('w, 'p) process \<Rightarrow> nat \<times> ('w, 'p) process) \<Rightarrow> ('w, 'p) process \<Rightarrow> nat \<times> ('w, 'p) process" where
  "orExit exitCode f ev rest p =
     (case f (fst p) of (err, p') \<Rightarrow>
        let q = (p', snd p @ [ev err]) in
        case err of Some e \<Rightarrow> (exitCode, q) | None \<Rightarrow> rest q)"

definition must ::
  "('w, 'p) bootstrap \<Rightarrow> apiGroup \<Rightarrow>
   (('w, 'p) process \<Rightarrow> nat \<times> ('w, 'p) process) \<Rightarrow> ('w, 'p) process \<Rightarrow> nat \<times> ('w, 'p) process" where
  "must b g = orExit 2 (AddToScheme b g) (StAddToScheme g)"

definition init_go ::
  "('w, 'p) bootstrap \<Rightarrow>
   (('w, 'p) process \<Rightarrow> nat \<times> ('w, 'p) process) \<Rightarrow> ('w, 'p) process \<Rightarrow> nat \<times> ('w, 'p) process" where
  "init_go b rest =
     must b CoreV1 (
     must b ClientGoScheme (
     must b RouteV1 (
     must b ssov1alpha1 (
     must b ssov1alpha1 (
     must b MonitoringV1 rest)))))"

text \<open>The flags are parsed with \<^verbatim>\<open>ExitOnError\<close>: the process ends with code 0 if help was asked for, and 2 on a bad flag.\<close>

definition main_go ::
  "deps \<Rightarrow> 'w client \<Rightarrow> ('w, 'p) bootstrap \<Rightarrow> string list \<Rightarrow> ('w, 'p) process \<Rightarrow> nat \<times> ('w, 'p) process" where
  "main_go d c b osArgs p =
     (case parseFlags (OtherFlags b) osArgs (defaultFlags, []) of
        HelpAsked \<Rightarrow> (0, p)
      | BadFlags \<Rightarrow> (2, p)
      | Parsed args others \<Rightarrow>
          orExit 1 (GetConfig b others) (StGetConfig others) (
          orExit 1 (NewManager b (managerOptions args)) (StNewManager (managerOptions args)) (
          orExit 1 (CompleteKeycloak b Keycloak_SetupWithManager) (StKeycloak Keycloak_SetupWithManager) (
          orExit 1 (CompleteImport b (Import_SetupWithManager d c)) (StImport (Import_SetupWithManager d c)) (
          orExit 1 (AddHealthzCheck b ''healthz'') (StHealthz ''healthz'') (
          orExit 1 (AddReadyzCheck b ''readyz'') (StReadyz ''readyz'') (
          orExit 1 (StartManager b) StStart (\<lambda>p. (0, p)))))))) p)"

text \<open>
  The calls of the process after the flags were parsed with this result, in order, each with the exit
  code of its failure, and the code with which the process ends after them.
\<close>

definition schemeGroups :: "apiGroup list" where
  "schemeGroups = [CoreV1, ClientGoScheme, RouteV1, ssov1alpha1, ssov1alpha1, MonitoringV1]"

definition startCalls :: "deps \<Rightarrow> 'w client \<Rightarrow> flags \<Rightarrow> (string \<times> string) list \<Rightarrow> (goerror option \<Rightarrow> 'w startEvent) list" where
  "startCalls d c args others =
     [StGetConfig others, StNewManager (managerOptions args), StKeycloak Keycloak_SetupWithManager,
      StImport (Import_SetupWithManager d c), StHealthz ''healthz'', StReadyz ''readyz'', StStart]"

fun startPlan :: "deps \<Rightarrow> 'w client \<Rightarrow> parseResult \<Rightarrow> (nat \<times> (goerror option \<Rightarrow> 'w startEvent)) list" where
  "startPlan d c (Parsed args others) =
     map (\<lambda>g. (2, StAddToScheme g)) schemeGroups @ map (\<lambda>ev. (1, ev)) (startCalls d c args others)"
| "startPlan d c _ = map (\<lambda>g. (2, StAddToScheme g)) schemeGroups"

fun finalStatus :: "parseResult \<Rightarrow> nat" where
  "finalStatus BadFlags = 2"
| "finalStatus _ = 0"

text \<open>A run of a plan: all calls succeed, or one fails and is the last.\<close>

fun planRun :: "nat \<Rightarrow> (nat \<times> (goerror option \<Rightarrow> 'w startEvent)) list \<Rightarrow> nat \<Rightarrow> 'w startEvent list \<Rightarrow> bool" where
  "planRun final [] status es = (status = final \<and> es = [])"
| "planRun final ((exitCode, ev) # plan) status es =
     ((\<exists>err. status = exitCode \<and> es = [ev (Some err)]) \<or> (\<exists>es'. es = ev None # es' \<and> planRun final plan status es'))"

lemma orExit_run:
  assumes "\<And>p. case rest p of (status, p') \<Rightarrow> \<exists>es. snd p' = snd p @ es \<and> planRun final plan status es"
  shows "case orExit exitCode f ev rest p of (status, p') \<Rightarrow>
    \<exists>es. snd p' = snd p @ es \<and> planRun final ((exitCode, ev) # plan) status es"
proof -
  obtain err p1 where f: "f (fst p) = (err, p1)" by fastforce
  show ?thesis
    using assms [of "(p1, snd p @ [ev err])"] by (cases err) (auto simp: orExit_def f Let_def split: prod.splits)
qed

abbreviation succeeded :: "(nat \<times> (goerror option \<Rightarrow> 'w startEvent)) list \<Rightarrow> 'w startEvent list" where
  "succeeded plan \<equiv> map (\<lambda>(exitCode, ev). ev None) plan"

text \<open>Where a run stopped: at the end, or after a prefix of the plan that succeeded, at the call that follows it.\<close>

lemma planRun_stops:
  "planRun final plan status es \<Longrightarrow>
     (status = final \<and> es = succeeded plan) \<or>
     (\<exists>done exitCode ev rest err. plan = done @ (exitCode, ev) # rest \<and> status = exitCode \<and> es = succeeded done @ [ev (Some err)])"
proof (induction final plan status es rule: planRun.induct)
  case (2 final exitCode ev plan status es)
  from 2(2) consider err where "status = exitCode" "es = [ev (Some err)]"
    | es' where "es = ev None # es'" "planRun final plan status es'" by auto
  then show ?case
  proof cases
    case (1 err)
    then show ?thesis by (intro disjI2 exI [of _ "[]"] exI [of _ exitCode] exI [of _ ev] exI [of _ plan] exI [of _ err]) simp
  next
    case (2 es')
    note step = 2(1)
    from 2(2) show ?thesis
    proof (rule "2.IH" [of es', THEN disjE])
      assume "status = final \<and> es' = succeeded plan"
      with step show ?thesis by simp
    next
      assume "\<exists>done x g rest err. plan = done @ (x, g) # rest \<and> status = x \<and> es' = succeeded done @ [g (Some err)]"
      then obtain fin x g rest err where "plan = fin @ (x, g) # rest" "status = x" "es' = succeeded fin @ [g (Some err)]" by blast
      with step show ?thesis
        by (intro disjI2 exI [of _ "(exitCode, ev) # fin"] exI [of _ x] exI [of _ g] exI [of _ rest] exI [of _ err]) simp
    qed
  qed
qed simp

lemma operator_run:
  "case init_go b (main_go d c b osArgs) p of (status, p') \<Rightarrow>
     \<exists>es. snd p' = snd p @ es \<and>
       planRun (finalStatus (parseFlags (OtherFlags b) osArgs (defaultFlags, [])))
         (startPlan d c (parseFlags (OtherFlags b) osArgs (defaultFlags, []))) status es"
proof (cases "parseFlags (OtherFlags b) osArgs (defaultFlags, [])")
  case (Parsed args others)
  show ?thesis
    unfolding Parsed init_go_def must_def main_go_def parseResult.case startPlan.simps startCalls_def schemeGroups_def
      finalStatus.simps list.map append_Cons append_Nil
    by (intro orExit_run) simp
next
  case HelpAsked
  show ?thesis
    unfolding HelpAsked init_go_def must_def startPlan.simps schemeGroups_def finalStatus.simps list.map
    by (intro orExit_run) (simp add: main_go_def HelpAsked)
next
  case BadFlags
  show ?thesis
    unfolding BadFlags init_go_def must_def startPlan.simps schemeGroups_def finalStatus.simps list.map
    by (intro orExit_run) (simp add: main_go_def BadFlags)
qed

text \<open>Some command lines.\<close>

lemma parseFlags_examples:
  "parseFlags (\<lambda>n. None) [''--leader-elect'', ''-metrics-bind-address=:1'', ''--metrics-secure=f'', ''x'', ''-h''] (defaultFlags, []) =
     Parsed (defaultFlags\<lparr>enableLeaderElection := True, metricsAddr := '':1''\<rparr>) []"
  "parseFlags (\<lambda>n. None) [''--health-probe-bind-address'', ''-h'', ''-h''] (defaultFlags, []) = HelpAsked"
  "parseFlags (\<lambda>n. None) [''--enable-http2=yes'', ''-h''] (defaultFlags, []) = BadFlags"
  "parseFlags (\<lambda>n. None) [''--metrics-bind-address''] (defaultFlags, []) = BadFlags"
  by (simp_all add: flagKind_def setFlag_def ParseBool_def defaultFlags_def)

section \<open>Properties\<close>

text \<open>
  C23: the operator starts completely or not at all. Whatever the command line is and the calls of the
  start-up return, the process (the initialisation of the package, then \<^verbatim>\<open>main\<close>) exits with code 0 in two cases
  only. Either all types were added to the scheme, the manager was created with the options of
  the flags, both controllers were registered with their watches, both health checks were added and
  the manager ran to its end without an error; or the command line asked for help, and nothing was done
  after the registration of the types. On a bad command line it exits with code 2, having done no more than that
  either. Otherwise it ends right after the first call that failed, all calls before it having succeeded in
  that order, with code 2 (a panic) for a scheme and 1 for every other call: no manager is started
  with a type, a controller or a check missing.
\<close>

theorem main_go_starts:
  "case init_go b (main_go d c b osArgs) p of (status, p') \<Rightarrow>
     \<exists>es. snd p' = snd p @ es \<and>
       ((\<exists>args others. parseFlags (OtherFlags b) osArgs (defaultFlags, []) = Parsed args others \<and> status = 0 \<and>
          es = map (\<lambda>g. StAddToScheme g None) [CoreV1, ClientGoScheme, RouteV1, ssov1alpha1, ssov1alpha1, MonitoringV1] @
            [StGetConfig others None, StNewManager (managerOptions args) None,
             StKeycloak Keycloak_SetupWithManager None, StImport (Import_SetupWithManager d c) None,
             StHealthz ''healthz'' None, StReadyz ''readyz'' None, StStart None]) \<or>
        (parseFlags (OtherFlags b) osArgs (defaultFlags, []) = HelpAsked \<and> status = 0 \<and>
          es = map (\<lambda>g. StAddToScheme g None) [CoreV1, ClientGoScheme, RouteV1, ssov1alpha1, ssov1alpha1, MonitoringV1]) \<or>
        (parseFlags (OtherFlags b) osArgs (defaultFlags, []) = BadFlags \<and> status = 2 \<and>
          es = map (\<lambda>g. StAddToScheme g None) [CoreV1, ClientGoScheme, RouteV1, ssov1alpha1, ssov1alpha1, MonitoringV1]) \<or>
        (\<exists>done exitCode ev rest err.
          startPlan d c (parseFlags (OtherFlags b) osArgs (defaultFlags, [])) = done @ (exitCode, ev) # rest \<and>
          status = exitCode \<and> exitCode \<in> {1, 2} \<and> es = succeeded done @ [ev (Some err)]))"
proof -
  let ?parsed = "parseFlags (OtherFlags b) osArgs (defaultFlags, [])"
  obtain status p' where r: "init_go b (main_go d c b osArgs) p = (status, p')" by (rule prod.exhaust)
  with operator_run [where b = b and d = d and c = c and osArgs = osArgs and p = p] obtain es where es: "snd p' = snd p @ es"
    "planRun (finalStatus ?parsed) (startPlan d c ?parsed) status es" by auto
  have codes: "fst ` set (startPlan d c ?parsed) \<subseteq> {1, 2}"
    by (cases ?parsed) auto
  from planRun_stops [OF es(2)] show ?thesis
  proof
    assume "status = finalStatus ?parsed \<and> es = succeeded (startPlan d c ?parsed)"
    with r es(1) show ?thesis by (cases ?parsed) (simp_all add: schemeGroups_def startCalls_def)
  next
    assume "\<exists>done exitCode ev rest err. startPlan d c ?parsed = done @ (exitCode, ev) # rest \<and> status = exitCode \<and>
      es = succeeded done @ [ev (Some err)]"
    then obtain fin x ev rest err where f: "startPlan d c ?parsed = fin @ (x, ev) # rest" "status = x"
      "es = succeeded fin @ [ev (Some err)]" by blast
    with codes have "x \<in> {1, 2}" by auto
    with r es(1) f show ?thesis by (simp only: prod.case) blast
  qed
qed

text \<open>
  HTTP/2 stays off unless it is asked for: without the flag, the TLS configuration of the
  metrics server and of the webhook server offers HTTP/1.1 only, whatever it offered before; the flag is
  off by default.
\<close>

theorem managerOptions_http2:
  "foldl (\<lambda>cfg f. f cfg) cfg (optMetricsTLSOpts (managerOptions args)) =
     (if enableHTTP2 args then cfg else cfg\<lparr>NextProtos := [''http/1.1'']\<rparr>) \<and>
   optWebhookTLSOpts (managerOptions args) = optMetricsTLSOpts (managerOptions args) \<and> \<not> enableHTTP2 defaultFlags"
  by (simp add: managerOptions_def tlsOptions_def disableHTTP2_def defaultFlags_def Let_def)

text \<open>
  a change of an instance reaches the imports that depend on it. The watch of the import
  controller on Keycloak resources lets every event through, and its handler returns a request for
  exactly the listed imports whose reconcile reads that very instance: those for which the key of the
  first read after the finalizer is the key of the changed resource.
\<close>

theorem instance_change_requests:
  assumes "ListKeycloakImports c w = (Inr crs, w')"
  shows "fst (iwKeycloak (Import_SetupWithManager d c)) = NoPredicate \<and>
    fst (snd (iwKeycloak (Import_SetupWithManager d c)) kc \<lparr>world = w, trace = t\<rparr>) =
      Inr (map requestFor (filter (\<lambda>cr. instanceKey cr = objectKey (metaNamespace (kcMeta kc)) (metaName (kcMeta kc))) crs))"
proof -
  have "instanceKey cr = objectKey (metaNamespace (kcMeta kc)) (metaName (kcMeta kc)) \<longleftrightarrow>
      instName (kiKeycloakInstance (kiSpec cr)) = metaName (kcMeta kc) \<and>
      instNamespace (kiKeycloakInstance (kiSpec cr)) = metaNamespace (kcMeta kc)" for cr
    by (auto simp: instanceKey_def objectKey_def)
  with handler_run(3) [OF assms] show ?thesis by (simp add: Import_SetupWithManager_def)
qed

theorem instance_change_requests_witness:
  "fst (snd (iwKeycloak (Import_SetupWithManager refDeps (listingClient [exampleImport]))) exampleKeycloak
     \<lparr>world = (), trace = []\<rparr>) = Inr [objectKey ''team'' ''realm-a'']"
proof -
  have "ListKeycloakImports (listingClient [exampleImport]) () = (Inr [exampleImport], ())"
    by (simp add: listingClient_def Let_def)
  from instance_change_requests [OF this, of refDeps exampleKeycloak "[]"] show ?thesis
    by (simp add: instanceKey_def exampleImport_def exampleKeycloak_def namedMeta_def requestFor_def)
qed

end
