(* ===== verification/WakeUp.thy ===== *)
theory WakeUp
  imports ImportStable Manager
begin

text \<open>
  From the completion of an import job to the restart of the servers: the watch on jobs, the handler and the
  reconcile that the request of the handler starts, put together.
\<close>

section \<open>An undisturbed run\<close>

text \<open>
  The answers of a cluster in which nothing has changed since the job was created, except that it is complete: the
  import and its secret are the same, the job is the one that is listed, and the stateful set does not carry the marker.
\<close>

fun undisturbed :: "KeycloakImport \<Rightarrow> string \<Rightarrow> Job \<Rightarrow> event \<Rightarrow> bool" where
  "undisturbed cr rv job (EvGetKeycloakImport k r) = (case r of Inr cr' \<Rightarrow> sameImport cr cr' | _ \<Rightarrow> True)"
| "undisturbed cr rv job (EvUpdateKeycloakImport x r) = (case r of Inr cr' \<Rightarrow> sameImport cr cr' | _ \<Rightarrow> True)"
| "undisturbed cr rv job (EvGetStatefulSet k r) =
     (case r of Inr sts \<Rightarrow> goLookup (podAnnotations sts) (GetImportJobAnnotation cr) \<noteq> Some rv | _ \<Rightarrow> True)"
| "undisturbed cr rv job (EvApplySecret obj f r) =
     (case r of Inr (Inr sec) \<Rightarrow> metaResourceVersion (secMeta sec) = rv | _ \<Rightarrow> True)"
| "undisturbed cr rv job (EvListJobs ns sel r) = (case r of Inr jobs \<Rightarrow> jobs = [job] | _ \<Rightarrow> True)"
| "undisturbed cr rv job e = True"

lemma sameImport_annotation: "sameImport cr cr' \<Longrightarrow> GetImportJobAnnotation cr' = GetImportJobAnnotation cr"
  by (simp add: sameImport_def GetImportJobAnnotation_def)

lemma Job_Build_revision:
  assumes "Job_Build cr sts rv = Inr (Inr job0)" "metaLabels (jobMeta job) = metaLabels (jobMeta job0)"
  shows "jobRevision cr job = rv"
proof -
  have "metaLabels (jobMeta job) = jobLabels cr rv" using Job_Build_meta [OF assms(1)] assms(2) by simp
  then show ?thesis
    using annotation_not_app [of cr] by (simp add: jobRevision_def goIndex_def jobLabels_lookup)
qed

context label_selector
begin

lemma undisturbed_progress:
  assumes "progressed d engine req es cr' st" "list_all (undisturbed cr rv job) es"
    and "jobRevision cr job = rv" "IsJobCompleted job"
  shows "sameImport cr cr'" "st = ConditionTrue" "\<exists>sts. EvUpdateStatefulSet (annotate cr' rv sts) None \<in> set es"
proof -
  from assms(1) obtain sts rv' jobs where p: "current req es cr'" "targetReady d es cr' sts" "stored engine es cr' rv'"
    "EvListJobs (targetNamespace cr') (nameSelector cr') (Inr jobs) \<in> set es"
    and f: "case find (\<lambda>j. jobRevision cr' j = rv') jobs of
           None \<Rightarrow> st = ConditionFalse \<and> (\<exists>job. Job_Build cr' sts rv' = Inr (Inr job) \<and> EvCreateJob job None \<in> set es)
         | Some job \<Rightarrow> st = ConditionTrue \<and>
             (if IsJobCompleted job \<and> \<not> rolloutDone d cr' sts rv'
              then EvUpdateStatefulSet (annotate cr' rv' sts) None \<in> set es else True)"
    unfolding progressed_def by blast
  have u: "undisturbed cr rv job e" if "e \<in> set es" for e using assms(2) that by (simp add: list_all_iff)
  show same: "sameImport cr cr'" using p(1) by (auto simp: current_def dest!: u)
  have "rv' = rv" using p(3) by (auto simp: stored_def dest!: u)
  moreover have "jobs = [job]" using u [OF p(4)] by simp
  moreover have "\<not> rolloutDone d cr' sts rv"
    unfolding rolloutDone_def podAnnotations_def [symmetric] MatchSet_single
    using p(2) by (auto simp: targetReady_def sameImport_annotation [OF same] dest!: u)
  moreover have "jobRevision cr' job = rv" using assms(3) by (simp add: jobRevision_def sameImport_annotation [OF same])
  ultimately show "st = ConditionTrue" "\<exists>sts. EvUpdateStatefulSet (annotate cr' rv sts) None \<in> set es"
    using f assms(4) by auto
qed

end

lemma markedSts_containers: "podContainers (tplSpec (stsTemplate (stsSpec (markedSts v)))) \<noteq> []"
  by (simp add: markedSts_def Let_def annotate_def exampleSts_def rhbkStatefulSetSpec_def)

section \<open>Properties\<close>

text \<open>
  C5: the completion of an import job restarts the servers. Take a job that was built for an import and becomes complete,
  with the labels it was built with. The watch of the import controller lets the update through; the handler asks for a
  reconcile of the import, that is, of the listed imports with its name and namespace and of no other. When
  every call of that reconcile succeeds and nothing else has changed (the import and the version of its secret are the
  same, the job is listed, the stateful set does not carry the revision yet), it writes the marker of the revision into the pod
  template, reports the import as ready and returns without an error.
\<close>

theorem completion_restarts_servers:
  assumes "label_selector d" and "metaName (kiMeta cr) \<noteq> ''realm.stakater.com''"
    and "Job_Build cr sts0 rv = Inr (Inr job0)" and "metaLabels (jobMeta job) = metaLabels (jobMeta job0)"
    and "\<not> IsJobCompleted old" and "IsJobCompleted job"
    and "ListKeycloakImports c w = (Inr crs, w')"
    and "Import_Reconcile d engine c (requestFor cr) s = (r, s')" and "trace s' = trace s @ es"
    and "list_all (goodAnswer d) es" and "list_all (undisturbed cr rv job) es"
  shows "(\<exists>created deleted updated. fst (iwJob (Import_SetupWithManager d c)) = PredicateFuncs created deleted updated \<and>
      updated old job) \<and>
    fst (snd (iwJob (Import_SetupWithManager d c)) job \<lparr>world = w, trace = t\<rparr>) =
      Inr (map requestFor (filter (\<lambda>x. requestFor x = requestFor cr) crs)) \<and>
    r = Inr (result None) \<and>
    (\<exists>cr' sts now msg. sameImport cr cr' \<and> EvUpdateStatefulSet (annotate cr' rv sts) None \<in> set es \<and>
       last es = EvKeycloakImportStatus (importWithReady d now cr' ConditionTrue msg) None)"
proof (intro conjI)
  show "\<exists>created deleted updated. fst (iwJob (Import_SetupWithManager d c)) = PredicateFuncs created deleted updated \<and> updated old job"
    using assms(5,6) by (simp add: Import_SetupWithManager_def Job_UpdateFunc_def)
  have "requestFor x = requestFor cr \<longleftrightarrow> metaName (kiMeta x) = metaName (kiMeta cr) \<and> metaNamespace (kiMeta x) = metaNamespace (kiMeta cr)" for x
    by (auto simp: requestFor_def objectKey_def)
  then show "fst (snd (iwJob (Import_SetupWithManager d c)) job \<lparr>world = w, trace = t\<rparr>) =
      Inr (map requestFor (filter (\<lambda>x. requestFor x = requestFor cr) crs))"
    using handler_run(2) [OF assms(7)] Job_Build_selected [OF assms(1,3,2)] by (simp add: Import_SetupWithManager_def assms(4))
  from assms(8) obtain es0 ph where "trace s' = trace s @ es0" and p: "path (istep d engine (requestFor cr)) IStart es0 ph"
    and k: "iresult r ph" by (rule Import_Reconcile_run)
  with assms(9,10) have "ginv d engine (requestFor cr) es ph" using import_progress.path_inv [OF p] by simp
  with k obtain es' cr' now st msg where res: "r = Inr (result None)"
    "es = es' @ [EvKeycloakImportStatus (importWithReady d now cr' st msg) None]" "progressed d engine (requestFor cr) es' cr' st"
    by (cases "(r, ph)" rule: iresult.cases) auto
  show "r = Inr (result None)" by (rule res(1))
  from assms(11) have "list_all (undisturbed cr rv job) es'" by (simp add: res(2))
  from label_selector.undisturbed_progress [OF assms(1) res(3) this Job_Build_revision [OF assms(3,4)] assms(6)]
  show "\<exists>cr' sts now msg. sameImport cr cr' \<and> EvUpdateStatefulSet (annotate cr' rv sts) None \<in> set es \<and>
      last es = EvKeycloakImportStatus (importWithReady d now cr' ConditionTrue msg) None"
    by (auto simp: res(2))
qed

theorem completion_restarts_servers_witness:
  "\<exists>s' cr' sts. Import_Reconcile refDeps (\<lambda>t m. Inr t) memClient exampleKey memoryState = (Inr (result None), s') \<and>
     fst (snd (iwJob (Import_SetupWithManager refDeps memClient)) doneJob memoryState) = Inr [exampleKey] \<and>
     EvUpdateStatefulSet (annotate cr' ''7'' sts) None \<in> set (trace s')"
proof -
  let ?cr = "storedAs ''3'' liveImport" and ?e = "\<lambda>t m. Inr t"
  obtain s' where run: "Import_Reconcile refDeps ?e memClient exampleKey memoryState = (Inr (result None), s')"
    and t: "trace s' = runReads ?e @ [EvUpdateStatefulSet (rolled ''1'') None,
       EvKeycloakImportStatus (importWithReady refDeps (mwTick memoryRolled) ?cr ConditionTrue []) None]"
    using memory_run by blast
  have req: "requestFor ?cr = exampleKey" and name: "metaName (kiMeta ?cr) \<noteq> ''realm.stakater.com''"
    by (simp_all add: requestFor_def storedAs_def liveImport_def exampleImport_def namedMeta_def)
  obtain job0 where job0: "Job_Build ?cr (markedSts ''1'') ''7'' = Inr (Inr job0)"
    using markedSts_containers by (cases rule: Job_Build_result [of ?cr "markedSts ''1''" "''7''"]) auto
  have "metaLabels (jobMeta doneJob) = jobLabels ?cr ''7''"
    by (simp add: doneJob_def jobLabels_def GetImportJobAnnotation_def storedAs_def liveImport_def)
  with Job_Build_meta [OF job0] have labels: "metaLabels (jobMeta doneJob) = metaLabels (jobMeta job0)" by simp
  have jobs: "\<not> IsJobCompleted (doneJob\<lparr>jobConditions := []\<rparr>)" "IsJobCompleted doneJob" "label_selector refDeps"
    by (simp_all add: IsJobCompleted_def live_facts(6) [unfolded IsJobCompleted_def] ref.label_selector_axioms)
  have lists: "ListKeycloakImports memClient (world memoryState) = (Inr [?cr], world memoryState)"
    by (simp add: memClient_def memoryState_def liveSystem_def smallServer_def holding_def List.map_filter_def storedAs_def
        liveImport_def exampleImport_def keyOf_def namedMeta_def)
  have good: "list_all (goodAnswer refDeps) (trace s')" "list_all (undisturbed ?cr ''7'' doneJob) (trace s')"
    unfolding t runReads_def Let_def using markedSts_containers
    by (simp_all add: live_facts allSecretsSet_def sameImport_def memory_facts)
  have tr: "trace s' = trace memoryState @ trace s'" "\<lparr>world = world memoryState, trace = []\<rparr> = memoryState"
    by (simp_all add: memoryState_def)
  from completion_restarts_servers [OF jobs(3) name job0 labels jobs(1,2) lists run [folded req] tr(1) good, of "[]"] run
  show ?thesis by (auto simp: req tr(2))
qed

end
