(* ===== verification/RefCluster.thy ===== *)
theory RefCluster
  imports Cluster
begin

text \<open>
  An in-memory cluster that satisfies the laws of \<open>kube_cluster\<close>, and the properties of the
  Keycloak controller against any cluster that does.

  The in-memory server stores what \<^verbatim>\<open>CreateOrUpdate\<close> sends with a fresh version, allocates the
  address of a service and the host of a route when they are left empty (and keeps them on later
  updates), keeps the status of a stateful set, and does not write when nothing changes.
\<close>

section \<open>The in-memory server\<close>

record refWorld =
  rwObjects :: objects
  rwKeycloaks :: "ObjectKey \<rightharpoonup> Keycloak"
  rwVersion :: nat

definition refSubmit ::
  "(objects \<Rightarrow> ObjectKey \<rightharpoonup> 'o) \<Rightarrow> (((ObjectKey \<rightharpoonup> 'o) \<Rightarrow> (ObjectKey \<rightharpoonup> 'o)) \<Rightarrow> objects \<Rightarrow> objects) \<Rightarrow>
   ('o \<Rightarrow> ObjectMeta) \<Rightarrow> (string \<Rightarrow> 'o \<Rightarrow> 'o) \<Rightarrow> ('o option \<Rightarrow> 'o \<Rightarrow> 'o) \<Rightarrow>
   'o \<Rightarrow> 'o mutateFn \<Rightarrow> refWorld \<Rightarrow> (panic + (goerror + 'o)) \<times> refWorld" where
  "refSubmit get upd meta setVersion admit obj f w =
     (let k = keyOf (meta obj); old = get (rwObjects w) k in
      case f (lookupOr meta (get (rwObjects w)) obj) of
        Inl p \<Rightarrow> (Inl p, w)
      | Inr (Inl err) \<Rightarrow> (Inr (Inl err), w)
      | Inr (Inr z) \<Rightarrow>
          (let y = setVersion (Itoa (rwVersion w)) (admit old z) in
           case old of
             Some x \<Rightarrow>
               if setVersion '''' y = setVersion '''' x then (Inr (Inr x), w)
               else (Inr (Inr y), w\<lparr>rwObjects := upd (\<lambda>m. m(k \<mapsto> y)) (rwObjects w), rwVersion := Suc (rwVersion w)\<rparr>)
           | None \<Rightarrow> (Inr (Inr y), w\<lparr>rwObjects := upd (\<lambda>m. m(k \<mapsto> y)) (rwObjects w), rwVersion := Suc (rwVersion w)\<rparr>)))"

definition refAccepts :: "(string \<Rightarrow> 'o \<Rightarrow> 'o) \<Rightarrow> ('o option \<Rightarrow> 'o \<Rightarrow> 'o) \<Rightarrow> 'o \<Rightarrow> 'o \<Rightarrow> bool" where
  "refAccepts setVersion admit z y \<longleftrightarrow> (\<exists>old v. y = setVersion v (admit old z))"

lemma refSubmit_cases:
  assumes "refSubmit get upd meta setVersion admit obj f w = (r, w')"
  obtains
    (unwritten) "w' = w" "\<And>y. r = Inr (Inr y) \<Longrightarrow> \<exists>z. f (lookupOr meta (get (rwObjects w)) obj) = Inr (Inr z) \<and>
      get (rwObjects w) (keyOf (meta obj)) = Some y \<and>
      setVersion '''' (setVersion (Itoa (rwVersion w)) (admit (Some y) z)) = setVersion '''' y"
  | (written) z y where "f (lookupOr meta (get (rwObjects w)) obj) = Inr (Inr z)"
      "y = setVersion (Itoa (rwVersion w)) (admit (get (rwObjects w) (keyOf (meta obj))) z)"
      "\<And>x. get (rwObjects w) (keyOf (meta obj)) = Some x \<Longrightarrow> setVersion '''' y \<noteq> setVersion '''' x"
      "r = Inr (Inr y)" "rwObjects w' = upd (\<lambda>m. m(keyOf (meta obj) \<mapsto> y)) (rwObjects w)"
proof (cases "f (lookupOr meta (get (rwObjects w)) obj)")
  case (Inl p)
  with assms have "r = Inl p" "w' = w" by (simp_all add: refSubmit_def)
  then show ?thesis by (intro unwritten) simp_all
next
  case (Inr r')
  show ?thesis
  proof (cases r')
    case (Inl err)
    with assms Inr have "r = Inr (Inl err)" "w' = w" by (simp_all add: refSubmit_def)
    then show ?thesis by (intro unwritten) simp_all
  next
    case (Inr z)
    let ?old = "get (rwObjects w) (keyOf (meta obj))"
    let ?y = "setVersion (Itoa (rwVersion w)) (admit ?old z)"
    from Inr \<open>f _ = Inr r'\<close> have f: "f (lookupOr meta (get (rwObjects w)) obj) = Inr (Inr z)" by simp
    show ?thesis
    proof (cases "\<exists>x. ?old = Some x \<and> setVersion '''' ?y = setVersion '''' x")
      case True
      then obtain x where x: "?old = Some x" "setVersion '''' ?y = setVersion '''' x" by blast
      with assms f have "r = Inr (Inr x)" "w' = w" by (simp_all add: refSubmit_def)
      with x f show ?thesis by (intro unwritten) auto
    next
      case False
      with assms f have "r = Inr (Inr ?y)" "rwObjects w' = upd (\<lambda>m. m(keyOf (meta obj) \<mapsto> ?y)) (rwObjects w)"
        by (auto simp: refSubmit_def Let_def split: option.splits if_splits)
      with False f show ?thesis by (intro written [of z ?y]) auto
    qed
  qed
qed

text \<open>The laws of a kind that make the generic server an \<open>object_store\<close>.\<close>

locale ref_kind =
  fixes get :: "objects \<Rightarrow> ObjectKey \<rightharpoonup> 'o"
    and upd :: "((ObjectKey \<rightharpoonup> 'o) \<Rightarrow> (ObjectKey \<rightharpoonup> 'o)) \<Rightarrow> objects \<Rightarrow> objects"
    and meta :: "'o \<Rightarrow> ObjectMeta"
    and setVersion :: "string \<Rightarrow> 'o \<Rightarrow> 'o"
    and admit :: "'o option \<Rightarrow> 'o \<Rightarrow> 'o"
    and desired :: "'o \<Rightarrow> 'o"
    and keeps :: "'o \<Rightarrow> 'o \<Rightarrow> bool"
  assumes upd_get: "upd (\<lambda>_. get v) v = v"
    and get_upd: "get (upd g v) = g (get v)"
    and upd_upd: "upd g v = upd (\<lambda>_. g (get v)) v"
    and admit_keeps: "keeps z (setVersion v' (admit old z))"
    and admit_refl: "\<exists>old v'. z = setVersion v' (admit old z)"
    and setVersion_id: "\<exists>v'. setVersion v' z = z"
    and setVersion_twice: "setVersion u (setVersion v' z) = setVersion u z"
    and admit_desired: "setVersion u (admit old (desired z)) = setVersion u (admit old z)"
    and admit_twice: "setVersion u (admit (Some (setVersion v' (admit old z))) z) = setVersion u (admit old z)"
begin

lemma admit_again:
  assumes "desired z' = desired z"
  shows "setVersion u (admit (Some (setVersion v' (admit old z))) z') = setVersion u (admit old z)"
  using assms admit_desired [of u "Some (setVersion v' (admit old z))"] admit_twice by metis

end

sublocale ref_kind \<subseteq> object_store "refSubmit get upd meta setVersion admit" rwObjects get upd meta desired keeps
  "refAccepts setVersion admit"
proof unfold_locales
  fix obj f w r w'
  assume run: "refSubmit get upd meta setVersion admit obj f w = (r, w')"
  from run show "rwObjects w' = upd (\<lambda>_. get (rwObjects w')) (rwObjects w)"
  proof (cases rule: refSubmit_cases)
    case (written z y)
    show ?thesis unfolding written(5) get_upd by (rule upd_upd)
  qed (simp add: upd_get)
  from run show "get (rwObjects w') k = get (rwObjects w) k" if "k \<noteq> keyOf (meta obj)" for k
    by (rule refSubmit_cases) (use that in \<open>simp_all add: get_upd\<close>)
  from run show "get (rwObjects w') (keyOf (meta obj)) = get (rwObjects w) (keyOf (meta obj)) \<or>
      (\<exists>z y. f (lookupOr meta (get (rwObjects w)) obj) = Inr (Inr z) \<and> refAccepts setVersion admit z y \<and>
        get (rwObjects w') (keyOf (meta obj)) = Some y)"
    by (rule refSubmit_cases) (auto simp: get_upd refAccepts_def)
next
  fix obj f w y w'
  assume "refSubmit get upd meta setVersion admit obj f w = (Inr (Inr y), w')"
  then show "get (rwObjects w') (keyOf (meta obj)) = Some y \<and>
      (\<exists>z. f (lookupOr meta (get (rwObjects w)) obj) = Inr (Inr z) \<and> refAccepts setVersion admit z y)"
  proof (cases rule: refSubmit_cases)
    case unwritten
    then obtain z where "f (lookupOr meta (get (rwObjects w)) obj) = Inr (Inr z)"
      "get (rwObjects w) (keyOf (meta obj)) = Some y"
      "setVersion '''' (admit (Some y) z) = setVersion '''' y" by (auto simp: setVersion_twice)
    moreover obtain v where "setVersion v y = y" using setVersion_id by blast
    ultimately have "y = setVersion v (admit (Some y) z)" by (metis setVersion_twice)
    then show ?thesis using unwritten(1) \<open>f _ = _\<close> \<open>get _ _ = _\<close> unfolding refAccepts_def by blast
  qed (auto simp: get_upd refAccepts_def)
next
  fix w obj f x r w'
  assume "settledAt meta desired (refAccepts setVersion admit) (get (rwObjects w)) obj f x"
    and "refSubmit get upd meta setVersion admit obj f w = (r, w')"
  then show "get (rwObjects w') = get (rwObjects w)"
    by (elim refSubmit_cases) (auto simp: settledAt_def refAccepts_def lookupOr_def setVersion_twice admit_again)
qed (use admit_keeps admit_refl upd_get in \<open>auto simp: refAccepts_def\<close>)

section \<open>The four kinds\<close>

definition allocate :: "string \<Rightarrow> string option \<Rightarrow> string \<Rightarrow> string" where
  "allocate fresh old wanted = (if wanted \<noteq> '''' then wanted else case old of None \<Rightarrow> fresh | Some v \<Rightarrow> v)"

definition refAdmitService :: "Service option \<Rightarrow> Service \<Rightarrow> Service" where
  "refAdmitService old z = z\<lparr>svcSpec := (svcSpec z)\<lparr>svcClusterIP :=
     allocate ''10.0.0.7'' (map_option (svcClusterIP \<circ> svcSpec) old) (svcClusterIP (svcSpec z))\<rparr>\<rparr>"

definition refAdmitRoute :: "Route option \<Rightarrow> Route \<Rightarrow> Route" where
  "refAdmitRoute old z = z\<lparr>rtSpec := (rtSpec z)\<lparr>rtHost :=
     allocate ''sso.apps.example.com'' (map_option (rtHost \<circ> rtSpec) old) (rtHost (rtSpec z))\<rparr>\<rparr>"

definition refAdmitStatefulSet :: "StatefulSet option \<Rightarrow> StatefulSet \<Rightarrow> StatefulSet" where
  "refAdmitStatefulSet old z = z\<lparr>
     stsStatusReplicas := (case old of None \<Rightarrow> 0 | Some x \<Rightarrow> stsStatusReplicas x),
     stsStatusReadyReplicas := (case old of None \<Rightarrow> 0 | Some x \<Rightarrow> stsStatusReadyReplicas x)\<rparr>"

definition refAdmitServiceMonitor :: "ServiceMonitor option \<Rightarrow> ServiceMonitor \<Rightarrow> ServiceMonitor" where
  "refAdmitServiceMonitor old z = z"

definition svcVersion :: "string \<Rightarrow> Service \<Rightarrow> Service" where
  "svcVersion v z = z\<lparr>svcMeta := (svcMeta z)\<lparr>metaResourceVersion := v\<rparr>\<rparr>"

definition rtVersion :: "string \<Rightarrow> Route \<Rightarrow> Route" where
  "rtVersion v z = z\<lparr>rtMeta := (rtMeta z)\<lparr>metaResourceVersion := v\<rparr>\<rparr>"

definition stsVersion :: "string \<Rightarrow> StatefulSet \<Rightarrow> StatefulSet" where
  "stsVersion v z = z\<lparr>stsMeta := (stsMeta z)\<lparr>metaResourceVersion := v\<rparr>\<rparr>"

definition smVersion :: "string \<Rightarrow> ServiceMonitor \<Rightarrow> ServiceMonitor" where
  "smVersion v z = z\<lparr>smMeta := (smMeta z)\<lparr>metaResourceVersion := v\<rparr>\<rparr>"

text \<open>Only the calls of the Keycloak controller are served.\<close>

definition refClient :: "refWorld client" where
  "refClient =
     (let nope = StatusError True ''not found'' in \<lparr>
      GetKeycloak = (\<lambda>k w. (case rwKeycloaks w k of None \<Rightarrow> Inl nope | Some cr \<Rightarrow> Inr cr, w)),
      GetKeycloakImport = (\<lambda>k w. (Inl nope, w)), GetStatefulSet = (\<lambda>k w. (Inl nope, w)), GetSecret = (\<lambda>k w. (Inl nope, w)),
      ListJobs = (\<lambda>n l w. (Inr [], w)), ListSecrets = (\<lambda>n l w. (Inr [], w)), ListKeycloakImports = (\<lambda>w. (Inr [], w)),
      CreateJob = (\<lambda>x w. (Some nope, w)), DeleteJob = (\<lambda>x w. (Some nope, w)), DeleteSecret = (\<lambda>x w. (Some nope, w)),
      UpdateKeycloakImport = (\<lambda>x w. (Inl nope, w)), UpdateStatefulSet = (\<lambda>x w. (Some nope, w)),
      UpdateKeycloakStatus = (\<lambda>cr w. (None,
        w\<lparr>rwKeycloaks := (rwKeycloaks w)(keyOf (kcMeta cr) \<mapsto>
            cr\<lparr>kcMeta := (kcMeta cr)\<lparr>metaResourceVersion := Itoa (rwVersion w)\<rparr>\<rparr>),
          rwVersion := Suc (rwVersion w)\<rparr>)),
      UpdateKeycloakImportStatus = (\<lambda>x w. (Some nope, w)),
      ApplyService = refSubmit objServices objServices_update svcMeta svcVersion refAdmitService,
      ApplyRoute = refSubmit objRoutes objRoutes_update rtMeta rtVersion refAdmitRoute,
      ApplyStatefulSet = refSubmit objStatefulSets objStatefulSets_update stsMeta stsVersion refAdmitStatefulSet,
      ApplyServiceMonitor = refSubmit objServiceMonitors objServiceMonitors_update smMeta smVersion refAdmitServiceMonitor,
      ApplySecret = (\<lambda>x f w. (Inr (Inl nope), w)), Now = (\<lambda>w. (0, w))\<rparr>)"

definition refAdmission :: admission where
  "refAdmission = \<lparr>admitsService = refAccepts svcVersion refAdmitService, admitsRoute = refAccepts rtVersion refAdmitRoute,
     admitsStatefulSet = refAccepts stsVersion refAdmitStatefulSet,
     admitsServiceMonitor = refAccepts smVersion refAdmitServiceMonitor\<rparr>"

lemmas ref_kind_simps = refAdmitService_def refAdmitRoute_def refAdmitStatefulSet_def refAdmitServiceMonitor_def
  svcVersion_def rtVersion_def stsVersion_def smVersion_def desiredService_def desiredRoute_def desiredStatefulSet_def
  desiredServiceMonitor_def allocate_def keepsStatefulSet_def podAnnotations_def

interpretation ref_services: ref_kind objServices objServices_update svcMeta svcVersion refAdmitService desiredService
  "\<lambda>z y. sameMeta (svcMeta z) (svcMeta y)"
proof unfold_locales
  show "\<exists>old v'. z = svcVersion v' (refAdmitService old z)" for z
    by (rule exI [of _ "Some z"], rule exI [of _ "metaResourceVersion (svcMeta z)"]) (simp add: ref_kind_simps)
  show "\<exists>v'. svcVersion v' z = z" for z
    by (rule exI [of _ "metaResourceVersion (svcMeta z)"]) (simp add: ref_kind_simps)
qed (simp_all add: ref_kind_simps)

interpretation ref_routes: ref_kind objRoutes objRoutes_update rtMeta rtVersion refAdmitRoute desiredRoute
  "\<lambda>z y. sameMeta (rtMeta z) (rtMeta y)"
proof unfold_locales
  show "\<exists>old v'. z = rtVersion v' (refAdmitRoute old z)" for z
    by (rule exI [of _ "Some z"], rule exI [of _ "metaResourceVersion (rtMeta z)"]) (simp add: ref_kind_simps)
  show "\<exists>v'. rtVersion v' z = z" for z
    by (rule exI [of _ "metaResourceVersion (rtMeta z)"]) (simp add: ref_kind_simps)
qed (simp_all add: ref_kind_simps)

interpretation ref_workloads: ref_kind objStatefulSets objStatefulSets_update stsMeta stsVersion refAdmitStatefulSet
  desiredStatefulSet keepsStatefulSet
proof unfold_locales
  show "\<exists>old v'. z = stsVersion v' (refAdmitStatefulSet old z)" for z
    by (rule exI [of _ "Some z"], rule exI [of _ "metaResourceVersion (stsMeta z)"]) (simp add: ref_kind_simps)
  show "\<exists>v'. stsVersion v' z = z" for z
    by (rule exI [of _ "metaResourceVersion (stsMeta z)"]) (simp add: ref_kind_simps)
qed (simp_all add: ref_kind_simps)

interpretation ref_monitors: ref_kind objServiceMonitors objServiceMonitors_update smMeta smVersion refAdmitServiceMonitor
  desiredServiceMonitor "\<lambda>z y. sameMeta (smMeta z) (smMeta y)"
proof unfold_locales
  show "\<exists>old v'. z = smVersion v' (refAdmitServiceMonitor old z)" for z
    by (rule exI, rule exI [of _ "metaResourceVersion (smMeta z)"]) (simp add: ref_kind_simps)
  show "\<exists>v'. smVersion v' z = z" for z
    by (rule exI [of _ "metaResourceVersion (smMeta z)"]) (simp add: ref_kind_simps)
qed (simp_all add: ref_kind_simps)

lemma refClient_simps [simp]:
  "GetKeycloak refClient k w = (case rwKeycloaks w k of None \<Rightarrow> Inl (StatusError True ''not found'') | Some cr \<Rightarrow> Inr cr, w)"
  "UpdateKeycloakStatus refClient cr w = (None,
     w\<lparr>rwKeycloaks := (rwKeycloaks w)(keyOf (kcMeta cr) \<mapsto>
         cr\<lparr>kcMeta := (kcMeta cr)\<lparr>metaResourceVersion := Itoa (rwVersion w)\<rparr>\<rparr>),
       rwVersion := Suc (rwVersion w)\<rparr>)"
  "ApplyService refClient = refSubmit objServices objServices_update svcMeta svcVersion refAdmitService"
  "ApplyRoute refClient = refSubmit objRoutes objRoutes_update rtMeta rtVersion refAdmitRoute"
  "ApplyStatefulSet refClient = refSubmit objStatefulSets objStatefulSets_update stsMeta stsVersion refAdmitStatefulSet"
  "ApplyServiceMonitor refClient =
     refSubmit objServiceMonitors objServiceMonitors_update smMeta smVersion refAdmitServiceMonitor"
  "Now refClient w = (0, w)"
  by (simp_all add: refClient_def Let_def)

interpretation ref_cluster: operator_cluster refClient rwObjects refAdmission refDeps
proof -
  have k: "kube_cluster refClient rwObjects refAdmission"
    by (intro kube_cluster.intro kube_cluster_axioms.intro)
      (simp_all add: refAdmission_def ref_services.object_store_axioms ref_routes.object_store_axioms
        ref_workloads.object_store_axioms ref_monitors.object_store_axioms)
  show "operator_cluster refClient rwObjects refAdmission refDeps"
    by (rule operator_cluster.intro [OF k owner_refs_refDeps])
qed

section \<open>A run of the in-memory cluster\<close>

definition exampleRequest :: ObjectKey where "exampleRequest = objectKey ''identity'' ''sso''"

definition exampleState :: "refWorld sys" where
  "exampleState = \<lparr>world =
     \<lparr>rwObjects = \<lparr>objServices = Map.empty, objRoutes = Map.empty, objStatefulSets = Map.empty,
        objServiceMonitors = Map.empty\<rparr>,
      rwKeycloaks = [exampleRequest \<mapsto> exampleKeycloak], rwVersion = 1\<rparr>, trace = []\<rparr>"

lemma refSubmit_create:
  assumes "f obj = Inr (Inr z)" "get (rwObjects w) (keyOf (meta obj)) = None"
  shows "refSubmit get upd meta setVersion admit obj f w =
    (let y = setVersion (Itoa (rwVersion w)) (admit None z) in
     (Inr (Inr y), w\<lparr>rwObjects := upd (\<lambda>m. m(keyOf (meta obj) \<mapsto> y)) (rwObjects w), rwVersion := Suc (rwVersion w)\<rparr>))"
  using assms by (simp add: refSubmit_def lookupOr_def)

lemma exampleRun:
  obtains r s cr where "Keycloak_Reconcile refDeps refClient exampleRequest exampleState = (r, s)"
    "monitored (trace s)" "sameInstance exampleKeycloak cr" "rwKeycloaks (world s) exampleRequest = Some cr"
proof -
  obtain svc disc rt mon where b:
    "RHBKService_Build refDeps exampleKeycloak (RHBKService_init exampleKeycloak) = Inr svc"
    "RHBKDiscoveryService_Build refDeps exampleKeycloak (RHBKDiscoveryService_init exampleKeycloak) = Inr disc"
    "RHBKRoute_Build refDeps exampleKeycloak (RHBKRoute_init exampleKeycloak) = Inr rt"
    "ServiceMonitor_mutateFn refDeps exampleKeycloak (ServiceMonitor_init exampleKeycloak) = Inr mon"
    by (rule exampleNetwork)
  obtain sts where t: "RHBKStatefulSet_Build refDeps exampleKeycloak (rtHost (rtSpec (refAdmitRoute None rt)))
      (RHBKStatefulSet_init exampleKeycloak) = Inr (Inr sts)"
    using exampleStatefulSet by blast
  have k: "keyOf (kcMeta exampleKeycloak) = exampleRequest"
    by (simp add: exampleKeycloak_def namedMeta_def keyOf_def exampleRequest_def)
  show ?thesis
    apply (rule that)
       apply (simp add: Keycloak_Reconcile_def andThen_def call_def callBack_def lift_panic_def ret_def result_def
        RHBKService_CreateOrUpdate_def RHBKDiscoveryService_CreateOrUpdate_def RHBKRoute_CreateOrUpdate_def
        RHBKStatefulSet_CreateOrUpdate_def ServiceMonitor_CreateOrUpdate_def Let_def exampleState_def
        refSubmit_create b t rtVersion_def service_keys_differ [of exampleKeycloak, symmetric] Keycloak_HandleSuccess_def
        Keycloak_HandleError_def readClock_def IsStatefulSetReady_def stsVersion_def refAdmitStatefulSet_def
        withReady_def k)
      apply (simp_all add: sameInstance_def k)
    done
qed

definition markedState :: "refWorld sys" where
  "markedState =
     (let sts = RHBKStatefulSet_init exampleKeycloak; tpl = stsTemplate (stsSpec sts);
          marked = sts\<lparr>stsSpec := (stsSpec sts)\<lparr>stsTemplate := tpl\<lparr>tplMeta := (tplMeta tpl)\<lparr>metaAnnotations :=
            Some [''import-job-realm'' \<mapsto> ''7'']\<rparr>\<rparr>\<rparr>\<rparr>;
          w = world exampleState in
      exampleState\<lparr>world := w\<lparr>rwObjects := (rwObjects w)\<lparr>objStatefulSets := [exampleRequest \<mapsto> marked]\<rparr>\<rparr>\<rparr>)"

section \<open>Properties\<close>

text \<open>
  C16: the Keycloak controller converges. Take any cluster that obeys the laws of \<open>kube_cluster\<close> and a
  reconcile that got through all five resources (the last one, the service monitor, was applied).
  A later reconcile of the resource, whose spec has not changed and while nobody else has
  changed the five kinds, leaves every service, route, stateful set and service monitor of the cluster
  exactly as it is, versions included, whether or not its own calls fail: the controller does
  not fight with the defaults and allocations of the server.
\<close>

theorem Keycloak_Reconcile_converges:
  assumes "operator_cluster c view a d"
    and "fst (GetKeycloak c req (world s)) = Inr cr"
    and "Keycloak_Reconcile d c req s = (r, s1)" and "list_ex appliedMonitor (drop (length (trace s)) (trace s1))"
    and "view (world s2) = view (world s1)"
    and "fst (GetKeycloak c req (world s2)) = Inr cr'" and "sameInstance cr cr'"
    and "Keycloak_Reconcile d c req s2 = (r', s3)"
  shows "view (world s3) = view (world s1)"
proof -
  have "instanceSettled a d cr (view (world s1))"
    using ensures_run [OF operator_cluster.wp_settles [OF assms(1,2)] assms(3)] assms(4)
    by (auto simp: operator_cluster.goal_def [OF assms(1)])
  then show ?thesis
    using ensures_run [OF operator_cluster.wp_settled_instance [OF assms(1)] assms(8)] assms(5-7) by force
qed

theorem Keycloak_Reconcile_converges_witness:
  "\<exists>r s1. Keycloak_Reconcile refDeps refClient exampleRequest exampleState = (r, s1) \<and>
     list_ex appliedMonitor (trace s1) \<and>
     rwObjects (world (snd (Keycloak_Reconcile refDeps refClient exampleRequest s1))) = rwObjects (world s1)"
proof -
  obtain r s cr where run: "Keycloak_Reconcile refDeps refClient exampleRequest exampleState = (r, s)"
    "monitored (trace s)" "sameInstance exampleKeycloak cr" "rwKeycloaks (world s) exampleRequest = Some cr"
    by (rule exampleRun)
  obtain r' s' where "Keycloak_Reconcile refDeps refClient exampleRequest s = (r', s')" by fastforce
  with Keycloak_Reconcile_converges [OF ref_cluster.operator_cluster_axioms _ run(1) _ refl _ run(3) this] run
  show ?thesis by (simp add: exampleState_def)
qed

text \<open>
  the Keycloak controller never undoes a rollout. An import controller that wants the pods
  restarted writes a marker into the annotations of the pod template. Whatever a reconcile of
  any Keycloak resource does to a cluster that obeys the laws of \<open>kube_cluster\<close>, whichever of its
  calls fail, every stateful set that was stored is still stored and its pod template has the same
  annotations.
\<close>

theorem Keycloak_Reconcile_keeps_markers:
  assumes "operator_cluster c view a d"
    and "objStatefulSets (view (world s)) k = Some sts"
    and "Keycloak_Reconcile d c req s = (r, s')"
  shows "\<exists>sts'. objStatefulSets (view (world s')) k = Some sts' \<and> podAnnotations sts' = podAnnotations sts"
  using ensures_run [OF operator_cluster.ensures_marked_reconcile [OF assms(1)] assms(3), of "podAnnotations sts" k] assms(2)
  by (simp add: operator_cluster.marked_def [OF assms(1)])

theorem Keycloak_Reconcile_keeps_markers_witness:
  "\<exists>sts. objStatefulSets (rwObjects (world (snd (Keycloak_Reconcile refDeps refClient exampleRequest markedState)))) exampleRequest = Some sts \<and>
     podAnnotations sts = Some [''import-job-realm'' \<mapsto> ''7'']"
proof -
  obtain r s where run: "Keycloak_Reconcile refDeps refClient exampleRequest markedState = (r, s)" by fastforce
  have "\<exists>sts. objStatefulSets (rwObjects (world markedState)) exampleRequest = Some sts \<and>
      podAnnotations sts = Some [''import-job-realm'' \<mapsto> ''7'']"
    by (simp add: markedState_def Let_def podAnnotations_def)
  with Keycloak_Reconcile_keeps_markers [OF ref_cluster.operator_cluster_axioms _ run] run show ?thesis by fastforce
qed

end
