(* ===== verification/VersionedStatus.thy ===== *)
theory VersionedStatus
  imports ApiTypes
begin

text \<open>
  \<^verbatim>\<open>api/v1alpha1/versioned_status.go\<close> and \<^verbatim>\<open>FormatResource\<close> of \<^verbatim>\<open>internal/resources/utils.go\<close>: the
  fingerprints of objects that a status may record. The controllers of this version do not call
  them.

  The functions take values of any type and inspect them by reflection. \<open>goval\<close> is a Go value as
  reflection sees it here: a nil, a pointer, a struct with the fields that \<^verbatim>\<open>FieldByName\<close> resolves
  (promoted ones included; a field behind a nil embedded pointer, on which reflection panics, is not
  represented), or anything else. The encodings of arbitrary values (\<^verbatim>\<open>json.Marshal\<close>, \<^verbatim>\<open>json.MarshalIndent\<close>,
  the verb \<^verbatim>\<open>%v\<close>) are functions of the record \<open>encoders\<close>, of which nothing is assumed; MD5 and base64
  are defined.
\<close>

section \<open>MD5\<close>

unbundle bit_operations_syntax

definition md5_K :: "int32 list" where
  "md5_K = [
      3614090360, 3905402710, 606105819, 3250441966, 4118548399, 1200080426, 2821735955, 4249261313,
      1770035416, 2336552879, 4294925233, 2304563134, 1804603682, 4254626195, 2792965006, 1236535329,
      4129170786, 3225465664, 643717713, 3921069994, 3593408605, 38016083, 3634488961, 3889429448,
      568446438, 3275163606, 4107603335, 1163531501, 2850285829, 4243563512, 1735328473, 2368359562,
      4294588738, 2272392833, 1839030562, 4259657740, 2763975236, 1272893353, 4139469664, 3200236656,
      681279174, 3936430074, 3572445317, 76029189, 3654602809, 3873151461, 530742520, 3299628645,
      4096336452, 1126891415, 2878612391, 4237533241, 1700485571, 2399980690, 4293915773, 2240044497,
      1873313359, 4264355552, 2734768916, 1309151649, 4149444226, 3174756917, 718787259, 3951481745]"

definition md5_shifts :: "nat list" where
  "md5_shifts = concat (replicate 4 [7, 12, 17, 22]) @ concat (replicate 4 [5, 9, 14, 20]) @
     concat (replicate 4 [4, 11, 16, 23]) @ concat (replicate 4 [6, 10, 15, 21])"

text \<open>Little-endian words and bytes.\<close>

definition leWord :: "string \<Rightarrow> int32" where
  "leWord bs = foldr (\<lambda>c w. push_bit 8 w OR of_int (of_char c)) bs 0"

definition leBytes :: "nat \<Rightarrow> int \<Rightarrow> string" where
  "leBytes n x = map (\<lambda>i. char_of (x div 256 ^ i)) [0..<n]"

definition md5_pad :: "string \<Rightarrow> string" where
  "md5_pad msg = msg @ [char_of (128 :: int)] @ replicate ((119 - length msg mod 64) mod 64) (char_of (0 :: int)) @
     leBytes 8 (8 * int (length msg))"

definition md5_step :: "int32 list \<Rightarrow> nat \<Rightarrow> int32 \<times> int32 \<times> int32 \<times> int32 \<Rightarrow> int32 \<times> int32 \<times> int32 \<times> int32" where
  "md5_step ws i = (\<lambda>(a, b, c, d).
     let (f, g) =
       (if i < 16 then ((b AND c) OR (NOT b AND d), i)
        else if i < 32 then ((d AND b) OR (NOT d AND c), (5 * i + 1) mod 16)
        else if i < 48 then (b XOR c XOR d, (3 * i + 5) mod 16)
        else (c XOR (b OR NOT d), (7 * i) mod 16))
     in (d, b + word_rotl (md5_shifts ! i) (f + a + md5_K ! i + ws ! g), b, c))"

fun chunks :: "nat \<Rightarrow> nat \<Rightarrow> 'a list \<Rightarrow> 'a list list" where
  "chunks k 0 xs = []"
| "chunks k (Suc n) xs = take k xs # chunks k n (drop k xs)"

definition md5_block :: "int32 \<times> int32 \<times> int32 \<times> int32 \<Rightarrow> string \<Rightarrow> int32 \<times> int32 \<times> int32 \<times> int32" where
  "md5_block st bs =
     (case st of (a0, b0, c0, d0) \<Rightarrow>
      case fold (md5_step (map leWord (chunks 4 16 bs))) [0..<64] st of (a, b, c, d) \<Rightarrow>
        (a0 + a, b0 + b, c0 + c, d0 + d))"

definition md5 :: "string \<Rightarrow> string" where
  "md5 msg =
     (let bs = md5_pad msg in
      case fold (\<lambda>blk st. md5_block st blk) (chunks 64 (length bs div 64) bs)
             (1732584193, 4023233417, 2562383102, 271733878) of
        (a, b, c, d) \<Rightarrow> concat (map (\<lambda>w. leBytes 4 (uint w)) [a, b, c, d]))"

section \<open>Base64\<close>

definition base64Alphabet :: string where
  "base64Alphabet = ''ABCDEFGHIJKLMNOPQRSTUVWXYZabcdefghijklmnopqrstuvwxyz0123456789+/''"

definition byte :: "char \<Rightarrow> int" where "byte c = of_char c"

definition sextet :: "int \<Rightarrow> char" where
  "sextet n = base64Alphabet ! nat (n mod 64)"

fun base64 :: "string \<Rightarrow> string" where
  "base64 [] = []"
| "base64 [a] = (let x = byte a * 16 in [sextet (x div 64), sextet x, CHR ''='', CHR ''=''])"
| "base64 [a, b] =
     (let x = (byte a * 256 + byte b) * 4 in [sextet (x div 4096), sextet (x div 64), sextet x, CHR ''=''])"
| "base64 (a # b # c # rest) =
     (let x = (byte a * 256 + byte b) * 256 + byte c in
      [sextet (x div 262144), sextet (x div 4096), sextet (x div 64), sextet x] @ base64 rest)"

section \<open>Fingerprints\<close>

datatype goval =
    GNil
  | GPtr "goval option"
  | GStruct "(string \<times> goval) list"
  | GOther string

record encoders =
  Marshal :: "goval \<Rightarrow> goerror + string"
  MarshalIndent :: "goval \<Rightarrow> goerror + string"
  SprintV :: "goval \<Rightarrow> string"

definition ExtractSpec :: "goval \<Rightarrow> goval option" where
  "ExtractSpec obj =
     (let v = (case obj of GPtr None \<Rightarrow> GNil | GPtr (Some e) \<Rightarrow> e | _ \<Rightarrow> obj) in
      case v of GStruct fs \<Rightarrow> map_of fs ''Spec'' | _ \<Rightarrow> None)"

definition hashedBytes :: "encoders \<Rightarrow> goval \<Rightarrow> string" where
  "hashedBytes e obj =
     (let hashable = (case ExtractSpec obj of Some spec \<Rightarrow> spec | None \<Rightarrow> obj) in
      case Marshal e hashable of Inl err \<Rightarrow> SprintV e hashable | Inr specBytes \<Rightarrow> specBytes)"

definition ComputeHash :: "encoders \<Rightarrow> goval \<Rightarrow> string" where
  "ComputeHash e obj = base64 (md5 (hashedBytes e obj))"

definition UpdateVersion :: "encoders \<Rightarrow> VersionedStatus \<Rightarrow> string \<Rightarrow> goval \<Rightarrow> VersionedStatus" where
  "UpdateVersion e s key obj =
     (let versions = (case vsResourceVersions s of None \<Rightarrow> Map.empty | Some m \<Rightarrow> m) in
      s\<lparr>vsResourceVersions := Some (versions(key \<mapsto> ComputeHash e obj))\<rparr>)"

definition HasBeenUpdated :: "encoders \<Rightarrow> VersionedStatus \<Rightarrow> string \<Rightarrow> goval \<Rightarrow> bool" where
  "HasBeenUpdated e s key obj =
     (case goLookup (vsResourceVersions s) key of None \<Rightarrow> False | Some current \<Rightarrow> current = ComputeHash e obj)"

definition FormatResource :: "encoders \<Rightarrow> goval \<Rightarrow> string" where
  "FormatResource e obj =
     (case MarshalIndent e obj of Inl err \<Rightarrow> SprintV e obj @ [CHR 0x0A] | Inr jsonData \<Rightarrow> jsonData)"

section \<open>Base64 is injective\<close>

lemma byte_range: "0 \<le> byte c" "byte c \<le> 255"
proof -
  have "byte c = byte c mod 256" by (simp add: byte_def of_char_mod_256)
  then show "0 \<le> byte c" "byte c \<le> 255" using pos_mod_bound [of 256 "byte c"] pos_mod_sign [of 256 "byte c"] by linarith+
qed

lemma byte_eq: "byte a = byte b \<longleftrightarrow> a = b"
  by (simp add: byte_def of_char_eq_iff)

lemma base64Alphabet_distinct: "distinct base64Alphabet" "length base64Alphabet = 64" "CHR ''='' \<notin> set base64Alphabet"
  by (code_simp)+

lemma sextet_eq: "sextet m = sextet n \<longleftrightarrow> m mod 64 = n mod 64"
proof -
  have "nat (m mod 64) < length base64Alphabet" for m :: int
    unfolding base64Alphabet_distinct by (simp add: nat_less_iff)
  then show ?thesis
    by (simp add: sextet_def nth_eq_iff_index_eq [OF base64Alphabet_distinct(1)] eq_nat_nat_iff)
qed

lemma sextet_padding: "sextet n \<noteq> CHR ''=''" "CHR ''='' \<noteq> sextet n"
proof -
  have "nat (n mod 64) < length base64Alphabet"
    unfolding base64Alphabet_distinct by (simp add: nat_less_iff)
  then have "sextet n \<in> set base64Alphabet" unfolding sextet_def by (rule nth_mem)
  with base64Alphabet_distinct(3) show "sextet n \<noteq> CHR ''=''" "CHR ''='' \<noteq> sextet n" by metis+
qed

text \<open>The digits of a number in base 64 determine it.\<close>

lemma digits64_step:
  fixes x y :: int
  assumes "x mod 64 = y mod 64" "x div 64 = y div 64"
  shows "x = y"
  using assms by (metis mult_div_mod_eq)

lemma div_range:
  assumes "0 \<le> (x :: int)" "x < 64 * n"
  shows "0 \<le> x div 64" "x div 64 < n"
  using assms by (auto simp: pos_imp_zdiv_nonneg_iff int_div_less_self div_less_iff_less_mult)

lemma div_div64: "x div 64 div 64 = x div (4096 :: int)" "x div 64 div 4096 = x div (262144 :: int)"
  using zdiv_zmult2_eq [of 64 x 64] zdiv_zmult2_eq [of 4096 x 64] by simp_all

lemma digits64_2:
  fixes x y :: int
  assumes "0 \<le> x" "x < 64 * 64" "0 \<le> y" "y < 64 * 64" "x mod 64 = y mod 64" "x div 64 mod 64 = y div 64 mod 64"
  shows "x = y"
  using assms(5)
proof (rule digits64_step)
  show "x div 64 = y div 64"
    using assms(6) unfolding mod_pos_pos_trivial [OF div_range [OF assms(1,2)]] mod_pos_pos_trivial [OF div_range [OF assms(3,4)]] .
qed

lemma digits64_3:
  fixes x y :: int
  assumes "0 \<le> x" "x < 64 * (64 * 64)" "0 \<le> y" "y < 64 * (64 * 64)"
    and "x mod 64 = y mod 64" "x div 64 mod 64 = y div 64 mod 64" "x div 4096 mod 64 = y div 4096 mod 64"
  shows "x = y"
  by (rule digits64_step [OF assms(5)], rule digits64_2)
    (rule div_range [OF assms(1,2)] div_range [OF assms(3,4)] assms(6) assms(7) [folded div_div64])+

lemma digits64_4:
  fixes x y :: int
  assumes "0 \<le> x" "x < 64 * (64 * (64 * 64))" "0 \<le> y" "y < 64 * (64 * (64 * 64))"
    and "x mod 64 = y mod 64" "x div 64 mod 64 = y div 64 mod 64" "x div 4096 mod 64 = y div 4096 mod 64"
    and "x div 262144 mod 64 = y div 262144 mod 64"
  shows "x = y"
  by (rule digits64_step [OF assms(5)], rule digits64_3)
    (rule div_range [OF assms(1,2)] div_range [OF assms(3,4)] assms(6) assms(7) [folded div_div64(1)]
      assms(8) [folded div_div64(2)])+

lemma bytes_eq:
  assumes "x * 256 + byte b = x' * 256 + byte b'"
  shows "x = x'" "b = b'"
proof -
  have "(y * 256 + byte c) div 256 = y" "(y * 256 + byte c) mod 256 = byte c" for y c
    using byte_range [of c] by simp_all
  with assms have "x = x'" "byte b = byte b'" by metis+
  then show "x = x'" "b = b'" by (simp_all add: byte_eq)
qed

lemma base64_injective: "base64 s = base64 t \<Longrightarrow> s = t"
proof (induction s arbitrary: t rule: base64.induct)
  case 1
  then show ?case by (cases t rule: base64.cases) (simp_all add: Let_def)
next
  case (2 a)
  then obtain a' where t: "t = [a']" by (cases t rule: base64.cases) (auto simp: Let_def sextet_padding)
  with 2 have d: "(byte a * 16) mod 64 = (byte a' * 16) mod 64" "(byte a * 16) div 64 mod 64 = (byte a' * 16) div 64 mod 64"
    by (simp_all only: base64.simps Let_def sextet_eq list.inject)
  have "byte a * 16 = byte a' * 16"
    by (rule digits64_2 [OF _ _ _ _ d]) (use byte_range [of a] byte_range [of a'] in linarith)+
  with t show ?case by (simp add: byte_eq)
next
  case (3 a b)
  then obtain a' b' where t: "t = [a', b']" by (cases t rule: base64.cases) (auto simp: Let_def sextet_padding)
  let ?x = "(byte a * 256 + byte b) * 4" and ?y = "(byte a' * 256 + byte b') * 4"
  from 3 t have d: "?x mod 64 = ?y mod 64" "?x div 64 mod 64 = ?y div 64 mod 64" "?x div 4096 mod 64 = ?y div 4096 mod 64"
    by (simp_all only: base64.simps Let_def sextet_eq list.inject)
  have "?x = ?y"
    by (rule digits64_3 [OF _ _ _ _ d]) (use byte_range [of a] byte_range [of a'] byte_range [of b] byte_range [of b'] in \<open>simp add: algebra_simps\<close>)+
  with t show ?case using bytes_eq [of "byte a" b "byte a'" b'] by (simp add: byte_eq)
next
  case (4 a b c rest)
  then obtain a' b' c' rest' where t: "t = a' # b' # c' # rest'"
    by (cases t rule: base64.cases) (auto simp: Let_def sextet_padding)
  let ?x = "(byte a * 256 + byte b) * 256 + byte c" and ?y = "(byte a' * 256 + byte b') * 256 + byte c'"
  from 4(2) t have d: "?x mod 64 = ?y mod 64" "?x div 64 mod 64 = ?y div 64 mod 64" "?x div 4096 mod 64 = ?y div 4096 mod 64"
    "?x div 262144 mod 64 = ?y div 262144 mod 64" and r: "base64 rest = base64 rest'"
    by (simp_all only: base64.simps Let_def sextet_eq list.inject append.simps)
  have "?x = ?y"
    by (rule digits64_4 [OF _ _ _ _ d])
      (use byte_range [of a] byte_range [of a'] byte_range [of b] byte_range [of b'] byte_range [of c] byte_range [of c'] in \<open>simp add: algebra_simps\<close>)+
  then have "byte a * 256 + byte b = byte a' * 256 + byte b'" "c = c'" by (rule bytes_eq)+
  with bytes_eq [of "byte a" b "byte a'" b'] 4(1) [OF _ r] t show ?case by (simp add: byte_eq)
qed

text \<open>The digest of the empty message, as RFC 1321 gives it.\<close>

lemma md5_empty:
  "map (of_char :: char \<Rightarrow> int) (md5 []) =
     [0xd4, 0x1d, 0x8c, 0xd9, 0x8f, 0x00, 0xb2, 0x04, 0xe9, 0x80, 0x09, 0x98, 0xec, 0xf8, 0x42, 0x7e]"
  by code_simp

section \<open>Properties\<close>

text \<open>
  What a fingerprint is taken of: the field \<^verbatim>\<open>Spec\<close> of a struct, also behind a pointer, and of everything
  else (a struct without the field, a nil pointer, a pointer to a pointer) the value itself. Encoding falls
  back to the verb \<^verbatim>\<open>%v\<close>.
\<close>

fun recordedPart :: "goval \<Rightarrow> goval" where
  "recordedPart (GStruct fs) = (case map_of fs ''Spec'' of Some spec \<Rightarrow> spec | None \<Rightarrow> GStruct fs)"
| "recordedPart (GPtr (Some (GStruct fs))) =
     (case map_of fs ''Spec'' of Some spec \<Rightarrow> spec | None \<Rightarrow> GPtr (Some (GStruct fs)))"
| "recordedPart obj = obj"

definition encoded :: "encoders \<Rightarrow> goval \<Rightarrow> string" where
  "encoded e v = (case Marshal e v of Inl err \<Rightarrow> SprintV e v | Inr bytes \<Rightarrow> bytes)"

lemma hashedBytes_recorded: "hashedBytes e obj = encoded e (recordedPart obj)"
  by (cases obj rule: recordedPart.cases)
    (simp_all add: hashedBytes_def ExtractSpec_def encoded_def Let_def split: option.split)

text \<open>
  C38: what a status remembers of an object. After \<open>UpdateVersion\<close> under a key, \<open>HasBeenUpdated\<close> answers for
  that key whether the other object has the same MD5 digest of its encoded spec (base64 loses nothing
  of the digest), and for every other key what it answered before; a status without a map behaves
  as an empty one. So it is true of the recorded object itself, and of every object with the same
  spec, given as a struct or as a pointer: metadata and status do not count. Where there is no field \<^verbatim>\<open>Spec\<close>, it is
  the whole object that is compared.
\<close>

theorem UpdateVersion_HasBeenUpdated:
  "(HasBeenUpdated e (UpdateVersion e s key obj) key' obj' \<longleftrightarrow>
     (if key' = key then md5 (encoded e (recordedPart obj')) = md5 (encoded e (recordedPart obj))
      else HasBeenUpdated e s key' obj')) \<and>
   (HasBeenUpdated e (UpdateVersion e s key (GStruct ((''Spec'', spec) # fs))) key
        (GPtr (Some (GStruct ((''Spec'', spec') # gs)))) \<longleftrightarrow>
      md5 (encoded e spec') = md5 (encoded e spec))"
proof -
  have "HasBeenUpdated e (UpdateVersion e s key obj) key' obj' \<longleftrightarrow>
     (if key' = key then md5 (encoded e (recordedPart obj')) = md5 (encoded e (recordedPart obj))
      else HasBeenUpdated e s key' obj')" for key' obj obj'
  proof -
    have "ComputeHash e obj = ComputeHash e obj' \<longleftrightarrow>
        md5 (encoded e (recordedPart obj')) = md5 (encoded e (recordedPart obj))"
      unfolding ComputeHash_def hashedBytes_recorded using base64_injective by metis
    then show ?thesis
      by (cases "vsResourceVersions s") (auto simp: HasBeenUpdated_def UpdateVersion_def)
  qed
  then show ?thesis by simp
qed

end
