(* ===== verification/Memory.thy ===== *)
theory Memory
  imports ApiTypes
begin

text \<open>
  A memory for the API types: the rest of the development treats custom resources as values; here
  a struct is what Go stores, with pointers, slices and maps as addresses. There is one heap per
  type that can be allocated, and one counter for fresh addresses. The interface \<open>deep_copier\<close> is the contract
  of a \<^verbatim>\<open>DeepCopyInto\<close> function: the copy has the same value, is reached through fresh addresses only,
  and nothing that existed before has changed. There is one rule per construct of the generated code (a
  pointer, a slice, a map, a struct), so that the contract of a type follows from those of its fields.
\<close>

section \<open>Structs in memory\<close>

type_synonym addr = nat

record slice =
  slArray :: addr
  slOffset :: nat
  slLen :: nat

text \<open>A selector of the core API: \<^verbatim>\<open>Optional\<close> is a pointer.\<close>

record mSelector =
  mslName :: string
  mslKey :: string
  mslOptional :: "addr option"

record mSecretOption =
  msoValue :: string
  msoSecret :: "addr option"

record mSecretOptionVar =
  msvName :: string
  msvValue :: string
  msvSecret :: "addr option"

record mPostgresDatabase =
  mdbHost :: mSecretOption
  mdbPort :: mSecretOption
  mdbUser :: mSecretOption
  mdbPassword :: mSecretOption

record mAdminUser =
  mauUsername :: mSecretOption
  mauPassword :: mSecretOption

record mProvider =
  mprName :: string
  mprURL :: mSecretOption

record mFeatures =
  mftEnabled :: "slice option"
  mftDisabled :: "slice option"

record mKeycloakSpec =
  mksDatabase :: "addr option"
  mksAdditionalOptions :: "slice option"
  mksInstances :: "addr option"
  mksTrustedCABundles :: "addr option"
  mksAdmin :: mAdminUser
  mksProviders :: "slice option"
  mksNetworkConfig :: "addr option"
  mksSizing :: "addr option"

record mConditions =
  mcoConditions :: "slice option"

record mVersionedStatus =
  mvsResourceVersions :: "addr option"

record mKeycloakStatus =
  mktConditions :: mConditions

record mKeycloakImportStatus =
  mitVersion :: mVersionedStatus
  mitConditions :: mConditions

record mKeycloakImportSpec =
  misKeycloakInstance :: KeycloakInstance
  misJSON :: string
  misSubstitutions :: "slice option"
  misOverrideIfExists :: bool

text \<open>
  Metadata, with all its fields that are pointers, slices or maps: \<open>TypeMeta\<close> has none. The bytes of
  \<^verbatim>\<open>FieldsV1\<close> are a slice behind a pointer.
\<close>

type_synonym int64 = "64 word"
type_synonym TypeMeta = "string \<times> string"

record mOwnerReference =
  morName :: string
  morController :: "addr option"
  morBlockOwnerDeletion :: "addr option"

record mManagedFields =
  mmfManager :: string
  mmfTime :: "addr option"
  mmfFieldsV1 :: "addr option"

record mObjectMeta =
  momName :: string
  momNamespace :: string
  momResourceVersion :: string
  momDeletionTimestamp :: "addr option"
  momDeletionGracePeriodSeconds :: "addr option"
  momLabels :: "addr option"
  momAnnotations :: "addr option"
  momOwnerReferences :: "slice option"
  momFinalizers :: "slice option"
  momManagedFields :: "slice option"

record mListMeta =
  mlmResourceVersion :: string
  mlmContinue :: string
  mlmRemainingItemCount :: "addr option"

record mKeycloak =
  mkcTypeMeta :: TypeMeta
  mkcObjectMeta :: mObjectMeta
  mkcSpec :: mKeycloakSpec
  mkcStatus :: mKeycloakStatus

record mKeycloakImport =
  mkiTypeMeta :: TypeMeta
  mkiObjectMeta :: mObjectMeta
  mkiSpec :: mKeycloakImportSpec
  mkiStatus :: mKeycloakImportStatus

record mKeycloakList =
  mklTypeMeta :: TypeMeta
  mklListMeta :: mListMeta
  mklItems :: "slice option"

record mKeycloakImportList =
  milTypeMeta :: TypeMeta
  milListMeta :: mListMeta
  milItems :: "slice option"

record mem =
  memNext :: addr
  memSelectors :: "addr \<Rightarrow> mSelector"
  memDatabases :: "addr \<Rightarrow> mPostgresDatabase"
  memInt32s :: "addr \<Rightarrow> int32"
  memReferences :: "addr \<Rightarrow> string"
  memNetworks :: "addr \<Rightarrow> NetworkConfig"
  memSizings :: "addr \<Rightarrow> RealmSizing"
  memMaps :: "addr \<Rightarrow> labels"
  memStrings :: "addr \<Rightarrow> string list"
  memOptions :: "addr \<Rightarrow> mSecretOptionVar list"
  memProviders :: "addr \<Rightarrow> mProvider list"
  memConditions :: "addr \<Rightarrow> Condition list"
  memBools :: "addr \<Rightarrow> bool"
  memTimes :: "addr \<Rightarrow> Time"
  memInt64s :: "addr \<Rightarrow> int64"
  memOwners :: "addr \<Rightarrow> mOwnerReference list"
  memManaged :: "addr \<Rightarrow> mManagedFields list"
  memFields :: "addr \<Rightarrow> slice option"
  memBytes :: "addr \<Rightarrow> string"
  memKeycloaks :: "addr \<Rightarrow> mKeycloak list"
  memImports :: "addr \<Rightarrow> mKeycloakImport list"

section \<open>Reading, allocating, writing\<close>

text \<open>Two memories hold the same at an address, whatever its type.\<close>

definition sameAt :: "mem \<Rightarrow> mem \<Rightarrow> addr \<Rightarrow> bool" where
  "sameAt m m' a \<longleftrightarrow>
     memSelectors m' a = memSelectors m a \<and> memDatabases m' a = memDatabases m a \<and> memInt32s m' a = memInt32s m a \<and>
     memReferences m' a = memReferences m a \<and> memNetworks m' a = memNetworks m a \<and> memSizings m' a = memSizings m a \<and>
     memMaps m' a = memMaps m a \<and> memStrings m' a = memStrings m a \<and> memOptions m' a = memOptions m a \<and>
     memProviders m' a = memProviders m a \<and> memConditions m' a = memConditions m a \<and>
     memBools m' a = memBools m a \<and> memTimes m' a = memTimes m a \<and>
     memInt64s m' a = memInt64s m a \<and> memOwners m' a = memOwners m a \<and>
     memManaged m' a = memManaged m a \<and> memFields m' a = memFields m a \<and>
     memBytes m' a = memBytes m a \<and>
     memKeycloaks m' a = memKeycloaks m a \<and> memImports m' a = memImports m a"

definition extends :: "mem \<Rightarrow> mem \<Rightarrow> bool" where
  "extends m m' \<longleftrightarrow> memNext m \<le> memNext m' \<and> (\<forall>a < memNext m. sameAt m m' a)"

type_synonym 'a copying = "'a \<Rightarrow> mem \<Rightarrow> 'a \<times> mem"

text \<open>\<^verbatim>\<open>**out = **in\<close> and \<^verbatim>\<open>*out = *in\<close> for types without pointers.\<close>

definition copyFlat :: "'a copying" where
  "copyFlat x m = (x, m)"

text \<open>
  A handle (a pointer, a slice) that is not nil: allocate a cell, copy what the handle refers to
  into it, and return the handle of the new cell.
\<close>

definition copyBox ::
  "(((addr \<Rightarrow> 'c) \<Rightarrow> (addr \<Rightarrow> 'c)) \<Rightarrow> mem \<Rightarrow> mem) \<Rightarrow> (mem \<Rightarrow> 'h \<Rightarrow> 'c) \<Rightarrow> (addr \<Rightarrow> 'c \<Rightarrow> 'h) \<Rightarrow> 'c copying \<Rightarrow> 'h option copying" where
  "copyBox upd deref handle copy p m =
     (case p of
        None \<Rightarrow> (None, m)
      | Some h \<Rightarrow>
          (let b = memNext m in
           case copy (deref m h) (m\<lparr>memNext := Suc b\<rparr>) of (v, m1) \<Rightarrow> (Some (handle b v), upd (\<lambda>f. f(b := v)) m1)))"

text \<open>\<^verbatim>\<open>*out = new(T); (*in).DeepCopyInto(*out)\<close>.\<close>

definition copyPtr ::
  "(mem \<Rightarrow> addr \<Rightarrow> 'a) \<Rightarrow> (((addr \<Rightarrow> 'a) \<Rightarrow> (addr \<Rightarrow> 'a)) \<Rightarrow> mem \<Rightarrow> mem) \<Rightarrow> 'a copying \<Rightarrow> addr option copying" where
  "copyPtr get upd copy = copyBox upd get (\<lambda>b v. b) copy"

text \<open>\<^verbatim>\<open>for i := range *in { (*in)[i].DeepCopyInto(&(*out)[i]) }\<close>.\<close>

fun copyAll :: "'a copying \<Rightarrow> 'a list copying" where
  "copyAll copy [] m = ([], m)"
| "copyAll copy (x # xs) m =
     (case copy x m of (y, m1) \<Rightarrow> case copyAll copy xs m1 of (ys, m2) \<Rightarrow> (y # ys, m2))"

definition window :: "(mem \<Rightarrow> addr \<Rightarrow> 'a list) \<Rightarrow> mem \<Rightarrow> slice \<Rightarrow> 'a list" where
  "window get m s = take (slLen s) (drop (slOffset s) (get m (slArray s)))"

definition newSlice :: "addr \<Rightarrow> 'a list \<Rightarrow> slice" where
  "newSlice b ys = \<lparr>slArray = b, slOffset = 0, slLen = length ys\<rparr>"

text \<open>\<^verbatim>\<open>*out = make([]T, len(*in))\<close> and the loop.\<close>

definition copySlice ::
  "(mem \<Rightarrow> addr \<Rightarrow> 'a list) \<Rightarrow> (((addr \<Rightarrow> 'a list) \<Rightarrow> (addr \<Rightarrow> 'a list)) \<Rightarrow> mem \<Rightarrow> mem) \<Rightarrow> 'a copying \<Rightarrow> slice option copying" where
  "copySlice get upd copy = copyBox upd (window get) newSlice (copyAll copy)"

text \<open>Two fields, one after the other.\<close>

definition copyPair :: "'a copying \<Rightarrow> 'b copying \<Rightarrow> ('a \<times> 'b) copying" where
  "copyPair c1 c2 p m =
     (case c1 (fst p) m of (x, m1) \<Rightarrow> case c2 (snd p) m1 of (y, m2) \<Rightarrow> ((x, y), m2))"

section \<open>Laws of the memory\<close>

lemma sameAt_refl [simp]: "sameAt m m a" "sameAt m (m\<lparr>memNext := n\<rparr>) a"
  by (simp_all add: sameAt_def)

lemma sameAt_trans: "sameAt m m' a \<Longrightarrow> sameAt m' m'' a \<Longrightarrow> sameAt m m'' a"
  by (simp add: sameAt_def)

lemma extends_refl [simp]: "extends m m"
  by (simp add: extends_def)

lemma extends_trans: "extends m m' \<Longrightarrow> extends m' m'' \<Longrightarrow> extends m m''"
  unfolding extends_def by (meson le_trans less_le_trans sameAt_trans)

lemma extends_next: "extends m m' \<Longrightarrow> memNext m \<le> memNext m'"
  by (simp add: extends_def)

lemma extends_same: "extends m m' \<Longrightarrow> S \<subseteq> {..<memNext m} \<Longrightarrow> a \<in> S \<Longrightarrow> sameAt m m' a"
  by (auto simp: extends_def)

text \<open>The heap of one type.\<close>

locale heap_kind =
  fixes get :: "mem \<Rightarrow> addr \<Rightarrow> 'a"
    and upd :: "((addr \<Rightarrow> 'a) \<Rightarrow> (addr \<Rightarrow> 'a)) \<Rightarrow> mem \<Rightarrow> mem"
  assumes get_upd: "get (upd g m) = g (get m)"
    and next_upd: "memNext (upd g m) = memNext m"
    and get_same: "sameAt m m' a \<Longrightarrow> get m' a = get m a"
    and upd_same: "a \<noteq> b \<Longrightarrow> sameAt m (upd (\<lambda>h. h(b := v)) m) a"

interpretation selectors: heap_kind memSelectors memSelectors_update
  by unfold_locales (auto simp: sameAt_def)
interpretation databases: heap_kind memDatabases memDatabases_update
  by unfold_locales (auto simp: sameAt_def)
interpretation int32s: heap_kind memInt32s memInt32s_update
  by unfold_locales (auto simp: sameAt_def)
interpretation references: heap_kind memReferences memReferences_update
  by unfold_locales (auto simp: sameAt_def)
interpretation networks: heap_kind memNetworks memNetworks_update
  by unfold_locales (auto simp: sameAt_def)
interpretation sizings: heap_kind memSizings memSizings_update
  by unfold_locales (auto simp: sameAt_def)
interpretation maps: heap_kind memMaps memMaps_update
  by unfold_locales (auto simp: sameAt_def)
interpretation strings: heap_kind memStrings memStrings_update
  by unfold_locales (auto simp: sameAt_def)
interpretation options: heap_kind memOptions memOptions_update
  by unfold_locales (auto simp: sameAt_def)
interpretation providers: heap_kind memProviders memProviders_update
  by unfold_locales (auto simp: sameAt_def)
interpretation conditions: heap_kind memConditions memConditions_update
  by unfold_locales (auto simp: sameAt_def)
interpretation bools: heap_kind memBools memBools_update
  by unfold_locales (auto simp: sameAt_def)
interpretation times: heap_kind memTimes memTimes_update
  by unfold_locales (auto simp: sameAt_def)
interpretation int64s: heap_kind memInt64s memInt64s_update
  by unfold_locales (auto simp: sameAt_def)
interpretation owners: heap_kind memOwners memOwners_update
  by unfold_locales (auto simp: sameAt_def)
interpretation managed: heap_kind memManaged memManaged_update
  by unfold_locales (auto simp: sameAt_def)
interpretation fieldsets: heap_kind memFields memFields_update
  by unfold_locales (auto simp: sameAt_def)
interpretation bytearrays: heap_kind memBytes memBytes_update
  by unfold_locales (auto simp: sameAt_def)
interpretation keycloaks: heap_kind memKeycloaks memKeycloaks_update
  by unfold_locales (auto simp: sameAt_def)
interpretation importlists: heap_kind memImports memImports_update
  by unfold_locales (auto simp: sameAt_def)

section \<open>The contract of a deep copy\<close>

text \<open>
  \<open>view m x\<close> is the value that the struct \<open>x\<close> stands for in memory \<open>m\<close>, \<open>reach m x\<close> the addresses it is
  read from.
\<close>

locale deep_copier =
  fixes copy :: "'a copying"
    and view :: "mem \<Rightarrow> 'a \<Rightarrow> 'v"
    and reach :: "mem \<Rightarrow> 'a \<Rightarrow> addr set"
  assumes copy_extends: "copy x m = (y, m') \<Longrightarrow> extends m m'"
    and copy_view: "reach m x \<subseteq> {..<memNext m} \<Longrightarrow> copy x m = (y, m') \<Longrightarrow> view m' y = view m x"
    and copy_fresh: "reach m x \<subseteq> {..<memNext m} \<Longrightarrow> copy x m = (y, m') \<Longrightarrow> reach m' y \<subseteq> {memNext m..<memNext m'}"
    and view_local: "(\<And>a. a \<in> reach m x \<Longrightarrow> sameAt m m' a) \<Longrightarrow> view m' x = view m x"
    and reach_local: "(\<And>a. a \<in> reach m x \<Longrightarrow> sameAt m m' a) \<Longrightarrow> reach m' x = reach m x"
begin

text \<open>What exists is not affected by copying: neither by this copier nor by what follows it.\<close>

lemma kept:
  assumes "extends m m'" "reach m x \<subseteq> {..<memNext m}"
  shows "view m' x = view m x" "reach m' x = reach m x" "reach m' x \<subseteq> {..<memNext m'}"
proof -
  have same: "sameAt m m' a" if "a \<in> reach m x" for a using extends_same [OF assms that] .
  show "view m' x = view m x" "reach m' x = reach m x" using view_local reach_local same by blast+
  then show "reach m' x \<subseteq> {..<memNext m'}" using assms(2) extends_next [OF assms(1)] by auto
qed

lemma copied_kept:
  assumes "reach m x \<subseteq> {..<memNext m}" "copy x m = (y, m1)" "extends m1 m2"
  shows "view m2 y = view m x" "reach m2 y \<subseteq> {memNext m..<memNext m1}"
proof -
  have fresh: "reach m1 y \<subseteq> {memNext m..<memNext m1}" by (rule copy_fresh [OF assms(1,2)])
  then have "reach m1 y \<subseteq> {..<memNext m1}" by auto
  from kept [OF assms(3) this] copy_view [OF assms(1,2)] fresh
  show "view m2 y = view m x" "reach m2 y \<subseteq> {memNext m..<memNext m1}" by simp_all
qed

text \<open>
  The consequence for a program: after a copy, no write through one of the two is seen through the
  other.
\<close>

lemma separate:
  assumes "reach m x \<subseteq> {..<memNext m}" "copy x m = (y, m')"
  shows "view m' y = view m x" "view m' x = view m x" "reach m' x \<inter> reach m' y = {}"
    and "(\<And>a. a \<notin> reach m' y \<Longrightarrow> sameAt m' m'' a) \<Longrightarrow> view m'' x = view m x"
    and "(\<And>a. a \<notin> reach m' x \<Longrightarrow> sameAt m' m'' a) \<Longrightarrow> view m'' y = view m x"
proof -
  have k: "view m' x = view m x" "reach m' x = reach m x" by (rule kept [OF copy_extends [OF assms(2)] assms(1)])+
  have f: "reach m' y \<subseteq> {memNext m..<memNext m'}" by (rule copy_fresh [OF assms])
  show d: "reach m' x \<inter> reach m' y = {}" using f assms(1) k(2) by fastforce
  show v: "view m' y = view m x" "view m' x = view m x" using copy_view [OF assms] k(1) by simp_all
  show "view m'' x = view m x" if "\<And>a. a \<notin> reach m' y \<Longrightarrow> sameAt m' m'' a"
    using view_local [of m' x m''] that d v(2) by fastforce
  show "view m'' y = view m x" if "\<And>a. a \<notin> reach m' x \<Longrightarrow> sameAt m' m'' a"
    using view_local [of m' y m''] that d v(1) by fastforce
qed

end

section \<open>One rule per construct\<close>

definition noReach :: "mem \<Rightarrow> 'a \<Rightarrow> addr set" where "noReach m x = {}"

lemma deep_copier_flat: "deep_copier copyFlat (\<lambda>m x. x) noReach"
  by unfold_locales (auto simp: copyFlat_def noReach_def)

text \<open>A third-party copy of a value without pointers.\<close>

definition copyWith :: "('a \<Rightarrow> 'a) \<Rightarrow> 'a copying" where "copyWith f x m = (f x, m)"

lemma deep_copier_with: "(\<And>x. f x = x) \<Longrightarrow> deep_copier (copyWith f) (\<lambda>m x. x) noReach"
  by unfold_locales (auto simp: copyWith_def noReach_def)

definition viewPair :: "(mem \<Rightarrow> 'a \<Rightarrow> 'v) \<Rightarrow> (mem \<Rightarrow> 'b \<Rightarrow> 'u) \<Rightarrow> mem \<Rightarrow> 'a \<times> 'b \<Rightarrow> 'v \<times> 'u" where
  "viewPair v1 v2 m p = (v1 m (fst p), v2 m (snd p))"

definition reachPair :: "(mem \<Rightarrow> 'a \<Rightarrow> addr set) \<Rightarrow> (mem \<Rightarrow> 'b \<Rightarrow> addr set) \<Rightarrow> mem \<Rightarrow> 'a \<times> 'b \<Rightarrow> addr set" where
  "reachPair r1 r2 m p = r1 m (fst p) \<union> r2 m (snd p)"

lemma deep_copier_pair:
  assumes "deep_copier c1 v1 r1" "deep_copier c2 v2 r2"
  shows "deep_copier (copyPair c1 c2) (viewPair v1 v2) (reachPair r1 r2)"
proof
  fix p q m m'
  assume "copyPair c1 c2 p m = (q, m')"
  then obtain x m1 y where r: "c1 (fst p) m = (x, m1)" "c2 (snd p) m1 = (y, m')" "q = (x, y)"
    by (auto simp: copyPair_def split: prod.splits)
  note e1 = deep_copier.copy_extends [OF assms(1) r(1)] and e2 = deep_copier.copy_extends [OF assms(2) r(2)]
  show "extends m m'" using e1 e2 by (rule extends_trans)
  assume "reachPair r1 r2 m p \<subseteq> {..<memNext m}"
  then have a: "r1 m (fst p) \<subseteq> {..<memNext m}" "r2 m (snd p) \<subseteq> {..<memNext m}" by (simp_all add: reachPair_def)
  note k = deep_copier.kept [OF assms(2) e1 a(2)]
  note x = deep_copier.copied_kept [OF assms(1) a(1) r(1) e2]
  have "v2 m' y = v2 m (snd p)" "r2 m' y \<subseteq> {memNext m1..<memNext m'}"
    using deep_copier.copy_view [OF assms(2) k(3) r(2)] deep_copier.copy_fresh [OF assms(2) k(3) r(2)] k(1) by simp_all
  with x extends_next [OF e1] extends_next [OF e2] r(3)
  show "viewPair v1 v2 m' q = viewPair v1 v2 m p" "reachPair r1 r2 m' q \<subseteq> {memNext m..<memNext m'}"
    by (auto simp: viewPair_def reachPair_def)
next
  fix m p m'
  assume "\<And>a. a \<in> reachPair r1 r2 m p \<Longrightarrow> sameAt m m' a"
  then have same: "\<And>a. a \<in> r1 m (fst p) \<Longrightarrow> sameAt m m' a" "\<And>a. a \<in> r2 m (snd p) \<Longrightarrow> sameAt m m' a"
    by (simp_all add: reachPair_def)
  show "viewPair v1 v2 m' p = viewPair v1 v2 m p" "reachPair r1 r2 m' p = reachPair r1 r2 m p"
    using deep_copier.view_local [OF assms(1) same(1)] deep_copier.reach_local [OF assms(1) same(1)]
      deep_copier.view_local [OF assms(2) same(2)] deep_copier.reach_local [OF assms(2) same(2)]
    by (simp_all add: viewPair_def reachPair_def)
qed

text \<open>A struct is its fields: \<open>to\<close> lists them, \<open>of\<close> puts them together again.\<close>

lemma deep_copier_struct:
  assumes "deep_copier c v r"
    and "\<And>x m. copy x m = (case c (flds x) m of (y, m') \<Rightarrow> (mk y, m'))"
    and "\<And>y. flds (mk y) = y"
    and "\<And>m x. view m x = build (v m (flds x))" and "\<And>m x. reach m x = r m (flds x)"
  shows "deep_copier copy view reach"
proof
  fix x y m m'
  assume "copy x m = (y, m')"
  then obtain z where z: "c (flds x) m = (z, m')" "flds y = z" by (auto simp: assms(2,3) split: prod.splits)
  show "extends m m'" by (rule deep_copier.copy_extends [OF assms(1) z(1)])
  assume "reach m x \<subseteq> {..<memNext m}"
  then have "r m (flds x) \<subseteq> {..<memNext m}" by (simp add: assms(5))
  with deep_copier.copy_view [OF assms(1) this z(1)] deep_copier.copy_fresh [OF assms(1) this z(1)] z(2)
  show "view m' y = view m x" "reach m' y \<subseteq> {memNext m..<memNext m'}" by (simp_all add: assms(4,5))
next
  fix m x m'
  assume "\<And>a. a \<in> reach m x \<Longrightarrow> sameAt m m' a"
  then have same: "\<And>a. a \<in> r m (flds x) \<Longrightarrow> sameAt m m' a" by (simp add: assms(5))
  show "view m' x = view m x" "reach m' x = reach m x"
    using deep_copier.view_local [OF assms(1) same] deep_copier.reach_local [OF assms(1) same] by (simp_all add: assms(4,5))
qed

text \<open>The elements of an array.\<close>

definition viewAll :: "(mem \<Rightarrow> 'a \<Rightarrow> 'v) \<Rightarrow> mem \<Rightarrow> 'a list \<Rightarrow> 'v list" where
  "viewAll v m xs = map (v m) xs"

definition reachAll :: "(mem \<Rightarrow> 'a \<Rightarrow> addr set) \<Rightarrow> mem \<Rightarrow> 'a list \<Rightarrow> addr set" where
  "reachAll r m xs = \<Union> (r m ` set xs)"

lemma deep_copier_all:
  assumes "deep_copier c v r"
  shows "deep_copier (copyAll c) (viewAll v) (reachAll r)"
proof
  fix xs ys m m'
  show "extends m m'" if "copyAll c xs m = (ys, m')"
    using that
    by (induction xs arbitrary: ys m)
      (auto split: prod.splits dest: deep_copier.copy_extends [OF assms] intro: extends_trans)
  have "viewAll v m' ys = viewAll v m xs \<and> reachAll r m' ys \<subseteq> {memNext m..<memNext m'} \<and> extends m m'"
    if "reachAll r m xs \<subseteq> {..<memNext m}" "copyAll c xs m = (ys, m')"
    using that
  proof (induction xs arbitrary: ys m)
    case (Cons x xs)
    then obtain y m1 zs where r: "c x m = (y, m1)" "copyAll c xs m1 = (zs, m')" "ys = y # zs"
      by (auto split: prod.splits)
    from Cons.prems have a: "r m x \<subseteq> {..<memNext m}" and as: "\<And>z. z \<in> set xs \<Longrightarrow> r m z \<subseteq> {..<memNext m}"
      by (auto simp: reachAll_def)
    note e = deep_copier.copy_extends [OF assms r(1)]
    have k: "viewAll v m1 xs = viewAll v m xs" "reachAll r m1 xs \<subseteq> {..<memNext m1}"
      using deep_copier.kept [OF assms e as] by (simp_all add: viewAll_def reachAll_def UN_subset_iff)
    from Cons.IH [OF k(2) r(2)] have ih: "viewAll v m' zs = viewAll v m xs" "reachAll r m' zs \<subseteq> {memNext m1..<memNext m'}"
      and e2: "extends m1 m'" using k(1) by simp_all
    from deep_copier.copied_kept [OF assms a r(1) e2] ih extends_next [OF e] extends_next [OF e2] r(3) extends_trans [OF e e2]
    show ?case by (auto simp: viewAll_def reachAll_def)
  qed (simp add: viewAll_def reachAll_def)
  then show "viewAll v m' ys = viewAll v m xs" "reachAll r m' ys \<subseteq> {memNext m..<memNext m'}"
    if "reachAll r m xs \<subseteq> {..<memNext m}" "copyAll c xs m = (ys, m')" using that by blast+
next
  fix m xs m'
  assume "\<And>a. a \<in> reachAll r m xs \<Longrightarrow> sameAt m m' a"
  then have "v m' x = v m x" "r m' x = r m x" if "x \<in> set xs" for x
    using deep_copier.view_local [OF assms, of m x m'] deep_copier.reach_local [OF assms, of m x m'] that
    by (auto simp: reachAll_def)
  then show "viewAll v m' xs = viewAll v m xs" "reachAll r m' xs = reachAll r m xs"
    by (simp_all add: viewAll_def reachAll_def)
qed

text \<open>A cell behind a handle.\<close>

definition viewBox :: "(mem \<Rightarrow> 'h \<Rightarrow> 'c) \<Rightarrow> (mem \<Rightarrow> 'c \<Rightarrow> 'v) \<Rightarrow> mem \<Rightarrow> 'h option \<Rightarrow> 'v option" where
  "viewBox deref v m p = map_option (\<lambda>h. v m (deref m h)) p"

definition reachBox :: "(mem \<Rightarrow> 'h \<Rightarrow> 'c) \<Rightarrow> ('h \<Rightarrow> addr) \<Rightarrow> (mem \<Rightarrow> 'c \<Rightarrow> addr set) \<Rightarrow> mem \<Rightarrow> 'h option \<Rightarrow> addr set" where
  "reachBox deref address r m p = (case p of None \<Rightarrow> {} | Some h \<Rightarrow> insert (address h) (r m (deref m h)))"

locale boxed = heap_kind get upd
  for get :: "mem \<Rightarrow> addr \<Rightarrow> 'c" and upd +
  fixes deref :: "mem \<Rightarrow> 'h \<Rightarrow> 'c" and address :: "'h \<Rightarrow> addr" and handle :: "addr \<Rightarrow> 'c \<Rightarrow> 'h"
  assumes deref_same: "sameAt m m' (address h) \<Longrightarrow> deref m' h = deref m h"
    and deref_handle: "get m b = v \<Longrightarrow> deref m (handle b v) = v"
    and address_handle: "address (handle b v) = b"
begin

lemma copyBox_none: "copyBox upd deref handle c None m = (q, m') \<longleftrightarrow> q = None \<and> m' = m"
  by (auto simp: copyBox_def)

lemma copyBox_some:
  assumes "deep_copier c v r" "copyBox upd deref handle c (Some h) m = (q, m')"
  shows "extends m m'"
    and "r m (deref m h) \<subseteq> {..<memNext m} \<Longrightarrow> viewBox deref v m' q = Some (v m (deref m h))"
    and "r m (deref m h) \<subseteq> {..<memNext m} \<Longrightarrow> reachBox deref address r m' q \<subseteq> {memNext m..<memNext m'}"
proof -
  let ?b = "memNext m" and ?m0 = "m\<lparr>memNext := Suc (memNext m)\<rparr>"
  from assms(2) obtain w m1 where w: "c (deref m h) ?m0 = (w, m1)" and q: "q = Some (handle ?b w)"
    and m': "m' = upd (\<lambda>f. f(?b := w)) m1" by (auto simp: copyBox_def Let_def split: prod.splits)
  have e0: "extends m ?m0" by (simp add: extends_def)
  note e1 = deep_copier.copy_extends [OF assms(1) w]
  have n: "Suc ?b \<le> memNext m1" "memNext m' = memNext m1" using extends_next [OF e1] by (simp_all add: m' next_upd)
  have s: "sameAt m1 m' a" if "a \<noteq> ?b" for a unfolding m' by (rule upd_same [OF that])
  show "extends m m'"
    using extends_trans [OF e0 e1] n s unfolding extends_def by (auto intro: sameAt_trans)
  assume a: "r m (deref m h) \<subseteq> {..<?b}"
  note k = deep_copier.kept [OF assms(1) e0 a]
  have fresh: "r m1 w \<subseteq> {Suc ?b..<memNext m1}" and val: "v m1 w = v m (deref m h)"
    using deep_copier.copy_fresh [OF assms(1) k(3) w] deep_copier.copy_view [OF assms(1) k(3) w] k(1) by simp_all
  have same: "sameAt m1 m' a" if "a \<in> r m1 w" for a using that fresh s by fastforce
  have d: "deref m' (handle ?b w) = w" by (rule deref_handle) (simp add: m' get_upd)
  have "v m' w = v m1 w" "r m' w = r m1 w"
    using deep_copier.view_local [OF assms(1) same] deep_copier.reach_local [OF assms(1) same] by simp_all
  with d fresh val n q
  show "viewBox deref v m' q = Some (v m (deref m h))" "reachBox deref address r m' q \<subseteq> {?b..<memNext m'}"
    by (auto simp: viewBox_def reachBox_def address_handle)
qed

lemma deep_copier_box:
  assumes "deep_copier c v r"
  shows "deep_copier (copyBox upd deref handle c) (viewBox deref v) (reachBox deref address r)"
proof
  fix p q m m'
  assume run: "copyBox upd deref handle c p m = (q, m')"
  then show "extends m m'"
    using copyBox_some(1) [OF assms] by (cases p) (simp_all add: copyBox_none)
  assume "reachBox deref address r m p \<subseteq> {..<memNext m}"
  with run show "viewBox deref v m' q = viewBox deref v m p" "reachBox deref address r m' q \<subseteq> {memNext m..<memNext m'}"
    using copyBox_some(2,3) [OF assms, of _ m q m']
    by (cases p; simp add: copyBox_none viewBox_def reachBox_def; fail)+
next
  fix m p m'
  assume same: "\<And>a. a \<in> reachBox deref address r m p \<Longrightarrow> sameAt m m' a"
  show "viewBox deref v m' p = viewBox deref v m p" "reachBox deref address r m' p = reachBox deref address r m p"
    using same deref_same [of m m'] deep_copier.view_local [OF assms, of m _ m'] deep_copier.reach_local [OF assms, of m _ m']
    by (cases p; auto simp: viewBox_def reachBox_def)+
qed

end

text \<open>A pointer is the address of its cell; a slice is the window of an array.\<close>

interpretation selector_ptr: boxed memSelectors memSelectors_update memSelectors id "\<lambda>b v. b"
  by unfold_locales (simp_all add: selectors.get_same)
interpretation keycloak_slice: boxed memKeycloaks memKeycloaks_update "window memKeycloaks" slArray newSlice
  by unfold_locales (simp_all add: window_def newSlice_def keycloaks.get_same)

context heap_kind
begin

lemma deep_copier_ptr:
  assumes "deep_copier c v r"
  shows "deep_copier (copyPtr get upd c) (viewBox get v) (reachBox get id r)"
proof -
  have "boxed get upd get id (\<lambda>b v. b)"
    by unfold_locales (simp_all add: get_same)
  from boxed.deep_copier_box [OF this assms] show ?thesis by (simp add: copyPtr_def)
qed

end

lemma deep_copier_slice:
  assumes "heap_kind get upd" "deep_copier c v r"
  shows "deep_copier (copySlice get upd c) (viewBox (window get) (viewAll v)) (reachBox (window get) slArray (reachAll r))"
proof -
  have "boxed get upd (window get) slArray newSlice"
    by (intro boxed.intro assms(1) boxed_axioms.intro)
      (simp_all add: window_def newSlice_def heap_kind.get_same [OF assms(1)])
  from boxed.deep_copier_box [OF this deep_copier_all [OF assms(2)]] show ?thesis by (simp add: copySlice_def)
qed

end
