(* ===== verification/DeepCopy.thy ===== *)
theory DeepCopy
  imports Memory
begin

text \<open>
  \<^verbatim>\<open>api/v1alpha1/zz_generated.deepcopy.go\<close>: the deep copies of the API types, which the client library
  uses to hand out objects of its cache. \<open>T_DeepCopyInto\<close> is given the struct that \<^verbatim>\<open>in\<close> points to and
  the memory, and returns the struct that is written to \<^verbatim>\<open>*out\<close> and the memory after the call.
  \<open>T_DeepCopy\<close> is given the pointer, with \<open>None\<close> for nil; the struct it allocates for the result is the
  value it returns.

  \<open>viewT\<close> is the value of the type in \<open>ApiTypes\<close> that a struct stands for. The last section shows the
  contract \<open>deep_copier\<close> for every type: this is what makes it sound to treat resources as values
  in the other theories. The copies of metadata, conditions and key selectors are third-party: \<open>copiers\<close>.
  Those of metadata and selectors work on memory and are required to keep the contract; a condition has no
  pointers.
\<close>

section \<open>The code\<close>

record copiers =
  CopySelector :: "mSelector copying"
  CopyObjectMeta :: "mObjectMeta copying"
  CopyListMeta :: "mListMeta copying"
  CopyCondition :: "Condition \<Rightarrow> Condition"

text \<open>A field of type \<^verbatim>\<open>*SecretKeySelector\<close>.\<close>

definition copySecret :: "copiers \<Rightarrow> addr option copying" where
  "copySecret cs = copyPtr memSelectors memSelectors_update (CopySelector cs)"

definition SecretOption_DeepCopyInto :: "copiers \<Rightarrow> mSecretOption copying" where
  "SecretOption_DeepCopyInto cs x m =
     (case copySecret cs (msoSecret x) m of (p, m1) \<Rightarrow> (x\<lparr>msoSecret := p\<rparr>, m1))"

definition SecretOptionVar_DeepCopyInto :: "copiers \<Rightarrow> mSecretOptionVar copying" where
  "SecretOptionVar_DeepCopyInto cs x m =
     (case copySecret cs (msvSecret x) m of (p, m1) \<Rightarrow> (x\<lparr>msvSecret := p\<rparr>, m1))"

definition PostgresDatabase_DeepCopyInto :: "copiers \<Rightarrow> mPostgresDatabase copying" where
  "PostgresDatabase_DeepCopyInto cs x m =
     (case SecretOption_DeepCopyInto cs (mdbHost x) m of (host, m1) \<Rightarrow>
      case SecretOption_DeepCopyInto cs (mdbPort x) m1 of (port, m2) \<Rightarrow>
      case SecretOption_DeepCopyInto cs (mdbUser x) m2 of (user, m3) \<Rightarrow>
      case SecretOption_DeepCopyInto cs (mdbPassword x) m3 of (password, m4) \<Rightarrow>
        (x\<lparr>mdbHost := host, mdbPort := port, mdbUser := user, mdbPassword := password\<rparr>, m4))"

definition AdminUser_DeepCopyInto :: "copiers \<Rightarrow> mAdminUser copying" where
  "AdminUser_DeepCopyInto cs x m =
     (case SecretOption_DeepCopyInto cs (mauUsername x) m of (username, m1) \<Rightarrow>
      case SecretOption_DeepCopyInto cs (mauPassword x) m1 of (password, m2) \<Rightarrow>
        (x\<lparr>mauUsername := username, mauPassword := password\<rparr>, m2))"

definition Provider_DeepCopyInto :: "copiers \<Rightarrow> mProvider copying" where
  "Provider_DeepCopyInto cs x m =
     (case SecretOption_DeepCopyInto cs (mprURL x) m of (url, m1) \<Rightarrow> (x\<lparr>mprURL := url\<rparr>, m1))"

definition NetworkConfig_DeepCopyInto :: "NetworkConfig copying" where
  "NetworkConfig_DeepCopyInto x m = (x, m)"

definition RealmSizing_DeepCopyInto :: "RealmSizing copying" where
  "RealmSizing_DeepCopyInto x m = (x, m)"

definition KeycloakInstance_DeepCopyInto :: "KeycloakInstance copying" where
  "KeycloakInstance_DeepCopyInto x m = (x, m)"

definition Features_DeepCopyInto :: "mFeatures copying" where
  "Features_DeepCopyInto x m =
     (case copySlice memStrings memStrings_update copyFlat (mftEnabled x) m of (enabled, m1) \<Rightarrow>
      case copySlice memStrings memStrings_update copyFlat (mftDisabled x) m1 of (disabled, m2) \<Rightarrow>
        (x\<lparr>mftEnabled := enabled, mftDisabled := disabled\<rparr>, m2))"

definition KeycloakSpec_DeepCopyInto :: "copiers \<Rightarrow> mKeycloakSpec copying" where
  "KeycloakSpec_DeepCopyInto cs x m =
     (case copyPtr memDatabases memDatabases_update (PostgresDatabase_DeepCopyInto cs) (mksDatabase x) m of (db, m1) \<Rightarrow>
      case copySlice memOptions memOptions_update (SecretOptionVar_DeepCopyInto cs) (mksAdditionalOptions x) m1 of (opts, m2) \<Rightarrow>
      case copyPtr memInt32s memInt32s_update copyFlat (mksInstances x) m2 of (inst, m3) \<Rightarrow>
      case copyPtr memReferences memReferences_update copyFlat (mksTrustedCABundles x) m3 of (ca, m4) \<Rightarrow>
      case AdminUser_DeepCopyInto cs (mksAdmin x) m4 of (admin, m5) \<Rightarrow>
      case copySlice memProviders memProviders_update (Provider_DeepCopyInto cs) (mksProviders x) m5 of (provs, m6) \<Rightarrow>
      case copyPtr memNetworks memNetworks_update copyFlat (mksNetworkConfig x) m6 of (net, m7) \<Rightarrow>
      case copyPtr memSizings memSizings_update copyFlat (mksSizing x) m7 of (sizing, m8) \<Rightarrow>
        (x\<lparr>mksDatabase := db, mksAdditionalOptions := opts, mksInstances := inst, mksTrustedCABundles := ca,
           mksAdmin := admin, mksProviders := provs, mksNetworkConfig := net, mksSizing := sizing\<rparr>, m8))"

definition Conditions_DeepCopyInto :: "copiers \<Rightarrow> mConditions copying" where
  "Conditions_DeepCopyInto cs x m =
     (case copySlice memConditions memConditions_update (copyWith (CopyCondition cs)) (mcoConditions x) m of (c, m1) \<Rightarrow>
        (x\<lparr>mcoConditions := c\<rparr>, m1))"

definition VersionedStatus_DeepCopyInto :: "mVersionedStatus copying" where
  "VersionedStatus_DeepCopyInto x m =
     (case copyPtr memMaps memMaps_update copyFlat (mvsResourceVersions x) m of (v, m1) \<Rightarrow>
        (x\<lparr>mvsResourceVersions := v\<rparr>, m1))"

definition KeycloakStatus_DeepCopyInto :: "copiers \<Rightarrow> mKeycloakStatus copying" where
  "KeycloakStatus_DeepCopyInto cs x m =
     (case Conditions_DeepCopyInto cs (mktConditions x) m of (c, m1) \<Rightarrow> (x\<lparr>mktConditions := c\<rparr>, m1))"

definition KeycloakImportSpec_DeepCopyInto :: "copiers \<Rightarrow> mKeycloakImportSpec copying" where
  "KeycloakImportSpec_DeepCopyInto cs x m =
     (case copySlice memOptions memOptions_update (SecretOptionVar_DeepCopyInto cs) (misSubstitutions x) m of (subs, m1) \<Rightarrow>
        (x\<lparr>misKeycloakInstance := misKeycloakInstance x, misSubstitutions := subs\<rparr>, m1))"

definition KeycloakImportStatus_DeepCopyInto :: "copiers \<Rightarrow> mKeycloakImportStatus copying" where
  "KeycloakImportStatus_DeepCopyInto cs x m =
     (case VersionedStatus_DeepCopyInto (mitVersion x) m of (v, m1) \<Rightarrow>
      case Conditions_DeepCopyInto cs (mitConditions x) m1 of (c, m2) \<Rightarrow>
        (x\<lparr>mitVersion := v, mitConditions := c\<rparr>, m2))"

definition Keycloak_DeepCopyInto :: "copiers \<Rightarrow> mKeycloak copying" where
  "Keycloak_DeepCopyInto cs x m =
     (case CopyObjectMeta cs (mkcObjectMeta x) m of (meta, m1) \<Rightarrow>
      case KeycloakSpec_DeepCopyInto cs (mkcSpec x) m1 of (spec, m2) \<Rightarrow>
      case KeycloakStatus_DeepCopyInto cs (mkcStatus x) m2 of (status, m3) \<Rightarrow>
        (x\<lparr>mkcTypeMeta := mkcTypeMeta x, mkcObjectMeta := meta, mkcSpec := spec, mkcStatus := status\<rparr>, m3))"

definition KeycloakImport_DeepCopyInto :: "copiers \<Rightarrow> mKeycloakImport copying" where
  "KeycloakImport_DeepCopyInto cs x m =
     (case CopyObjectMeta cs (mkiObjectMeta x) m of (meta, m1) \<Rightarrow>
      case KeycloakImportSpec_DeepCopyInto cs (mkiSpec x) m1 of (spec, m2) \<Rightarrow>
      case KeycloakImportStatus_DeepCopyInto cs (mkiStatus x) m2 of (status, m3) \<Rightarrow>
        (x\<lparr>mkiTypeMeta := mkiTypeMeta x, mkiObjectMeta := meta, mkiSpec := spec, mkiStatus := status\<rparr>, m3))"

definition KeycloakList_DeepCopyInto :: "copiers \<Rightarrow> mKeycloakList copying" where
  "KeycloakList_DeepCopyInto cs x m =
     (case CopyListMeta cs (mklListMeta x) m of (meta, m1) \<Rightarrow>
      case copySlice memKeycloaks memKeycloaks_update (Keycloak_DeepCopyInto cs) (mklItems x) m1 of (items, m2) \<Rightarrow>
        (x\<lparr>mklTypeMeta := mklTypeMeta x, mklListMeta := meta, mklItems := items\<rparr>, m2))"

definition KeycloakImportList_DeepCopyInto :: "copiers \<Rightarrow> mKeycloakImportList copying" where
  "KeycloakImportList_DeepCopyInto cs x m =
     (case CopyListMeta cs (milListMeta x) m of (meta, m1) \<Rightarrow>
      case copySlice memImports memImports_update (KeycloakImport_DeepCopyInto cs) (milItems x) m1 of (items, m2) \<Rightarrow>
        (x\<lparr>milTypeMeta := milTypeMeta x, milListMeta := meta, milItems := items\<rparr>, m2))"

text \<open>\<^verbatim>\<open>DeepCopy\<close>: nil is copied to nil, everything else into a new struct.\<close>

definition deepCopy :: "'a copying \<Rightarrow> 'a option copying" where
  "deepCopy into p m = (case p of None \<Rightarrow> (None, m) | Some x \<Rightarrow> (case into x m of (y, m1) \<Rightarrow> (Some y, m1)))"

definition SecretOption_DeepCopy :: "copiers \<Rightarrow> mSecretOption option copying" where
  "SecretOption_DeepCopy cs = deepCopy (SecretOption_DeepCopyInto cs)"

definition SecretOptionVar_DeepCopy :: "copiers \<Rightarrow> mSecretOptionVar option copying" where
  "SecretOptionVar_DeepCopy cs = deepCopy (SecretOptionVar_DeepCopyInto cs)"

definition PostgresDatabase_DeepCopy :: "copiers \<Rightarrow> mPostgresDatabase option copying" where
  "PostgresDatabase_DeepCopy cs = deepCopy (PostgresDatabase_DeepCopyInto cs)"

definition AdminUser_DeepCopy :: "copiers \<Rightarrow> mAdminUser option copying" where
  "AdminUser_DeepCopy cs = deepCopy (AdminUser_DeepCopyInto cs)"

definition Provider_DeepCopy :: "copiers \<Rightarrow> mProvider option copying" where
  "Provider_DeepCopy cs = deepCopy (Provider_DeepCopyInto cs)"

definition NetworkConfig_DeepCopy :: "NetworkConfig option copying" where
  "NetworkConfig_DeepCopy = deepCopy NetworkConfig_DeepCopyInto"

definition RealmSizing_DeepCopy :: "RealmSizing option copying" where
  "RealmSizing_DeepCopy = deepCopy RealmSizing_DeepCopyInto"

definition KeycloakInstance_DeepCopy :: "KeycloakInstance option copying" where
  "KeycloakInstance_DeepCopy = deepCopy KeycloakInstance_DeepCopyInto"

definition Features_DeepCopy :: "mFeatures option copying" where
  "Features_DeepCopy = deepCopy Features_DeepCopyInto"

definition KeycloakSpec_DeepCopy :: "copiers \<Rightarrow> mKeycloakSpec option copying" where
  "KeycloakSpec_DeepCopy cs = deepCopy (KeycloakSpec_DeepCopyInto cs)"

definition Conditions_DeepCopy :: "copiers \<Rightarrow> mConditions option copying" where
  "Conditions_DeepCopy cs = deepCopy (Conditions_DeepCopyInto cs)"

definition VersionedStatus_DeepCopy :: "mVersionedStatus option copying" where
  "VersionedStatus_DeepCopy = deepCopy VersionedStatus_DeepCopyInto"

definition KeycloakStatus_DeepCopy :: "copiers \<Rightarrow> mKeycloakStatus option copying" where
  "KeycloakStatus_DeepCopy cs = deepCopy (KeycloakStatus_DeepCopyInto cs)"

definition KeycloakImportSpec_DeepCopy :: "copiers \<Rightarrow> mKeycloakImportSpec option copying" where
  "KeycloakImportSpec_DeepCopy cs = deepCopy (KeycloakImportSpec_DeepCopyInto cs)"

definition KeycloakImportStatus_DeepCopy :: "copiers \<Rightarrow> mKeycloakImportStatus option copying" where
  "KeycloakImportStatus_DeepCopy cs = deepCopy (KeycloakImportStatus_DeepCopyInto cs)"

definition Keycloak_DeepCopy :: "copiers \<Rightarrow> mKeycloak option copying" where
  "Keycloak_DeepCopy cs = deepCopy (Keycloak_DeepCopyInto cs)"

definition KeycloakImport_DeepCopy :: "copiers \<Rightarrow> mKeycloakImport option copying" where
  "KeycloakImport_DeepCopy cs = deepCopy (KeycloakImport_DeepCopyInto cs)"

definition KeycloakList_DeepCopy :: "copiers \<Rightarrow> mKeycloakList option copying" where
  "KeycloakList_DeepCopy cs = deepCopy (KeycloakList_DeepCopyInto cs)"

definition KeycloakImportList_DeepCopy :: "copiers \<Rightarrow> mKeycloakImportList option copying" where
  "KeycloakImportList_DeepCopy cs = deepCopy (KeycloakImportList_DeepCopyInto cs)"

text \<open>\<^verbatim>\<open>DeepCopyObject\<close>: a typed nil becomes a nil interface, so the four kinds only differ in the type.\<close>

definition Keycloak_DeepCopyObject :: "copiers \<Rightarrow> mKeycloak option copying" where
  "Keycloak_DeepCopyObject cs p m =
     (case Keycloak_DeepCopy cs p m of (Some c, m1) \<Rightarrow> (Some c, m1) | (None, m1) \<Rightarrow> (None, m1))"

definition KeycloakImport_DeepCopyObject :: "copiers \<Rightarrow> mKeycloakImport option copying" where
  "KeycloakImport_DeepCopyObject cs p m =
     (case KeycloakImport_DeepCopy cs p m of (Some c, m1) \<Rightarrow> (Some c, m1) | (None, m1) \<Rightarrow> (None, m1))"

definition KeycloakList_DeepCopyObject :: "copiers \<Rightarrow> mKeycloakList option copying" where
  "KeycloakList_DeepCopyObject cs p m =
     (case KeycloakList_DeepCopy cs p m of (Some c, m1) \<Rightarrow> (Some c, m1) | (None, m1) \<Rightarrow> (None, m1))"

definition KeycloakImportList_DeepCopyObject :: "copiers \<Rightarrow> mKeycloakImportList option copying" where
  "KeycloakImportList_DeepCopyObject cs p m =
     (case KeycloakImportList_DeepCopy cs p m of (Some c, m1) \<Rightarrow> (Some c, m1) | (None, m1) \<Rightarrow> (None, m1))"

section \<open>Views\<close>

abbreviation viewPtr :: "(mem \<Rightarrow> addr \<Rightarrow> 'a) \<Rightarrow> (mem \<Rightarrow> 'a \<Rightarrow> 'v) \<Rightarrow> mem \<Rightarrow> addr option \<Rightarrow> 'v option" where
  "viewPtr get v \<equiv> viewBox get v"

abbreviation reachPtr :: "(mem \<Rightarrow> addr \<Rightarrow> 'a) \<Rightarrow> (mem \<Rightarrow> 'a \<Rightarrow> addr set) \<Rightarrow> mem \<Rightarrow> addr option \<Rightarrow> addr set" where
  "reachPtr get r \<equiv> reachBox get id r"

text \<open>A nil slice reads as an empty one.\<close>

abbreviation viewSlice :: "(mem \<Rightarrow> addr \<Rightarrow> 'a list) \<Rightarrow> (mem \<Rightarrow> 'a \<Rightarrow> 'v) \<Rightarrow> mem \<Rightarrow> slice option \<Rightarrow> 'v list option" where
  "viewSlice get v \<equiv> viewBox (window get) (viewAll v)"

abbreviation reachSlice :: "(mem \<Rightarrow> addr \<Rightarrow> 'a list) \<Rightarrow> (mem \<Rightarrow> 'a \<Rightarrow> addr set) \<Rightarrow> mem \<Rightarrow> slice option \<Rightarrow> addr set" where
  "reachSlice get r \<equiv> reachBox (window get) slArray (reachAll r)"

definition elements :: "'a list option \<Rightarrow> 'a list" where
  "elements xs = (case xs of None \<Rightarrow> [] | Some ys \<Rightarrow> ys)"

abbreviation viewFlat :: "mem \<Rightarrow> 'a \<Rightarrow> 'a" where "viewFlat m x \<equiv> x"

definition viewSelector :: "mem \<Rightarrow> mSelector \<Rightarrow> SecretKeySelector" where
  "viewSelector m x = \<lparr>selName = mslName x, selKey = mslKey x, selOptional = viewPtr memBools viewFlat m (mslOptional x)\<rparr>"

definition reachSelector :: "mem \<Rightarrow> mSelector \<Rightarrow> addr set" where
  "reachSelector m x = reachPtr memBools noReach m (mslOptional x)"

text \<open>
  The value of metadata is the record that the other theories use, and with it what they leave out: the
  grace period, the pointers of the owner references and the managed fields.
\<close>

type_synonym MetaDetails =
  "int64 option \<times> (string \<times> bool option \<times> bool option) list \<times> (string \<times> Time option \<times> string option option) list"

definition viewOwner :: "mem \<Rightarrow> mOwnerReference \<Rightarrow> string \<times> bool option \<times> bool option" where
  "viewOwner m x = (morName x, viewPtr memBools viewFlat m (morController x), viewPtr memBools viewFlat m (morBlockOwnerDeletion x))"

definition reachOwner :: "mem \<Rightarrow> mOwnerReference \<Rightarrow> addr set" where
  "reachOwner m x = reachPtr memBools noReach m (morController x) \<union> reachPtr memBools noReach m (morBlockOwnerDeletion x)"

definition viewManaged :: "mem \<Rightarrow> mManagedFields \<Rightarrow> string \<times> Time option \<times> string option option" where
  "viewManaged m x = (mmfManager x, viewPtr memTimes viewFlat m (mmfTime x),
     viewPtr memFields (viewSlice memBytes viewFlat) m (mmfFieldsV1 x))"

definition reachManaged :: "mem \<Rightarrow> mManagedFields \<Rightarrow> addr set" where
  "reachManaged m x = reachPtr memTimes noReach m (mmfTime x) \<union>
     reachPtr memFields (reachSlice memBytes noReach) m (mmfFieldsV1 x)"

definition ownerReference :: "string \<times> bool option \<times> bool option \<Rightarrow> OwnerReference" where
  "ownerReference r = \<lparr>refName = fst r, refController = (fst (snd r) = Some True)\<rparr>"

definition viewObjectMeta :: "mem \<Rightarrow> mObjectMeta \<Rightarrow> ObjectMeta \<times> MetaDetails" where
  "viewObjectMeta m x =
     (let owners = elements (viewSlice memOwners viewOwner m (momOwnerReferences x)) in
      (\<lparr>metaName = momName x, metaNamespace = momNamespace x, metaLabels = viewPtr memMaps viewFlat m (momLabels x),
        metaAnnotations = viewPtr memMaps viewFlat m (momAnnotations x), metaResourceVersion = momResourceVersion x,
        metaDeletionTimestamp = viewPtr memTimes viewFlat m (momDeletionTimestamp x),
        metaFinalizers = elements (viewSlice memStrings viewFlat m (momFinalizers x)),
        metaOwnerReferences = map ownerReference owners\<rparr>,
       (viewPtr memInt64s viewFlat m (momDeletionGracePeriodSeconds x), owners,
        elements (viewSlice memManaged viewManaged m (momManagedFields x)))))"

definition reachObjectMeta :: "mem \<Rightarrow> mObjectMeta \<Rightarrow> addr set" where
  "reachObjectMeta m x =
     reachPtr memTimes noReach m (momDeletionTimestamp x) \<union>
     (reachPtr memInt64s noReach m (momDeletionGracePeriodSeconds x) \<union>
     (reachPtr memMaps noReach m (momLabels x) \<union>
     (reachPtr memMaps noReach m (momAnnotations x) \<union>
     (reachSlice memOwners reachOwner m (momOwnerReferences x) \<union>
     (reachSlice memStrings noReach m (momFinalizers x) \<union>
      reachSlice memManaged reachManaged m (momManagedFields x))))))"

definition viewListMeta :: "mem \<Rightarrow> mListMeta \<Rightarrow> string \<times> string \<times> int64 option" where
  "viewListMeta m x = (mlmResourceVersion x, mlmContinue x, viewPtr memInt64s viewFlat m (mlmRemainingItemCount x))"

definition reachListMeta :: "mem \<Rightarrow> mListMeta \<Rightarrow> addr set" where
  "reachListMeta m x = reachPtr memInt64s noReach m (mlmRemainingItemCount x)"

definition viewSecretOption :: "mem \<Rightarrow> mSecretOption \<Rightarrow> SecretOption" where
  "viewSecretOption m x = \<lparr>soValue = msoValue x, soSecret = viewPtr memSelectors viewSelector m (msoSecret x)\<rparr>"

definition reachSecretOption :: "mem \<Rightarrow> mSecretOption \<Rightarrow> addr set" where
  "reachSecretOption m x = reachPtr memSelectors reachSelector m (msoSecret x)"

definition viewSecretOptionVar :: "mem \<Rightarrow> mSecretOptionVar \<Rightarrow> SecretOptionVar" where
  "viewSecretOptionVar m x =
     \<lparr>sovName = msvName x, sovValue = msvValue x, sovSecret = viewPtr memSelectors viewSelector m (msvSecret x)\<rparr>"

definition reachSecretOptionVar :: "mem \<Rightarrow> mSecretOptionVar \<Rightarrow> addr set" where
  "reachSecretOptionVar m x = reachPtr memSelectors reachSelector m (msvSecret x)"

definition viewPostgresDatabase :: "mem \<Rightarrow> mPostgresDatabase \<Rightarrow> PostgresDatabase" where
  "viewPostgresDatabase m x = \<lparr>dbHost = viewSecretOption m (mdbHost x), dbPort = viewSecretOption m (mdbPort x),
     dbUser = viewSecretOption m (mdbUser x), dbPassword = viewSecretOption m (mdbPassword x)\<rparr>"

definition reachPostgresDatabase :: "mem \<Rightarrow> mPostgresDatabase \<Rightarrow> addr set" where
  "reachPostgresDatabase m x = reachSecretOption m (mdbHost x) \<union> (reachSecretOption m (mdbPort x) \<union>
     (reachSecretOption m (mdbUser x) \<union> reachSecretOption m (mdbPassword x)))"

definition viewAdminUser :: "mem \<Rightarrow> mAdminUser \<Rightarrow> AdminUser" where
  "viewAdminUser m x = \<lparr>adminUsername = viewSecretOption m (mauUsername x), adminPassword = viewSecretOption m (mauPassword x)\<rparr>"

definition reachAdminUser :: "mem \<Rightarrow> mAdminUser \<Rightarrow> addr set" where
  "reachAdminUser m x = reachSecretOption m (mauUsername x) \<union> reachSecretOption m (mauPassword x)"

definition viewProvider :: "mem \<Rightarrow> mProvider \<Rightarrow> Provider" where
  "viewProvider m x = \<lparr>provName = mprName x, provURL = viewSecretOption m (mprURL x)\<rparr>"

definition reachProvider :: "mem \<Rightarrow> mProvider \<Rightarrow> addr set" where
  "reachProvider m x = reachSecretOption m (mprURL x)"

definition viewKeycloakSpec :: "mem \<Rightarrow> mKeycloakSpec \<Rightarrow> KeycloakSpec" where
  "viewKeycloakSpec m x =
     \<lparr>kcDatabase = viewPtr memDatabases viewPostgresDatabase m (mksDatabase x),
      kcAdditionalOptions = elements (viewSlice memOptions viewSecretOptionVar m (mksAdditionalOptions x)),
      kcInstances = viewPtr memInt32s viewFlat m (mksInstances x),
      kcTrustedCABundles = viewPtr memReferences viewFlat m (mksTrustedCABundles x),
      kcAdmin = viewAdminUser m (mksAdmin x),
      kcProviders = elements (viewSlice memProviders viewProvider m (mksProviders x)),
      kcNetworkConfig = viewPtr memNetworks viewFlat m (mksNetworkConfig x),
      kcSizing = viewPtr memSizings viewFlat m (mksSizing x)\<rparr>"

definition reachKeycloakSpec :: "mem \<Rightarrow> mKeycloakSpec \<Rightarrow> addr set" where
  "reachKeycloakSpec m x =
     reachPtr memDatabases reachPostgresDatabase m (mksDatabase x) \<union>
     (reachSlice memOptions reachSecretOptionVar m (mksAdditionalOptions x) \<union>
     (reachPtr memInt32s noReach m (mksInstances x) \<union>
     (reachPtr memReferences noReach m (mksTrustedCABundles x) \<union>
     (reachAdminUser m (mksAdmin x) \<union>
     (reachSlice memProviders reachProvider m (mksProviders x) \<union>
     (reachPtr memNetworks noReach m (mksNetworkConfig x) \<union>
      reachPtr memSizings noReach m (mksSizing x)))))))"

definition viewConditions :: "mem \<Rightarrow> mConditions \<Rightarrow> Condition list" where
  "viewConditions m x = elements (viewSlice memConditions viewFlat m (mcoConditions x))"

definition reachConditions :: "mem \<Rightarrow> mConditions \<Rightarrow> addr set" where
  "reachConditions m x = reachSlice memConditions noReach m (mcoConditions x)"

definition viewVersionedStatus :: "mem \<Rightarrow> mVersionedStatus \<Rightarrow> VersionedStatus" where
  "viewVersionedStatus m x = \<lparr>vsResourceVersions = viewPtr memMaps viewFlat m (mvsResourceVersions x)\<rparr>"

definition reachVersionedStatus :: "mem \<Rightarrow> mVersionedStatus \<Rightarrow> addr set" where
  "reachVersionedStatus m x = reachPtr memMaps noReach m (mvsResourceVersions x)"

definition viewKeycloakImportSpec :: "mem \<Rightarrow> mKeycloakImportSpec \<Rightarrow> KeycloakImportSpec" where
  "viewKeycloakImportSpec m x =
     \<lparr>kiKeycloakInstance = misKeycloakInstance x, kiJSON = misJSON x,
      kiSubstitutions = elements (viewSlice memOptions viewSecretOptionVar m (misSubstitutions x)),
      kiOverrideIfExists = misOverrideIfExists x\<rparr>"

definition reachKeycloakImportSpec :: "mem \<Rightarrow> mKeycloakImportSpec \<Rightarrow> addr set" where
  "reachKeycloakImportSpec m x = reachSlice memOptions reachSecretOptionVar m (misSubstitutions x)"

definition viewKeycloak :: "mem \<Rightarrow> mKeycloak \<Rightarrow> TypeMeta \<times> MetaDetails \<times> Keycloak" where
  "viewKeycloak m x = (mkcTypeMeta x, snd (viewObjectMeta m (mkcObjectMeta x)),
     \<lparr>kcMeta = fst (viewObjectMeta m (mkcObjectMeta x)), kcSpec = viewKeycloakSpec m (mkcSpec x),
      kcConditions = viewConditions m (mktConditions (mkcStatus x))\<rparr>)"

definition reachKeycloak :: "mem \<Rightarrow> mKeycloak \<Rightarrow> addr set" where
  "reachKeycloak m x = reachObjectMeta m (mkcObjectMeta x) \<union>
     (reachKeycloakSpec m (mkcSpec x) \<union> reachConditions m (mktConditions (mkcStatus x)))"

definition viewKeycloakImport :: "mem \<Rightarrow> mKeycloakImport \<Rightarrow> TypeMeta \<times> MetaDetails \<times> KeycloakImport" where
  "viewKeycloakImport m x = (mkiTypeMeta x, snd (viewObjectMeta m (mkiObjectMeta x)),
     \<lparr>kiMeta = fst (viewObjectMeta m (mkiObjectMeta x)), kiSpec = viewKeycloakImportSpec m (mkiSpec x),
      kiVersion = viewVersionedStatus m (mitVersion (mkiStatus x)),
      kiConditions = viewConditions m (mitConditions (mkiStatus x))\<rparr>)"

definition reachKeycloakImport :: "mem \<Rightarrow> mKeycloakImport \<Rightarrow> addr set" where
  "reachKeycloakImport m x = reachObjectMeta m (mkiObjectMeta x) \<union> (reachKeycloakImportSpec m (mkiSpec x) \<union>
     (reachVersionedStatus m (mitVersion (mkiStatus x)) \<union> reachConditions m (mitConditions (mkiStatus x))))"

definition viewKeycloakList ::
  "mem \<Rightarrow> mKeycloakList \<Rightarrow> TypeMeta \<times> (string \<times> string \<times> int64 option) \<times> (TypeMeta \<times> MetaDetails \<times> Keycloak) list" where
  "viewKeycloakList m x = (mklTypeMeta x, viewListMeta m (mklListMeta x), elements (viewSlice memKeycloaks viewKeycloak m (mklItems x)))"

definition reachKeycloakList :: "mem \<Rightarrow> mKeycloakList \<Rightarrow> addr set" where
  "reachKeycloakList m x = reachListMeta m (mklListMeta x) \<union> reachSlice memKeycloaks reachKeycloak m (mklItems x)"

definition viewKeycloakImportList ::
  "mem \<Rightarrow> mKeycloakImportList \<Rightarrow> TypeMeta \<times> (string \<times> string \<times> int64 option) \<times> (TypeMeta \<times> MetaDetails \<times> KeycloakImport) list" where
  "viewKeycloakImportList m x = (milTypeMeta x, viewListMeta m (milListMeta x), elements (viewSlice memImports viewKeycloakImport m (milItems x)))"

definition reachKeycloakImportList :: "mem \<Rightarrow> mKeycloakImportList \<Rightarrow> addr set" where
  "reachKeycloakImportList m x = reachListMeta m (milListMeta x) \<union> reachSlice memImports reachKeycloakImport m (milItems x)"

section \<open>Every type has the contract\<close>

lemmas struct_simps = copyPair_def viewPair_def reachPair_def noReach_def copyFlat_def

text \<open>
  What the third-party copies are documented to do: they are deep copies of selectors and metadata, and return
  the condition that they are given.
\<close>

locale faithful_copies =
  fixes cs :: copiers
  assumes selector_copier: "deep_copier (CopySelector cs) viewSelector reachSelector"
    and meta_copier: "deep_copier (CopyObjectMeta cs) viewObjectMeta reachObjectMeta"
    and listmeta_copier: "deep_copier (CopyListMeta cs) viewListMeta reachListMeta"
    and condition_copied: "CopyCondition cs c = c"
begin

lemma deep_copySecret: "deep_copier (copySecret cs) (viewPtr memSelectors viewSelector) (reachPtr memSelectors reachSelector)"
  unfolding copySecret_def by (rule selectors.deep_copier_ptr [OF selector_copier])

lemma deep_SecretOption: "deep_copier (SecretOption_DeepCopyInto cs) viewSecretOption reachSecretOption"
  by (rule deep_copier_struct [OF deep_copier_pair [OF deep_copier_flat deep_copySecret],
      where flds = "\<lambda>x. (msoValue x, msoSecret x)" and mk = "\<lambda>(v, p). \<lparr>msoValue = v, msoSecret = p\<rparr>"
        and build = "\<lambda>(v, s). \<lparr>soValue = v, soSecret = s\<rparr>"])
    (auto simp: SecretOption_DeepCopyInto_def viewSecretOption_def reachSecretOption_def struct_simps split: prod.split)

lemma deep_SecretOptionVar: "deep_copier (SecretOptionVar_DeepCopyInto cs) viewSecretOptionVar reachSecretOptionVar"
  by (rule deep_copier_struct [OF deep_copier_pair [OF deep_copier_flat deep_copySecret],
      where flds = "\<lambda>x. ((msvName x, msvValue x), msvSecret x)"
        and mk = "\<lambda>((n, v), p). \<lparr>msvName = n, msvValue = v, msvSecret = p\<rparr>"
        and build = "\<lambda>((n, v), s). \<lparr>sovName = n, sovValue = v, sovSecret = s\<rparr>"])
    (auto simp: SecretOptionVar_DeepCopyInto_def viewSecretOptionVar_def reachSecretOptionVar_def struct_simps split: prod.split)

lemma deep_PostgresDatabase: "deep_copier (PostgresDatabase_DeepCopyInto cs) viewPostgresDatabase reachPostgresDatabase"
  by (rule deep_copier_struct [OF deep_copier_pair [OF deep_SecretOption deep_copier_pair [OF deep_SecretOption
        deep_copier_pair [OF deep_SecretOption deep_SecretOption]]],
      where flds = "\<lambda>x. (mdbHost x, mdbPort x, mdbUser x, mdbPassword x)"
        and mk = "\<lambda>(h, p, u, w). \<lparr>mdbHost = h, mdbPort = p, mdbUser = u, mdbPassword = w\<rparr>"
        and build = "\<lambda>(h, p, u, w). \<lparr>dbHost = h, dbPort = p, dbUser = u, dbPassword = w\<rparr>"])
    (auto simp: PostgresDatabase_DeepCopyInto_def viewPostgresDatabase_def reachPostgresDatabase_def struct_simps split: prod.split)

lemma deep_AdminUser: "deep_copier (AdminUser_DeepCopyInto cs) viewAdminUser reachAdminUser"
  by (rule deep_copier_struct [OF deep_copier_pair [OF deep_SecretOption deep_SecretOption],
      where flds = "\<lambda>x. (mauUsername x, mauPassword x)"
        and mk = "\<lambda>(u, w). \<lparr>mauUsername = u, mauPassword = w\<rparr>"
        and build = "\<lambda>(u, w). \<lparr>adminUsername = u, adminPassword = w\<rparr>"])
    (auto simp: AdminUser_DeepCopyInto_def viewAdminUser_def reachAdminUser_def struct_simps split: prod.split)

lemma deep_Provider: "deep_copier (Provider_DeepCopyInto cs) viewProvider reachProvider"
  by (rule deep_copier_struct [OF deep_copier_pair [OF deep_copier_flat deep_SecretOption],
      where flds = "\<lambda>x. (mprName x, mprURL x)" and mk = "\<lambda>(n, u). \<lparr>mprName = n, mprURL = u\<rparr>"
        and build = "\<lambda>(n, u). \<lparr>provName = n, provURL = u\<rparr>"])
    (auto simp: Provider_DeepCopyInto_def viewProvider_def reachProvider_def struct_simps split: prod.split)

lemmas deep_options = deep_copier_slice [OF options.heap_kind_axioms deep_SecretOptionVar]
lemmas deep_conditions = deep_copier_slice [OF conditions.heap_kind_axioms deep_copier_with [OF condition_copied]]

lemma deep_KeycloakSpec: "deep_copier (KeycloakSpec_DeepCopyInto cs) viewKeycloakSpec reachKeycloakSpec"
  by (rule deep_copier_struct [OF
        deep_copier_pair [OF databases.deep_copier_ptr [OF deep_PostgresDatabase]
        deep_copier_pair [OF deep_options
        deep_copier_pair [OF int32s.deep_copier_ptr [OF deep_copier_flat]
        deep_copier_pair [OF references.deep_copier_ptr [OF deep_copier_flat]
        deep_copier_pair [OF deep_AdminUser
        deep_copier_pair [OF deep_copier_slice [OF providers.heap_kind_axioms deep_Provider]
        deep_copier_pair [OF networks.deep_copier_ptr [OF deep_copier_flat]
          sizings.deep_copier_ptr [OF deep_copier_flat]]]]]]]],
      where flds = "\<lambda>x. (mksDatabase x, mksAdditionalOptions x, mksInstances x, mksTrustedCABundles x, mksAdmin x,
          mksProviders x, mksNetworkConfig x, mksSizing x)"
        and mk = "\<lambda>(db, opts, inst, ca, admin, provs, net, sizing). \<lparr>mksDatabase = db, mksAdditionalOptions = opts,
          mksInstances = inst, mksTrustedCABundles = ca, mksAdmin = admin, mksProviders = provs,
          mksNetworkConfig = net, mksSizing = sizing\<rparr>"
        and build = "\<lambda>(db, opts, inst, ca, admin, provs, net, sizing). \<lparr>kcDatabase = db,
          kcAdditionalOptions = elements opts, kcInstances = inst, kcTrustedCABundles = ca, kcAdmin = admin,
          kcProviders = elements provs, kcNetworkConfig = net, kcSizing = sizing\<rparr>"])
    (auto simp: KeycloakSpec_DeepCopyInto_def viewKeycloakSpec_def reachKeycloakSpec_def struct_simps split: prod.split)

lemma deep_Conditions: "deep_copier (Conditions_DeepCopyInto cs) viewConditions reachConditions"
  by (rule deep_copier_struct [OF deep_conditions, where flds = mcoConditions and mk = "\<lambda>c. \<lparr>mcoConditions = c\<rparr>"
        and build = elements])
    (auto simp: Conditions_DeepCopyInto_def viewConditions_def reachConditions_def split: prod.split)

lemma deep_VersionedStatus: "deep_copier VersionedStatus_DeepCopyInto viewVersionedStatus reachVersionedStatus"
  by (rule deep_copier_struct [OF maps.deep_copier_ptr [OF deep_copier_flat], where flds = mvsResourceVersions
        and mk = "\<lambda>v. \<lparr>mvsResourceVersions = v\<rparr>" and build = "\<lambda>v. \<lparr>vsResourceVersions = v\<rparr>"])
    (auto simp: VersionedStatus_DeepCopyInto_def viewVersionedStatus_def reachVersionedStatus_def split: prod.split)

lemma deep_KeycloakStatus:
  "deep_copier (KeycloakStatus_DeepCopyInto cs) (\<lambda>m x. viewConditions m (mktConditions x)) (\<lambda>m x. reachConditions m (mktConditions x))"
  by (rule deep_copier_struct [OF deep_Conditions, where flds = mktConditions and mk = "\<lambda>c. \<lparr>mktConditions = c\<rparr>"
        and build = "\<lambda>c. c"])
    (auto simp: KeycloakStatus_DeepCopyInto_def split: prod.split)

lemma deep_KeycloakImportSpec: "deep_copier (KeycloakImportSpec_DeepCopyInto cs) viewKeycloakImportSpec reachKeycloakImportSpec"
  by (rule deep_copier_struct [OF deep_copier_pair [OF deep_copier_flat deep_options],
      where flds = "\<lambda>x. ((misKeycloakInstance x, misJSON x, misOverrideIfExists x), misSubstitutions x)"
        and mk = "\<lambda>((i, j, f), subs). \<lparr>misKeycloakInstance = i, misJSON = j, misSubstitutions = subs, misOverrideIfExists = f\<rparr>"
        and build = "\<lambda>((i, j, f), subs). \<lparr>kiKeycloakInstance = i, kiJSON = j, kiSubstitutions = elements subs,
          kiOverrideIfExists = f\<rparr>"])
    (auto simp: KeycloakImportSpec_DeepCopyInto_def viewKeycloakImportSpec_def reachKeycloakImportSpec_def struct_simps
      split: prod.split)

lemma deep_KeycloakImportStatus:
  "deep_copier (KeycloakImportStatus_DeepCopyInto cs)
     (\<lambda>m x. (viewVersionedStatus m (mitVersion x), viewConditions m (mitConditions x)))
     (\<lambda>m x. reachVersionedStatus m (mitVersion x) \<union> reachConditions m (mitConditions x))"
  by (rule deep_copier_struct [OF deep_copier_pair [OF deep_VersionedStatus deep_Conditions],
      where flds = "\<lambda>x. (mitVersion x, mitConditions x)"
        and mk = "\<lambda>(v, c). \<lparr>mitVersion = v, mitConditions = c\<rparr>" and build = "\<lambda>p. p"])
    (auto simp: KeycloakImportStatus_DeepCopyInto_def struct_simps split: prod.split)

lemma deep_Keycloak: "deep_copier (Keycloak_DeepCopyInto cs) viewKeycloak reachKeycloak"
  by (rule deep_copier_struct [OF deep_copier_pair [OF deep_copier_flat
        deep_copier_pair [OF meta_copier deep_copier_pair [OF deep_KeycloakSpec deep_KeycloakStatus]]],
      where flds = "\<lambda>x. (mkcTypeMeta x, mkcObjectMeta x, mkcSpec x, mkcStatus x)"
        and mk = "\<lambda>(t, om, s, st). \<lparr>mkcTypeMeta = t, mkcObjectMeta = om, mkcSpec = s, mkcStatus = st\<rparr>"
        and build = "\<lambda>(t, om, s, st). (t, snd om, \<lparr>kcMeta = fst om, kcSpec = s, kcConditions = st\<rparr>)"])
    (auto simp: Keycloak_DeepCopyInto_def viewKeycloak_def reachKeycloak_def struct_simps split: prod.split)

lemma deep_KeycloakImport: "deep_copier (KeycloakImport_DeepCopyInto cs) viewKeycloakImport reachKeycloakImport"
  by (rule deep_copier_struct [OF deep_copier_pair [OF deep_copier_flat
        deep_copier_pair [OF meta_copier deep_copier_pair [OF deep_KeycloakImportSpec deep_KeycloakImportStatus]]],
      where flds = "\<lambda>x. (mkiTypeMeta x, mkiObjectMeta x, mkiSpec x, mkiStatus x)"
        and mk = "\<lambda>(t, om, s, st). \<lparr>mkiTypeMeta = t, mkiObjectMeta = om, mkiSpec = s, mkiStatus = st\<rparr>"
        and build = "\<lambda>(t, om, s, (v, c)). (t, snd om, \<lparr>kiMeta = fst om, kiSpec = s, kiVersion = v, kiConditions = c\<rparr>)"])
    (auto simp: KeycloakImport_DeepCopyInto_def viewKeycloakImport_def reachKeycloakImport_def struct_simps split: prod.split)

lemma deep_KeycloakList: "deep_copier (KeycloakList_DeepCopyInto cs) viewKeycloakList reachKeycloakList"
  by (rule deep_copier_struct [OF deep_copier_pair [OF deep_copier_flat
        deep_copier_pair [OF listmeta_copier deep_copier_slice [OF keycloaks.heap_kind_axioms deep_Keycloak]]],
      where flds = "\<lambda>x. (mklTypeMeta x, mklListMeta x, mklItems x)"
        and mk = "\<lambda>(t, lm, xs). \<lparr>mklTypeMeta = t, mklListMeta = lm, mklItems = xs\<rparr>"
        and build = "\<lambda>(t, lm, xs). (t, lm, elements xs)"])
    (auto simp: KeycloakList_DeepCopyInto_def viewKeycloakList_def reachKeycloakList_def struct_simps split: prod.split)

lemma deep_KeycloakImportList: "deep_copier (KeycloakImportList_DeepCopyInto cs) viewKeycloakImportList reachKeycloakImportList"
  by (rule deep_copier_struct [OF deep_copier_pair [OF deep_copier_flat
        deep_copier_pair [OF listmeta_copier deep_copier_slice [OF importlists.heap_kind_axioms deep_KeycloakImport]]],
      where flds = "\<lambda>x. (milTypeMeta x, milListMeta x, milItems x)"
        and mk = "\<lambda>(t, lm, xs). \<lparr>milTypeMeta = t, milListMeta = lm, milItems = xs\<rparr>"
        and build = "\<lambda>(t, lm, xs). (t, lm, elements xs)"])
    (auto simp: KeycloakImportList_DeepCopyInto_def viewKeycloakImportList_def reachKeycloakImportList_def struct_simps
      split: prod.split)

end

text \<open>The type that no custom resource uses.\<close>

definition viewFeatures :: "mem \<Rightarrow> mFeatures \<Rightarrow> string list \<times> string list" where
  "viewFeatures m x = (elements (viewSlice memStrings viewFlat m (mftEnabled x)), elements (viewSlice memStrings viewFlat m (mftDisabled x)))"

definition reachFeatures :: "mem \<Rightarrow> mFeatures \<Rightarrow> addr set" where
  "reachFeatures m x = reachSlice memStrings noReach m (mftEnabled x) \<union> reachSlice memStrings noReach m (mftDisabled x)"

interpretation features: deep_copier Features_DeepCopyInto viewFeatures reachFeatures
  by (rule deep_copier_struct [OF deep_copier_pair [OF deep_copier_slice [OF strings.heap_kind_axioms deep_copier_flat]
        deep_copier_slice [OF strings.heap_kind_axioms deep_copier_flat]],
      where flds = "\<lambda>x. (mftEnabled x, mftDisabled x)" and mk = "\<lambda>(e, f). \<lparr>mftEnabled = e, mftDisabled = f\<rparr>"
        and build = "\<lambda>(e, f). (elements e, elements f)"])
    (auto simp: Features_DeepCopyInto_def viewFeatures_def reachFeatures_def struct_simps split: prod.split)

section \<open>Independence of the copies\<close>

text \<open>
  \<open>y\<close> in \<open>m'\<close> is an independent copy of \<open>x\<close> in \<open>m\<close>: both have the value that \<open>x\<close> had, they share no
  address, and no change of memory that stays within what one of them reaches changes the value of the other.
\<close>

definition independentCopy ::
  "(mem \<Rightarrow> 'a \<Rightarrow> 'v) \<Rightarrow> (mem \<Rightarrow> 'a \<Rightarrow> addr set) \<Rightarrow> mem \<Rightarrow> 'a \<Rightarrow> mem \<Rightarrow> 'a \<Rightarrow> bool" where
  "independentCopy view reach m x m' y \<longleftrightarrow>
     view m' y = view m x \<and> view m' x = view m x \<and> reach m' x \<inter> reach m' y = {} \<and>
     (\<forall>m''. (\<forall>a. a \<notin> reach m' y \<longrightarrow> sameAt m' m'' a) \<longrightarrow> view m'' x = view m x) \<and>
     (\<forall>m''. (\<forall>a. a \<notin> reach m' x \<longrightarrow> sameAt m' m'' a) \<longrightarrow> view m'' y = view m x)"

lemma deep_copier_independent:
  assumes "deep_copier into view reach" "reach m x \<subseteq> {..<memNext m}"
  shows "case deepCopy into (Some x) m of (Some y, m') \<Rightarrow> independentCopy view reach m x m' y | (None, m') \<Rightarrow> False"
proof -
  obtain y m' where r: "into x m = (y, m')" by fastforce
  from deep_copier.separate [OF assms r] show ?thesis
    by (simp add: deepCopy_def r independentCopy_def)
qed

text \<open>Copies of metadata and selectors that have the contract: one field after the other.\<close>

definition copyStruct :: "('a \<Rightarrow> 'b) \<Rightarrow> ('b \<Rightarrow> 'a) \<Rightarrow> 'b copying \<Rightarrow> 'a copying" where
  "copyStruct flds mk c x m = (case c (flds x) m of (y, m') \<Rightarrow> (mk y, m'))"

definition refCopySelector :: "mSelector copying" where
  "refCopySelector =
     copyStruct (\<lambda>x. ((mslName x, mslKey x), mslOptional x)) (\<lambda>((n, k), p). \<lparr>mslName = n, mslKey = k, mslOptional = p\<rparr>)
       (copyPair copyFlat (copyPtr memBools memBools_update copyFlat))"

definition refCopyOwner :: "mOwnerReference copying" where
  "refCopyOwner =
     copyStruct (\<lambda>x. (morName x, morController x, morBlockOwnerDeletion x))
       (\<lambda>(n, p, q). \<lparr>morName = n, morController = p, morBlockOwnerDeletion = q\<rparr>)
       (copyPair copyFlat (copyPair (copyPtr memBools memBools_update copyFlat) (copyPtr memBools memBools_update copyFlat)))"

definition refCopyManaged :: "mManagedFields copying" where
  "refCopyManaged =
     copyStruct (\<lambda>x. (mmfManager x, mmfTime x, mmfFieldsV1 x))
       (\<lambda>(n, t, f). \<lparr>mmfManager = n, mmfTime = t, mmfFieldsV1 = f\<rparr>)
       (copyPair copyFlat (copyPair (copyPtr memTimes memTimes_update copyFlat)
         (copyPtr memFields memFields_update (copySlice memBytes memBytes_update copyFlat))))"

definition refCopyObjectMeta :: "mObjectMeta copying" where
  "refCopyObjectMeta =
     copyStruct
       (\<lambda>x. ((momName x, momNamespace x, momResourceVersion x), momDeletionTimestamp x, momDeletionGracePeriodSeconds x,
          momLabels x, momAnnotations x, momOwnerReferences x, momFinalizers x, momManagedFields x))
       (\<lambda>((n, ns, rv), dt, gp, l, a, ow, f, mf). \<lparr>momName = n, momNamespace = ns, momResourceVersion = rv,
          momDeletionTimestamp = dt, momDeletionGracePeriodSeconds = gp, momLabels = l, momAnnotations = a,
          momOwnerReferences = ow, momFinalizers = f, momManagedFields = mf\<rparr>)
       (copyPair copyFlat (copyPair (copyPtr memTimes memTimes_update copyFlat)
       (copyPair (copyPtr memInt64s memInt64s_update copyFlat) (copyPair (copyPtr memMaps memMaps_update copyFlat)
       (copyPair (copyPtr memMaps memMaps_update copyFlat) (copyPair (copySlice memOwners memOwners_update refCopyOwner)
       (copyPair (copySlice memStrings memStrings_update copyFlat)
         (copySlice memManaged memManaged_update refCopyManaged))))))))"

definition refCopyListMeta :: "mListMeta copying" where
  "refCopyListMeta =
     copyStruct (\<lambda>x. ((mlmResourceVersion x, mlmContinue x), mlmRemainingItemCount x))
       (\<lambda>((rv, c), p). \<lparr>mlmResourceVersion = rv, mlmContinue = c, mlmRemainingItemCount = p\<rparr>)
       (copyPair copyFlat (copyPtr memInt64s memInt64s_update copyFlat))"

definition refCopiers :: copiers where
  "refCopiers = \<lparr>CopySelector = refCopySelector, CopyObjectMeta = refCopyObjectMeta, CopyListMeta = refCopyListMeta,
     CopyCondition = id\<rparr>"

lemmas deep_flatptr = deep_copier_flat [THEN bools.deep_copier_ptr] deep_copier_flat [THEN times.deep_copier_ptr]
  deep_copier_flat [THEN int64s.deep_copier_ptr] deep_copier_flat [THEN maps.deep_copier_ptr]

lemma deep_refCopySelector: "deep_copier refCopySelector viewSelector reachSelector"
  by (rule deep_copier_struct [OF deep_copier_pair [OF deep_copier_flat deep_flatptr(1)],
      where flds = "\<lambda>x. ((mslName x, mslKey x), mslOptional x)"
        and mk = "\<lambda>((n, k), p). \<lparr>mslName = n, mslKey = k, mslOptional = p\<rparr>"
        and build = "\<lambda>((n, k), p). \<lparr>selName = n, selKey = k, selOptional = p\<rparr>"])
    (auto simp: refCopySelector_def copyStruct_def viewSelector_def reachSelector_def viewPair_def reachPair_def noReach_def)

lemma deep_refCopyOwner: "deep_copier refCopyOwner viewOwner reachOwner"
  by (rule deep_copier_struct [OF deep_copier_pair [OF deep_copier_flat deep_copier_pair [OF deep_flatptr(1) deep_flatptr(1)]],
      where flds = "\<lambda>x. (morName x, morController x, morBlockOwnerDeletion x)"
        and mk = "\<lambda>(n, p, q). \<lparr>morName = n, morController = p, morBlockOwnerDeletion = q\<rparr>" and build = id])
    (auto simp: refCopyOwner_def copyStruct_def viewOwner_def reachOwner_def viewPair_def reachPair_def noReach_def)

lemma deep_refCopyManaged: "deep_copier refCopyManaged viewManaged reachManaged"
  by (rule deep_copier_struct [OF deep_copier_pair [OF deep_copier_flat deep_copier_pair [OF deep_flatptr(2)
        fieldsets.deep_copier_ptr [OF deep_copier_slice [OF bytearrays.heap_kind_axioms deep_copier_flat]]]],
      where flds = "\<lambda>x. (mmfManager x, mmfTime x, mmfFieldsV1 x)"
        and mk = "\<lambda>(n, t, f). \<lparr>mmfManager = n, mmfTime = t, mmfFieldsV1 = f\<rparr>" and build = id])
    (auto simp: refCopyManaged_def copyStruct_def viewManaged_def reachManaged_def viewPair_def reachPair_def noReach_def)

lemma deep_refCopyObjectMeta: "deep_copier refCopyObjectMeta viewObjectMeta reachObjectMeta"
  by (rule deep_copier_struct [OF deep_copier_pair [OF deep_copier_flat deep_copier_pair [OF deep_flatptr(2)
        deep_copier_pair [OF deep_flatptr(3) deep_copier_pair [OF deep_flatptr(4) deep_copier_pair [OF deep_flatptr(4)
        deep_copier_pair [OF deep_copier_slice [OF owners.heap_kind_axioms deep_refCopyOwner]
        deep_copier_pair [OF deep_copier_slice [OF strings.heap_kind_axioms deep_copier_flat]
          deep_copier_slice [OF managed.heap_kind_axioms deep_refCopyManaged]]]]]]]],
      where flds = "\<lambda>x. ((momName x, momNamespace x, momResourceVersion x), momDeletionTimestamp x,
          momDeletionGracePeriodSeconds x, momLabels x, momAnnotations x, momOwnerReferences x, momFinalizers x, momManagedFields x)"
        and mk = "\<lambda>((n, ns, rv), dt, gp, l, a, ow, f, mf). \<lparr>momName = n, momNamespace = ns, momResourceVersion = rv,
          momDeletionTimestamp = dt, momDeletionGracePeriodSeconds = gp, momLabels = l, momAnnotations = a,
          momOwnerReferences = ow, momFinalizers = f, momManagedFields = mf\<rparr>"
        and build = "\<lambda>((n, ns, rv), dt, gp, l, a, ow, f, mf).
          (\<lparr>metaName = n, metaNamespace = ns, metaLabels = l, metaAnnotations = a, metaResourceVersion = rv,
            metaDeletionTimestamp = dt, metaFinalizers = elements f,
            metaOwnerReferences = map ownerReference (elements ow)\<rparr>, (gp, elements ow, elements mf))"])
    (auto simp: refCopyObjectMeta_def copyStruct_def viewObjectMeta_def reachObjectMeta_def viewPair_def reachPair_def
      noReach_def Let_def)

lemma deep_refCopyListMeta: "deep_copier refCopyListMeta viewListMeta reachListMeta"
  by (rule deep_copier_struct [OF deep_copier_pair [OF deep_copier_flat deep_flatptr(3)],
      where flds = "\<lambda>x. ((mlmResourceVersion x, mlmContinue x), mlmRemainingItemCount x)"
        and mk = "\<lambda>((rv, c), p). \<lparr>mlmResourceVersion = rv, mlmContinue = c, mlmRemainingItemCount = p\<rparr>"
        and build = "\<lambda>((rv, c), p). (rv, c, p)"])
    (auto simp: refCopyListMeta_def copyStruct_def viewListMeta_def reachListMeta_def viewPair_def reachPair_def noReach_def)

interpretation ref_copies: faithful_copies refCopiers
  by (rule faithful_copies.intro)
    (simp_all add: refCopiers_def deep_refCopySelector deep_refCopyObjectMeta deep_refCopyListMeta)

text \<open>
  A list of one instance that has labels and a finalizer, and whose spec has a pointer to the number of
  its replicas.
\<close>

definition zeroOption :: mSecretOption where "zeroOption = \<lparr>msoValue = [], msoSecret = None\<rparr>"

definition exampleList :: mKeycloakList where
  "exampleList = \<lparr>mklTypeMeta = (''KeycloakList'', ''v1alpha1''),
     mklListMeta = \<lparr>mlmResourceVersion = ''9'', mlmContinue = [], mlmRemainingItemCount = None\<rparr>,
     mklItems = Some \<lparr>slArray = 1, slOffset = 0, slLen = 1\<rparr>\<rparr>"

definition exampleItem :: mKeycloak where
  "exampleItem = \<lparr>mkcTypeMeta = (''Keycloak'', ''v1alpha1''),
     mkcObjectMeta = \<lparr>momName = ''sso'', momNamespace = ''team'', momResourceVersion = ''4'', momDeletionTimestamp = None,
       momDeletionGracePeriodSeconds = None, momLabels = Some 2, momAnnotations = None, momOwnerReferences = None,
       momFinalizers = Some \<lparr>slArray = 3, slOffset = 0, slLen = 1\<rparr>, momManagedFields = None\<rparr>,
     mkcSpec = \<lparr>mksDatabase = None, mksAdditionalOptions = None, mksInstances = Some 0, mksTrustedCABundles = None,
       mksAdmin = \<lparr>mauUsername = zeroOption, mauPassword = zeroOption\<rparr>, mksProviders = None,
       mksNetworkConfig = None, mksSizing = None\<rparr>,
     mkcStatus = \<lparr>mktConditions = \<lparr>mcoConditions = None\<rparr>\<rparr>\<rparr>"

definition exampleMemory :: mem where
  "exampleMemory = \<lparr>memNext = 4, memSelectors = (\<lambda>a. \<lparr>mslName = [], mslKey = [], mslOptional = None\<rparr>),
     memDatabases = (\<lambda>a. \<lparr>mdbHost = zeroOption, mdbPort = zeroOption, mdbUser = zeroOption, mdbPassword = zeroOption\<rparr>),
     memInt32s = (\<lambda>a. 3), memReferences = (\<lambda>a. []), memNetworks = (\<lambda>a. \<lparr>netProxy = False, netHostname = []\<rparr>),
     memSizings = (\<lambda>a. \<lparr>LoginsPerSecond = 0, ClientCredentialsGrantsPerSecond = 0, RefreshTokenGrantsPerSecond = 0,
       CachedSessions = 0, DisableCPULimits = False\<rparr>),
     memMaps = (\<lambda>a. [''team'' \<mapsto> ''x'']), memStrings = (\<lambda>a. [''keep'']), memOptions = (\<lambda>a. []), memProviders = (\<lambda>a. []),
     memConditions = (\<lambda>a. []), memBools = (\<lambda>a. True), memTimes = (\<lambda>a. 0), memInt64s = (\<lambda>a. 0), memOwners = (\<lambda>a. []),
     memManaged = (\<lambda>a. []), memFields = (\<lambda>a. None), memBytes = (\<lambda>a. []), memKeycloaks = (\<lambda>a. [exampleItem]),
     memImports = (\<lambda>a. [])\<rparr>"

definition noImports :: mKeycloakImportList where
  "noImports = \<lparr>milTypeMeta = (''KeycloakImportList'', ''v1alpha1''),
     milListMeta = \<lparr>mlmResourceVersion = [], mlmContinue = [], mlmRemainingItemCount = None\<rparr>, milItems = None\<rparr>"

lemma exampleList_reach: "reachKeycloakList exampleMemory exampleList = {0, 1, 2, 3}" "reachKeycloakImportList m noImports = {}"
  by (auto simp: reachKeycloakList_def exampleList_def reachBox_def window_def exampleMemory_def reachAll_def exampleItem_def
      reachKeycloak_def reachKeycloakSpec_def reachAdminUser_def reachSecretOption_def zeroOption_def reachConditions_def
      noReach_def reachKeycloakImportList_def noImports_def reachListMeta_def reachObjectMeta_def)

section \<open>Properties\<close>

text \<open>
  C22: a deep copy is a copy and is deep. For a list of instances, and for a list of imports, whose
  addresses have been allocated, and with third-party copies of metadata and selectors that are deep
  themselves, \<open>DeepCopyObject\<close> does not return nil; the copy has the same value as the original, the original
  is unchanged, the two share no address (neither in spec and status nor in metadata: labels, annotations,
  finalizers, owner references), and afterwards no write through one of them changes the value of the other. So a controller that edits what the cache handed out does not
  edit the cache, and resources can be treated as values.
\<close>

theorem DeepCopyObject_independent:
  assumes "faithful_copies cs"
    and "reachKeycloakList m kcs \<subseteq> {..<memNext m}" and "reachKeycloakImportList m kis \<subseteq> {..<memNext m}"
  shows "(case KeycloakList_DeepCopyObject cs (Some kcs) m of
       (Some y, m') \<Rightarrow> independentCopy viewKeycloakList reachKeycloakList m kcs m' y | (None, m') \<Rightarrow> False) \<and>
    (case KeycloakImportList_DeepCopyObject cs (Some kis) m of
       (Some y, m') \<Rightarrow> independentCopy viewKeycloakImportList reachKeycloakImportList m kis m' y | (None, m') \<Rightarrow> False)"
  using deep_copier_independent [OF faithful_copies.deep_KeycloakList [OF assms(1)] assms(2)]
    deep_copier_independent [OF faithful_copies.deep_KeycloakImportList [OF assms(1)] assms(3)]
  by (auto simp: KeycloakList_DeepCopyObject_def KeycloakList_DeepCopy_def KeycloakImportList_DeepCopyObject_def
      KeycloakImportList_DeepCopy_def split: prod.splits option.splits)

theorem DeepCopyObject_independent_witness:
  "\<exists>y m'. KeycloakList_DeepCopyObject refCopiers (Some exampleList) exampleMemory = (Some y, m') \<and>
     independentCopy viewKeycloakList reachKeycloakList exampleMemory exampleList m' y"
proof -
  have "memNext exampleMemory = 4" by (simp add: exampleMemory_def)
  then have "reachKeycloakList exampleMemory exampleList \<subseteq> {..<memNext exampleMemory}"
    "reachKeycloakImportList exampleMemory noImports \<subseteq> {..<memNext exampleMemory}" by (auto simp: exampleList_reach)
  from DeepCopyObject_independent [OF ref_copies.faithful_copies_axioms this] show ?thesis
    by (cases "KeycloakList_DeepCopyObject refCopiers (Some exampleList) exampleMemory") (auto split: option.splits)
qed

end
