(* ===== verification/Conformance.thy ===== *)
theory Conformance
  imports RealmJob
begin

text \<open>
  Do the objects that the operator builds obey the rules that Kubernetes documents for them? The
  rules are a specification here, written from the documentation of the API (\<^verbatim>\<open>Object Names and IDs\<close>,
  \<^verbatim>\<open>Labels and Selectors\<close>, the reference of the workload and service resources) as executable
  predicates: the syntax of names, labels, keys and ports, then one predicate per object
  (\<open>containerOk\<close>, \<open>podOk\<close>, \<open>serviceOk\<close>, \<open>routeOk\<close>, \<open>statefulSetOk\<close>, \<open>monitorOk\<close>, \<open>jobOk\<close>). They
  state the rules for the fields the operator sets.

  A custom resource may have any name that is a DNS subdomain, of up to 253 characters, and the operator
  derives the names of its objects by appending to it. The properties say for exactly which names of an instance and
  of an import what is built obeys the rules.
\<close>

section \<open>The syntax of names\<close>

definition maxLabelLength :: nat where "maxLabelLength = 63"
definition maxSubdomainLength :: nat where "maxSubdomainLength = 253"
definition maxPortNameLength :: nat where "maxPortNameLength = 15"

definition is_lower :: "char \<Rightarrow> bool" where
  "is_lower c = (97 \<le> code c \<and> code c \<le> 122)"

definition is_lower_alnum :: "char \<Rightarrow> bool" where
  "is_lower_alnum c = (is_lower c \<or> is_digit_char c)"

definition is_alnum :: "char \<Rightarrow> bool" where
  "is_alnum c = (is_word_char c \<and> c \<noteq> CHR ''_'')"

text \<open>Only characters of one set, with the first and the last one from another.\<close>

definition framed :: "(char \<Rightarrow> bool) \<Rightarrow> (char \<Rightarrow> bool) \<Rightarrow> string \<Rightarrow> bool" where
  "framed edge inner s = (s \<noteq> [] \<and> edge (hd s) \<and> edge (last s) \<and> list_all inner s)"

text \<open>A label of RFC 1123, the label of RFC 1035 that names a service, and a subdomain of RFC 1123.\<close>

definition isDNSLabel :: "string \<Rightarrow> bool" where
  "isDNSLabel s = (length s \<le> maxLabelLength \<and>
     framed is_lower_alnum (\<lambda>c. is_lower_alnum c \<or> c = CHR ''-'') s)"

definition isServiceName :: "string \<Rightarrow> bool" where
  "isServiceName s = (isDNSLabel s \<and> is_lower (hd s))"

definition dotSeparated :: "char \<Rightarrow> char \<Rightarrow> bool" where
  "dotSeparated a b = ((a = CHR ''.'' \<longrightarrow> is_lower_alnum b) \<and> (b = CHR ''.'' \<longrightarrow> is_lower_alnum a))"

definition isDNSSubdomain :: "string \<Rightarrow> bool" where
  "isDNSSubdomain s = (length s \<le> maxSubdomainLength \<and>
     framed is_lower_alnum (\<lambda>c. is_lower_alnum c \<or> c = CHR ''-'' \<or> c = CHR ''.'') s \<and>
     successively dotSeparated s)"

text \<open>The values and the keys of labels; a key is a name with an optional subdomain in front.\<close>

definition isLabelName :: "string \<Rightarrow> bool" where
  "isLabelName s = (length s \<le> maxLabelLength \<and>
     framed is_alnum (\<lambda>c. is_alnum c \<or> c \<in> {CHR ''-'', CHR ''_'', CHR ''.''}) s)"

definition isLabelValue :: "string \<Rightarrow> bool" where
  "isLabelValue s = (s = [] \<or> isLabelName s)"

definition isLabelKey :: "string \<Rightarrow> bool" where
  "isLabelKey s =
     (case dropWhile (\<lambda>c. c \<noteq> CHR ''/'') s of
        [] \<Rightarrow> isLabelName s
      | _ # n \<Rightarrow> isDNSSubdomain (takeWhile (\<lambda>c. c \<noteq> CHR ''/'') s) \<and> isLabelName n)"

text \<open>Variables, keys of secrets, port names and numbers.\<close>

definition isEnvName :: "string \<Rightarrow> bool" where
  "isEnvName s = (s \<noteq> [] \<and> list_all (\<lambda>c. 32 \<le> code c \<and> code c \<le> 126 \<and> c \<noteq> CHR ''='') s)"

definition isSecretKey :: "string \<Rightarrow> bool" where
  "isSecretKey s = (s \<noteq> [] \<and> length s \<le> maxSubdomainLength \<and>
     list_all (\<lambda>c. is_alnum c \<or> c \<in> {CHR ''-'', CHR ''_'', CHR ''.''}) s \<and>
     s \<noteq> ''.'' \<and> take 2 s \<noteq> ''..'')"

definition isPortName :: "string \<Rightarrow> bool" where
  "isPortName s = (length s \<le> maxPortNameLength \<and>
     framed is_lower_alnum (\<lambda>c. is_lower_alnum c \<or> c = CHR ''-'') s \<and>
     list_ex is_lower s \<and> successively (\<lambda>a b. \<not> (a = CHR ''-'' \<and> b = CHR ''-'')) s)"

definition portOk :: "int32 \<Rightarrow> bool" where
  "portOk p = (1 \<le> sint p \<and> sint p \<le> 65535)"

primrec targetPortOk :: "IntOrString \<Rightarrow> bool" where
  "targetPortOk (IntVal p) = portOk p"
| "targetPortOk (StrVal n) = isPortName n"

section \<open>The rules for objects\<close>

definition labelsOk :: "labels option \<Rightarrow> bool" where
  "labelsOk ls = (\<forall>k v. goLookup ls k = Some v \<longrightarrow> isLabelKey k \<and> isLabelValue v)"

definition annotationsOk :: "labels option \<Rightarrow> bool" where
  "annotationsOk an = (\<forall>k v. goLookup an k = Some v \<longrightarrow> isLabelKey k)"

definition metaOk :: "(string \<Rightarrow> bool) \<Rightarrow> ObjectMeta \<Rightarrow> bool" where
  "metaOk nameOk m = (nameOk (metaName m) \<and> isDNSLabel (metaNamespace m) \<and>
     labelsOk (metaLabels m) \<and> annotationsOk (metaAnnotations m))"

text \<open>
  Amounts in thousandths. A literal is a decimal number with a binary suffix, which is the form the
  operator uses.
\<close>

definition suffixFactor :: "string \<Rightarrow> int option" where
  "suffixFactor s =
     (if s = '''' then Some 1 else if s = ''Ki'' then Some 1024 else if s = ''Mi'' then Some (1024 ^ 2)
      else if s = ''Gi'' then Some (1024 ^ 3) else None)"

primrec amount :: "Quantity \<Rightarrow> int option" where
  "amount (NewMilliQuantity q fmt) = Some q"
| "amount (NewQuantity q fmt) = Some (1000 * q)"
| "amount (MustParse s) =
     (case takeWhile is_digit_char s of
        [] \<Rightarrow> None
      | digits \<Rightarrow> map_option (\<lambda>u. 1000 * u * foldl (\<lambda>n c. 10 * n + (int (code c) - 48)) 0 digits)
                   (suffixFactor (dropWhile is_digit_char s)))"

definition amountOk :: "Quantity \<Rightarrow> bool" where
  "amountOk q = (case amount q of None \<Rightarrow> False | Some a \<Rightarrow> 0 \<le> a)"

definition resourceOk :: "ResourceRequirements \<Rightarrow> ResourceName \<Rightarrow> bool" where
  "resourceOk r n =
     (case (rrRequests r n, rrLimits r n) of
        (None, None) \<Rightarrow> True
      | (Some q, None) \<Rightarrow> amountOk q
      | (None, Some l) \<Rightarrow> amountOk l
      | (Some q, Some l) \<Rightarrow> amountOk q \<and> amountOk l \<and> the (amount q) \<le> the (amount l))"

definition resourcesOk :: "ResourceRequirements \<Rightarrow> bool" where
  "resourcesOk r = list_all (resourceOk r) [ResourceCPU, ResourceMemory]"

definition selectorOk :: "SecretKeySelector \<Rightarrow> bool" where
  "selectorOk sel = (selName sel \<noteq> [] \<and> isSecretKey (selKey sel))"

definition envOk :: "EnvVar \<Rightarrow> bool" where
  "envOk e = (isEnvName (envName e) \<and>
     (case envValueFrom e of
        None \<Rightarrow> True
      | Some src \<Rightarrow> envValue e = '''' \<and> (case SecretKeyRef src of None \<Rightarrow> False | Some sel \<Rightarrow> selectorOk sel)))"

definition probeOk :: "Probe option \<Rightarrow> bool" where
  "probeOk p =
     (case p of
        None \<Rightarrow> True
      | Some p \<Rightarrow> httpPath (probeHTTPGet p) \<noteq> [] \<and> targetPortOk (httpPort (probeHTTPGet p)) \<and>
          1 \<le> sint (probePeriodSeconds p) \<and> 1 \<le> sint (probeFailureThreshold p))"

definition mountOk :: "string set \<Rightarrow> VolumeMount \<Rightarrow> bool" where
  "mountOk vols m = (mountName m \<in> vols \<and> mountPath m \<noteq> [] \<and> CHR '':'' \<notin> set (mountPath m))"

definition containerOk :: "string set \<Rightarrow> Container \<Rightarrow> bool" where
  "containerOk vols c = (isDNSLabel (cName c) \<and> cImage c \<noteq> [] \<and>
     list_all (\<lambda>p. isPortName (cpName p) \<and> portOk (cpContainerPort p)) (cPorts c) \<and>
     distinct (map cpName (cPorts c)) \<and> list_all envOk (cEnv c) \<and> resourcesOk (cResources c) \<and>
     list_all probeOk [cLivenessProbe c, cReadinessProbe c, cStartupProbe c] \<and>
     list_all (mountOk vols) (cVolumeMounts c) \<and> distinct (map mountPath (cVolumeMounts c)))"

definition modeOk :: "int32 option \<Rightarrow> bool" where
  "modeOk m = (case m of None \<Rightarrow> True | Some w \<Rightarrow> 0 \<le> sint w \<and> sint w \<le> 511)"

text \<open>A volume has exactly one source.\<close>

definition volumeOk :: "Volume \<Rightarrow> bool" where
  "volumeOk v = (isDNSLabel (volName v) \<and>
     (case (vsSecret (volSource v), vsConfigMap (volSource v), vsEmptyDir (volSource v)) of
        (Some s, None, None) \<Rightarrow> svsSecretName s \<noteq> [] \<and> modeOk (svsDefaultMode s)
      | (None, Some c, None) \<Rightarrow> cmsName c \<noteq> [] \<and> modeOk (cmsDefaultMode c)
      | (None, None, Some _) \<Rightarrow> True
      | _ \<Rightarrow> False))"

definition podOk :: "PodSpec \<Rightarrow> bool" where
  "podOk pod = (podContainers pod \<noteq> [] \<and>
     distinct (map cName (podInitContainers pod @ podContainers pod)) \<and>
     distinct (map volName (podVolumes pod)) \<and> list_all volumeOk (podVolumes pod) \<and>
     list_all (containerOk (volName ` set (podVolumes pod))) (podInitContainers pod @ podContainers pod))"

definition templateOk :: "PodTemplateSpec \<Rightarrow> bool" where
  "templateOk t = (labelsOk (metaLabels (tplMeta t)) \<and> annotationsOk (metaAnnotations (tplMeta t)) \<and>
     podOk (tplSpec t))"

text \<open>
  Workloads. The pods of a stateful set are named and addressed by its name, which has to be a label;
  the name of a job has at most 63 characters. The pods of a stateful set are always restarted, those of a
  job never are.
\<close>

definition statefulSetOk :: "StatefulSet \<Rightarrow> bool" where
  "statefulSetOk s = (metaOk isDNSLabel (stsMeta s) \<and>
     (case stsReplicas (stsSpec s) of None \<Rightarrow> True | Some n \<Rightarrow> 0 \<le> sint n) \<and>
     goSet (stsSelector (stsSpec s)) \<noteq> Map.empty \<and>
     goSet (stsSelector (stsSpec s)) \<subseteq>\<^sub>m goSet (metaLabels (tplMeta (stsTemplate (stsSpec s)))) \<and>
     templateOk (stsTemplate (stsSpec s)) \<and>
     podRestartPolicy (tplSpec (stsTemplate (stsSpec s))) = RestartDefault)"

definition jobOk :: "Job \<Rightarrow> bool" where
  "jobOk j = (metaOk isDNSSubdomain (jobMeta j) \<and> length (metaName (jobMeta j)) \<le> maxLabelLength \<and>
     templateOk (jobTemplate j) \<and> podRestartPolicy (tplSpec (jobTemplate j)) = RestartPolicyNever \<and>
     (case jobBackoffLimit j of None \<Rightarrow> True | Some n \<Rightarrow> 0 \<le> sint n))"

definition serviceOk :: "Service \<Rightarrow> bool" where
  "serviceOk s = (metaOk isServiceName (svcMeta s) \<and> svcPorts (svcSpec s) \<noteq> [] \<and>
     list_all (\<lambda>p. isDNSLabel (spName p) \<and> portOk (spPort p) \<and> targetPortOk (spTargetPort p)) (svcPorts (svcSpec s)) \<and>
     distinct (map spName (svcPorts (svcSpec s))) \<and>
     distinct (map (\<lambda>p. (spProtocol p, spPort p)) (svcPorts (svcSpec s))) \<and>
     labelsOk (Some (svcSelector (svcSpec s))))"

definition routeOk :: "Route \<Rightarrow> bool" where
  "routeOk r = (metaOk isDNSSubdomain (rtMeta r) \<and> (rtHost (rtSpec r) = [] \<or> isDNSSubdomain (rtHost (rtSpec r))) \<and>
     rtToKind (rtSpec r) = ''Service'' \<and> rtToName (rtSpec r) \<noteq> [] \<and> targetPortOk (rtTargetPort (rtSpec r)))"

definition monitorOk :: "ServiceMonitor \<Rightarrow> bool" where
  "monitorOk m = (metaOk isDNSSubdomain (smMeta m) \<and> labelsOk (Some (smSelector m)) \<and>
     list_all (\<lambda>e. epPort e \<noteq> [] \<and> epScheme e \<in> {''http'', ''https''} \<and> selectorOk (epCASecret e)) (smEndpoints m))"

section \<open>Names with a suffix\<close>

lemmas limit_defs = maxLabelLength_def maxSubdomainLength_def maxPortNameLength_def

lemma lower_alnum_chars:
  "is_lower_alnum c \<Longrightarrow> c \<noteq> CHR ''.'' \<and> c \<noteq> CHR ''-'' \<and> c \<noteq> CHR ''/'' \<and> is_alnum c"
  by (auto simp: is_lower_alnum_def is_lower_def is_digit_char_def is_alnum_def is_word_char_def)

lemma framed_append:
  "a \<noteq> [] \<Longrightarrow> b \<noteq> [] \<Longrightarrow>
   framed edge inner (a @ b) \<longleftrightarrow> edge (hd a) \<and> edge (last b) \<and> list_all inner a \<and> list_all inner b"
  by (auto simp: framed_def)

definition labelSuffix :: "string \<Rightarrow> bool" where
  "labelSuffix s = (s \<noteq> [] \<and> is_lower_alnum (last s) \<and> list_all (\<lambda>c. is_lower_alnum c \<or> c = CHR ''-'') s)"

lemma subdomain_nonempty: "isDNSSubdomain s \<Longrightarrow> s \<noteq> []"
  by (simp add: isDNSSubdomain_def framed_def)

text \<open>
  The central fact: a suffix keeps a name a label exactly when the name is a label and there is room.
\<close>

lemma isDNSLabel_suffix:
  assumes "isDNSSubdomain n" "labelSuffix suf"
  shows "isDNSLabel (n @ suf) \<longleftrightarrow> isDNSLabel n \<and> length n + length suf \<le> maxLabelLength"
proof -
  from assms(2) have "suf \<noteq> []" by (simp add: labelSuffix_def)
  from framed_append [OF subdomain_nonempty [OF assms(1)] this] show ?thesis
    using assms by (auto simp: isDNSLabel_def isDNSSubdomain_def labelSuffix_def framed_def)
qed

lemma isServiceName_suffix:
  assumes "isDNSSubdomain n" "labelSuffix suf"
  shows "isServiceName (n @ suf) \<longleftrightarrow> isServiceName n \<and> length n + length suf \<le> maxLabelLength"
  using isDNSLabel_suffix [OF assms] subdomain_nonempty [OF assms(1)] by (auto simp: isServiceName_def)

lemma no_dots: "list_all (\<lambda>c. is_lower_alnum c \<or> c = CHR ''-'') s \<Longrightarrow> successively dotSeparated s"
proof (induction s)
  case (Cons a s)
  then show ?case by (cases s) (auto simp: dotSeparated_def dest: lower_alnum_chars)
qed simp

lemma isDNSSubdomain_label: "isDNSLabel s \<Longrightarrow> isDNSSubdomain s"
  using no_dots [of s]
  by (auto simp: isDNSLabel_def isDNSSubdomain_def framed_def limit_defs list_all_iff)

lemma isDNSSubdomain_suffix:
  assumes "isDNSSubdomain n" "labelSuffix suf" "length n + length suf \<le> maxSubdomainLength"
  shows "isDNSSubdomain (n @ suf)"
proof -
  have n: "n \<noteq> []" "is_lower_alnum (last n)" "successively dotSeparated n"
    using assms(1) by (simp_all add: isDNSSubdomain_def framed_def)
  have s: "suf \<noteq> []" "successively dotSeparated suf" "is_lower_alnum (hd suf) \<or> hd suf = CHR ''-''"
    using assms(2) no_dots [of suf] by (auto simp: labelSuffix_def neq_Nil_conv)
  have "dotSeparated (last n) (hd suf)"
    using lower_alnum_chars [OF n(2)] s(3) lower_alnum_chars [of "hd suf"] by (auto simp: dotSeparated_def)
  then show ?thesis
    using assms n s framed_append [OF n(1) s(1)]
    by (auto simp: isDNSSubdomain_def successively_append_iff labelSuffix_def framed_def list_all_iff)
qed

lemma isLabelName_label: "isDNSLabel s \<Longrightarrow> isLabelName s"
  by (auto simp: isDNSLabel_def isLabelName_def framed_def list_all_iff dest: lower_alnum_chars)

lemma subdomain_no_slash: "isDNSSubdomain s \<Longrightarrow> CHR ''/'' \<notin> set s"
  by (auto simp: isDNSSubdomain_def framed_def list_all_iff dest: lower_alnum_chars)

lemma isLabelKey_prefixed:
  assumes "isDNSSubdomain n" "isLabelName k"
  shows "isLabelKey (n @ CHR ''/'' # k)"
proof -
  have all: "\<forall>c \<in> set n. c \<noteq> CHR ''/''" using subdomain_no_slash [OF assms(1)] by auto
  then have "dropWhile (\<lambda>c. c \<noteq> CHR ''/'') (n @ CHR ''/'' # k) = CHR ''/'' # k"
    "takeWhile (\<lambda>c. c \<noteq> CHR ''/'') (n @ CHR ''/'' # k) = n"
    by (simp_all add: dropWhile_append takeWhile_append)
  with assms show ?thesis by (simp add: isLabelKey_def)
qed

section \<open>The import job\<close>

lemma constant_keys:
  "isLabelKey ''app''" "isLabelName ''rhbk''" "isLabelKey RHBKImportOwnerLabel" "isLabelKey RHBKImportNamespaceLabel"
  by code_simp+

lemma labelsOk_default [simp]: "labelsOk defaultLabels" "labelsOk (Some [''app'' \<mapsto> ''rhbk''])"
  by (auto simp: labelsOk_def defaultLabels_eq constant_keys isLabelValue_def split: if_splits)

lemma labelsOk_job:
  assumes "isDNSLabel (metaName (kiMeta cr))" "isDNSLabel (metaNamespace (kiMeta cr))" "isLabelValue rv"
  shows "labelsOk (jobLabels cr rv)"
proof -
  have "isLabelKey (GetImportJobAnnotation cr)"
    using isLabelKey_prefixed [OF isDNSSubdomain_label [OF assms(1)] isLabelName_label [OF assms(2)]]
    by (simp add: GetImportJobAnnotation_def)
  then show ?thesis
    using assms by (auto simp: labelsOk_def jobLabels_lookup GetOwnerLabels_def constant_keys isLabelValue_def
        isLabelName_label split: if_splits)
qed

lemma containerOk_mono: "containerOk V c \<Longrightarrow> V \<subseteq> W \<Longrightarrow> containerOk W c"
  by (auto simp: containerOk_def mountOk_def list_all_iff)

lemma jobEnv_ok: "list_all envOk vars \<Longrightarrow> list_all envOk (jobEnv vars)"
  by (induction vars) (auto simp: envOk_def plainEnv_def split: option.split)

lemma rhbkContainer_paths:
  "map mountPath (cVolumeMounts (rhbkContainer kc h)) = [''/mnt/certificates'', ProvidersPATH, TrustedCaVolumeMountPath]"
  by (simp add: rhbkContainer_def DecorateVolumeMounts_def)

lemma importContainer_ok:
  assumes "containerOk V (rhbkContainer kc h)"
  shows "containerOk (insert (GetImportJobSecretVolumeName cr) V) (importContainer cr (rhbkContainer kc h))"
proof -
  have "distinct (map mountPath (cVolumeMounts (rhbkContainer kc h)) @ [''/mnt/realm-import''])"
    by (simp add: rhbkContainer_paths ProvidersPATH_def TrustedCaVolumeMountPath_def)
  then show ?thesis
    using containerOk_mono [OF assms, of "insert (GetImportJobSecretVolumeName cr) V"]
    by (auto simp: containerOk_def importContainer_def probeOk_def mountOk_def intro: jobEnv_ok)
qed

lemma realmVolume_ok:
  assumes "isDNSSubdomain (metaName (kiMeta cr))"
  shows "volumeOk (realmVolume cr) \<longleftrightarrow> isDNSLabel (metaName (kiMeta cr)) \<and> length (metaName (kiMeta cr)) \<le> 56"
proof -
  have "labelSuffix ''-volume''" by code_simp
  from isDNSLabel_suffix [OF assms this] subdomain_nonempty [OF assms] show ?thesis
    by (simp add: volumeOk_def realmVolume_def GetImportJobSecretVolumeName_def GetImportJobSecretName_def modeOk_def
        limit_defs)
qed

lemma importJob_name_ok:
  assumes "isDNSLabel (metaName (kiMeta cr))" "length (metaName (kiMeta cr)) \<le> 56"
  shows "isDNSSubdomain (GetImportJobName cr)" "length (GetImportJobName cr) \<le> maxLabelLength"
proof -
  have "labelSuffix ''-import''" by code_simp
  from isDNSSubdomain_suffix [OF isDNSSubdomain_label [OF assms(1)] this] assms(2)
  show "isDNSSubdomain (GetImportJobName cr)" by (simp add: GetImportJobName_def limit_defs)
  from assms(2) show "length (GetImportJobName cr) \<le> maxLabelLength" by (simp add: GetImportJobName_def limit_defs)
qed

text \<open>The pod of the job: everything but the new volume is as good as in the stateful set.\<close>

lemma importPod_ok:
  assumes pod: "podOk pod" and c: "podContainers pod = [rhbkContainer kc h]" and v: "podVolumes pod = rhbkVolumes kc"
  shows "podOk (pod\<lparr>podContainers := [importContainer cr (rhbkContainer kc h)],
      podVolumes := rhbkVolumes kc @ [realmVolume cr], podRestartPolicy := r\<rparr>) \<longleftrightarrow> volumeOk (realmVolume cr)"
proof -
  let ?V = "volName ` set (rhbkVolumes kc)" and ?n = "GetImportJobSecretVolumeName cr"
  have n: "volName (realmVolume cr) = ?n" by (simp add: realmVolume_def)
  have "containerOk (insert ?n ?V) (importContainer cr (rhbkContainer kc h))"
    using pod by (intro importContainer_ok) (simp add: podOk_def c v)
  moreover have "list_all (containerOk (insert ?n ?V)) (podInitContainers pod)"
    using pod containerOk_mono [of ?V _ "insert ?n ?V"] by (simp add: podOk_def v list_all_iff) blast
  moreover have "?n \<notin> ?V" using volume_name_fresh [of cr kc] by simp
  moreover have "cName (importContainer cr (rhbkContainer kc h)) = cName (rhbkContainer kc h)"
    by (simp add: importContainer_def)
  ultimately show ?thesis using pod by (auto simp: podOk_def c v n)
qed

lemma Job_Build_parts:
  assumes "podContainers (tplSpec (stsTemplate (stsSpec t))) = [c]"
  shows "\<exists>job. Job_Build cr t rv = Inr (Inr job) \<and>
    jobMeta job = (namedMeta (GetImportJobName cr) (metaNamespace (stsMeta t)))\<lparr>metaLabels := jobLabels cr rv\<rparr> \<and>
    tplMeta (jobTemplate job) = (tplMeta (stsTemplate (stsSpec t)))\<lparr>metaLabels := jobLabels cr rv\<rparr> \<and>
    tplSpec (jobTemplate job) = (tplSpec (stsTemplate (stsSpec t)))\<lparr>podContainers := [importContainer cr c],
      podVolumes := podVolumes (tplSpec (stsTemplate (stsSpec t))) @ [realmVolume cr],
      podRestartPolicy := RestartPolicyNever\<rparr> \<and>
    jobBackoffLimit job = Some 1"
  using assms by (simp add: Job_Build_def Let_def)

section \<open>The pod of an instance\<close>

text \<open>
  What is asked of the custom resource: a name and a namespace the cluster can store, no negative
  number of instances, selectors that name a key of a secret, options that are
  environment variables, providers with an address or a secret, a named bundle and a host name, if given.
\<close>

definition secretOk :: "SecretKeySelector option \<Rightarrow> bool" where
  "secretOk s = (case s of None \<Rightarrow> True | Some sel \<Rightarrow> selectorOk sel)"

definition databaseOk :: "PostgresDatabase \<Rightarrow> bool" where
  "databaseOk db = list_all (\<lambda>s. secretOk (soSecret s)) [dbHost db, dbPort db, dbUser db, dbPassword db]"

definition providerOk :: "Provider \<Rightarrow> bool" where
  "providerOk p = (soValue (provURL p) \<noteq> '''' \<or>
     (case soSecret (provURL p) of None \<Rightarrow> False | Some sel \<Rightarrow> selectorOk sel))"

definition instanceOk :: "Keycloak \<Rightarrow> bool" where
  "instanceOk kc = (isDNSSubdomain (metaName (kcMeta kc)) \<and> isDNSLabel (metaNamespace (kcMeta kc)) \<and>
     (case kcInstances (kcSpec kc) of None \<Rightarrow> True | Some n \<Rightarrow> 0 \<le> sint n) \<and>
     secretOk (soSecret (adminUsername (kcAdmin (kcSpec kc)))) \<and> secretOk (soSecret (adminPassword (kcAdmin (kcSpec kc)))) \<and>
     (case kcDatabase (kcSpec kc) of None \<Rightarrow> True | Some db \<Rightarrow> databaseOk db) \<and>
     list_all (\<lambda>v. isEnvName (sovName v) \<and> secretOk (sovSecret v)) (kcAdditionalOptions (kcSpec kc)) \<and>
     list_all providerOk (kcProviders (kcSpec kc)) \<and> kcTrustedCABundles (kcSpec kc) \<noteq> Some '''' \<and>
     (case kcNetworkConfig (kcSpec kc) of None \<Rightarrow> True | Some n \<Rightarrow> netHostname n = '''' \<or> isDNSSubdomain (netHostname n)))"

lemma plainEnv_ok: "envOk (plainEnv n v) \<longleftrightarrow> isEnvName n"
  by (simp add: envOk_def plainEnv_def)

lemma getENV_ok: "isEnvName n \<Longrightarrow> secretOk (soSecret s) \<Longrightarrow> envOk (getENV n s)"
  by (auto simp: getENV_def plainEnv_def envOk_def secretOk_def split: option.splits)

lemma optionEnv_ok: "isEnvName (sovName v) \<Longrightarrow> secretOk (sovSecret v) \<Longrightarrow> envOk (optionEnv v)"
  by (auto simp: optionEnv_def plainEnv_def envOk_def secretOk_def split: option.splits)

lemma AddOrReplaceEnv_all:
  assumes "P e" "list_all P vars"
  shows "list_all P (AddOrReplaceEnv e vars)"
proof -
  have "list_all P (fst (AddOrReplaceEnv_loop e vars))"
    using assms by (induction vars) (auto split: prod.splits)
  with assms(1) show ?thesis by (auto simp: AddOrReplaceEnv_def split: prod.split)
qed

lemma fold_AddOrReplaceEnv_all: "list_all P new \<Longrightarrow> list_all P vars \<Longrightarrow> list_all P (fold AddOrReplaceEnv new vars)"
  by (induction new arbitrary: vars) (auto simp: AddOrReplaceEnv_all)

lemma operatorEnv_isEnvName: "list_all isEnvName (map envName (operatorEnv kc h))"
proof -
  have "list_all isEnvName
      [''KC_HOSTNAME'', ''KC_HTTPS_PORT'', ''KC_HTTP_MANAGEMENT_PORT'', ''KC_HEALTH_ENABLED'', ''KC_CACHE'',
       ''KC_CACHE_STACK'', ''KC_BOOTSTRAP_ADMIN_USERNAME'', ''KC_BOOTSTRAP_ADMIN_PASSWORD'', ''KC_TRUSTSTORE_PATHS'',
       ''KC_TRACING_SERVICE_NAME'', ''KC_TRACING_RESOURCE_ATTRIBUTES'', ''KC_METRICS_ENABLED'',
       ''KC_HTTPS_CERTIFICATE_FILE'', ''KC_HTTPS_CERTIFICATE_KEY_FILE'']"
    "list_all isEnvName [''KC_DB'', ''KC_DB_USERNAME'', ''KC_DB_PASSWORD'', ''KC_DB_URL_HOST'', ''KC_DB_URL_PORT'',
       ''KC_DB_POOL_INITIAL_SIZE'', ''KC_DB_POOL_MIN_SIZE'', ''KC_DB_POOL_MAX_SIZE'']"
    "list_all isEnvName [''KC_HOSTNAME_STRICT'', ''KC_HTTP_ENABLED'', ''KC_PROXY_HEADERS'']"
    by code_simp+
  then show ?thesis by (simp add: operatorEnv_names)
qed

text \<open>A variable of the operator is a plain value or refers to a secret of the custom resource.\<close>

lemma operatorEnv_ok:
  assumes "instanceOk kc"
  shows "list_all envOk (operatorEnv kc h)"
proof -
  have "list_all (\<lambda>e. isEnvName (envName e)) (operatorEnv kc h)"
    using operatorEnv_isEnvName [of kc h] by (simp add: list.pred_map comp_def)
  then show ?thesis
    using assms unfolding operatorEnv_def baseEnv_def databaseEnv_def networkEnv_def instanceOk_def databaseOk_def
    by (auto simp: plainEnv_ok intro!: getENV_ok split: option.splits if_splits)
qed

lemma rhbkContainer_env_ok:
  assumes "instanceOk kc"
  shows "list_all envOk (cEnv (rhbkContainer kc h))"
proof -
  have "list_all envOk (map optionEnv (kcAdditionalOptions (kcSpec kc)))"
    using assms by (auto simp: instanceOk_def list_all_iff intro: optionEnv_ok)
  from fold_AddOrReplaceEnv_all [OF this operatorEnv_ok [OF assms]] show ?thesis
    by (simp add: rhbkContainer_def DecorateENV_fold)
qed

text \<open>The request is at most the limit, in the default and for every sizing.\<close>

lemma decorateSizing_ok: "resourcesOk (decorateSizing kc)"
proof (cases "kcSizing (kcSpec kc)")
  case None
  have "amount (MustParse ''1700Mi'') = Some (1700 * 1024 ^ 2 * 1000)" "amount (MustParse ''2Gi'') = Some (2 * 1024 ^ 3 * 1000)"
    by code_simp+
  with None show ?thesis by (simp add: decorateSizing_def resourcesOk_def resourceOk_def amountOk_def)
next
  case (Some r)
  let ?i = "kcInstances (kcSpec kc)" and ?c = "cpuCoresOf r (effectiveInstances (kcInstances (kcSpec kc)))"
  let ?rr = "CalculateResourceLimits r ?i"
  have "0 \<le> int_of_float (fmul ?c 1000)"
    using cpuCoresOf_nonneg [OF effectiveInstances_pos, of r ?i] int_of_float_mono [of 0 "fmul ?c 1000"]
    by (simp add: fmul_def fl_nonneg int_of_float_def)
  then obtain q where q: "rrRequests ?rr ResourceCPU = Some (NewMilliQuantity q DecimalSI)" "0 \<le> q"
    by (simp add: CalculateResourceLimits_def Let_def)
  have "resourceOk ?rr ResourceCPU"
    using CalculateResourceLimits_cpu_limit [of r ?i] q
    by (auto simp: resourceOk_def amountOk_def split: if_splits)
  moreover have "resourceOk ?rr ResourceMemory"
    by (simp add: resourceOk_def amountOk_def CalculateResourceLimits_memory)
  ultimately show ?thesis by (simp add: decorateSizing_def Some resourcesOk_def)
qed

lemma port_constants:
  "portOk (of_nat HttpsPort)" "portOk (of_nat ManagementPort)" "portOk (of_nat DiscoveryPort)"
  by (simp_all add: portOk_def HttpsPort_def ManagementPort_def DiscoveryPort_def)

lemma name_constants:
  "isPortName ''https''" "isPortName ''http''" "isDNSLabel ''tcp''" "isDNSLabel RHBKContainerName" "isDNSLabel ''fetch''"
  "isDNSLabel ManagementServicePortName" "isDNSLabel ApplicationServicePortName"
  "isDNSLabel ''keycloak-tls-certificates''" "isDNSLabel ''providers''" "isDNSLabel TrustedCaVolume"
  by code_simp+

lemma healthProbe_ok: "path \<noteq> [] \<Longrightarrow> 1 \<le> sint period \<Longrightarrow> 1 \<le> sint failures \<Longrightarrow> probeOk (Some (healthProbe path period failures))"
  by (simp add: probeOk_def healthProbe_def port_constants)

abbreviation rhbkVolumeNames :: "Keycloak \<Rightarrow> string set" where
  "rhbkVolumeNames kc \<equiv> volName ` set (rhbkVolumes kc)"

lemma rhbkVolumeNames: "rhbkVolumeNames kc = {''keycloak-tls-certificates'', ''providers'', TrustedCaVolume}"
  using arg_cong [OF rhbkVolumes_names [of kc], of set] by simp

lemma rhbkContainer_ok:
  assumes "instanceOk kc"
  shows "containerOk (rhbkVolumeNames kc) (rhbkContainer kc h)"
proof -
  have "list_all (mountOk (rhbkVolumeNames kc)) (cVolumeMounts (rhbkContainer kc h))"
    by (simp add: rhbkContainer_def DecorateVolumeMounts_def rhbkVolumeNames mountOk_def ProvidersPATH_def
        TrustedCaVolumeMountPath_def)
  moreover have "distinct (map mountPath (cVolumeMounts (rhbkContainer kc h)))"
    by (simp add: rhbkContainer_paths ProvidersPATH_def TrustedCaVolumeMountPath_def)
  moreover have "list_all probeOk [cLivenessProbe (rhbkContainer kc h), cReadinessProbe (rhbkContainer kc h),
      cStartupProbe (rhbkContainer kc h)]"
    by (simp add: rhbkContainer_def healthProbe_ok)
  moreover note rhbkContainer_env_ok [OF assms, of h]
  ultimately show ?thesis
    by (simp add: containerOk_def) (simp add: rhbkContainer_def name_constants port_constants decorateSizing_ok RHBKImage_def)
qed

lemma envNameOf_ok: "s \<noteq> [] \<Longrightarrow> isEnvName (envNameOf s)"
  using ConvertToEnvName_valid [of s]
  by (auto simp: ConvertToEnvName_cases isEnvName_def list_all_iff is_env_char_def is_digit_char_def)

lemma providerEnv_ok: "provName p \<noteq> [] \<Longrightarrow> providerOk p \<Longrightarrow> envOk (providerEnv (envNameOf (provName p)) p)"
  by (auto simp: providerEnv_def envOk_def plainEnv_def envNameOf_ok providerOk_def split: option.splits)

lemma GetInitContainer_ok:
  assumes "instanceOk kc" "GetInitContainer kc = Inr ics"
  shows "list_all (containerOk (rhbkVolumeNames kc)) ics \<and> map cName ics = (if kcProviders (kcSpec kc) = [] then [] else [''fetch''])"
proof (cases "kcProviders (kcSpec kc) = []")
  case False
  with assms(2) have "list_all (\<lambda>p. provName p \<noteq> []) (kcProviders (kcSpec kc))"
    by (auto simp: GetInitContainer_def providers_loop_eq split: if_splits)
  moreover from assms(1) have "list_all providerOk (kcProviders (kcSpec kc))" by (simp add: instanceOk_def)
  ultimately have "list_all envOk (map (\<lambda>p. providerEnv (envNameOf (provName p)) p) (kcProviders (kcSpec kc)))"
    by (auto simp: list_all_iff intro: providerEnv_ok)
  with False assms(2) show ?thesis
    by (auto simp: GetInitContainer_def providers_loop_eq containerOk_def name_constants BusyboxImage_def resourcesOk_def
        resourceOk_def zeroResources_def probeOk_def mountOk_def rhbkVolumeNames ProvidersPATH_def
        TrustedCaVolumeMountPath_def split: if_splits)
qed (use assms(2) in \<open>simp add: GetInitContainer_def\<close>)

lemma rhbkVolumes_ok: "instanceOk kc \<Longrightarrow> list_all volumeOk (rhbkVolumes kc)"
  by (auto simp: rhbkVolumes_def DecorateVolume_def emptyDirVolume_def volumeOk_def name_constants modeOk_def
      GetTLSSecretName_def instanceOk_def split: option.split)

lemma rhbkPod_ok:
  assumes "instanceOk kc" "GetInitContainer kc = Inr ics"
  shows "podOk \<lparr>podInitContainers = ics, podContainers = [rhbkContainer kc h], podVolumes = rhbkVolumes kc,
    podRestartPolicy = r\<rparr>"
  using GetInitContainer_ok [OF assms] rhbkContainer_ok [OF assms(1), of h] rhbkVolumes_ok [OF assms(1)]
  by (auto simp: podOk_def rhbkVolumes_names TrustedCaVolume_def rhbkContainer_def RHBKContainerName_def
      simp del: map_append split: if_splits)

section \<open>The objects of an instance\<close>

lemma annotationsOk_None [simp]: "annotationsOk None"
  by (simp add: annotationsOk_def)

text \<open>The metadata of a new object after a mutate function has labelled it and set its controller.\<close>

lemma built_metaOk:
  assumes "owner_refs d"
    and "SetControllerReference d owner ((namedMeta n ns)\<lparr>metaLabels := defaultLabels, metaAnnotations := an\<rparr>) = Inr m"
    and "isDNSLabel ns" "annotationsOk an"
  shows "metaOk nameOk m \<longleftrightarrow> nameOk n"
  using owner_refs.controller_again [OF assms(1,2)] assms(3,4) by (simp add: metaOk_def namedMeta_def zeroMeta_def)

lemma built_metaOk_plain:
  assumes "owner_refs d" "SetControllerReference d owner ((namedMeta n ns)\<lparr>metaLabels := defaultLabels\<rparr>) = Inr m" "isDNSLabel ns"
  shows "metaOk nameOk m \<longleftrightarrow> nameOk n"
  using owner_refs.controller_again [OF assms(1,2)] assms(3) by (simp add: metaOk_def namedMeta_def zeroMeta_def)

lemma service_conforms:
  assumes "owner_refs d" "instanceOk kc" "RHBKService_Build d kc (RHBKService_init kc) = Inr svc"
  shows "serviceOk svc \<longleftrightarrow> isServiceName (GetSvcName kc)"
proof -
  have key: "isLabelKey ''service.beta.openshift.io/serving-cert-secret-name''" by code_simp
  let ?an = "Some [''service.beta.openshift.io/serving-cert-secret-name'' \<mapsto> GetTLSSecretName kc]"
  have an: "annotationsOk ?an" by (simp add: annotationsOk_def key)
  from assms(2) have ns: "isDNSLabel (metaNamespace (kcMeta kc))" by (simp add: instanceOk_def)
  from assms(3) obtain m where m: "SetControllerReference d (kcMeta kc)
      ((namedMeta (GetSvcName kc) (metaNamespace (kcMeta kc)))\<lparr>metaLabels := defaultLabels, metaAnnotations := ?an\<rparr>) = Inr m"
    and svc: "svcMeta svc = m"
      "svcPorts (svcSpec svc) = [\<lparr>spName = ManagementServicePortName, spProtocol = ProtocolTCP,
         spPort = of_nat ManagementPort, spTargetPort = IntVal (of_nat ManagementPort)\<rparr>,
       \<lparr>spName = ApplicationServicePortName, spProtocol = ProtocolTCP,
         spPort = of_nat HttpsPort, spTargetPort = IntVal (of_nat HttpsPort)\<rparr>]"
      "svcSelector (svcSpec svc) = [''app'' \<mapsto> ''rhbk'']"
    by (auto simp: RHBKService_Build_def RHBKService_init_def Let_def split: sum.splits)
  show ?thesis
    by (simp add: serviceOk_def svc built_metaOk [OF assms(1) m ns an] port_constants name_constants)
      (simp add: ManagementServicePortName_def ApplicationServicePortName_def ManagementPort_def HttpsPort_def)
qed

lemma discovery_conforms:
  assumes "owner_refs d" "instanceOk kc" "RHBKDiscoveryService_Build d kc (RHBKDiscoveryService_init kc) = Inr disc"
  shows "serviceOk disc \<longleftrightarrow> isServiceName (GetDiscoverySvcName kc)"
proof -
  from assms(2) have ns: "isDNSLabel (metaNamespace (kcMeta kc))" by (simp add: instanceOk_def)
  from assms(3) obtain m where m: "SetControllerReference d (kcMeta kc)
      ((namedMeta (GetDiscoverySvcName kc) (metaNamespace (kcMeta kc)))\<lparr>metaLabels := defaultLabels\<rparr>) = Inr m"
    and disc: "svcMeta disc = m" "svcSelector (svcSpec disc) = [''app'' \<mapsto> ''rhbk'']"
      "svcPorts (svcSpec disc) = [\<lparr>spName = ''tcp'', spProtocol = ProtocolTCP,
         spPort = of_nat DiscoveryPort, spTargetPort = IntVal (of_nat DiscoveryPort)\<rparr>]"
    by (auto simp: RHBKDiscoveryService_Build_def RHBKDiscoveryService_init_def split: sum.splits)
  show ?thesis
    by (simp add: serviceOk_def disc built_metaOk_plain [OF assms(1) m ns] port_constants name_constants)
qed

lemma route_conforms:
  assumes "owner_refs d" "instanceOk kc" "RHBKRoute_Build d kc (RHBKRoute_init kc) = Inr route"
  shows "routeOk route"
proof -
  from assms(2) have ns: "isDNSLabel (metaNamespace (kcMeta kc))" and n: "isDNSSubdomain (metaName (kcMeta kc))"
    by (simp_all add: instanceOk_def)
  from assms(3) obtain m where m: "SetControllerReference d (kcMeta kc)
      ((namedMeta (metaName (kcMeta kc)) (metaNamespace (kcMeta kc)))\<lparr>metaLabels := defaultLabels\<rparr>) = Inr m"
    and route: "rtMeta route = m" "rtSpec route = \<lparr>rtHost = (case kcNetworkConfig (kcSpec kc) of None \<Rightarrow> '''' | Some n \<Rightarrow> netHostname n),
        rtToKind = ''Service'', rtToName = GetSvcName kc, rtTargetPort = StrVal ''https'',
        rtTermination = TLSTerminationReencrypt, rtInsecurePolicy = InsecureEdgeTerminationPolicyRedirect\<rparr>"
    by (auto simp: RHBKRoute_Build_def RHBKRoute_init_def Let_def split: sum.splits)
  show ?thesis
    using assms(2) by (auto simp: routeOk_def route built_metaOk_plain [OF assms(1) m ns] n name_constants GetSvcName_def
        instanceOk_def split: option.splits)
qed

lemma monitor_conforms:
  assumes "owner_refs d" "instanceOk kc" "ServiceMonitor_mutateFn d kc (ServiceMonitor_init kc) = Inr mon"
  shows "monitorOk mon \<longleftrightarrow> isDNSSubdomain (metaName (kcMeta kc) @ ''-servicemonitor'')"
proof -
  have key: "isSecretKey ''tls.crt''" by code_simp
  from assms(2) have ns: "isDNSLabel (metaNamespace (kcMeta kc))" by (simp add: instanceOk_def)
  from assms(3) obtain m where m: "SetControllerReference d (kcMeta kc)
      ((namedMeta (metaName (kcMeta kc) @ ''-servicemonitor'') (metaNamespace (kcMeta kc)))
        \<lparr>metaLabels := defaultLabels\<rparr>) = Inr m"
    and mon: "smMeta mon = m" "smSelector mon = goSet defaultLabels"
      "smEndpoints mon = [\<lparr>epPort = ManagementServicePortName, epPath = ''/metrics'', epScheme = ''https'', epInterval = ''30s'',
         epCASecret = \<lparr>selName = GetTLSSecretName kc, selKey = ''tls.crt'', selOptional = None\<rparr>,
         epServerName = GetSvcName kc @ ''.'' @ metaNamespace (kcMeta kc) @ ''.svc''\<rparr>]"
    by (auto simp: ServiceMonitor_mutateFn_def ServiceMonitor_init_def split: sum.splits)
  show ?thesis
    by (simp add: monitorOk_def mon built_metaOk_plain [OF assms(1) m ns] defaultLabels_eq selectorOk_def key
        GetTLSSecretName_def ManagementServicePortName_def)
qed

lemma statefulSet_conforms:
  assumes "owner_refs d" "instanceOk kc" "RHBKStatefulSet_Build d kc h (RHBKStatefulSet_init kc) = Inr (Inr t)"
  shows "statefulSetOk t \<longleftrightarrow> isDNSLabel (metaName (kcMeta kc))"
proof -
  from assms(2) have ns: "isDNSLabel (metaNamespace (kcMeta kc))" by (simp add: instanceOk_def)
  from assms(3) obtain ics m where ics: "GetInitContainer kc = Inr ics"
    and "SetControllerReference d (kcMeta kc) ((namedMeta (metaName (kcMeta kc)) (metaNamespace (kcMeta kc)))\<lparr>metaLabels := defaultLabels\<rparr>) = Inr m"
    and t: "stsMeta t = m" "stsSpec t = rhbkStatefulSetSpec kc h None ics"
    by (rule RHBKStatefulSet_Build_cases) (simp add: RHBKStatefulSet_init_def zeroStatefulSetSpec_def zeroMeta_def
        GetStatefulSetName_def)
  then have "metaOk isDNSLabel m \<longleftrightarrow> isDNSLabel (metaName (kcMeta kc))"
    using built_metaOk_plain [OF assms(1) _ ns] by blast
  with rhbkPod_ok [OF assms(2) ics, of h RestartDefault] assms(2) show ?thesis
    by (simp add: statefulSetOk_def t rhbkStatefulSetSpec_def templateOk_def zeroMeta_def instanceOk_def defaultLabels_eq)
qed

section \<open>The example\<close>

lemma exampleKeycloak_ok: "instanceOk exampleKeycloak"
  by code_simp

lemma exampleKeycloak_name:
  "metaName (kcMeta exampleKeycloak) = ''sso''" "isDNSLabel ''sso''" "isServiceName ''sso''"
  by code_simp+

section \<open>Properties\<close>

text \<open>
  C26: the job for an import obeys the rules exactly when the name of the import is a DNS label of
  at most 56 characters. It is built from a stateful set of the operator that obeys them, for an import with any
  name the cluster can store (a DNS subdomain): a name with a dot, or with 57 to 253
  characters, gives a job that has to be refused, in every reconcile.
\<close>

theorem Job_Build_conforms:
  assumes "RHBKStatefulSet_Build d kc h s = Inr (Inr t)" and "statefulSetOk t"
    and "isDNSSubdomain (metaName (kiMeta cr))" and "isDNSLabel (metaNamespace (kiMeta cr))" and "isLabelValue rv"
  shows "\<exists>job. Job_Build cr t rv = Inr (Inr job) \<and>
    (jobOk job \<longleftrightarrow> isDNSLabel (metaName (kiMeta cr)) \<and> length (metaName (kiMeta cr)) \<le> 56)"
proof -
  let ?pod = "tplSpec (stsTemplate (stsSpec t))"
  obtain ics an where spec: "stsSpec t = rhbkStatefulSetSpec kc h an ics"
    using assms(1) by (rule RHBKStatefulSet_Build_cases) simp
  have pod: "podOk ?pod" "podContainers ?pod = [rhbkContainer kc h]" "podVolumes ?pod = rhbkVolumes kc"
    "annotationsOk (metaAnnotations (tplMeta (stsTemplate (stsSpec t))))" "isDNSLabel (metaNamespace (stsMeta t))"
    using assms(2) by (simp_all add: spec rhbkStatefulSetSpec_def statefulSetOk_def templateOk_def metaOk_def)
  from Job_Build_parts [OF pod(2)] obtain job where job: "Job_Build cr t rv = Inr (Inr job)"
    "jobMeta job = (namedMeta (GetImportJobName cr) (metaNamespace (stsMeta t)))\<lparr>metaLabels := jobLabels cr rv\<rparr>"
    "tplMeta (jobTemplate job) = (tplMeta (stsTemplate (stsSpec t)))\<lparr>metaLabels := jobLabels cr rv\<rparr>"
    "tplSpec (jobTemplate job) = ?pod\<lparr>podContainers := [importContainer cr (rhbkContainer kc h)],
       podVolumes := podVolumes ?pod @ [realmVolume cr], podRestartPolicy := RestartPolicyNever\<rparr>"
    "jobBackoffLimit job = Some 1"
    by blast
  have "jobOk job \<longleftrightarrow> isDNSSubdomain (GetImportJobName cr) \<and> length (GetImportJobName cr) \<le> maxLabelLength \<and>
      labelsOk (jobLabels cr rv) \<and> volumeOk (realmVolume cr)"
    using importPod_ok [OF pod(1-3), of RestartPolicyNever cr] pod(4,5)
    by (auto simp: jobOk_def job pod(3) templateOk_def metaOk_def namedMeta_def zeroMeta_def annotationsOk_def)
  then have "jobOk job \<longleftrightarrow> isDNSLabel (metaName (kiMeta cr)) \<and> length (metaName (kiMeta cr)) \<le> 56"
    using realmVolume_ok [OF assms(3)] importJob_name_ok labelsOk_job assms(4,5) by blast
  with job(1) show ?thesis by blast
qed

theorem Job_Build_conforms_witness:
  "\<exists>t job job'. RHBKStatefulSet_Build refDeps exampleKeycloak ''sso.example.com'' (RHBKStatefulSet_init exampleKeycloak)
       = Inr (Inr t) \<and> statefulSetOk t \<and>
     Job_Build exampleImport t ''7'' = Inr (Inr job) \<and> jobOk job \<and>
     Job_Build (exampleImport\<lparr>kiMeta := namedMeta ''realm.v2'' ''team''\<rparr>) t ''7'' = Inr (Inr job') \<and> \<not> jobOk job'"
proof -
  let ?bad = "exampleImport\<lparr>kiMeta := namedMeta ''realm.v2'' ''team''\<rparr>"
  from exampleStatefulSet obtain t where t:
    "RHBKStatefulSet_Build refDeps exampleKeycloak ''sso.example.com'' (RHBKStatefulSet_init exampleKeycloak)
       = Inr (Inr t)" by blast
  have ok: "statefulSetOk t"
    using statefulSet_conforms [OF owner_refs_refDeps exampleKeycloak_ok t] exampleKeycloak_name by simp
  have n: "metaName (kiMeta exampleImport) = ''realm-a''" "metaNamespace (kiMeta exampleImport) = ''team''"
    "metaName (kiMeta ?bad) = ''realm.v2''" "metaNamespace (kiMeta ?bad) = ''team''"
    by (simp_all add: exampleImport_def namedMeta_def)
  have names: "isDNSSubdomain ''realm-a''" "isDNSLabel ''realm-a''" "isDNSLabel ''team''" "isLabelValue ''7''"
    "isDNSSubdomain ''realm.v2''" "\<not> isDNSLabel ''realm.v2''" by code_simp+
  from Job_Build_conforms [OF t ok, of exampleImport "''7''"] obtain job where
    "Job_Build exampleImport t ''7'' = Inr (Inr job)" "jobOk job"
    using n names by auto
  moreover from Job_Build_conforms [OF t ok, of ?bad "''7''"] obtain job' where
    "Job_Build ?bad t ''7'' = Inr (Inr job')" "\<not> jobOk job'"
    unfolding n using names by blast
  ultimately show ?thesis using t ok by blast
qed

text \<open>
  C34: the objects of an instance obey the rules exactly when its name is a service name (a label that
  begins with a letter) of at most 53 characters, whatever database, options, providers, sizing,
  bundle and network settings a well-formed custom resource has: their ports, probes, mounts,
  volumes, resources, selectors, labels and variables never break a rule.
\<close>

theorem instance_conforms:
  assumes "owner_refs d" and "instanceOk kc"
    and "RHBKService_Build d kc (RHBKService_init kc) = Inr svc"
    and "RHBKRoute_Build d kc (RHBKRoute_init kc) = Inr route"
    and "RHBKStatefulSet_Build d kc host (RHBKStatefulSet_init kc) = Inr (Inr sts)"
    and "RHBKDiscoveryService_Build d kc (RHBKDiscoveryService_init kc) = Inr disc"
    and "ServiceMonitor_mutateFn d kc (ServiceMonitor_init kc) = Inr mon"
  shows "serviceOk svc \<and> routeOk route \<and> statefulSetOk sts \<and> serviceOk disc \<and> monitorOk mon \<longleftrightarrow>
    isServiceName (metaName (kcMeta kc)) \<and> length (metaName (kcMeta kc)) \<le> 53"
proof -
  from assms(2) have n: "isDNSSubdomain (metaName (kcMeta kc))" by (simp add: instanceOk_def)
  have suffixes: "labelSuffix ''-svc''" "labelSuffix ''-discovery''" "labelSuffix ''-servicemonitor''" by code_simp+
  note built = service_conforms [OF assms(1-3)] route_conforms [OF assms(1,2,4)] statefulSet_conforms [OF assms(1,2,5)]
    discovery_conforms [OF assms(1,2,6)] monitor_conforms [OF assms(1,2,7)]
  show ?thesis
    using isServiceName_suffix [OF n suffixes(1)] isServiceName_suffix [OF n suffixes(2)]
      isDNSSubdomain_suffix [OF n suffixes(3)]
    by (auto simp: built GetSvcName_def GetDiscoverySvcName_def isServiceName_def limit_defs)
qed

theorem instance_conforms_witness:
  "\<exists>svc route sts disc mon.
     RHBKService_Build refDeps exampleKeycloak (RHBKService_init exampleKeycloak) = Inr svc \<and>
     RHBKRoute_Build refDeps exampleKeycloak (RHBKRoute_init exampleKeycloak) = Inr route \<and>
     RHBKStatefulSet_Build refDeps exampleKeycloak ''h'' (RHBKStatefulSet_init exampleKeycloak) = Inr (Inr sts) \<and>
     RHBKDiscoveryService_Build refDeps exampleKeycloak (RHBKDiscoveryService_init exampleKeycloak) = Inr disc \<and>
     ServiceMonitor_mutateFn refDeps exampleKeycloak (ServiceMonitor_init exampleKeycloak) = Inr mon \<and>
     serviceOk svc \<and> routeOk route \<and> statefulSetOk sts \<and> serviceOk disc \<and> monitorOk mon"
proof -
  obtain svc route disc mon where b:
    "RHBKService_Build refDeps exampleKeycloak (RHBKService_init exampleKeycloak) = Inr svc"
    "RHBKRoute_Build refDeps exampleKeycloak (RHBKRoute_init exampleKeycloak) = Inr route"
    "RHBKDiscoveryService_Build refDeps exampleKeycloak (RHBKDiscoveryService_init exampleKeycloak) = Inr disc"
    "ServiceMonitor_mutateFn refDeps exampleKeycloak (ServiceMonitor_init exampleKeycloak) = Inr mon"
    by (rule exampleNetwork)
  obtain sts where t: "RHBKStatefulSet_Build refDeps exampleKeycloak ''h'' (RHBKStatefulSet_init exampleKeycloak) = Inr (Inr sts)"
    using exampleStatefulSet by blast
  have "isServiceName (metaName (kcMeta exampleKeycloak))" "length (metaName (kcMeta exampleKeycloak)) \<le> 53"
    using exampleKeycloak_name by simp_all
  with instance_conforms [OF owner_refs_refDeps exampleKeycloak_ok b(1,2) t b(3,4)] b t show ?thesis by blast
qed

end
