(* ===== verification/KeycloakProgress.thy ===== *)
theory KeycloakProgress
  imports Manager
begin

text \<open>
  What a run of the Keycloak controller has done when no call failed: it has applied all five resources and reports
  the readiness of the stateful set as the server returned it. That readiness is an equality of two counters of the
  status, which are both zero in a stateful set that has just been created.
\<close>

section \<open>Runs in which every call succeeds\<close>

fun succeeded :: "event \<Rightarrow> bool" where
  "succeeded (EvGetKeycloak _ r) = (case r of Inr _ \<Rightarrow> True | _ \<Rightarrow> False)"
| "succeeded (EvApplyService _ _ r) = (case r of Inr (Inr _) \<Rightarrow> True | _ \<Rightarrow> False)"
| "succeeded (EvApplyRoute _ _ r) = (case r of Inr (Inr _) \<Rightarrow> True | _ \<Rightarrow> False)"
| "succeeded (EvApplyStatefulSet _ _ r) = (case r of Inr (Inr _) \<Rightarrow> True | _ \<Rightarrow> False)"
| "succeeded (EvApplyServiceMonitor _ _ r) = (case r of Inr (Inr _) \<Rightarrow> True | _ \<Rightarrow> False)"
| "succeeded (EvKeycloakStatus _ r) = (r = None)"
| "succeeded _ = True"

definition readiness :: "StatefulSet \<Rightarrow> ConditionStatus" where
  "readiness sts = (if stsStatusReadyReplicas sts = stsStatusReplicas sts then ConditionTrue else ConditionFalse)"

definition completed :: "deps \<Rightarrow> ObjectKey \<Rightarrow> event list \<Rightarrow> Keycloak \<Rightarrow> ConditionStatus \<Rightarrow> bool" where
  "completed d req es cr st \<longleftrightarrow> EvGetKeycloak req (Inr cr) \<in> set es \<and> (\<exists>sts. applied_all d cr sts es \<and> st = readiness sts)"

fun kdone :: "deps \<Rightarrow> ObjectKey \<Rightarrow> event list \<Rightarrow> kphase \<Rightarrow> bool" where
  "kdone d req es (KReport cr st msg) = completed d req es cr st"
| "kdone d req es (KEnd err) = (err = None \<and>
     (\<exists>es' cr now st msg. es = es' @ [EvKeycloakStatus (withReady d now cr st msg) None] \<and> completed d req es' cr st))"
| "kdone d req es (KPanic p) = False"
| "kdone d req es ph = True"

lemma completed_monitor:
  assumes "kinv d req es (KMonitor cr sts)" "st = readiness sts"
  shows "completed d req
    (es @ [EvApplyServiceMonitor (ServiceMonitor_init cr) (Inr \<circ> ServiceMonitor_mutateFn d cr) (Inr (Inr m))]) cr st"
  using assms unfolding completed_def applied_all_def by (fastforce intro: applied_mono)

lemma kstep_kdone:
  assumes "kstep d req ph e ph'" "kinv d req es ph" "kdone d req es ph" "succeeded e"
  shows "kdone d req (es @ [e]) ph'"
  using assms(1)
proof (cases rule: kstep.cases)
  case (k_report cr st msg now err)
  with assms(3,4) show ?thesis by auto
qed (use assms(2,4) in \<open>auto simp: readiness_def simp del: kinv.simps intro!: completed_monitor\<close>)

interpretation keycloak_progress: protocol_invariant "kstep d req" KStart
  "\<lambda>es ph. kinv d req es ph \<and> (list_all succeeded es \<longrightarrow> kdone d req es ph)" "\<lambda>es e. True" for d req
  by unfold_locales (auto intro: kstep_kinv kstep_kdone)

lemma Keycloak_Reconcile_done:
  assumes "Keycloak_Reconcile d c req s = (r, s')" "trace s' = trace s @ es" "list_all succeeded es"
  obtains es' cr now st msg where "r = Inr (result None)" "completed d req es' cr st"
    "es = es' @ [EvKeycloakStatus (withReady d now cr st msg) None]"
proof -
  from assms(1) obtain es0 ph where "trace s' = trace s @ es0" and p: "path (kstep d req) KStart es0 ph"
    and k: "kresult r ph" by (rule Keycloak_Reconcile_run)
  with assms(2,3) have "kdone d req es ph" using keycloak_progress.path_inv [OF p] by simp
  with k that show thesis by (cases ph) auto
qed

text \<open>A new stateful set has a status of zeros.\<close>

lemma new_readiness:
  assumes "RHBKStatefulSet_Build d kc host (RHBKStatefulSet_init kc) = Inr (Inr z)"
  shows "readiness (z\<lparr>stsMeta := m\<rparr>) = ConditionTrue"
  using assms by (rule RHBKStatefulSet_Build_cases) (simp add: RHBKStatefulSet_init_def readiness_def)

text \<open>A client with one instance, in which every object is new.\<close>

definition freshClient :: "unit client" where
  "freshClient = (listingClient [exampleImport])\<lparr>GetKeycloak := \<lambda>k w. (Inr exampleKeycloak, w)\<rparr>"

lemma freshClient_run:
  "\<exists>r s'. Keycloak_Reconcile refDeps freshClient req \<lparr>world = (), trace = []\<rparr> = (r, s') \<and> list_all succeeded (trace s') \<and>
     (\<forall>x f a. EvApplyStatefulSet x f a \<in> set (trace s') \<longrightarrow> a = f x)"
proof -
  obtain svc route disc mon where b:
    "RHBKService_Build refDeps exampleKeycloak (RHBKService_init exampleKeycloak) = Inr svc"
    "RHBKRoute_Build refDeps exampleKeycloak (RHBKRoute_init exampleKeycloak) = Inr route"
    "RHBKDiscoveryService_Build refDeps exampleKeycloak (RHBKDiscoveryService_init exampleKeycloak) = Inr disc"
    "ServiceMonitor_mutateFn refDeps exampleKeycloak (ServiceMonitor_init exampleKeycloak) = Inr mon"
    by (rule exampleNetwork)
  obtain sts where t: "RHBKStatefulSet_Build refDeps exampleKeycloak (rtHost (rtSpec route)) (RHBKStatefulSet_init exampleKeycloak)
      = Inr (Inr sts)"
    using exampleStatefulSet by blast
  show ?thesis
    by (simp add: Keycloak_Reconcile_def RHBKService_CreateOrUpdate_def RHBKRoute_CreateOrUpdate_def
        RHBKStatefulSet_CreateOrUpdate_def RHBKDiscoveryService_CreateOrUpdate_def ServiceMonitor_CreateOrUpdate_def
        Keycloak_HandleError_def Keycloak_HandleSuccess_def Let_def andThen_def call_def callBack_def lift_panic_def
        ret_def readClock_def freshClient_def listingClient_def b t)
qed

text \<open>A client in which the stateful set is up, with two replicas.\<close>

definition upStatus :: "StatefulSet \<Rightarrow> StatefulSet" where
  "upStatus s = s\<lparr>stsStatusReplicas := 2, stsStatusReadyReplicas := 2\<rparr>"

definition upClient :: "unit client" where
  "upClient = freshClient\<lparr>ApplyStatefulSet := \<lambda>x f w. (map_sum id (map_sum id upStatus) (f x), w)\<rparr>"

text \<open>The stateful set that a run was given has the status of \<open>new\<close>.\<close>

fun sameStatus :: "StatefulSet \<Rightarrow> event \<Rightarrow> bool" where
  "sameStatus new (EvApplyStatefulSet x f r) =
     (case r of
        Inr (Inr sts) \<Rightarrow> stsStatusReplicas sts = stsStatusReplicas new \<and> stsStatusReadyReplicas sts = stsStatusReadyReplicas new
      | _ \<Rightarrow> True)"
| "sameStatus new e = True"

lemma upClient_run:
  "\<exists>r s'. Keycloak_Reconcile refDeps upClient req \<lparr>world = (), trace = []\<rparr> = (r, s') \<and> list_all succeeded (trace s') \<and>
     list_all (sameStatus (upStatus exampleSts)) (trace s')"
proof -
  obtain svc route disc mon where b:
    "RHBKService_Build refDeps exampleKeycloak (RHBKService_init exampleKeycloak) = Inr svc"
    "RHBKRoute_Build refDeps exampleKeycloak (RHBKRoute_init exampleKeycloak) = Inr route"
    "RHBKDiscoveryService_Build refDeps exampleKeycloak (RHBKDiscoveryService_init exampleKeycloak) = Inr disc"
    "ServiceMonitor_mutateFn refDeps exampleKeycloak (ServiceMonitor_init exampleKeycloak) = Inr mon"
    by (rule exampleNetwork)
  obtain sts where t: "RHBKStatefulSet_Build refDeps exampleKeycloak (rtHost (rtSpec route)) (RHBKStatefulSet_init exampleKeycloak)
      = Inr (Inr sts)"
    using exampleStatefulSet by blast
  show ?thesis
    by (simp add: Keycloak_Reconcile_def RHBKService_CreateOrUpdate_def RHBKRoute_CreateOrUpdate_def
        RHBKStatefulSet_CreateOrUpdate_def RHBKDiscoveryService_CreateOrUpdate_def ServiceMonitor_CreateOrUpdate_def
        Keycloak_HandleError_def Keycloak_HandleSuccess_def Let_def andThen_def call_def callBack_def lift_panic_def
        ret_def readClock_def upClient_def freshClient_def listingClient_def upStatus_def b t)
qed

section \<open>Properties\<close>

text \<open>
  C6: a run of the Keycloak controller makes progress. When every call of it succeeds, it does not panic, applies the
  service, the route, the stateful set for the host of the route, the discovery service and the service monitor
  of the resource it read, and ends with a report of the readiness of that stateful set, without an
  error. In particular, when the stateful set has just been created (it is as the operator built it, with any metadata), the
  report is that the instance is ready, before there is a single pod.
\<close>

theorem Keycloak_Reconcile_progress:
  assumes "Keycloak_Reconcile d c req s = (r, s')"
    and "trace s' = trace s @ es" and "list_all succeeded es"
  shows "r = Inr (result None) \<and>
    (\<exists>es' cr now st msg svc route sts disc mon.
       es = es' @ [EvKeycloakStatus (cr\<lparr>kcConditions := SetReady d now (kcConditions cr) st msg\<rparr>) None] \<and>
       EvGetKeycloak req (Inr cr) \<in> set es' \<and>
       EvApplyService (RHBKService_init cr) (Inr \<circ> RHBKService_Build d cr) (Inr (Inr svc)) \<in> set es' \<and>
       EvApplyRoute (RHBKRoute_init cr) (Inr \<circ> RHBKRoute_Build d cr) (Inr (Inr route)) \<in> set es' \<and>
       EvApplyStatefulSet (RHBKStatefulSet_init cr) (RHBKStatefulSet_Build d cr (rtHost (rtSpec route))) (Inr (Inr sts)) \<in> set es' \<and>
       EvApplyService (RHBKDiscoveryService_init cr) (Inr \<circ> RHBKDiscoveryService_Build d cr) (Inr (Inr disc)) \<in> set es' \<and>
       EvApplyServiceMonitor (ServiceMonitor_init cr) (Inr \<circ> ServiceMonitor_mutateFn d cr) (Inr (Inr mon)) \<in> set es' \<and>
       st = (if stsStatusReadyReplicas sts = stsStatusReplicas sts then ConditionTrue else ConditionFalse) \<and>
       (\<forall>host z m. RHBKStatefulSet_Build d cr host (RHBKStatefulSet_init cr) = Inr (Inr z) \<and> sts = z\<lparr>stsMeta := m\<rparr> \<longrightarrow>
          st = ConditionTrue))"
proof -
  from assms obtain es' cr now st msg where r: "r = Inr (result None)" and c: "completed d req es' cr st"
    and es: "es = es' @ [EvKeycloakStatus (withReady d now cr st msg) None]"
    by (rule Keycloak_Reconcile_done)
  from c obtain svc route sts disc mon where *: "EvGetKeycloak req (Inr cr) \<in> set es'"
    "EvApplyService (RHBKService_init cr) (Inr \<circ> RHBKService_Build d cr) (Inr (Inr svc)) \<in> set es'"
    "EvApplyRoute (RHBKRoute_init cr) (Inr \<circ> RHBKRoute_Build d cr) (Inr (Inr route)) \<in> set es'"
    "EvApplyStatefulSet (RHBKStatefulSet_init cr) (RHBKStatefulSet_Build d cr (rtHost (rtSpec route))) (Inr (Inr sts)) \<in> set es'"
    "EvApplyService (RHBKDiscoveryService_init cr) (Inr \<circ> RHBKDiscoveryService_Build d cr) (Inr (Inr disc)) \<in> set es'"
    "EvApplyServiceMonitor (ServiceMonitor_init cr) (Inr \<circ> ServiceMonitor_mutateFn d cr) (Inr (Inr mon)) \<in> set es'"
    "st = readiness sts"
    unfolding completed_def applied_all_def applied_workload_def applied_network_def by blast
  have "\<forall>host z m. RHBKStatefulSet_Build d cr host (RHBKStatefulSet_init cr) = Inr (Inr z) \<and> sts = z\<lparr>stsMeta := m\<rparr> \<longrightarrow>
      st = ConditionTrue"
    using new_readiness *(7) by blast
  with r es * show ?thesis unfolding withReady_def readiness_def by blast
qed

text \<open>The first reconcile of a new instance reports it as ready.\<close>

theorem Keycloak_Reconcile_progress_witness:
  "\<exists>s' es cr conds. Keycloak_Reconcile refDeps freshClient (objectKey ''identity'' ''sso'') \<lparr>world = (), trace = []\<rparr>
       = (Inr (result None), s') \<and>
     list_all succeeded (trace s') \<and> trace s' = es @ [EvKeycloakStatus (cr\<lparr>kcConditions := conds\<rparr>) None] \<and>
     IsReady refDeps conds"
proof -
  let ?s = "\<lparr>world = (), trace = []\<rparr> :: unit sys"
  obtain r s' where run: "Keycloak_Reconcile refDeps freshClient (objectKey ''identity'' ''sso'') ?s = (r, s')"
    and good: "list_all succeeded (trace s')" and new: "\<And>x f a. EvApplyStatefulSet x f a \<in> set (trace s') \<Longrightarrow> a = f x"
    using freshClient_run by blast
  have t: "trace s' = trace ?s @ trace s'" by simp
  from Keycloak_Reconcile_progress [OF run t good] obtain es cr now st msg host sts where p: "r = Inr (result None)"
    "trace s' = es @ [EvKeycloakStatus (cr\<lparr>kcConditions := SetReady refDeps now (kcConditions cr) st msg\<rparr>) None]"
    "EvApplyStatefulSet (RHBKStatefulSet_init cr) (RHBKStatefulSet_Build refDeps cr host) (Inr (Inr sts)) \<in> set es"
    and fresh: "\<And>host z m. RHBKStatefulSet_Build refDeps cr host (RHBKStatefulSet_init cr) = Inr (Inr z) \<Longrightarrow>
      sts = z\<lparr>stsMeta := m\<rparr> \<Longrightarrow> st = ConditionTrue"
    by blast
  have "RHBKStatefulSet_Build refDeps cr host (RHBKStatefulSet_init cr) = Inr (Inr sts)"
    using p(2,3) by (intro new [symmetric]) simp
  then have "st = ConditionTrue" by (rule fresh [where m = "stsMeta sts"]) simp
  moreover have "condition_store refDeps" ..
  ultimately have "IsReady refDeps (SetReady refDeps now (kcConditions cr) st msg)"
    by (simp add: condition_store.IsReady_SetReady)
  with run good p(1,2) show ?thesis by blast
qed

text \<open>
  C7: the readiness of the servers reaches the imports that wait for it. When a stateful set becomes ready, the watch of
  the Keycloak controller lets the update through. When every call of the reconcile that follows succeeds and it is given the
  stateful set with that status, it stores the condition that the instance is ready and returns without an
  error. The change of that resource passes the watch of the import controller, and its handler requests exactly the listed
  imports whose reconcile reads this instance (and which then find it ready).
\<close>

theorem readiness_reaches_imports:
  assumes "condition_store d"
    and "\<not> IsStatefulSetReady (Some old)" and "IsStatefulSetReady (Some new)"
    and "Keycloak_Reconcile d c req s = (r, s')" and "trace s' = trace s @ es"
    and "list_all succeeded es" and "list_all (sameStatus new) es"
    and "ListKeycloakImports c' w = (Inr crs, w')"
  shows "(\<exists>created deleted updated. kwOwnsStatefulSet Keycloak_SetupWithManager = PredicateFuncs created deleted updated \<and>
      updated old new) \<and>
    r = Inr (result None) \<and>
    (\<exists>cr conds. EvGetKeycloak req (Inr cr) \<in> set es \<and> last es = EvKeycloakStatus (cr\<lparr>kcConditions := conds\<rparr>) None \<and>
       IsReady d conds \<and> fst (iwKeycloak (Import_SetupWithManager d c')) = NoPredicate \<and>
       fst (snd (iwKeycloak (Import_SetupWithManager d c')) (cr\<lparr>kcConditions := conds\<rparr>) \<lparr>world = w, trace = t\<rparr>) =
         Inr (map requestFor (filter (\<lambda>x. instanceKey x = objectKey (metaNamespace (kcMeta cr)) (metaName (kcMeta cr))) crs)))"
proof (intro conjI)
  show "\<exists>created deleted updated. kwOwnsStatefulSet Keycloak_SetupWithManager = PredicateFuncs created deleted updated \<and>
      updated old new"
    using assms(2,3) by (simp add: Keycloak_SetupWithManager_def StatefulSet_UpdateFunc_def)
  from assms(4-6) obtain es' cr now st msg where r: "r = Inr (result None)" and fin: "completed d req es' cr st"
    and es: "es = es' @ [EvKeycloakStatus (withReady d now cr st msg) None]"
    by (rule Keycloak_Reconcile_done)
  show "r = Inr (result None)" by (rule r)
  from fin obtain sts host where get: "EvGetKeycloak req (Inr cr) \<in> set es'" and st: "st = readiness sts"
    and "EvApplyStatefulSet (RHBKStatefulSet_init cr) (RHBKStatefulSet_Build d cr host) (Inr (Inr sts)) \<in> set es'"
    unfolding completed_def applied_all_def applied_workload_def by blast
  with assms(7) [unfolded es list_all_iff] have "sameStatus new (EvApplyStatefulSet (RHBKStatefulSet_init cr) (RHBKStatefulSet_Build d cr host) (Inr (Inr sts)))"
    by (metis Un_iff set_append)
  with assms(3) have "st = ConditionTrue" by (simp add: st readiness_def IsStatefulSetReady_def)
  then have ready: "IsReady d (SetReady d now (kcConditions cr) st msg)"
    using condition_store.IsReady_SetReady [OF assms(1)] by simp
  show "\<exists>cr conds. EvGetKeycloak req (Inr cr) \<in> set es \<and> last es = EvKeycloakStatus (cr\<lparr>kcConditions := conds\<rparr>) None \<and>
       IsReady d conds \<and> fst (iwKeycloak (Import_SetupWithManager d c')) = NoPredicate \<and>
       fst (snd (iwKeycloak (Import_SetupWithManager d c')) (cr\<lparr>kcConditions := conds\<rparr>) \<lparr>world = w, trace = t\<rparr>) =
         Inr (map requestFor (filter (\<lambda>x. instanceKey x = objectKey (metaNamespace (kcMeta cr)) (metaName (kcMeta cr))) crs))"
    using get ready instance_change_requests [OF assms(8), of d] by (intro exI [of _ cr] exI [of _ "SetReady d now (kcConditions cr) st msg"])
      (simp add: es withReady_def)
qed

theorem readiness_reaches_imports_witness:
  "\<exists>s' cr conds. Keycloak_Reconcile refDeps upClient (objectKey ''identity'' ''sso'') \<lparr>world = (), trace = []\<rparr>
       = (Inr (result None), s') \<and>
     last (trace s') = EvKeycloakStatus (cr\<lparr>kcConditions := conds\<rparr>) None \<and> IsReady refDeps conds"
proof -
  let ?s = "\<lparr>world = (), trace = []\<rparr> :: unit sys"
  obtain r s' where run: "Keycloak_Reconcile refDeps upClient (objectKey ''identity'' ''sso'') ?s = (r, s')"
    and good: "list_all succeeded (trace s')" "list_all (sameStatus (upStatus exampleSts)) (trace s')"
    using upClient_run by blast
  have t: "trace s' = trace ?s @ trace s'" by simp
  have sts: "\<not> IsStatefulSetReady (Some (exampleSts\<lparr>stsStatusReplicas := 2\<rparr>))" "IsStatefulSetReady (Some (upStatus exampleSts))"
    by (simp_all add: IsStatefulSetReady_def upStatus_def exampleSts_def RHBKStatefulSet_init_def)
  have l: "ListKeycloakImports upClient () = (Inr [exampleImport], ())"
    by (simp add: upClient_def freshClient_def listingClient_def Let_def)
  have "condition_store refDeps" ..
  from readiness_reaches_imports [OF this sts run t good l] run show ?thesis by blast
qed

end
