(* ===== verification/Permissions.thy ===== *)
theory Permissions
  imports ImportProgress
begin

text \<open>
  The permissions of the operator. The markers \<^verbatim>\<open>+kubebuilder:rbac\<close> above the two \<^verbatim>\<open>Reconcile\<close>
  functions are the source of the cluster role that the manager runs with
  (\<^verbatim>\<open>config/rbac/role.yaml\<close> is generated from them). \<open>needs\<close> says what the documentation of the API
  asks for a call: the cached client reads through informers, which list and watch;
  \<^verbatim>\<open>CreateOrUpdate\<close> creates or updates; an owner reference that blocks the deletion of the owner
  takes an update of its \<^verbatim>\<open>finalizers\<close>; a route with a host takes \<^verbatim>\<open>routes/custom-host\<close>. The kinds that are
  watched are among those that are read.
\<close>

section \<open>Rules\<close>

datatype verb = VGet | VList | VWatch | VCreate | VUpdate | VPatch | VDelete

text \<open>The resources that the markers name, with their API group.\<close>

datatype apiResource =
    Keycloaks
  | KeycloaksStatus
  | KeycloaksFinalizers
  | KeycloakImports
  | KeycloakImportsStatus
  | KeycloakImportsFinalizers
  | StatefulSets
  | Jobs
  | Services
  | Secrets
  | Routes
  | RoutesCustomHost
  | ServiceMonitors

primrec groupResource :: "apiResource \<Rightarrow> string \<times> string" where
  "groupResource Keycloaks = (''sso.stakater.com'', ''keycloaks'')"
| "groupResource KeycloaksStatus = (''sso.stakater.com'', ''keycloaks/status'')"
| "groupResource KeycloaksFinalizers = (''sso.stakater.com'', ''keycloaks/finalizers'')"
| "groupResource KeycloakImports = (''sso.stakater.com'', ''keycloakimports'')"
| "groupResource KeycloakImportsStatus = (''sso.stakater.com'', ''keycloakimports/status'')"
| "groupResource KeycloakImportsFinalizers = (''sso.stakater.com'', ''keycloakimports/finalizers'')"
| "groupResource StatefulSets = (''apps'', ''statefulsets'')"
| "groupResource Jobs = (''batch'', ''jobs'')"
| "groupResource Services = (''core'', ''services'')"
| "groupResource Secrets = (''core'', ''secrets'')"
| "groupResource Routes = (''route.openshift.io'', ''routes'')"
| "groupResource RoutesCustomHost = (''route.openshift.io'', ''routes/custom-host'')"
| "groupResource ServiceMonitors = (''monitoring.coreos.com'', ''servicemonitors'')"

type_synonym right = "apiResource \<times> verb"

record rbacRule =
  ruleResource :: apiResource
  ruleVerbs :: "verb list"

definition KeycloakReconciler_rbac :: "rbacRule list" where
  "KeycloakReconciler_rbac =
     [\<lparr>ruleResource = Keycloaks,
       ruleVerbs = [VGet, VList, VWatch, VCreate, VUpdate, VPatch, VDelete]\<rparr>,
      \<lparr>ruleResource = KeycloaksStatus, ruleVerbs = [VGet, VUpdate, VPatch]\<rparr>,
      \<lparr>ruleResource = KeycloaksFinalizers, ruleVerbs = [VUpdate]\<rparr>,
      \<lparr>ruleResource = StatefulSets,
       ruleVerbs = [VGet, VList, VWatch, VCreate, VUpdate, VPatch, VDelete]\<rparr>,
      \<lparr>ruleResource = Services, ruleVerbs = [VGet, VList, VWatch, VCreate, VUpdate]\<rparr>,
      \<lparr>ruleResource = Routes, ruleVerbs = [VGet, VList, VWatch, VCreate, VUpdate]\<rparr>,
      \<lparr>ruleResource = RoutesCustomHost,
       ruleVerbs = [VGet, VCreate, VUpdate, VDelete]\<rparr>,
      \<lparr>ruleResource = ServiceMonitors,
       ruleVerbs = [VGet, VList, VCreate, VUpdate, VDelete, VWatch]\<rparr>]"

definition KeycloakImportReconciler_rbac :: "rbacRule list" where
  "KeycloakImportReconciler_rbac =
     [\<lparr>ruleResource = KeycloakImports,
       ruleVerbs = [VGet, VList, VWatch, VCreate, VUpdate, VPatch, VDelete]\<rparr>,
      \<lparr>ruleResource = KeycloakImportsStatus, ruleVerbs = [VGet, VUpdate, VPatch]\<rparr>,
      \<lparr>ruleResource = KeycloakImportsFinalizers, ruleVerbs = [VUpdate]\<rparr>,
      \<lparr>ruleResource = Keycloaks, ruleVerbs = [VGet, VList, VWatch]\<rparr>,
      \<lparr>ruleResource = KeycloaksStatus, ruleVerbs = [VGet]\<rparr>,
      \<lparr>ruleResource = Jobs, ruleVerbs = [VGet, VList, VWatch, VCreate, VUpdate, VDelete]\<rparr>,
      \<lparr>ruleResource = Secrets, ruleVerbs = [VGet, VList, VWatch, VCreate, VUpdate, VDelete]\<rparr>,
      \<lparr>ruleResource = StatefulSets, ruleVerbs = [VGet, VList, VWatch, VUpdate]\<rparr>]"

definition granted :: "rbacRule list \<Rightarrow> right list" where
  "granted rules = concat (map (\<lambda>r. map (\<lambda>v. (ruleResource r, v)) (ruleVerbs r)) rules)"

section \<open>What a call needs\<close>

definition reads :: "apiResource \<Rightarrow> right list" where
  "reads r = [(r, VGet), (r, VList), (r, VWatch)]"

definition applies :: "apiResource \<Rightarrow> right list" where
  "applies r = reads r @ [(r, VCreate), (r, VUpdate)]"

definition controls :: "right list" where
  "controls = [(KeycloaksFinalizers, VUpdate)]"

definition customHost :: "right list" where
  "customHost = [(RoutesCustomHost, VCreate), (RoutesCustomHost, VUpdate)]"

fun needs :: "event \<Rightarrow> right list" where
  "needs (EvGetKeycloak _ _) = reads Keycloaks"
| "needs (EvGetKeycloakImport _ _) = reads KeycloakImports"
| "needs (EvGetStatefulSet _ _) = reads StatefulSets"
| "needs (EvGetSecret _ _) = reads Secrets"
| "needs (EvListJobs _ _ _) = reads Jobs"
| "needs (EvListSecrets _ _ _) = reads Secrets"
| "needs (EvListKeycloakImports _) = reads KeycloakImports"
| "needs (EvCreateJob _ _) = [(Jobs, VCreate)]"
| "needs (EvDeleteJob _ _) = [(Jobs, VDelete)]"
| "needs (EvDeleteSecret _ _) = [(Secrets, VDelete)]"
| "needs (EvUpdateKeycloakImport _ _) = [(KeycloakImports, VUpdate)]"
| "needs (EvUpdateStatefulSet _ _) = [(StatefulSets, VUpdate)]"
| "needs (EvKeycloakStatus _ _) = [(KeycloaksStatus, VUpdate)]"
| "needs (EvKeycloakImportStatus _ _) = [(KeycloakImportsStatus, VUpdate)]"
| "needs (EvApplyService _ _ _) = applies Services @ controls"
| "needs (EvApplyRoute _ _ _) = applies Routes @ customHost @ controls"
| "needs (EvApplyStatefulSet _ _ _) = applies StatefulSets @ controls"
| "needs (EvApplyServiceMonitor _ _ _) = applies ServiceMonitors @ controls"
| "needs (EvApplySecret _ _ _) = applies Secrets"

definition permits :: "rbacRule list \<Rightarrow> event \<Rightarrow> bool" where
  "permits rules e = list_all (\<lambda>x. x \<in> set (granted rules)) (needs e)"

section \<open>Every call is permitted\<close>

lemmas right_defs = permits_def granted_def reads_def applies_def controls_def customHost_def

lemma keycloak_permits:
  "permits KeycloakReconciler_rbac (EvGetKeycloak k g)"
  "permits KeycloakReconciler_rbac (EvApplyService s f a)"
  "permits KeycloakReconciler_rbac (EvApplyRoute rt f' a')"
  "permits KeycloakReconciler_rbac (EvApplyStatefulSet sts f'' a'')"
  "permits KeycloakReconciler_rbac (EvApplyServiceMonitor m f''' a''')"
  "permits KeycloakReconciler_rbac (EvKeycloakStatus kc err)"
  by (simp_all add: right_defs KeycloakReconciler_rbac_def)

lemma import_permits:
  "permits KeycloakImportReconciler_rbac (EvGetKeycloakImport k g1)"
  "permits KeycloakImportReconciler_rbac (EvGetKeycloak k g2)"
  "permits KeycloakImportReconciler_rbac (EvGetStatefulSet k g3)"
  "permits KeycloakImportReconciler_rbac (EvGetSecret k g4)"
  "permits KeycloakImportReconciler_rbac (EvListJobs ns sel g5)"
  "permits KeycloakImportReconciler_rbac (EvListSecrets ns sel g6)"
  "permits KeycloakImportReconciler_rbac (EvListKeycloakImports g7)"
  "permits KeycloakImportReconciler_rbac (EvCreateJob j err)"
  "permits KeycloakImportReconciler_rbac (EvDeleteJob j err)"
  "permits KeycloakImportReconciler_rbac (EvDeleteSecret sec err)"
  "permits KeycloakImportReconciler_rbac (EvUpdateKeycloakImport ki g8)"
  "permits KeycloakImportReconciler_rbac (EvUpdateStatefulSet sts err)"
  "permits KeycloakImportReconciler_rbac (EvApplySecret sec f a)"
  "permits KeycloakImportReconciler_rbac (EvKeycloakImportStatus ki err)"
  by (simp_all add: right_defs KeycloakImportReconciler_rbac_def)

lemma kstep_permits: "kstep d req ph e ph' \<Longrightarrow> permits KeycloakReconciler_rbac e"
  by (cases rule: kstep.cases, assumption) (simp_all add: keycloak_permits)

lemma istep_permits: "istep d engine req ph e ph' \<Longrightarrow> permits KeycloakImportReconciler_rbac e"
  by (cases rule: istep.cases, assumption) (simp_all add: import_permits)

interpretation keycloak_rbac: protocol_invariant "kstep d req" KStart "\<lambda>es ph. True"
  "\<lambda>es e. permits KeycloakReconciler_rbac e" for d req
  by unfold_locales (auto intro: kstep_permits)

interpretation import_rbac: protocol_invariant "istep d engine req" IStart "\<lambda>es ph. True"
  "\<lambda>es e. permits KeycloakImportReconciler_rbac e" for d engine req
  by unfold_locales (auto intro: istep_permits)

text \<open>The rights that some call needs: one call of each kind, since its arguments do not matter.\<close>

definition oneOfEach :: "event list" where
  "oneOfEach = [EvGetKeycloak undefined undefined, EvGetKeycloakImport undefined undefined, EvGetStatefulSet undefined undefined,
     EvGetSecret undefined undefined, EvListJobs undefined undefined undefined, EvListSecrets undefined undefined undefined,
     EvListKeycloakImports undefined, EvCreateJob undefined undefined, EvDeleteJob undefined undefined,
     EvDeleteSecret undefined undefined, EvUpdateKeycloakImport undefined undefined, EvUpdateStatefulSet undefined undefined,
     EvKeycloakStatus undefined undefined, EvKeycloakImportStatus undefined undefined, EvApplyService undefined undefined undefined,
     EvApplyRoute undefined undefined undefined, EvApplyStatefulSet undefined undefined undefined,
     EvApplyServiceMonitor undefined undefined undefined, EvApplySecret undefined undefined undefined]"

lemma some_call_needs: "{x. \<exists>e. x \<in> set (needs e)} = set (concat (map needs oneOfEach))"
proof (intro equalityI subsetI)
  fix x assume "x \<in> {x. \<exists>e. x \<in> set (needs e)}"
  then obtain e where "x \<in> set (needs e)" by blast
  then show "x \<in> set (concat (map needs oneOfEach))" by (cases e) (auto simp: oneOfEach_def)
qed auto

definition surplusRights :: "right list" where
  "surplusRights =
     [(Keycloaks, VCreate), (Keycloaks, VUpdate), (Keycloaks, VPatch), (Keycloaks, VDelete), (KeycloaksStatus, VPatch),
      (StatefulSets, VPatch), (StatefulSets, VDelete), (RoutesCustomHost, VGet), (RoutesCustomHost, VDelete),
      (ServiceMonitors, VDelete), (KeycloakImports, VCreate), (KeycloakImports, VPatch), (KeycloakImports, VDelete),
      (KeycloakImportsStatus, VGet), (KeycloakImportsStatus, VPatch), (KeycloakImportsFinalizers, VUpdate),
      (KeycloaksStatus, VGet), (Jobs, VUpdate)]"

lemma surplusRights_eq:
  "set (granted (KeycloakReconciler_rbac @ KeycloakImportReconciler_rbac)) - {x. \<exists>e. x \<in> set (needs e)} = set surplusRights"
proof -
  have "remdups (filter (\<lambda>x. x \<notin> set (concat (map needs oneOfEach))) (granted (KeycloakReconciler_rbac @ KeycloakImportReconciler_rbac)))
      = surplusRights"
    by (simp add: right_defs oneOfEach_def KeycloakReconciler_rbac_def KeycloakImportReconciler_rbac_def surplusRights_def)
  from arg_cong [OF this, of set] show ?thesis by (simp only: some_call_needs set_remdups set_filter) blast
qed

lemma everyCall_all: "everyCall (\<lambda>before e. P e) es \<longleftrightarrow> list_all P es"
  by (auto simp: everyCall_def list_all_iff all_set_conv_all_nth)

lemma handlers_permitted:
  "case handleSecretChanged d c secret s of (r, s') \<Rightarrow> \<exists>es. trace s' = trace s @ es \<and> list_all (permits KeycloakImportReconciler_rbac) es"
  "case handleJobChanged d c job s of (r, s') \<Rightarrow> \<exists>es. trace s' = trace s @ es \<and> list_all (permits KeycloakImportReconciler_rbac) es"
  "case handleRHBKChanged c kc s of (r, s') \<Rightarrow> \<exists>es. trace s' = trace s @ es \<and> list_all (permits KeycloakImportReconciler_rbac) es"
  by (auto simp: handleSecretChanged_def handleJobChanged_def handleRHBKChanged_def andThen_def call_def lift_panic_def
      ret_def import_permits split: prod.split sum.split)

section \<open>Properties\<close>

text \<open>
  C24: the role is enough. Every call of every run of a reconcile function, whatever the cluster answers, is permitted by the
  markers above that function, and so are the calls of the three event handlers; no run fails for want of a permission. The
  rights that the two sets of markers grant beyond what any call needs are exactly \<open>surplusRights\<close>: among them
  creating and deleting the custom resources themselves, and deleting stateful sets and service monitors.
\<close>

theorem reconciles_permitted:
  "(case Keycloak_Reconcile d c req s of
      (r, s') \<Rightarrow> \<exists>es. trace s' = trace s @ es \<and> list_all (permits KeycloakReconciler_rbac) es) \<and>
   (case Import_Reconcile d engine c req s of
      (r, s') \<Rightarrow> \<exists>es. trace s' = trace s @ es \<and> list_all (permits KeycloakImportReconciler_rbac) es) \<and>
   (case handleSecretChanged d c secret s of
      (r, s') \<Rightarrow> \<exists>es. trace s' = trace s @ es \<and> list_all (permits KeycloakImportReconciler_rbac) es) \<and>
   (case handleJobChanged d c job s of
      (r, s') \<Rightarrow> \<exists>es. trace s' = trace s @ es \<and> list_all (permits KeycloakImportReconciler_rbac) es) \<and>
   (case handleRHBKChanged c kc s of
      (r, s') \<Rightarrow> \<exists>es. trace s' = trace s @ es \<and> list_all (permits KeycloakImportReconciler_rbac) es) \<and>
   set (granted (KeycloakReconciler_rbac @ KeycloakImportReconciler_rbac)) - {x. \<exists>e. x \<in> set (needs e)} =
     set surplusRights"
proof (intro conjI handlers_permitted)
  show "case Keycloak_Reconcile d c req s of
      (r, s') \<Rightarrow> \<exists>es. trace s' = trace s @ es \<and> list_all (permits KeycloakReconciler_rbac) es"
    by (rule keycloak_rbac.every_run [OF Keycloak_Reconcile_conforms, where P = "\<lambda>before e. permits KeycloakReconciler_rbac e", unfolded everyCall_all])
  show "case Import_Reconcile d engine c req s of
      (r, s') \<Rightarrow> \<exists>es. trace s' = trace s @ es \<and> list_all (permits KeycloakImportReconciler_rbac) es"
    by (rule import_rbac.every_run [OF Import_Reconcile_conforms, where P = "\<lambda>before e. permits KeycloakImportReconciler_rbac e", unfolded everyCall_all])
  show "set (granted (KeycloakReconciler_rbac @ KeycloakImportReconciler_rbac)) - {x. \<exists>e. x \<in> set (needs e)} =
     set surplusRights"
    by (rule surplusRights_eq)
qed

end
