(* ===== verification/Spec2Isabelle.thy ===== *)
theory Spec2Isabelle
  imports WakeUp RefCluster VersionedStatus DeepCopy Conformance KeycloakProgress Permissions
begin

text \<open>
  A verification of the RHBK operator (\<^verbatim>\<open>stakater/rhbk-operator\<close>), a Kubernetes operator that
  runs Keycloak and imports realms into it.

  \<^bold>\<open>The program.\<close> Two custom resources are reconciled. For a \<^verbatim>\<open>Keycloak\<close> the operator applies a
  service, a route, a stateful set, a discovery service and a service monitor
  (\<^verbatim>\<open>internal/controller/keycloak_controller.go\<close>, \<^verbatim>\<open>internal/resources/rhbk\<close>,
  \<^verbatim>\<open>internal/resources/monitoring\<close>). For a \<^verbatim>\<open>KeycloakImport\<close> it expands a realm template with
  values from secrets into a secret, runs one import job per version of that secret with the pod of
  the stateful set, and marks the pod template so that the servers restart
  (\<^verbatim>\<open>internal/controller/keycloakimport_controller.go\<close>, \<^verbatim>\<open>internal/resources/realm\<close>). Both report
  in a status condition (\<^verbatim>\<open>api/v1alpha1/condition.go\<close>). The controllers share nothing but the
  cluster; \<^verbatim>\<open>cmd/main.go\<close> starts both and restricts the cache of secrets to labelled ones.

  \<^bold>\<open>The theories.\<close>
  \<^item> \<open>Prelude\<close>: errors, panics, programs with effects and their weakest preconditions, \<^verbatim>\<open>strconv\<close>
    and \<^verbatim>\<open>strings\<close> functions, lemmas on lists and maps.
  \<^item> \<open>KubeTypes\<close>, \<open>ApiTypes\<close>: the Kubernetes types as records, the third-party functions as the record
    \<open>deps\<close>; the custom resources, \<^verbatim>\<open>HasSecretReference\<close> and the constants.
  \<^item> \<open>GoText\<close>, \<open>Float64\<close>: what the source uses of the Go library: UTF-8 decoding, JSON string
    escaping (with a reader as its inverse), the regular-expression replacement, and IEEE double
    arithmetic as exact rationals with rounding to nearest even.
  \<^item> \<open>Sizing\<close> (\<^verbatim>\<open>sizing.go\<close>): the floating-point CPU request is the exact one rounded down, with its exact
    cases, monotonicity, the limit, sums with wrap-around.
  \<^item> \<open>Conditions\<close> (\<^verbatim>\<open>condition.go\<close>), \<open>ResourceUtils\<close> (\<^verbatim>\<open>utils.go\<close>): conditions, labels, readiness,
    FNV-1a, keyed lists (interface \<open>add_or_replace\<close>), escaping.
  \<^item> \<open>Reference\<close>: the contracts of the third-party functions (\<open>condition_store\<close>, \<open>label_selector\<close>,
    \<open>finalizer_ops\<close>, \<open>owner_refs\<close>, together \<open>third_party\<close>) and a record that satisfies them.
  \<^item> \<open>Client\<close>: the calls to the cluster as a record of functions over an arbitrary cluster state, the
    trace of calls, and the calculus \<open>emits\<close> of what a program adds to the trace.
  \<^item> \<open>Services\<close>, \<open>StatefulSetBuild\<close>, \<open>Providers\<close> (\<^verbatim>\<open>service.go\<close>, \<^verbatim>\<open>route.go\<close>, \<^verbatim>\<open>discovery_service.go\<close>,
    \<^verbatim>\<open>service_monitor.go\<close>, \<^verbatim>\<open>statefulset.go\<close>, \<^verbatim>\<open>providers_import_init_container.go\<close>): the mutate
    functions, with the contracts \<open>resource_builder\<close> (identity kept, idempotent) and \<open>settling_builder\<close>
    (what the server stored is overwritten with the same desired state) proved for each of them; the environment of the server as a map; mounts and volumes; names of variables.
  \<^item> \<open>RealmSecret\<close>, \<open>RealmJob\<close> (\<^verbatim>\<open>realm_import_secret.go\<close>, \<^verbatim>\<open>realm_import_job.go\<close>): template expansion
    and its safety for JSON, reading the substitutions, the import job.
  \<^item> \<open>Conformance\<close>: the documented rules for names, labels, variables, ports, volumes, amounts and for the objects the
    operator builds, as executable predicates, and the names of instances and imports for which what is built obeys
    them: 53 characters for an instance, 56 for an import.
  \<^item> \<open>Protocol\<close>: specifications of controllers as step relations over phases, refinement of such a
    relation by a program, and the interface \<open>protocol_invariant\<close> of their safety proofs.
  \<^item> \<open>KeycloakController\<close>: the controller, its specification \<open>kstep\<close>, the refinement proof, and what it
    guarantees about the order of writes and about reporting.
  \<^item> \<open>ImportController\<close>, \<open>ImportProtocol\<close>, \<open>ImportSafety\<close>: the same for imports (\<open>istep\<close>): when a job is
    created or deleted, when the servers are rolled out, when the finalizer is released.
  \<^item> \<open>ImportProgress\<close>: what both controllers do in the end: a bound on the calls of a run by a potential on
    the phases and the one import whose substitutions a run enters (interface \<open>bounded_protocol\<close>), and what a run of a live import has done when no call failed.
  \<^item> \<open>Cluster\<close>, \<open>RefCluster\<close>: the Keycloak controller against a cluster that keeps objects: the laws of
    \<^verbatim>\<open>CreateOrUpdate\<close> on one kind (\<open>object_store\<close>) and on the four kinds it writes (\<open>kube_cluster\<close>), with the
    defaults and allocations of the server as a parameter; an in-memory cluster that satisfies them;
    convergence of the controller and the survival of rollout markers.
  \<^item> \<open>Server\<close>, \<open>Interleaving\<close>: the API server with versions, optimistic locking, caches that may be behind and answers
    that may be lost, and any number of runs of both controllers on it, interleaved call by call with each other,
    with other clients and with crashes; \<open>system_invariant\<close> is the interface of its invariants, of what a run knows and of
    what the rollout markers stand for.
  \<^item> \<open>Calls\<close>, \<open>Simulation\<close>: a client that obeys given laws call by call (\<open>client_laws\<close>) obeys them over every run; for
    the laws of the server (\<open>api_server\<close>) every run of the code is an execution of the interleaved system.
  \<^item> \<open>RefServer\<close>: a server in memory that satisfies \<open>api_server\<close>.
  \<^item> \<open>Concurrency\<close>: what holds in every interleaving: a revision is rolled out once, no call disturbs the marker of another
    import, markers are not made up as long as other clients leave them alone, an import that is being deleted is only cleaned up; and what goes wrong with imports of the same name.
  \<^item> \<open>ImportStable\<close>: an import that has not changed is not imported again (laws \<open>secret_store\<close> of the secrets).
  \<^item> \<open>Triggers\<close>: event handlers, watch predicates and the selector of the secret cache.
  \<^item> \<open>Manager\<close> (\<^verbatim>\<open>cmd/main.go\<close>, \<^verbatim>\<open>groupversion_info.go\<close>, \<^verbatim>\<open>SetupWithManager\<close>): scheme, command line, options,
    watches and the start-up sequence, with the calls to controller-runtime as parameters: the operator starts
    completely or not at all, and a change of an instance reaches the imports that read it.
  \<^item> \<open>KeycloakProgress\<close>: what a run of the Keycloak controller has done when no call failed, a new instance being
    reported as ready at once; from the readiness of the stateful set over the watch, the reconcile and the change of the
    resource to the imports that wait for it.
  \<^item> \<open>Permissions\<close>: the cluster role in the markers above the reconcile functions permits every call, and what it grants
    beyond that.
  \<^item> \<open>WakeUp\<close>: from the completion of an import job over the watch, the handler and the reconcile to the restart of the
    servers.
  \<^item> \<open>VersionedStatus\<close> (\<^verbatim>\<open>versioned_status.go\<close>, \<^verbatim>\<open>FormatResource\<close>): fingerprints of objects, with MD5 and base64
    defined and the encodings of arbitrary values as parameters; what a status remembers of an object.
  \<^item> \<open>Memory\<close>, \<open>DeepCopy\<close> (\<^verbatim>\<open>zz_generated.deepcopy.go\<close>): the API types as structs with pointers, slices and maps
    in a memory, the generated copies, and their contract \<open>deep_copier\<close> (same value, fresh addresses, nothing else
    changed), one rule per construct of the generated code.
  This theory holds the properties that span components.

  \<^bold>\<open>Modelling.\<close> A Go function that talks to the cluster is a function of a \<open>client\<close> and a state and
  returns a panic or a value; every early return is a branch. Nothing is assumed of the client: it may
  fail, answer from a stale cache, and other writers may act between two calls, so the theorems about
  traces hold for every behaviour of the API server. Where a property needs more (\<open>Cluster\<close>, \<open>Server\<close>, \<open>ImportStable\<close>), the
  documented behaviour of the API server is a hypothesis, as a locale that an in-memory server satisfies. \<^verbatim>\<open>controllerutil.CreateOrUpdate\<close> is one call,
  which is given the object and the mutate function. Third-party functions on values are fields of \<open>deps\<close>;
  a property that needs a law of them names its contract as a hypothesis. Loops over slices are structural
  recursion; the scanners over byte strings terminate by length; there is no fuel. \<^verbatim>\<open>text/template\<close> is
  modelled for text and field actions, with the error message of a missing key; templates that use more are
  passed to a parameter.

  Custom resources are values, as the deep copies of \<open>DeepCopy\<close> justify.

  \<^bold>\<open>Not modelled.\<close> Logging; the flags that imported packages define (a parameter of the parser); the parts of
  controller-runtime that decide when a reconcile runs (delivery of events, the queue, leader election), so
  \<open>Triggers\<close> and \<open>Manager\<close> end at the requests that a handler returns, and in \<open>Interleaving\<close> a run may start at any
  time, also two for the same object; in \<open>Server\<close> the kinds that only one run writes (services, routes, service monitors,
  realm secrets) are left open; reflection on fields behind nil embedded
  pointers. The code that copies metadata, conditions and key selectors is not part of the repository: it is a parameter of
  \<open>DeepCopy\<close>, over structs with addresses for metadata and selectors, and with the contract of a deep copy as
  hypothesis; a condition has no pointers and is a value.
\<close>

section \<open>Properties that span components\<close>

text \<open>What each resource of an instance contributes.\<close>

lemma controller_frame:
  assumes "owner_refs d" "SetControllerReference d owner m = Inr m'"
  shows "metaName m' = metaName m \<and> metaNamespace m' = metaNamespace m \<and> metaLabels m' = metaLabels m \<and>
    metaAnnotations m' = metaAnnotations m"
  using owner_refs.controller_again [OF assms] by simp

lemma service_shape:
  assumes "owner_refs d" "RHBKService_Build d kc (RHBKService_init kc) = Inr svc"
  shows "metaName (svcMeta svc) = GetSvcName kc" "metaNamespace (svcMeta svc) = metaNamespace (kcMeta kc)"
    "metaLabels (svcMeta svc) = defaultLabels"
    "goLookup (metaAnnotations (svcMeta svc)) ''service.beta.openshift.io/serving-cert-secret-name'' = Some (GetTLSSecretName kc)"
    "svcSelector (svcSpec svc) = [''app'' \<mapsto> ''rhbk'']"
    "map spName (svcPorts (svcSpec svc)) = [ManagementServicePortName, ApplicationServicePortName]"
    "map spTargetPort (svcPorts (svcSpec svc)) = [IntVal (of_nat ManagementPort), IntVal (of_nat HttpsPort)]"
  using assms(2)
  by (auto simp: RHBKService_Build_def RHBKService_init_def namedMeta_def split: sum.splits
      dest!: controller_frame [OF assms(1)])

lemma discovery_shape:
  assumes "owner_refs d" "RHBKDiscoveryService_Build d kc (RHBKDiscoveryService_init kc) = Inr disc"
  shows "metaName (svcMeta disc) = GetDiscoverySvcName kc" "metaNamespace (svcMeta disc) = metaNamespace (kcMeta kc)"
    "svcSelector (svcSpec disc) = [''app'' \<mapsto> ''rhbk'']"
  using assms(2)
  by (auto simp: RHBKDiscoveryService_Build_def RHBKDiscoveryService_init_def namedMeta_def split: sum.splits
      dest!: controller_frame [OF assms(1)])

lemma route_shape:
  assumes "RHBKRoute_Build d kc (RHBKRoute_init kc) = Inr route"
  shows "rtToKind (rtSpec route) = ''Service''" "rtToName (rtSpec route) = GetSvcName kc"
    "rtTargetPort (rtSpec route) = StrVal ''https''"
  using assms by (auto simp: RHBKRoute_Build_def split: sum.splits)

lemma monitor_shape:
  assumes "ServiceMonitor_mutateFn d kc (ServiceMonitor_init kc) = Inr mon"
  shows "smSelector mon = goSet defaultLabels"
    "smEndpoints mon = [\<lparr>epPort = ManagementServicePortName, epPath = ''/metrics'', epScheme = ''https'', epInterval = ''30s'',
       epCASecret = \<lparr>selName = GetTLSSecretName kc, selKey = ''tls.crt'', selOptional = None\<rparr>,
       epServerName = GetSvcName kc @ ''.'' @ metaNamespace (kcMeta kc) @ ''.svc''\<rparr>]"
  using assms by (auto simp: ServiceMonitor_mutateFn_def split: sum.splits)

lemma pod_shape:
  assumes "RHBKStatefulSet_Build d kc host (RHBKStatefulSet_init kc) = Inr (Inr sts)"
  shows "podContainers (tplSpec (stsTemplate (stsSpec sts))) = [rhbkContainer kc host]"
    "podVolumes (tplSpec (stsTemplate (stsSpec sts))) = rhbkVolumes kc"
    "metaLabels (tplMeta (stsTemplate (stsSpec sts))) = defaultLabels" "stsSelector (stsSpec sts) = defaultLabels"
proof -
  obtain ics where "stsSpec sts = rhbkStatefulSetSpec kc host None ics"
    using assms by (rule RHBKStatefulSet_Build_cases)
      (auto simp: RHBKStatefulSet_init_def zeroStatefulSetSpec_def zeroMeta_def)
  then show "podContainers (tplSpec (stsTemplate (stsSpec sts))) = [rhbkContainer kc host]"
    "podVolumes (tplSpec (stsTemplate (stsSpec sts))) = rhbkVolumes kc"
    "metaLabels (tplMeta (stsTemplate (stsSpec sts))) = defaultLabels" "stsSelector (stsSpec sts) = defaultLabels"
    by (simp_all add: rhbkStatefulSetSpec_def)
qed

lemma container_shape:
  "map (IntVal \<circ> cpContainerPort) (cPorts (rhbkContainer kc host)) = [IntVal (of_nat HttpsPort), IntVal (of_nat ManagementPort)]"
  "map_option (httpPort \<circ> probeHTTPGet) (cLivenessProbe (rhbkContainer kc host)) = Some (IntVal (of_nat ManagementPort))"
  "map_option (httpPort \<circ> probeHTTPGet) (cReadinessProbe (rhbkContainer kc host)) = Some (IntVal (of_nat ManagementPort))"
  "map_option (httpPort \<circ> probeHTTPGet) (cStartupProbe (rhbkContainer kc host)) = Some (IntVal (of_nat ManagementPort))"
  "''-Djgroups.dns.query='' @ GetDiscoverySvcName kc @ ''.'' @ metaNamespace (kcMeta kc) \<in> set (cArgs (rhbkContainer kc host))"
  by (simp_all add: rhbkContainer_def healthProbe_def)

lemma tls_volume:
  "Some (GetTLSSecretName kc) \<in> (map_option svsSecretName \<circ> vsSecret \<circ> volSource) ` set (rhbkVolumes kc)"
  by (simp add: rhbkVolumes_def DecorateVolume_def split: option.split)

text \<open>
  C19: the resources of an instance fit together. When all five are built for one custom
  resource: the route targets the service and a port name that the service has; the service and the
  service monitor select the labels that the pods and the service have; every port of the service is
  a container port of the pod, and the probes and the metrics endpoint use the management port;
  the certificate that the service asks for is the secret that the pod mounts and the monitor
  trusts; and the cluster discovery of the pods queries the name of the discovery service, which
  selects the same pods.
\<close>

theorem resources_fit:
  assumes "owner_refs d"
    and "RHBKService_Build d kc (RHBKService_init kc) = Inr svc"
    and "RHBKRoute_Build d kc (RHBKRoute_init kc) = Inr route"
    and "RHBKStatefulSet_Build d kc host (RHBKStatefulSet_init kc) = Inr (Inr sts)"
    and "RHBKDiscoveryService_Build d kc (RHBKDiscoveryService_init kc) = Inr disc"
    and "ServiceMonitor_mutateFn d kc (ServiceMonitor_init kc) = Inr mon"
  shows "rtToKind (rtSpec route) = ''Service'' \<and> rtToName (rtSpec route) = metaName (svcMeta svc) \<and>
    rtTargetPort (rtSpec route) \<in> StrVal ` spName ` set (svcPorts (svcSpec svc)) \<and>
    svcSelector (svcSpec svc) \<subseteq>\<^sub>m goSet (metaLabels (tplMeta (stsTemplate (stsSpec sts)))) \<and>
    goSet (stsSelector (stsSpec sts)) \<subseteq>\<^sub>m goSet (metaLabels (tplMeta (stsTemplate (stsSpec sts)))) \<and>
    smSelector mon \<subseteq>\<^sub>m goSet (metaLabels (svcMeta svc)) \<and>
    list_all (\<lambda>c. spTargetPort ` set (svcPorts (svcSpec svc)) \<subseteq> (IntVal \<circ> cpContainerPort) ` set (cPorts c) \<and>
        list_all (\<lambda>p. map_option (httpPort \<circ> probeHTTPGet) p = Some (IntVal (of_nat ManagementPort)))
          [cLivenessProbe c, cReadinessProbe c, cStartupProbe c] \<and>
        ''-Djgroups.dns.query='' @ metaName (svcMeta disc) @ ''.'' @ metaNamespace (svcMeta disc) \<in> set (cArgs c))
      (podContainers (tplSpec (stsTemplate (stsSpec sts)))) \<and>
    list_all (\<lambda>ep. epPort ep \<in> spName ` set (svcPorts (svcSpec svc)) \<and>
        epServerName ep = metaName (svcMeta svc) @ ''.'' @ metaNamespace (svcMeta svc) @ ''.svc'' \<and>
        goLookup (metaAnnotations (svcMeta svc)) ''service.beta.openshift.io/serving-cert-secret-name''
          = Some (selName (epCASecret ep)) \<and>
        Some (selName (epCASecret ep)) \<in> (map_option svsSecretName \<circ> vsSecret \<circ> volSource)
          ` set (podVolumes (tplSpec (stsTemplate (stsSpec sts)))))
      (smEndpoints mon) \<and>
    svcSelector (svcSpec disc) = svcSelector (svcSpec svc)"
proof -
  note svc = service_shape [OF assms(1,2)] and disc = discovery_shape [OF assms(1,5)] and route = route_shape [OF assms(3)]
    and mon = monitor_shape [OF assms(6)] and pod = pod_shape [OF assms(4)] and ports = container_shape [where kc = kc and host = host]
  have names: "spName ` set (svcPorts (svcSpec svc)) = {ManagementServicePortName, ApplicationServicePortName}"
    "spTargetPort ` set (svcPorts (svcSpec svc)) = {IntVal (of_nat ManagementPort), IntVal (of_nat HttpsPort)}"
    "(IntVal \<circ> cpContainerPort) ` set (cPorts (rhbkContainer kc host)) = {IntVal (of_nat HttpsPort), IntVal (of_nat ManagementPort)}"
    using svc(6,7) ports(1) by (metis list.set(1) list.simps(15) set_map)+
  show ?thesis
    unfolding pod mon(2) route names
    using ports(2-5)
    by (simp add: svc disc mon(1) tls_volume names defaultLabels_eq ApplicationServicePortName_def del: comp_apply)
qed

theorem resources_fit_witness:
  "\<exists>svc route sts disc mon.
     RHBKService_Build refDeps exampleKeycloak (RHBKService_init exampleKeycloak) = Inr svc \<and>
     RHBKRoute_Build refDeps exampleKeycloak (RHBKRoute_init exampleKeycloak) = Inr route \<and>
     RHBKStatefulSet_Build refDeps exampleKeycloak ''h'' (RHBKStatefulSet_init exampleKeycloak) = Inr (Inr sts) \<and>
     RHBKDiscoveryService_Build refDeps exampleKeycloak (RHBKDiscoveryService_init exampleKeycloak) = Inr disc \<and>
     ServiceMonitor_mutateFn refDeps exampleKeycloak (ServiceMonitor_init exampleKeycloak) = Inr mon \<and>
     rtToName (rtSpec route) = metaName (svcMeta svc)"
proof -
  obtain svc route disc mon where b:
    "RHBKService_Build refDeps exampleKeycloak (RHBKService_init exampleKeycloak) = Inr svc"
    "RHBKRoute_Build refDeps exampleKeycloak (RHBKRoute_init exampleKeycloak) = Inr route"
    "RHBKDiscoveryService_Build refDeps exampleKeycloak (RHBKDiscoveryService_init exampleKeycloak) = Inr disc"
    "ServiceMonitor_mutateFn refDeps exampleKeycloak (ServiceMonitor_init exampleKeycloak) = Inr mon"
    by (rule exampleNetwork)
  moreover obtain sts where
    t: "RHBKStatefulSet_Build refDeps exampleKeycloak ''h'' (RHBKStatefulSet_init exampleKeycloak) = Inr (Inr sts)"
    using exampleStatefulSet by blast
  moreover have "rtToName (rtSpec route) = metaName (svcMeta svc)"
    using resources_fit [OF owner_refs_refDeps b(1,2) t b(3,4)] by blast
  ultimately show ?thesis by blast
qed

end
